(* ===== verification/RV_Prelude.thy ===== *)
theory RV_Prelude
  imports Main "HOL-Library.Word" "HOL-Library.Multiset"
begin

section \<open>Prelude: errors, effectful operations, Go integers, maps and slices\<close>

text \<open>
  Shared vocabulary of the development.

  \<^item> \<open>error\<close>: a Go error value, with \<open>Error\<close> the text its \<^verbatim>\<open>Error()\<close> method returns;
  \<^item> \<open>('s, 'a) op\<close>: a Go function that may change a state \<open>'s\<close> and returns \<open>(value, error)\<close>;
    \<open>Inl\<close> is a non-nil error;
  \<^item> \<open>preserves\<close>: an operation keeps a predicate of the state, on every branch, errors
    included; the collection \<open>pres\<close> holds one rule per way of composing operations, so that
    preservation of a whole handler is a short proof over the lemmas of what it calls;
  \<^item> \<open>wrap64\<close>, \<open>wrap32\<close>: the two's complement wrap-around of Go's \<^verbatim>\<open>int64\<close> and \<^verbatim>\<open>int32\<close>;
  \<^item> \<open>gomap\<close>: a Go \<^verbatim>\<open>map[string]string\<close>, which may be nil.
\<close>

subsection \<open>Errors\<close>

text \<open>
  \<open>Msg s\<close> is \<^verbatim>\<open>fmt.Errorf\<close> or \<^verbatim>\<open>errors.New\<close> without a wrapped error, \<open>Wrap p e\<close> is
  \<^verbatim>\<open>fmt.Errorf("p: %w", e)\<close>, \<open>ErrNoRows\<close> is \<^verbatim>\<open>pgx.ErrNoRows\<close> and \<open>PgError c m\<close> an
  error reported by the database server with SQLSTATE \<open>c\<close>.
\<close>

datatype error =
    Msg string
  | Wrap string error
  | ErrNoRows
  | PgError string string

fun Error :: "error \<Rightarrow> string" where
  "Error (Msg s) = s"
| "Error (Wrap p e) = p @ '': '' @ Error e"
| "Error ErrNoRows = ''no rows in result set''"
| "Error (PgError code msg) = ''ERROR: '' @ msg @ '' (SQLSTATE '' @ code @ '')''"

subsection \<open>Effectful operations\<close>

type_synonym ('s, 'a) op = "'s \<Rightarrow> (error + 'a) \<times> 's"

definition ret :: "'a \<Rightarrow> ('s, 'a) op" where
  "ret a = (\<lambda>s. (Inr a, s))"

definition throw :: "error \<Rightarrow> ('s, 'a) op" where
  "throw e = (\<lambda>s. (Inl e, s))"

text \<open>\<open>bindE m f\<close>: run \<open>m\<close>; \<^verbatim>\<open>if err != nil { return nil, err }\<close>; go on with \<open>f\<close>.\<close>

definition bindE :: "('s, 'a) op \<Rightarrow> ('a \<Rightarrow> ('s, 'b) op) \<Rightarrow> ('s, 'b) op" where
  "bindE m f = (\<lambda>s. case m s of (r, s') \<Rightarrow>
     (case r of Inl e \<Rightarrow> (Inl e, s') | Inr a \<Rightarrow> f a s'))"

text \<open>\<open>tryM m f\<close>: run \<open>m\<close> and let \<open>f\<close> look at the error itself.\<close>

definition tryM :: "('s, 'a) op \<Rightarrow> (error + 'a \<Rightarrow> ('s, 'b) op) \<Rightarrow> ('s, 'b) op" where
  "tryM m f = (\<lambda>s. case m s of (r, s') \<Rightarrow> f r s')"

text \<open>\<open>wrapE p m\<close>: the error of \<open>m\<close>, if any, wrapped by \<^verbatim>\<open>fmt.Errorf("p: %w", err)\<close>.\<close>

definition wrapE :: "string \<Rightarrow> ('s, 'a) op \<Rightarrow> ('s, 'a) op" where
  "wrapE p m = (\<lambda>s. case m s of (r, s') \<Rightarrow>
     (case r of Inl e \<Rightarrow> (Inl (Wrap p e), s') | Inr a \<Rightarrow> (Inr a, s')))"

text \<open>\<open>ignoreE m k\<close>: \<^verbatim>\<open>_ = m()\<close>, then \<open>k\<close>.\<close>

definition ignoreE :: "('s, 'a) op \<Rightarrow> ('s, 'b) op \<Rightarrow> ('s, 'b) op" where
  "ignoreE m k = tryM m (\<lambda>_. k)"

text \<open>\<open>gets f\<close> reads the state; \<open>modify f\<close> changes it.\<close>

definition gets :: "('s \<Rightarrow> 'a) \<Rightarrow> ('s, 'a) op" where
  "gets f = (\<lambda>s. (Inr (f s), s))"

definition modify :: "('s \<Rightarrow> 's) \<Rightarrow> ('s, unit) op" where
  "modify f = (\<lambda>s. (Inr (), f s))"

text \<open>A \<^verbatim>\<open>for\<close> loop over a slice that stops at the first error and collects results.\<close>

primrec mapE :: "('x \<Rightarrow> ('s, 'y) op) \<Rightarrow> 'x list \<Rightarrow> ('s, 'y list) op" where
  "mapE f [] = ret []"
| "mapE f (x # xs) = bindE (f x) (\<lambda>y. bindE (mapE f xs) (\<lambda>ys. ret (y # ys)))"

lemma ret_apply [simp]: "ret a s = (Inr a, s)"
  by (simp add: ret_def)

lemma throw_apply [simp]: "throw e s = (Inl e, s)"
  by (simp add: throw_def)

lemma gets_apply [simp]: "gets f s = (Inr (f s), s)"
  by (simp add: gets_def)

lemma modify_apply [simp]: "modify f s = (Inr (), f s)"
  by (simp add: modify_def)

lemma bindE_apply:
  "bindE m f s = (case m s of (r, s') \<Rightarrow> (case r of Inl e \<Rightarrow> (Inl e, s') | Inr a \<Rightarrow> f a s'))"
  by (simp add: bindE_def)

lemma tryM_apply: "tryM m f s = (case m s of (r, s') \<Rightarrow> f r s')"
  by (simp add: tryM_def)

lemma wrapE_apply:
  "wrapE p m s = (case m s of (r, s') \<Rightarrow>
     (case r of Inl e \<Rightarrow> (Inl (Wrap p e), s') | Inr a \<Rightarrow> (Inr a, s')))"
  by (simp add: wrapE_def)

lemma ignoreE_apply: "ignoreE m k s = k (snd (m s))"
  by (simp add: ignoreE_def tryM_def split: prod.split)

lemmas op_apply = bindE_apply tryM_apply wrapE_apply ignoreE_apply

text \<open>Characteristic facts: what a successful composition says about its parts.\<close>

lemma bindE_Inr_iff:
  "bindE m f s = (Inr b, t) \<longleftrightarrow> (\<exists>a s'. m s = (Inr a, s') \<and> f a s' = (Inr b, t))"
  by (auto simp: bindE_apply split: prod.splits sum.splits)

lemma wrapE_Inr_iff: "wrapE p m s = (Inr a, t) \<longleftrightarrow> m s = (Inr a, t)"
  by (auto simp: wrapE_apply split: prod.splits sum.splits)

lemma tryM_iff: "tryM m f s = (r, t) \<longleftrightarrow> (\<exists>q s'. m s = (q, s') \<and> f q s' = (r, t))"
  by (auto simp: tryM_apply split: prod.splits)

lemma ignoreE_iff: "ignoreE m k s = (r, t) \<longleftrightarrow> (\<exists>q s'. m s = (q, s') \<and> k s' = (r, t))"
  by (auto simp: ignoreE_def tryM_iff)

lemmas op_Inr_iff = bindE_Inr_iff wrapE_Inr_iff

text \<open>A step of a composition whose outcome is known.\<close>

lemma bindE_step: "m s = (Inr a, s') \<Longrightarrow> bindE m f s = f a s'"
  by (simp add: bindE_apply)

lemma bindE_stop: "m s = (Inl e, s') \<Longrightarrow> bindE m f s = (Inl e, s')"
  by (simp add: bindE_apply)

lemma tryM_step: "m s = (r, s') \<Longrightarrow> tryM m f s = f r s'"
  by (simp add: tryM_apply)

lemma wrapE_step: "m s = (Inr a, s') \<Longrightarrow> wrapE p m s = (Inr a, s')"
  by (simp add: wrapE_apply)

lemma wrapE_stop: "m s = (Inl e, s') \<Longrightarrow> wrapE p m s = (Inl (Wrap p e), s')"
  by (simp add: wrapE_apply)

lemmas op_steps = bindE_step bindE_stop tryM_step wrapE_step wrapE_stop

subsection \<open>Preservation of a predicate of the state\<close>

named_theorems pres \<open>rules for preservation of a state predicate by an operation\<close>

definition preserves :: "('s \<Rightarrow> bool) \<Rightarrow> ('s, 'a) op \<Rightarrow> bool" where
  "preserves I m \<longleftrightarrow> (\<forall>s. I s \<longrightarrow> I (snd (m s)))"

lemma preservesI: "(\<And>s. I s \<Longrightarrow> I (snd (m s))) \<Longrightarrow> preserves I m"
  by (simp add: preserves_def)

lemma preservesD: "preserves I m \<Longrightarrow> I s \<Longrightarrow> I (snd (m s))"
  by (simp add: preserves_def)

lemma preserves_result: "preserves I m \<Longrightarrow> I s \<Longrightarrow> m s = (r, t) \<Longrightarrow> I t"
  using preservesD by fastforce

lemma preserves_ret [pres]: "preserves I (ret a)"
  by (simp add: preserves_def)

lemma preserves_throw [pres]: "preserves I (throw e)"
  by (simp add: preserves_def)

lemma preserves_gets [pres]: "preserves I (gets f)"
  by (simp add: preserves_def)

lemma preserves_bindE [pres]:
  "preserves I m \<Longrightarrow> (\<And>a. preserves I (f a)) \<Longrightarrow> preserves I (bindE m f)"
  by (fastforce simp: preserves_def bindE_apply split: prod.splits sum.splits)

lemma preserves_tryM [pres]:
  "preserves I m \<Longrightarrow> (\<And>r. preserves I (f r)) \<Longrightarrow> preserves I (tryM m f)"
  by (fastforce simp: preserves_def tryM_apply split: prod.splits)

lemma preserves_wrapE [pres]: "preserves I m \<Longrightarrow> preserves I (wrapE p m)"
  by (fastforce simp: preserves_def wrapE_apply split: prod.splits sum.splits)

lemma preserves_ignoreE [pres]:
  "preserves I m \<Longrightarrow> preserves I k \<Longrightarrow> preserves I (ignoreE m k)"
  by (simp add: ignoreE_def preserves_tryM)

lemma preserves_if [pres]:
  "(b \<Longrightarrow> preserves I m) \<Longrightarrow> (\<not> b \<Longrightarrow> preserves I n) \<Longrightarrow> preserves I (if b then m else n)"
  by simp

lemma preserves_case_option [pres]:
  "(x = None \<Longrightarrow> preserves I m) \<Longrightarrow> (\<And>a. x = Some a \<Longrightarrow> preserves I (f a)) \<Longrightarrow>
   preserves I (case x of None \<Rightarrow> m | Some a \<Rightarrow> f a)"
  by (cases x) auto

lemma preserves_case_sum [pres]:
  "(\<And>a. x = Inl a \<Longrightarrow> preserves I (f a)) \<Longrightarrow> (\<And>b. x = Inr b \<Longrightarrow> preserves I (g b)) \<Longrightarrow>
   preserves I (case x of Inl a \<Rightarrow> f a | Inr b \<Rightarrow> g b)"
  by (cases x) auto

lemma preserves_case_prod [pres]:
  "(\<And>a b. x = (a, b) \<Longrightarrow> preserves I (f a b)) \<Longrightarrow> preserves I (case x of (a, b) \<Rightarrow> f a b)"
  by (cases x) auto

lemma preserves_case_list [pres]:
  "(x = [] \<Longrightarrow> preserves I m) \<Longrightarrow> (\<And>y ys. x = y # ys \<Longrightarrow> preserves I (f y ys)) \<Longrightarrow>
   preserves I (case x of [] \<Rightarrow> m | y # ys \<Rightarrow> f y ys)"
  by (cases x) auto

lemma preserves_mapE [pres]: "(\<And>x. preserves I (f x)) \<Longrightarrow> preserves I (mapE f xs)"
  by (induction xs) (auto intro!: pres)

lemma preserves_Let [pres]: "preserves I (f a) \<Longrightarrow> preserves I (let x = a in f x)"
  by simp

text \<open>Conjunction of two preserved predicates.\<close>

lemma preserves_conj:
  "preserves I m \<Longrightarrow> preserves J m \<Longrightarrow> preserves (\<lambda>s. I s \<and> J s) m"
  by (simp add: preserves_def)

text \<open>
  \<open>frame f m\<close>: the operation leaves the part \<open>f\<close> of the state as it is. A frame is the
  preservation of \<open>f s = c\<close> for every \<open>c\<close>, so the same rules prove it.
\<close>

definition frame :: "('s \<Rightarrow> 'c) \<Rightarrow> ('s, 'a) op \<Rightarrow> bool" where
  "frame f m \<longleftrightarrow> (\<forall>c. preserves (\<lambda>s. f s = c) m)"

lemma frame_iff: "frame f m \<longleftrightarrow> (\<forall>s. f (snd (m s)) = f s)"
  by (auto simp: frame_def preserves_def)

lemma frame_result: "frame f m \<Longrightarrow> m s = (r, t) \<Longrightarrow> f t = f s"
  by (metis frame_iff snd_conv)

lemma frame_preserves: "frame f m \<Longrightarrow> preserves (\<lambda>s. f s = c) m"
  by (simp add: frame_def)

subsection \<open>Go integers\<close>

definition wrap64 :: "int \<Rightarrow> int" where
  "wrap64 x = (x + 2 ^ 63) mod 2 ^ 64 - 2 ^ 63"

definition wrap32 :: "int \<Rightarrow> int" where
  "wrap32 x = (x + 2 ^ 31) mod 2 ^ 32 - 2 ^ 31"

definition int64_range :: "int \<Rightarrow> bool" where
  "int64_range x \<longleftrightarrow> - (2 ^ 63) \<le> x \<and> x < 2 ^ 63"

lemma wrap64_id: "int64_range x \<Longrightarrow> wrap64 x = x"
  by (simp add: wrap64_def int64_range_def)

lemma wrap64_range: "int64_range (wrap64 x)"
  by (simp add: wrap64_def int64_range_def)

lemma wrap32_id: "- (2 ^ 31) \<le> x \<Longrightarrow> x < 2 ^ 31 \<Longrightarrow> wrap32 x = x"
  by (simp add: wrap32_def)

subsection \<open>Go maps from string to string\<close>

type_synonym gomap = "(string \<rightharpoonup> string) option"

text \<open>\<open>gomap_get m k\<close> is \<^verbatim>\<open>m[k]\<close>: the zero value when the key or the map is missing.\<close>

definition gomap_get :: "gomap \<Rightarrow> string \<Rightarrow> string" where
  "gomap_get m k = (case m of None \<Rightarrow> '''' | Some f \<Rightarrow> (case f k of None \<Rightarrow> '''' | Some v \<Rightarrow> v))"

definition gomap_lookup :: "gomap \<Rightarrow> string \<Rightarrow> string option" where
  "gomap_lookup m k = (case m of None \<Rightarrow> None | Some f \<Rightarrow> f k)"

text \<open>\<open>ptr_set p\<close> is \<^verbatim>\<open>p != nil && *p != ""\<close> for a \<^verbatim>\<open>*string\<close>.\<close>

definition ptr_set :: "string option \<Rightarrow> bool" where
  "ptr_set p \<longleftrightarrow> (case p of None \<Rightarrow> False | Some s \<Rightarrow> s \<noteq> '''')"

lemma ptr_set_Some [simp]: "ptr_set (Some s) \<longleftrightarrow> s \<noteq> ''''"
  by (simp add: ptr_set_def)

lemma ptr_set_None [simp]: "\<not> ptr_set None"
  by (simp add: ptr_set_def)

lemma ptr_setE: "ptr_set p \<Longrightarrow> (\<And>s. p = Some s \<Longrightarrow> s \<noteq> '''' \<Longrightarrow> thesis) \<Longrightarrow> thesis"
  by (cases p) auto

subsection \<open>Lists with a distinct key\<close>

text \<open>Lookups by key in a list of rows whose keys are distinct.\<close>

lemma find_key_Some:
  "find (\<lambda>r. key r = k) rs = Some r \<Longrightarrow> r \<in> set rs \<and> key r = k"
  by (auto simp: find_Some_iff)

lemma find_key_None: "find (\<lambda>r. key r = k) rs = None \<longleftrightarrow> k \<notin> key ` set rs"
  by (auto simp: find_None_iff)

lemma find_append: "find P (xs @ ys) = (case find P xs of None \<Rightarrow> find P ys | Some x \<Rightarrow> Some x)"
  by (induction xs) auto

lemma find_key_distinct:
  "distinct (map key rs) \<Longrightarrow> r \<in> set rs \<Longrightarrow> find (\<lambda>x. key x = key r) rs = Some r"
  by (induction rs) (auto simp: rev_image_eqI)

lemma find_map_key:
  "(\<And>r. key (f r) = key r) \<Longrightarrow>
   find (\<lambda>r. key r = k) (map f rs) = map_option f (find (\<lambda>r. key r = k) rs)"
  by (induction rs) auto

lemma find_filter_key:
  "find (\<lambda>r. key r = k) (filter (\<lambda>r. key r \<noteq> j) rs) =
     (if k = j then None else find (\<lambda>r. key r = k) rs)"
  by (induction rs) auto

lemma distinct_map_filterI: "distinct (map f xs) \<Longrightarrow> distinct (map f (filter P xs))"
  by (induction xs) auto

subsection \<open>Panics and HTTP responses\<close>

text \<open>The outcome of code that may panic (an index out of range, a nil dereference).\<close>

datatype 'a outcome = Returns 'a | Panics string

text \<open>
  A response of a handler: the status code and what is encoded as its body. \<open>WriteJSON\<close> and
  \<open>WriteError\<close> are those of \<^verbatim>\<open>internal/jsonutil\<close>.
\<close>

datatype 'v body = NoBody | ErrorBody string | Body 'v

datatype 'v response = Response (status: nat) (body: "'v body")

definition WriteJSON :: "nat \<Rightarrow> 'v \<Rightarrow> 'v response" where
  "WriteJSON code v = Response code (Body v)"

definition WriteError :: "nat \<Rightarrow> string \<Rightarrow> 'v response" where
  "WriteError code msg = Response code (ErrorBody msg)"

lemmas write_simps [simp] = WriteJSON_def WriteError_def

subsection \<open>Partial maps over lists\<close>

lemma set_map_filter: "set (List.map_filter f xs) = {y. \<exists>x\<in>set xs. f x = Some y}"
  by (induction xs) (auto simp: List.map_filter_simps split: option.split)

lemma map_filter_append: "List.map_filter f (xs @ ys) = List.map_filter f xs @ List.map_filter f ys"
  by (induction xs) (auto simp: List.map_filter_simps split: option.split)

lemma distinct_map_filter_snoc:
  "distinct (List.map_filter f (xs @ [x])) \<longleftrightarrow>
   distinct (List.map_filter f xs) \<and> (\<forall>k. f x = Some k \<longrightarrow> k \<notin> set (List.map_filter f xs))"
  by (auto simp: map_filter_append List.map_filter_simps split: option.splits)

lemma distinct_map_filter_filter:
  "distinct (List.map_filter f xs) \<Longrightarrow> distinct (List.map_filter f (filter P xs))"
  by (induction xs) (auto simp: List.map_filter_simps set_map_filter split: option.splits)

end
