(* ===== verification/GoStrings.thy ===== *)
theory GoStrings
  imports RV_Prelude
begin

unbundle bit_operations_syntax

section \<open>Strings: what the code uses of \<^verbatim>\<open>strings\<close>, \<^verbatim>\<open>strconv\<close>, \<^verbatim>\<open>fmt\<close>, \<^verbatim>\<open>encoding\<close> and \<^verbatim>\<open>crypto/sha256\<close>\<close>

text \<open>
  A Go string is a sequence of bytes; here it is a \<^typ>\<open>string\<close>, whose characters are exactly
  the 256 bytes. Functions that Go defines on Unicode text (\<^verbatim>\<open>TrimSpace\<close>, \<^verbatim>\<open>ToLower\<close>, \<^verbatim>\<open>Fields\<close>,
  the verb \<^verbatim>\<open>%q\<close>) are given on ASCII; bytes above 127 are left as they are
  (escaped by \<^verbatim>\<open>%q\<close>). \<open>sha256\<close> is the hash function of FIPS 180-4.

  The lemmas are the ones the components use: splitting and joining, decimal printing
  and parsing as inverse functions, lengths of encodings.
\<close>

subsection \<open>Characters\<close>

definition code :: "char \<Rightarrow> nat" where
  "code c = of_char c"

definition chr :: "nat \<Rightarrow> char" where
  "chr n = char_of n"

lemma code_inject [simp]: "code c = code d \<longleftrightarrow> c = d"
  by (simp add: code_def)

lemma code_chr [simp]: "n < 256 \<Longrightarrow> code (chr n) = n"
  by (simp add: code_def chr_def)

lemma chr_code [simp]: "chr (code c) = c"
  by (simp add: code_def chr_def)

lemma code_less: "code c < 256"
  by (simp add: code_def)

definition is_space :: "char \<Rightarrow> bool" where
  "is_space c \<longleftrightarrow> code c = 32 \<or> (9 \<le> code c \<and> code c \<le> 13)"

definition is_digit :: "char \<Rightarrow> bool" where
  "is_digit c \<longleftrightarrow> 48 \<le> code c \<and> code c \<le> 57"

definition digit_val :: "char \<Rightarrow> nat" where
  "digit_val c = code c - 48"

text \<open>\<open>hex_val c\<close>: the value of a hexadecimal digit.\<close>

definition hex_val :: "char \<Rightarrow> nat option" where
  "hex_val c =
     (if 48 \<le> code c \<and> code c \<le> 57 then Some (code c - 48)
      else if 97 \<le> code c \<and> code c \<le> 102 then Some (code c - 87)
      else if 65 \<le> code c \<and> code c \<le> 70 then Some (code c - 55)
      else None)"

definition hex_digit :: "nat \<Rightarrow> char" where
  "hex_digit n = (if n < 10 then chr (48 + n) else chr (87 + n))"

subsection \<open>Package strings\<close>

definition TrimSpace :: "string \<Rightarrow> string" where
  "TrimSpace s = rev (dropWhile is_space (rev (dropWhile is_space s)))"

definition lower :: "char \<Rightarrow> char" where
  "lower c = (if 65 \<le> code c \<and> code c \<le> 90 then chr (code c + 32) else c)"

definition ToLower :: "string \<Rightarrow> string" where
  "ToLower s = map lower s"

fun HasPrefix :: "string \<Rightarrow> string \<Rightarrow> bool" where
  "HasPrefix s [] = True"
| "HasPrefix [] (p # ps) = False"
| "HasPrefix (c # s) (p # ps) = (c = p \<and> HasPrefix s ps)"

definition TrimPrefix :: "string \<Rightarrow> string \<Rightarrow> string" where
  "TrimPrefix s p = (if HasPrefix s p then drop (length p) s else s)"

fun Contains :: "string \<Rightarrow> string \<Rightarrow> bool" where
  "Contains [] sub = (sub = [])"
| "Contains (c # s) sub = (HasPrefix (c # s) sub \<or> Contains s sub)"

text \<open>\<open>Split s sep\<close> for a separator of one byte, the only ones the code splits on.\<close>

fun Split :: "string \<Rightarrow> char \<Rightarrow> string list" where
  "Split [] sep = [[]]"
| "Split (c # s) sep =
     (if c = sep then [] # Split s sep
      else (case Split s sep of [] \<Rightarrow> [[c]] | w # ws \<Rightarrow> (c # w) # ws))"

text \<open>\<open>SplitN2 s sep\<close> is \<^verbatim>\<open>strings.SplitN(s, sep, 2)\<close>.\<close>

definition SplitN2 :: "string \<Rightarrow> char \<Rightarrow> string list" where
  "SplitN2 s sep =
     (if sep \<in> set s then [takeWhile (\<lambda>c. c \<noteq> sep) s, tl (dropWhile (\<lambda>c. c \<noteq> sep) s)] else [s])"

fun Join :: "string list \<Rightarrow> string \<Rightarrow> string" where
  "Join [] sep = []"
| "Join [w] sep = w"
| "Join (w # v # ws) sep = w @ sep @ Join (v # ws) sep"

text \<open>\<open>ReplaceAllChar s c w\<close> is \<^verbatim>\<open>strings.ReplaceAll(s, "c", w)\<close> for a pattern of one byte.\<close>

definition ReplaceAllChar :: "string \<Rightarrow> char \<Rightarrow> string \<Rightarrow> string" where
  "ReplaceAllChar s c w = concat (map (\<lambda>d. if d = c then w else [d]) s)"

fun fields_acc :: "string \<Rightarrow> string \<Rightarrow> string list" where
  "fields_acc [] w = (if w = [] then [] else [rev w])"
| "fields_acc (c # s) w =
     (if is_space c then (if w = [] then fields_acc s [] else rev w # fields_acc s [])
      else fields_acc s (c # w))"

definition Fields :: "string \<Rightarrow> string list" where
  "Fields s = fields_acc s []"

text \<open>\<open>Trim s cutset\<close> and \<open>TrimRight s cutset\<close>.\<close>

definition TrimRight :: "string \<Rightarrow> string \<Rightarrow> string" where
  "TrimRight s cs = rev (dropWhile (\<lambda>c. c \<in> set cs) (rev s))"

definition Trim :: "string \<Rightarrow> string \<Rightarrow> string" where
  "Trim s cs = TrimRight (dropWhile (\<lambda>c. c \<in> set cs) s) cs"

lemma Split_not_Nil [simp]: "Split s sep \<noteq> []"
  by (induction s) (auto split: list.split)

lemma HasPrefix_append [simp]: "HasPrefix (p @ s) p"
  by (induction p) auto

lemma HasPrefix_iff: "HasPrefix s p \<longleftrightarrow> (\<exists>t. s = p @ t)"
  by (induction s p rule: HasPrefix.induct) auto

lemma HasPrefix_appendI: "HasPrefix s p \<Longrightarrow> HasPrefix (s @ t) p"
  by (auto simp: HasPrefix_iff)

lemma Contains_Nil [simp]: "Contains s []"
  by (cases s) auto

lemma Contains_iff: "Contains s sub \<longleftrightarrow> (\<exists>p t. s = p @ sub @ t)"
proof (induction s)
  case (Cons c s)
  have "(\<exists>p t. c # s = p @ sub @ t) \<longleftrightarrow>
        (\<exists>t. c # s = sub @ t) \<or> (\<exists>p t. s = p @ sub @ t)"
    by (auto simp: Cons_eq_append_conv)
  then show ?case
    using Cons by (auto simp: HasPrefix_iff)
qed simp

lemma Contains_char: "Contains s [c] \<longleftrightarrow> c \<in> set s"
  by (auto simp: Contains_iff in_set_conv_decomp)

lemma Contains_append_right: "Contains s sub \<Longrightarrow> Contains (p @ s) sub"
  unfolding Contains_iff by (metis append.assoc)

lemma Contains_append_left: "Contains s sub \<Longrightarrow> Contains (s @ p) sub"
  unfolding Contains_iff by (metis append.assoc)

lemma ToLower_append [simp]: "ToLower (s @ t) = ToLower s @ ToLower t"
  by (simp add: ToLower_def)

lemma lower_idem [simp]: "lower (lower c) = lower c"
  by (auto simp: lower_def)

lemma ToLower_idem [simp]: "ToLower (ToLower s) = ToLower s"
  by (simp add: ToLower_def)

lemma Split_single: "sep \<notin> set s \<Longrightarrow> Split s sep = [s]"
  by (induction s) auto

lemma Split_append_sep: "sep \<notin> set s \<Longrightarrow> Split (s @ sep # t) sep = s # Split t sep"
  by (induction s) auto

lemma Split_parts: "w \<in> set (Split s sep) \<Longrightarrow> sep \<notin> set w"
  by (induction s arbitrary: w) (auto split: if_splits list.splits)

text \<open>Joining and splitting are inverse to each other.\<close>

lemma Join_Cons: "ws \<noteq> [] \<Longrightarrow> Join (w # ws) sep = w @ sep @ Join ws sep"
  by (cases ws) auto

lemma Join_Split: "Join (Split s sep) [sep] = s"
proof (induction s)
  case (Cons c s)
  show ?case
  proof (cases "Split s sep")
    case (Cons w ws)
    with Cons.IH show ?thesis
      by (cases ws) (auto simp: Join_Cons)
  qed simp
qed simp

lemma Split_Join:
  "ws \<noteq> [] \<Longrightarrow> \<forall>w\<in>set ws. sep \<notin> set w \<Longrightarrow> Split (Join ws [sep]) sep = ws"
proof (induction ws)
  case (Cons w ws)
  then show ?case
    by (cases "ws = []") (auto simp: Join_Cons Split_append_sep Split_single)
qed simp

lemma length_ReplaceAllChar_Nil: "length (ReplaceAllChar s c []) \<le> length s"
  by (induction s) (auto simp: ReplaceAllChar_def)

lemma ReplaceAllChar_Nil: "ReplaceAllChar s c [] = filter (\<lambda>d. d \<noteq> c) s"
  by (induction s) (auto simp: ReplaceAllChar_def)

subsection \<open>Decimal and hexadecimal numbers\<close>

text \<open>\<open>show_nat\<close> prints in base ten; \<open>Itoa\<close> is \<^verbatim>\<open>strconv.Itoa\<close> and the verb \<^verbatim>\<open>%d\<close>.\<close>

fun show_nat :: "nat \<Rightarrow> string" where
  "show_nat n = (if n < 10 then [chr (48 + n)] else show_nat (n div 10) @ [chr (48 + n mod 10)])"

declare show_nat.simps [simp del]

definition Itoa :: "int \<Rightarrow> string" where
  "Itoa i = (if i < 0 then CHR ''-'' # show_nat (nat (- i)) else show_nat (nat i))"

definition dec_val :: "string \<Rightarrow> nat" where
  "dec_val s = foldl (\<lambda>a c. a * 10 + digit_val c) 0 s"

text \<open>
  \<open>ParseInt64 s\<close> is \<^verbatim>\<open>strconv.ParseInt(s, 10, 64)\<close>, and \<^verbatim>\<open>strconv.Atoi\<close> with a 64 bit
  \<^verbatim>\<open>int\<close>: the value, which is 0 after a syntax error and the nearest bound of the type after
  a range error, and whether the error is nil.
\<close>

definition ParseInt64 :: "string \<Rightarrow> int \<times> bool" where
  "ParseInt64 s =
     (let neg = (s \<noteq> [] \<and> hd s = CHR ''-'');
          ds = (if s \<noteq> [] \<and> (hd s = CHR ''-'' \<or> hd s = CHR ''+'') then tl s else s)
      in if ds = [] \<or> \<not> list_all is_digit ds then (0, False)
         else let n = int (dec_val ds)
              in if neg then (if n > 2 ^ 63 then (- (2 ^ 63), False) else (- n, True))
                 else (if n \<ge> 2 ^ 63 then (2 ^ 63 - 1, False) else (n, True)))"

definition Atoi :: "string \<Rightarrow> int \<times> bool" where
  "Atoi s = ParseInt64 s"

text \<open>\<open>ParseBool\<close>: the value and whether the error is nil.\<close>

definition ParseBool :: "string \<Rightarrow> bool \<times> bool" where
  "ParseBool s =
     (if s \<in> {''1'', ''t'', ''T'', ''true'', ''TRUE'', ''True''} then (True, True)
      else if s \<in> {''0'', ''f'', ''F'', ''false'', ''FALSE'', ''False''} then (False, True)
      else (False, False))"

type_synonym byte = "8 word"

definition byte_of_char :: "char \<Rightarrow> byte" where
  "byte_of_char c = of_nat (code c)"

definition char_of_byte :: "byte \<Rightarrow> char" where
  "char_of_byte b = chr (unat b)"

definition bytes :: "string \<Rightarrow> byte list" where
  "bytes s = map byte_of_char s"

text \<open>The verb \<^verbatim>\<open>%02x\<close> on a byte, and \<^verbatim>\<open>hex.EncodeToString\<close> (the verb \<^verbatim>\<open>%x\<close> on a slice).\<close>

definition hex_byte :: "byte \<Rightarrow> string" where
  "hex_byte b = [hex_digit (unat b div 16), hex_digit (unat b mod 16)]"

definition hex_EncodeToString :: "byte list \<Rightarrow> string" where
  "hex_EncodeToString bs = concat (map hex_byte bs)"

text \<open>The verb \<^verbatim>\<open>%x\<close> on an unsigned integer.\<close>

fun show_hex :: "nat \<Rightarrow> string" where
  "show_hex n = (if n < 16 then [hex_digit n] else show_hex (n div 16) @ [hex_digit (n mod 16)])"

declare show_hex.simps [simp del]

text \<open>The verb \<^verbatim>\<open>%q\<close>.\<close>

definition quote_char :: "char \<Rightarrow> string" where
  "quote_char c =
     (let n = code c in
      if n = 34 then [chr 92, chr 34]
      else if n = 92 then [chr 92, chr 92]
      else if 32 \<le> n \<and> n < 127 then [c]
      else if n = 7 then chr 92 # ''a''
      else if n = 8 then chr 92 # ''b''
      else if n = 12 then chr 92 # ''f''
      else if n = 10 then chr 92 # ''n''
      else if n = 13 then chr 92 # ''r''
      else if n = 9 then chr 92 # ''t''
      else if n = 11 then chr 92 # ''v''
      else chr 92 # CHR ''x'' # hex_byte (of_nat n))"

definition Quote :: "string \<Rightarrow> string" where
  "Quote s = [chr 34] @ concat (map quote_char s) @ [chr 34]"

lemma is_digit_chr: "n < 10 \<Longrightarrow> is_digit (chr (48 + n))"
  by (simp add: is_digit_def)

lemma digit_val_chr [simp]: "n < 10 \<Longrightarrow> digit_val (chr (48 + n)) = n"
  by (simp add: digit_val_def)

lemma show_nat_digits: "c \<in> set (show_nat n) \<Longrightarrow> is_digit c"
  by (induction n rule: show_nat.induct) (subst (asm) show_nat.simps, auto simp: is_digit_chr split: if_splits)

lemma show_nat_not_Nil [simp]: "show_nat n \<noteq> []"
  by (subst show_nat.simps) simp

lemma dec_val_snoc: "dec_val (s @ [c]) = dec_val s * 10 + digit_val c"
  by (simp add: dec_val_def)

lemma dec_val_show_nat [simp]: "dec_val (show_nat n) = n"
proof (induction n rule: show_nat.induct)
  case (1 n)
  show ?case
  proof (cases "n < 10")
    case True
    then show ?thesis
      by (simp add: show_nat.simps [of n] dec_val_def)
  next
    case False
    with 1 show ?thesis
      by (simp add: show_nat.simps [of n] dec_val_snoc)
  qed
qed

lemma show_nat_inject [simp]: "show_nat m = show_nat n \<longleftrightarrow> m = n"
  by (metis dec_val_show_nat)

lemma code_zero [simp]: "code CHR ''0'' = 48"
  by (simp add: code_def)

lemma show_nat_hd_zero: "0 < n \<Longrightarrow> hd (show_nat n) \<noteq> CHR ''0''"
proof (induction n rule: show_nat.induct)
  case (1 n)
  have "chr (48 + n) \<noteq> CHR ''0''" if "n < 10"
    using that 1(2) by (metis add_cancel_right_right code_chr code_zero not_gr_zero is_digit_chr
        is_digit_def code_less chr_code digit_val_chr digit_val_def diff_self_eq_0)
  with 1 show ?case
    by (subst show_nat.simps) auto
qed

lemma Atoi_Itoa:
  assumes "int64_range i"
  shows "Atoi (Itoa i) = (i, True)"
proof -
  have sign: "hd (show_nat n) \<noteq> CHR ''-''" "hd (show_nat n) \<noteq> CHR ''+''" for n
    using show_nat_digits [of "hd (show_nat n)" n, OF hd_in_set [OF show_nat_not_Nil]]
    by (auto simp: is_digit_def code_def)
  have "list_all is_digit (show_nat n)" for n
    by (simp add: list_all_iff show_nat_digits)
  with assms show ?thesis
    by (auto simp: Atoi_def ParseInt64_def Itoa_def int64_range_def sign Let_def)
qed

lemma length_hex_EncodeToString [simp]: "length (hex_EncodeToString bs) = 2 * length bs"
  by (induction bs) (auto simp: hex_EncodeToString_def hex_byte_def)

subsection \<open>Package encoding/base64\<close>

definition b64_val :: "char \<Rightarrow> nat option" where
  "b64_val c =
     (let n = code c in
      if 65 \<le> n \<and> n \<le> 90 then Some (n - 65)
      else if 97 \<le> n \<and> n \<le> 122 then Some (n - 71)
      else if 48 \<le> n \<and> n \<le> 57 then Some (n + 4)
      else if n = 43 then Some 62
      else if n = 47 then Some 63
      else None)"

text \<open>The bytes a group of two, three or four digits stands for.\<close>

definition b64_2 :: "nat \<Rightarrow> nat \<Rightarrow> byte list" where
  "b64_2 a b = [of_nat ((a * 64 + b) div 16)]"

definition b64_3 :: "nat \<Rightarrow> nat \<Rightarrow> nat \<Rightarrow> byte list" where
  "b64_3 a b c = (let v = (a * 64 + b) * 64 + c in [of_nat (v div 1024), of_nat (v div 4 mod 256)])"

definition b64_4 :: "nat \<Rightarrow> nat \<Rightarrow> nat \<Rightarrow> nat \<Rightarrow> byte list" where
  "b64_4 a b c d = (let v = ((a * 64 + b) * 64 + c) * 64 + d in
     [of_nat (v div 65536), of_nat (v div 256 mod 256), of_nat (v mod 256)])"

text \<open>\<open>b64_decode padded s\<close>: \<open>padded\<close> for \<^verbatim>\<open>StdEncoding\<close>, otherwise \<^verbatim>\<open>RawStdEncoding\<close>.\<close>

fun b64_decode :: "bool \<Rightarrow> string \<Rightarrow> byte list option" where
  "b64_decode padded [] = Some []"
| "b64_decode padded [a] = None"
| "b64_decode padded [a, b] =
     (if padded then None
      else case (b64_val a, b64_val b) of (Some x, Some y) \<Rightarrow> Some (b64_2 x y) | _ \<Rightarrow> None)"
| "b64_decode padded [a, b, c] =
     (if padded then None
      else case (b64_val a, b64_val b, b64_val c) of
        (Some x, Some y, Some z) \<Rightarrow> Some (b64_3 x y z) | _ \<Rightarrow> None)"
| "b64_decode padded (a # b # c # d # s) =
     (if padded \<and> s = [] \<and> c = CHR ''='' \<and> d = CHR ''='' then
        (case (b64_val a, b64_val b) of (Some x, Some y) \<Rightarrow> Some (b64_2 x y) | _ \<Rightarrow> None)
      else if padded \<and> s = [] \<and> d = CHR ''='' then
        (case (b64_val a, b64_val b, b64_val c) of
          (Some x, Some y, Some z) \<Rightarrow> Some (b64_3 x y z) | _ \<Rightarrow> None)
      else case (b64_val a, b64_val b, b64_val c, b64_val d, b64_decode padded s) of
        (Some x, Some y, Some z, Some u, Some r) \<Rightarrow> Some (b64_4 x y z u @ r) | _ \<Rightarrow> None)"

definition not_newline :: "char \<Rightarrow> bool" where
  "not_newline c \<longleftrightarrow> code c \<noteq> 10 \<and> code c \<noteq> 13"

definition StdEncoding_DecodeString :: "string \<Rightarrow> byte list option" where
  "StdEncoding_DecodeString s = b64_decode True (filter not_newline s)"

definition RawStdEncoding_DecodeString :: "string \<Rightarrow> byte list option" where
  "RawStdEncoding_DecodeString s = b64_decode False (filter not_newline s)"

subsection \<open>Package crypto/sha256\<close>

definition rotr :: "nat \<Rightarrow> 32 word \<Rightarrow> 32 word" where
  "rotr n x = word_rotr n x"

definition ch32 :: "32 word \<Rightarrow> 32 word \<Rightarrow> 32 word \<Rightarrow> 32 word" where
  "ch32 x y z = (x AND y) XOR (NOT x AND z)"

definition maj32 :: "32 word \<Rightarrow> 32 word \<Rightarrow> 32 word \<Rightarrow> 32 word" where
  "maj32 x y z = (x AND y) XOR (x AND z) XOR (y AND z)"

definition Sigma0 :: "32 word \<Rightarrow> 32 word" where
  "Sigma0 x = rotr 2 x XOR rotr 13 x XOR rotr 22 x"

definition Sigma1 :: "32 word \<Rightarrow> 32 word" where
  "Sigma1 x = rotr 6 x XOR rotr 11 x XOR rotr 25 x"

definition sigma0 :: "32 word \<Rightarrow> 32 word" where
  "sigma0 x = rotr 7 x XOR rotr 18 x XOR drop_bit 3 x"

definition sigma1 :: "32 word \<Rightarrow> 32 word" where
  "sigma1 x = rotr 17 x XOR rotr 19 x XOR drop_bit 10 x"

text \<open>
  The constants of the standard: the first 32 bits of the fractional parts of the cube roots of
  the first 64 primes, and of the square roots of the first 8 primes.
\<close>

definition small_primes :: "nat list" where
  "small_primes = filter (\<lambda>n. list_all (\<lambda>d. n mod d \<noteq> 0) [2 ..< n]) [2 ..< 312]"

text \<open>\<open>int_root k x\<close>: the largest \<open>r < 2^36\<close> with \<open>r^k \<le> x\<close>, bit by bit from the top.\<close>

definition int_root :: "nat \<Rightarrow> nat \<Rightarrow> nat" where
  "int_root k x = foldl (\<lambda>r b. if (r + 2 ^ b) ^ k \<le> x then r + 2 ^ b else r) 0 (rev [0 ..< 36])"

definition sha256_K :: "32 word list" where
  "sha256_K = map (\<lambda>p. of_nat (int_root 3 (p * 2 ^ 96))) small_primes"

definition sha256_H0 :: "32 word list" where
  "sha256_H0 = map (\<lambda>p. of_nat (int_root 2 (p * 2 ^ 64))) [2, 3, 5, 7, 11, 13, 17, 19]"

text \<open>Big endian conversions between words and bytes, as \<^verbatim>\<open>binary.BigEndian\<close> has them.\<close>

definition be32 :: "byte \<Rightarrow> byte \<Rightarrow> byte \<Rightarrow> byte \<Rightarrow> 32 word" where
  "be32 a b c d = ucast d OR push_bit 8 (ucast c) OR push_bit 16 (ucast b) OR push_bit 24 (ucast a)"

definition put32 :: "32 word \<Rightarrow> byte list" where
  "put32 x = [ucast (drop_bit 24 x), ucast (drop_bit 16 x), ucast (drop_bit 8 x), ucast x]"

fun words32 :: "byte list \<Rightarrow> 32 word list" where
  "words32 (a # b # c # d # bs) = be32 a b c d # words32 bs"
| "words32 _ = []"

definition sha256_pad :: "byte list \<Rightarrow> byte list" where
  "sha256_pad m =
     (let l = length m; bits = 8 * l
      in m @ [0x80] @ replicate ((119 - l mod 64) mod 64) 0
           @ put32 (of_nat (bits div 2 ^ 32)) @ put32 (of_nat bits))"

text \<open>The message schedule: \<open>n\<close> more words after the ones in \<open>ws\<close>.\<close>

fun sha256_schedule :: "nat \<Rightarrow> 32 word list \<Rightarrow> 32 word list" where
  "sha256_schedule 0 ws = ws"
| "sha256_schedule (Suc n) ws =
     (let t = length ws
      in sha256_schedule n
           (ws @ [sigma1 (ws ! (t - 2)) + ws ! (t - 7) + sigma0 (ws ! (t - 15)) + ws ! (t - 16)]))"

fun sha256_round :: "32 word list \<Rightarrow> 32 word \<times> 32 word \<Rightarrow> 32 word list" where
  "sha256_round [a, b, c, d, e, f, g, h] (k, w) =
     (let t1 = h + Sigma1 e + ch32 e f g + k + w;
          t2 = Sigma0 a + maj32 a b c
      in [t1 + t2, a, b, c, d + t1, e, f, g])"
| "sha256_round st _ = st"

definition sha256_block :: "32 word list \<Rightarrow> byte list \<Rightarrow> 32 word list" where
  "sha256_block hs blk =
     map2 (+) hs (foldl sha256_round hs (zip sha256_K (sha256_schedule 48 (words32 blk))))"

fun sha256_blocks :: "nat \<Rightarrow> 32 word list \<Rightarrow> byte list \<Rightarrow> 32 word list" where
  "sha256_blocks 0 hs m = hs"
| "sha256_blocks (Suc n) hs m = sha256_blocks n (sha256_block hs (take 64 m)) (drop 64 m)"

definition sha256_Sum256 :: "byte list \<Rightarrow> byte list" where
  "sha256_Sum256 m =
     (let p = sha256_pad m in concat (map put32 (sha256_blocks (length p div 64) sha256_H0 p)))"

lemma length_put32 [simp]: "length (put32 x) = 4"
  by (simp add: put32_def)

lemma length_sha256_round [simp]: "length (sha256_round st kw) = length st"
  by (induction st kw rule: sha256_round.induct) (auto simp: Let_def)

lemma length_sha256_rounds [simp]: "length (foldl sha256_round st kws) = length st"
  by (induction kws arbitrary: st) auto

lemma length_sha256_blocks [simp]: "length (sha256_blocks n hs m) = length hs"
  by (induction n arbitrary: hs m) (auto simp: sha256_block_def)

lemma length_sha256 [simp]: "length (sha256_Sum256 m) = 32"
proof -
  have *: "length (concat (map put32 xs)) = 4 * length xs" for xs
    by (induction xs) auto
  show ?thesis
    by (simp add: sha256_Sum256_def Let_def * sha256_H0_def)
qed

text \<open>The conversions between four bytes and a word are inverse to each other and bitwise.\<close>

lemma bit_be32:
  "bit (be32 a b c d) n \<longleftrightarrow>
     (if n < 8 then bit d n else if n < 16 then bit c (n - 8)
      else if n < 24 then bit b (n - 16) else n < 32 \<and> bit a (n - 24))"
  using bit_imp_le_length [of a "n - 24"] bit_imp_le_length [of b "n - 16"]
    bit_imp_le_length [of c "n - 8"] bit_imp_le_length [of d n]
  by (auto simp: be32_def bit_simps)

lemma put32_be32 [simp]: "put32 (be32 a b c d) = [a, b, c, d]"
  by (auto simp: put32_def bit_simps bit_be32 intro!: bit_word_eqI)

lemma be32_put32: "put32 x = [a, b, c, d] \<Longrightarrow> be32 a b c d = x"
  by (auto simp: put32_def bit_simps bit_be32 split: if_splits intro!: bit_word_eqI)

lemma put32_inject [simp]: "put32 x = put32 y \<longleftrightarrow> x = y"
  using be32_put32 by (metis put32_def)

lemma be32_inject: "be32 a b c d = be32 a' b' c' d' \<longleftrightarrow> [a, b, c, d] = [a', b', c', d']"
  by (subst put32_inject [symmetric]) (simp only: put32_be32)

lemma be32_and: "be32 a b c d AND be32 a' b' c' d' = be32 (a AND a') (b AND b') (c AND c') (d AND d')"
  by (auto simp: bit_simps bit_be32 intro!: bit_word_eqI)

end
