(* ===== verification/Domain.thy ===== *)
theory Domain
  imports GoStrings
begin

section \<open>Domain types and the database\<close>

text \<open>
  The types of \<^verbatim>\<open>services/controlplane/domain\<close>, \<^verbatim>\<open>services/network/domain\<close> and
  \<^verbatim>\<open>services/storage/domain\<close>, and the world the services act on: the tables of the database (with
  the constraints of the files under \<^verbatim>\<open>migrations\<close>), the messages published, the image
  files, and counters that number the statements, generated ids and publications so far.

  \<^item> A table is a list of rows in order of creation; \<^verbatim>\<open>ORDER BY created_at DESC\<close> is the reversed
    list. Time stamps themselves are left out, except that a completed backup is marked.
  \<^item> A nullable column or a pointer to a string is a \<^typ>\<open>string option\<close>.
  \<^item> Status types whose values only the code sets are datatypes; a string that a request may set
    freely stays a string.
  \<^item> \<open>env\<close> collects what lies outside the repository: the identifiers \<^verbatim>\<open>uuid.New\<close> returns, the
    server's reading of UUID and address texts, and any other reason for which the \<open>n\<close>-th
    statement or publication may fail (a lost connection, a value too long for its column). Every
    theorem holds for all environments unless it names a hypothesis on them.
\<close>

subsection \<open>Control plane\<close>

datatype VMStatus =
    VMStatusCreating | VMStatusRunning | VMStatusStopped | VMStatusPaused | VMStatusRebooting
  | VMStatusShuttingDown | VMStatusTerminated | VMStatusError | VMStatusMigrating | VMStatusSnapshottting

fun VMStatus_string :: "VMStatus \<Rightarrow> string" where
  "VMStatus_string VMStatusCreating = ''creating''"
| "VMStatus_string VMStatusRunning = ''running''"
| "VMStatus_string VMStatusStopped = ''stopped''"
| "VMStatus_string VMStatusPaused = ''paused''"
| "VMStatus_string VMStatusRebooting = ''rebooting''"
| "VMStatus_string VMStatusShuttingDown = ''shutting_down''"
| "VMStatus_string VMStatusTerminated = ''terminated''"
| "VMStatus_string VMStatusError = ''error''"
| "VMStatus_string VMStatusMigrating = ''migrating''"
| "VMStatus_string VMStatusSnapshottting = ''snapshottting''"

definition VMStatus_names :: "string list" where
  "VMStatus_names = [''creating'', ''running'', ''stopped'', ''paused'', ''rebooting'', ''shutting_down'',
     ''terminated'', ''error'', ''migrating'', ''snapshottting'']"

datatype NodeStatus =
    NodeStatusOnline | NodeStatusOffline | NodeStatusDraining | NodeStatusMaintenance | NodeStatusError

fun NodeStatus_string :: "NodeStatus \<Rightarrow> string" where
  "NodeStatus_string NodeStatusOnline = ''online''"
| "NodeStatus_string NodeStatusOffline = ''offline''"
| "NodeStatus_string NodeStatusDraining = ''draining''"
| "NodeStatus_string NodeStatusMaintenance = ''maintenance''"
| "NodeStatus_string NodeStatusError = ''error''"

definition NodeStatus_names :: "string list" where
  "NodeStatus_names = [''online'', ''offline'', ''draining'', ''maintenance'', ''error'']"

datatype ImageStatus = ImageStatusReady | ImageStatusDownloading | ImageStatusProcessing | ImageStatusError

datatype BackupStatus =
    BackupStatusCreating | BackupStatusRunning | BackupStatusCompleted | BackupStatusFailed | BackupStatusDeleted

record Disk =
  d_ID :: string
  d_Name :: string
  d_SizeBytes :: int
  d_Type :: string
  d_StoragePool :: string
  d_ImageID :: string
  d_Boot :: bool
  d_Order :: int

record NetworkInterface =
  nic_ID :: string
  nic_Name :: string
  nic_NetworkID :: string
  nic_MACAddress :: string
  nic_IPv4Addresses :: "string list"
  nic_IPv6Addresses :: "string list"
  nic_IsPrimary :: bool

record VirtualMachine =
  vm_ID :: string
  vm_Name :: string
  vm_NodeID :: "string option"
  vm_OrganizationID :: string
  vm_ProjectID :: "string option"
  vm_Status :: VMStatus
  vm_VCpus :: int
  vm_MemoryMB :: int
  vm_CPUModel :: string
  vm_MachineType :: string
  vm_EnableSecureBoot :: bool
  vm_EnableTPM :: bool
  vm_Hugepages :: bool
  vm_CloudInit :: string
  vm_SSHKeyID :: "string option"
  vm_Tags :: "string list"
  vm_Metadata :: gomap
  vm_Labels :: gomap
  vm_Disks :: "Disk list"
  vm_NetworkInterfaces :: "NetworkInterface list"

record VMFilter =
  vf_OrganizationID :: string
  vf_ProjectID :: string
  vf_NodeID :: string
  vf_Status :: string
  vf_Search :: string
  vf_Page :: int
  vf_PerPage :: int

record Snapshot =
  snap_ID :: string
  snap_VMID :: string
  snap_Name :: string
  snap_Description :: string
  snap_SizeBytes :: int
  snap_Status :: string

record NodeResources =
  nr_TotalCPUs :: int
  nr_UsedCPUs :: int
  nr_TotalMemoryMB :: int
  nr_UsedMemoryMB :: int
  nr_TotalStorageBytes :: int
  nr_UsedStorageBytes :: int
  nr_TotalGPUs :: int
  nr_UsedGPUs :: int

record Node =
  node_ID :: string
  node_Name :: string
  node_Address :: string
  node_Port :: int
  node_Status :: NodeStatus
  node_Resources :: NodeResources
  node_Labels :: gomap
  node_Metadata :: gomap

record NodeFilter =
  nf_Status :: string
  nf_Search :: string
  nf_Page :: int
  nf_PerPage :: int

record Image =
  img_ID :: string
  img_Name :: string
  img_Description :: string
  img_OS :: string
  img_OSVersion :: string
  img_Architecture :: string
  img_Type :: string
  img_SizeBytes :: int
  img_Status :: ImageStatus
  img_Checksum :: string
  img_SourceURL :: string
  img_Tags :: "string list"

record ImageFilter =
  if_OS :: string
  if_Architecture :: string
  if_Type :: string
  if_Search :: string
  if_Page :: int
  if_PerPage :: int

record Backup =
  bak_ID :: string
  bak_Name :: string
  bak_VMID :: string
  bak_OrganizationID :: string
  bak_Status :: BackupStatus
  bak_SizeBytes :: int
  bak_Type :: string
  bak_StoragePool :: string
  bak_Completed :: bool

record BackupFilter =
  bf_VMID :: string
  bf_OrganizationID :: string
  bf_Page :: int
  bf_PerPage :: int

record Flavor =
  fl_ID :: string
  fl_Name :: string
  fl_Description :: string
  fl_VCpus :: int
  fl_MemoryMB :: int
  fl_DiskGB :: int

record Keypair =
  kp_ID :: string
  kp_Name :: string
  kp_PublicKey :: string
  kp_Fingerprint :: string
  kp_OrganizationID :: string

record CreateDiskRequest =
  cd_Name :: string
  cd_SizeBytes :: int
  cd_Type :: string
  cd_StoragePool :: string
  cd_ImageID :: string
  cd_Image :: string

record CreateNetworkInterfaceRequest =
  cn_NetworkID :: string
  cn_IsPrimary :: bool

record CreateVMRequest =
  cv_Name :: string
  cv_NodeID :: string
  cv_FlavorID :: string
  cv_Flavor :: string
  cv_VCpus :: int
  cv_MemoryMB :: int
  cv_CPUModel :: string
  cv_MachineType :: string
  cv_EnableSecureBoot :: bool
  cv_EnableTPM :: bool
  cv_Hugepages :: bool
  cv_CloudInit :: string
  cv_KeypairID :: string
  cv_Keypair :: string
  cv_Disks :: "CreateDiskRequest list"
  cv_NetworkInterfaces :: "CreateNetworkInterfaceRequest list"
  cv_Tags :: "string list"
  cv_Metadata :: gomap
  cv_Labels :: gomap

text \<open>A nil slice of tags in an update request is \<open>None\<close>.\<close>

record UpdateVMRequest =
  uv_Name :: string
  uv_Metadata :: gomap
  uv_Labels :: gomap
  uv_Tags :: "string list option"

record RegisterNodeRequest =
  rn_Name :: string
  rn_Address :: string
  rn_Port :: int
  rn_Labels :: gomap
  rn_Resources :: NodeResources

record ImportImageRequest =
  ii_URL :: string
  ii_Name :: string
  ii_OS :: string
  ii_OSVersion :: string
  ii_Architecture :: string

record CreateFlavorRequest =
  cf_Name :: string
  cf_Description :: string
  cf_VCpus :: int
  cf_MemoryMB :: int
  cf_DiskGB :: int

record CreateKeypairRequest =
  ck_Name :: string
  ck_PublicKey :: string
  ck_OrganizationID :: string

subsection \<open>Network\<close>

record Subnet =
  sub_ID :: string
  sub_Name :: string
  sub_NetworkID :: string
  sub_CIDR :: string
  sub_IPv6CIDR :: "string option"
  sub_DHCPEnabled :: bool
  sub_GatewayIP :: "string option"

record FirewallRule =
  fw_ID :: string
  fw_Name :: string
  fw_NetworkID :: string
  fw_Priority :: int
  fw_Action :: string
  fw_Direction :: string
  fw_SourceCIDRs :: "string list"
  fw_DestinationCIDRs :: "string list"
  fw_Protocol :: string
  fw_PortMin :: "int option"
  fw_PortMax :: "int option"
  fw_Enabled :: bool

record PrivateNetwork =
  pn_ID :: string
  pn_Name :: string
  pn_OrganizationID :: string
  pn_VpcID :: "string option"
  pn_Type :: string
  pn_CIDR :: string
  pn_IPv6CIDR :: "string option"
  pn_InternetGateway :: bool
  pn_Labels :: gomap
  pn_Subnets :: "Subnet list"
  pn_FirewallRules :: "FirewallRule list"

record FloatingIP =
  fip_ID :: string
  fip_IPAddress :: string
  fip_NetworkID :: "string option"
  fip_VMID :: "string option"
  fip_OrganizationID :: string

record NetworkFilter =
  pf_OrganizationID :: string
  pf_Page :: int
  pf_PerPage :: int

record CreateNetworkRequest =
  cnr_Name :: string
  cnr_OrganizationID :: string
  cnr_CIDR :: string
  cnr_IPv6CIDR :: string
  cnr_InternetGateway :: bool

record CreateFirewallRuleRequest =
  cfr_NetworkID :: string
  cfr_Name :: string
  cfr_Priority :: int
  cfr_Action :: string
  cfr_Direction :: string
  cfr_SourceCIDRs :: "string list"
  cfr_DestinationCIDRs :: "string list"
  cfr_Protocol :: string
  cfr_PortMin :: "int option"
  cfr_PortMax :: "int option"

subsection \<open>Storage\<close>

datatype VolumeStatus =
    VolumeStatusAvailable | VolumeStatusInUse | VolumeStatusCreating | VolumeStatusDeleting | VolumeStatusError

record StoragePool =
  sp_ID :: string
  sp_Name :: string
  sp_Driver :: string
  sp_Path :: string
  sp_TotalBytes :: int
  sp_UsedBytes :: int
  sp_Encrypted :: bool
  sp_Config :: gomap

record VolumeSnapshot =
  vs_ID :: string
  vs_VolumeID :: string
  vs_Name :: string
  vs_SizeBytes :: int
  vs_Status :: string

record Volume =
  vol_ID :: string
  vol_Name :: string
  vol_PoolID :: string
  vol_SizeBytes :: int
  vol_UsedBytes :: int
  vol_Status :: VolumeStatus
  vol_Encrypted :: bool
  vol_Labels :: gomap
  vol_Snapshots :: "VolumeSnapshot list"

record VolumeFilter =
  vlf_PoolID :: string
  vlf_Page :: int
  vlf_PerPage :: int

record CreatePoolRequest =
  cp_Name :: string
  cp_Driver :: string
  cp_Path :: string
  cp_Encrypted :: bool
  cp_Config :: gomap

record CreateVolumeRequest =
  cvr_Name :: string
  cvr_PoolID :: string
  cvr_SizeBytes :: int
  cvr_Encrypted :: bool
  cvr_Labels :: gomap

end
