(* ===== verification/World.thy ===== *)
theory World
  imports Domain
begin

section \<open>The world the services act on\<close>

text \<open>
  \<open>world\<close> is the state of the whole system as the services see it; \<open>sql E q\<close> runs one database
  statement \<open>q\<close> in environment \<open>E\<close>. A statement is atomic: it either changes the tables or returns an
  error. \<open>in_tx m\<close> runs a transaction: when \<open>m\<close> fails, the tables are as before. \<open>healthy E\<close> says
  that no statement fails for a reason outside the model.

  \<open>db_ok\<close> collects the constraints of the migrations (primary keys, unique columns and indexes,
  foreign keys). Every statement below keeps it; the theories of the repositories show this once per
  statement (collection \<open>pres\<close>), and the services inherit it.
\<close>

subsection \<open>Messages\<close>

text \<open>Payloads published on NATS, as values instead of JSON text.\<close>

record nicConfig =
  nc_NetworkID :: string
  nc_MACAddress :: string
  nc_IPAddress :: string
  nc_Gateway :: string
  nc_Bridge :: string
  nc_Name :: string

record vmStartCfg =
  sc_Name :: string
  sc_VCPUs :: int
  sc_MemoryMB :: int
  sc_MACAddress :: string
  sc_SSHKey :: string
  sc_ImageID :: string
  sc_SizeBytes :: int
  sc_MachineType :: string
  sc_NetworkInterfaces :: "nicConfig list"

datatype payload =
    StartCommand string vmStartCfg
  | StopCommand string bool
  | RebootCommand string bool
  | Event "(string \<times> string) list"

subsection \<open>State and environment\<close>

record world =
  nodes :: "Node list"
  virtual_machines :: "VirtualMachine list"
  vm_disks :: "(string \<times> Disk) list"
  vm_network_interfaces :: "(string \<times> NetworkInterface) list"
  images :: "Image list"
  snapshots :: "Snapshot list"
  backups :: "Backup list"
  flavors :: "Flavor list"
  keypairs :: "Keypair list"
  private_networks :: "PrivateNetwork list"
  subnets :: "Subnet list"
  firewall_rules :: "FirewallRule list"
  floating_ips :: "FloatingIP list"
  storage_pools :: "StoragePool list"
  volumes :: "Volume list"
  volume_snapshots :: "VolumeSnapshot list"
  files :: "string \<Rightarrow> byte list option"
  downloads :: "(Image \<times> string \<times> bool) list"
  outbox :: "(string \<times> payload) list"
  stmt_no :: nat
  uuid_no :: nat
  pub_no :: nat
  cmd_no :: nat

record env =
  db_fault :: "nat \<Rightarrow> error option"
  uuid_New :: "nat \<Rightarrow> string"
  uuid_parse :: "string \<Rightarrow> string option"
  inet_text :: "string \<Rightarrow> string option"
  inet_next :: "string \<Rightarrow> string"
  inet_within :: "string \<Rightarrow> string \<Rightarrow> bool option"
  pub_fault :: "nat \<Rightarrow> error option"
  cmd_fault :: "nat \<Rightarrow> error option"

type_synonym 'a act = "(world, 'a) op"

definition healthy :: "env \<Rightarrow> bool" where
  "healthy E \<longleftrightarrow> (\<forall>n. db_fault E n = None)"

text \<open>
  What the code relies on: \<^verbatim>\<open>uuid.New\<close> returns new identifiers in canonical form, the server reads
  a canonical identifier as itself and prints what it read in canonical form.
\<close>

definition uuid_ok :: "env \<Rightarrow> bool" where
  "uuid_ok E \<longleftrightarrow> inj (uuid_New E) \<and> (\<forall>n. uuid_parse E (uuid_New E n) = Some (uuid_New E n)) \<and>
     (\<forall>s c. uuid_parse E s = Some c \<longrightarrow> uuid_parse E c = Some c) \<and> uuid_parse E '''' = None"

definition nil_uuid :: string where
  "nil_uuid = ''00000000-0000-0000-0000-000000000000''"

definition new_uuid :: "env \<Rightarrow> string act" where
  "new_uuid E = (\<lambda>w. (Inr (uuid_New E (uuid_no w)), w\<lparr>uuid_no := Suc (uuid_no w)\<rparr>))"

subsection \<open>Statements\<close>

definition sql :: "env \<Rightarrow> 'a act \<Rightarrow> 'a act" where
  "sql E q = (\<lambda>w. let w' = w\<lparr>stmt_no := Suc (stmt_no w)\<rparr> in
     case db_fault E (stmt_no w) of Some e \<Rightarrow> (Inl e, w') | None \<Rightarrow> q w')"

definition in_tx :: "'a act \<Rightarrow> 'a act" where
  "in_tx m = (\<lambda>w. case m w of
       (Inl e, w') \<Rightarrow> (Inl e, w\<lparr>stmt_no := stmt_no w'\<rparr>)
     | (Inr a, w') \<Rightarrow> (Inr a, w'))"

definition bad_uuid :: "string \<Rightarrow> error" where
  "bad_uuid s = PgError ''22P02'' (''invalid input syntax for type uuid: '' @ Quote s)"

definition bad_inet :: "string \<Rightarrow> error" where
  "bad_inet s = PgError ''22P02'' (''invalid input syntax for type inet: '' @ Quote s)"

definition bad_enum :: "string \<Rightarrow> string \<Rightarrow> error" where
  "bad_enum ty s = PgError ''22P02'' (''invalid input value for enum '' @ ty @ '': '' @ Quote s)"

definition unique_violation :: "string \<Rightarrow> error" where
  "unique_violation c = PgError ''23505'' (''duplicate key value violates unique constraint '' @ Quote c)"

definition fk_violation :: "string \<Rightarrow> error" where
  "fk_violation c = PgError ''23503'' (''insert or update on table violates foreign key constraint '' @ Quote c)"

definition not_null_violation :: "string \<Rightarrow> error" where
  "not_null_violation c = PgError ''23502'' (''null value in column '' @ Quote c @ '' violates not-null constraint'')"

text \<open>A parameter of type uuid; \<open>nullif\<close> for \<^verbatim>\<open>NULLIF($n, '')::uuid\<close>, \<open>uuid_opt\<close> for a nullable pointer.\<close>

definition uuid_arg :: "env \<Rightarrow> string \<Rightarrow> (string \<Rightarrow> 'a act) \<Rightarrow> 'a act" where
  "uuid_arg E s k = (case uuid_parse E s of None \<Rightarrow> throw (bad_uuid s) | Some c \<Rightarrow> k c)"

definition uuid_nullif :: "env \<Rightarrow> string \<Rightarrow> (string \<Rightarrow> 'a act) \<Rightarrow> 'a act" where
  "uuid_nullif E s k = (if s = '''' then k '''' else uuid_arg E s k)"

definition uuid_opt :: "env \<Rightarrow> string option \<Rightarrow> (string option \<Rightarrow> 'a act) \<Rightarrow> 'a act" where
  "uuid_opt E s k = (case s of None \<Rightarrow> k None | Some x \<Rightarrow> uuid_arg E x (\<lambda>c. k (Some c)))"

definition inet_arg :: "env \<Rightarrow> string \<Rightarrow> (string \<Rightarrow> 'a act) \<Rightarrow> 'a act" where
  "inet_arg E s k = (case inet_text E s of None \<Rightarrow> throw (bad_inet s) | Some c \<Rightarrow> k c)"

fun inet_args :: "env \<Rightarrow> string list \<Rightarrow> (string list \<Rightarrow> 'a act) \<Rightarrow> 'a act" where
  "inet_args E [] k = k []"
| "inet_args E (s # ss) k = inet_arg E s (\<lambda>c. inet_args E ss (\<lambda>cs. k (c # cs)))"

definition inet_opt :: "env \<Rightarrow> string option \<Rightarrow> (string option \<Rightarrow> 'a act) \<Rightarrow> 'a act" where
  "inet_opt E s k = (case s of None \<Rightarrow> k None | Some x \<Rightarrow> inet_arg E x (\<lambda>c. k (Some c)))"

text \<open>The check of a constraint: \<open>require b e k\<close> is \<open>k\<close> when \<open>b\<close> holds of the tables.\<close>

definition require :: "(world \<Rightarrow> bool) \<Rightarrow> error \<Rightarrow> 'a act \<Rightarrow> 'a act" where
  "require b e k = (\<lambda>w. if b w then k w else (Inl e, w))"

text \<open>\<^verbatim>\<open>name ILIKE pattern\<close>, with \<^verbatim>\<open>%\<close>, \<^verbatim>\<open>_\<close> and the escape character.\<close>

fun like :: "string \<Rightarrow> string \<Rightarrow> bool" where
  "like [] s = (s = [])"
| "like (p # ps) s =
     (if p = CHR ''%'' then like ps s \<or> (case s of [] \<Rightarrow> False | _ # t \<Rightarrow> like (p # ps) t)
      else if p = CHR ''_'' then (case s of [] \<Rightarrow> False | _ # t \<Rightarrow> like ps t)
      else if code p = 92 then
        (case ps of [] \<Rightarrow> False
         | q # qs \<Rightarrow> (case s of [] \<Rightarrow> False | c # t \<Rightarrow> c = q \<and> like qs t))
      else (case s of [] \<Rightarrow> False | c # t \<Rightarrow> c = p \<and> like ps t))"

definition ilike :: "string \<Rightarrow> string \<Rightarrow> bool" where
  "ilike name pattern = like (ToLower pattern) (ToLower name)"

definition search_pattern :: "string \<Rightarrow> string" where
  "search_pattern s = ''%'' @ s @ ''%''"

text \<open>
  Paging as every list query does it: the page and size with their defaults, the offset in 64 bit
  arithmetic, and the rows of \<^verbatim>\<open>LIMIT\<close> and \<^verbatim>\<open>OFFSET\<close>; the server refuses a negative offset.
\<close>

definition page_or_1 :: "int \<Rightarrow> int" where
  "page_or_1 page = (if page < 1 then 1 else page)"

definition per_page_or_20 :: "int \<Rightarrow> int" where
  "per_page_or_20 perPage = (if perPage < 1 then 20 else perPage)"

definition page_offset :: "int \<Rightarrow> int \<Rightarrow> int" where
  "page_offset page perPage = wrap64 (wrap64 (page - 1) * perPage)"

definition limit_offset :: "int \<Rightarrow> int \<Rightarrow> 'r list \<Rightarrow> 'r list act" where
  "limit_offset lim off rows =
     (if off < 0 then throw (PgError ''2201X'' ''OFFSET must not be negative'')
      else ret (take (nat lim) (drop (nat off) rows)))"

subsection \<open>Publishing\<close>

definition EventPublisher_Publish :: "env \<Rightarrow> string \<Rightarrow> payload \<Rightarrow> unit act" where
  "EventPublisher_Publish E subject data = (\<lambda>w.
     let w' = w\<lparr>pub_no := Suc (pub_no w)\<rparr> in
     case pub_fault E (pub_no w) of
       Some e \<Rightarrow> (Inl (Wrap (''nats: publish to '' @ subject) e), w')
     | None \<Rightarrow> (Inr (), w'\<lparr>outbox := outbox w' @ [(subject, data)]\<rparr>))"

definition PublishVMEvent :: "env \<Rightarrow> string \<Rightarrow> string \<Rightarrow> payload \<Rightarrow> unit act" where
  "PublishVMEvent E eventType vmID data =
     EventPublisher_Publish E (''events.vm.'' @ vmID @ ''.'' @ eventType) data"

definition PublishNodeEvent :: "env \<Rightarrow> string \<Rightarrow> string \<Rightarrow> payload \<Rightarrow> unit act" where
  "PublishNodeEvent E eventType nodeID data =
     EventPublisher_Publish E (''events.node.'' @ nodeID @ ''.'' @ eventType) data"

subsection \<open>The constraints of the database\<close>

text \<open>The key of the unique index on (network, first address), and of the one on MAC addresses.\<close>

definition nic_ip_key :: "string \<times> NetworkInterface \<Rightarrow> (string \<times> string) option" where
  "nic_ip_key r = (let n = snd r in
     if nic_NetworkID n \<noteq> '''' \<and> nic_IPv4Addresses n \<noteq> [] then Some (nic_NetworkID n, hd (nic_IPv4Addresses n)) else None)"

definition nic_mac_key :: "string \<times> NetworkInterface \<Rightarrow> string option" where
  "nic_mac_key r = (let n = snd r in if nic_MACAddress n \<noteq> '''' then Some (nic_MACAddress n) else None)"

definition ids_ok :: "world \<Rightarrow> bool" where
  "ids_ok w \<longleftrightarrow>
     distinct (map node_ID (nodes w)) \<and> distinct (map vm_ID (virtual_machines w)) \<and>
     distinct (map (d_ID \<circ> snd) (vm_disks w)) \<and> distinct (map (nic_ID \<circ> snd) (vm_network_interfaces w)) \<and>
     distinct (map img_ID (images w)) \<and> distinct (map snap_ID (snapshots w)) \<and>
     distinct (map bak_ID (backups w)) \<and> distinct (map fl_ID (flavors w)) \<and> distinct (map kp_ID (keypairs w)) \<and>
     distinct (map pn_ID (private_networks w)) \<and> distinct (map sub_ID (subnets w)) \<and>
     distinct (map fw_ID (firewall_rules w)) \<and> distinct (map fip_ID (floating_ips w)) \<and>
     distinct (map sp_ID (storage_pools w)) \<and> distinct (map vol_ID (volumes w)) \<and>
     distinct (map vs_ID (volume_snapshots w))"

definition unique_ok :: "world \<Rightarrow> bool" where
  "unique_ok w \<longleftrightarrow>
     distinct (map node_Name (nodes w)) \<and> distinct (map fl_Name (flavors w)) \<and>
     distinct (map (\<lambda>k. (kp_Name k, kp_OrganizationID k)) (keypairs w)) \<and>
     distinct (map sp_Name (storage_pools w)) \<and> distinct (map fip_IPAddress (floating_ips w)) \<and>
     distinct (List.map_filter nic_ip_key (vm_network_interfaces w)) \<and>
     distinct (List.map_filter nic_mac_key (vm_network_interfaces w))"

definition refs_ok :: "world \<Rightarrow> bool" where
  "refs_ok w \<longleftrightarrow>
     (\<forall>v\<in>set (virtual_machines w). \<forall>n. vm_NodeID v = Some n \<longrightarrow> n \<in> node_ID ` set (nodes w)) \<and>
     (\<forall>r\<in>set (vm_disks w). fst r \<in> vm_ID ` set (virtual_machines w) \<and>
        (d_ImageID (snd r) \<noteq> '''' \<longrightarrow> d_ImageID (snd r) \<in> img_ID ` set (images w))) \<and>
     (\<forall>r\<in>set (vm_network_interfaces w). fst r \<in> vm_ID ` set (virtual_machines w)) \<and>
     (\<forall>s\<in>set (snapshots w). snap_VMID s \<in> vm_ID ` set (virtual_machines w)) \<and>
     (\<forall>b\<in>set (backups w). bak_VMID b \<in> vm_ID ` set (virtual_machines w)) \<and>
     (\<forall>s\<in>set (subnets w). sub_NetworkID s \<in> pn_ID ` set (private_networks w)) \<and>
     (\<forall>f\<in>set (firewall_rules w). fw_NetworkID f \<in> pn_ID ` set (private_networks w)) \<and>
     (\<forall>f\<in>set (floating_ips w). \<forall>n. fip_NetworkID f = Some n \<longrightarrow> n \<in> pn_ID ` set (private_networks w)) \<and>
     (\<forall>v\<in>set (volumes w). vol_PoolID v \<in> sp_ID ` set (storage_pools w)) \<and>
     (\<forall>s\<in>set (volume_snapshots w). vs_VolumeID s \<in> vol_ID ` set (volumes w))"

text \<open>A row of \<open>virtual_machines\<close> holds no disks or interfaces: they are rows of their own.\<close>

definition rows_flat :: "world \<Rightarrow> bool" where
  "rows_flat w \<longleftrightarrow> (\<forall>v\<in>set (virtual_machines w). vm_Disks v = [] \<and> vm_NetworkInterfaces v = [])"

definition db_ok :: "world \<Rightarrow> bool" where
  "db_ok w \<longleftrightarrow> ids_ok w \<and> unique_ok w \<and> refs_ok w \<and> rows_flat w"

lemmas db_defs = db_ok_def ids_ok_def unique_ok_def refs_ok_def rows_flat_def

subsection \<open>Preservation by the combinators\<close>

text \<open>A statement changes the tables only through its body; \<open>counter_blind I\<close>: \<open>I\<close> ignores the counters.\<close>

definition counter_blind :: "(world \<Rightarrow> bool) \<Rightarrow> bool" where
  "counter_blind I \<longleftrightarrow> (\<forall>w n. I (w\<lparr>stmt_no := n\<rparr>) = I w) \<and> (\<forall>w n. I (w\<lparr>uuid_no := n\<rparr>) = I w) \<and>
     (\<forall>w n. I (w\<lparr>pub_no := n\<rparr>) = I w) \<and> (\<forall>w n. I (w\<lparr>cmd_no := n\<rparr>) = I w) \<and>
     (\<forall>w n. I (w\<lparr>outbox := n\<rparr>) = I w) \<and> (\<forall>w n. I (w\<lparr>files := n\<rparr>) = I w) \<and> (\<forall>w n. I (w\<lparr>downloads := n\<rparr>) = I w)"

lemma preserves_sql [pres]: "counter_blind I \<Longrightarrow> preserves I q \<Longrightarrow> preserves I (sql E q)"
  by (auto simp: preserves_def sql_def counter_blind_def Let_def split: option.split)

lemma preserves_in_tx [pres]: "counter_blind I \<Longrightarrow> preserves I m \<Longrightarrow> preserves I (in_tx m)"
  by (fastforce simp: preserves_def in_tx_def counter_blind_def split: prod.splits sum.splits)

lemma preserves_new_uuid [pres]: "counter_blind I \<Longrightarrow> preserves I (new_uuid E)"
  by (simp add: preserves_def new_uuid_def counter_blind_def)

lemma preserves_Publish [pres]: "counter_blind I \<Longrightarrow> preserves I (EventPublisher_Publish E s d)"
  by (simp add: preserves_def EventPublisher_Publish_def counter_blind_def Let_def split: option.split)

lemma preserves_PublishVMEvent [pres]: "counter_blind I \<Longrightarrow> preserves I (PublishVMEvent E t v d)"
  unfolding PublishVMEvent_def by (rule preserves_Publish)

lemma preserves_PublishNodeEvent [pres]: "counter_blind I \<Longrightarrow> preserves I (PublishNodeEvent E t v d)"
  unfolding PublishNodeEvent_def by (rule preserves_Publish)

lemma preserves_uuid_arg [pres]: "(\<And>c. preserves I (k c)) \<Longrightarrow> preserves I (uuid_arg E s k)"
  unfolding uuid_arg_def by (intro pres)

lemma preserves_uuid_nullif [pres]: "(\<And>c. preserves I (k c)) \<Longrightarrow> preserves I (uuid_nullif E s k)"
  unfolding uuid_nullif_def by (intro pres)

lemma preserves_uuid_opt [pres]: "(\<And>c. preserves I (k c)) \<Longrightarrow> preserves I (uuid_opt E s k)"
  unfolding uuid_opt_def by (intro pres)

lemma preserves_inet_arg [pres]: "(\<And>c. preserves I (k c)) \<Longrightarrow> preserves I (inet_arg E s k)"
  unfolding inet_arg_def by (intro pres)

lemma preserves_inet_args [pres]: "(\<And>cs. preserves I (k cs)) \<Longrightarrow> preserves I (inet_args E ss k)"
  by (induction E ss k rule: inet_args.induct) (auto intro!: pres)

lemma preserves_inet_opt [pres]: "(\<And>c. preserves I (k c)) \<Longrightarrow> preserves I (inet_opt E s k)"
  unfolding inet_opt_def by (intro pres)

lemma preserves_limit_offset [pres]: "preserves I (limit_offset l off rows)"
  unfolding limit_offset_def by (intro pres)

text \<open>A guarded change: the guard may be used in the proof that the change keeps \<open>I\<close>.\<close>

lemma preserves_require:
  "preserves (\<lambda>w. I w) (\<lambda>w. if b w then k w else (Inl e, w)) \<Longrightarrow> preserves I (require b e k)"
  by (simp add: require_def)

lemma require_modify:
  "(\<And>w. I w \<Longrightarrow> b w \<Longrightarrow> I (f w)) \<Longrightarrow> preserves I (require b e (modify f))"
  by (simp add: preserves_def require_def)

lemma require_require:
  "require b1 e1 (require b2 e2 k) = (\<lambda>w. if b1 w then (if b2 w then k w else (Inl e2, w)) else (Inl e1, w))"
  by (simp add: require_def)

lemma counter_blind_db_ok [pres]: "counter_blind db_ok"
  by (simp add: counter_blind_def db_defs)

subsection \<open>Evaluation in a healthy environment\<close>

lemma sql_healthy: "healthy E \<Longrightarrow> sql E q w = q (w\<lparr>stmt_no := Suc (stmt_no w)\<rparr>)"
  by (simp add: sql_def healthy_def)

lemma uuid_arg_ok: "uuid_parse E s = Some c \<Longrightarrow> uuid_arg E s k = k c"
  by (simp add: uuid_arg_def)

lemma inet_arg_ok: "inet_text E s = Some c \<Longrightarrow> inet_arg E s k = k c"
  by (simp add: inet_arg_def)

lemma uuid_ok_New: "uuid_ok E \<Longrightarrow> uuid_parse E (uuid_New E n) = Some (uuid_New E n)"
  by (simp add: uuid_ok_def)

lemma uuid_ok_canon: "uuid_ok E \<Longrightarrow> uuid_parse E s = Some c \<Longrightarrow> uuid_parse E c = Some c"
  by (auto simp: uuid_ok_def)

lemma uuid_ok_nonempty: "uuid_ok E \<Longrightarrow> uuid_parse E s = Some c \<Longrightarrow> c \<noteq> ''''"
  by (auto simp: uuid_ok_def)

lemma uuid_ok_inj: "uuid_ok E \<Longrightarrow> uuid_New E m = uuid_New E n \<longleftrightarrow> m = n"
  by (auto simp: uuid_ok_def inj_def)

subsection \<open>An environment for concrete runs\<close>

text \<open>No fault; identifiers are any non-empty texts and new ones are numbered in unary.\<close>

definition unary_uuid :: "nat \<Rightarrow> string" where
  "unary_uuid n = ''id'' @ replicate n (CHR ''1'')"

definition sample_env :: env where
  "sample_env = \<lparr>db_fault = (\<lambda>_. None), uuid_New = unary_uuid,
     uuid_parse = (\<lambda>s. if s = '''' then None else Some s), inet_text = (\<lambda>s. if s = '''' then None else Some s),
     inet_next = (\<lambda>s. s), inet_within = (\<lambda>a b. Some (a = b)), pub_fault = (\<lambda>_. None), cmd_fault = (\<lambda>_. None)\<rparr>"

definition empty_world :: world where
  "empty_world = \<lparr>nodes = [], virtual_machines = [], vm_disks = [], vm_network_interfaces = [], images = [],
     snapshots = [], backups = [], flavors = [], keypairs = [], private_networks = [], subnets = [],
     firewall_rules = [], floating_ips = [], storage_pools = [], volumes = [], volume_snapshots = [],
     files = (\<lambda>_. None), downloads = [], outbox = [], stmt_no = 0, uuid_no = 0, pub_no = 0, cmd_no = 0\<rparr>"

lemma sample_env_simps [simp]:
  "db_fault sample_env n = None" "uuid_New sample_env n = unary_uuid n" "pub_fault sample_env n = None"
  "cmd_fault sample_env n = None" "inet_next sample_env s = s" "inet_within sample_env s t = Some (s = t)"
  "uuid_parse sample_env s = (if s = '''' then None else Some s)"
  "inet_text sample_env s = (if s = '''' then None else Some s)"
  by (simp_all add: sample_env_def)

lemma healthy_sample [simp]: "healthy sample_env"
  by (simp add: healthy_def)

lemma uuid_ok_sample [simp]: "uuid_ok sample_env"
  by (auto simp: uuid_ok_def unary_uuid_def inj_def)

lemma db_ok_empty [simp]: "db_ok empty_world"
  by (simp add: db_defs empty_world_def map_filter_simps)

end
