(* ===== verification/GoNet.thy ===== *)
theory GoNet
  imports GoStrings
begin

section \<open>Addresses: what the code uses of package \<^verbatim>\<open>net\<close>\<close>

text \<open>
  \<^verbatim>\<open>net.IP\<close> and \<^verbatim>\<open>net.IPMask\<close> are byte slices of length 4 or 16, as in Go: \<^verbatim>\<open>ParseIP\<close> returns
  16 bytes whatever the text, and \<^verbatim>\<open>ParseCIDR\<close> returns a network of 4 bytes for IPv4 text and of
  16 bytes for IPv6 text, also when the IPv6 text stands for an IPv4 address. An address with
  a zone (\<^verbatim>\<open>%eth0\<close>) is refused, as both callers of \<^verbatim>\<open>netip.ParseAddr\<close> do.

  Shown here: dotted decimal printing and parsing are inverse to each other, with and without a
  prefix length (\<open>ParseIP_String\<close>, \<open>ParseCIDR_String\<close>); what a successful \<^verbatim>\<open>ParseCIDR\<close> of
  IPv4 text returns (\<open>ParseCIDR_cases\<close>); and \<^verbatim>\<open>Contains\<close> as an equation on 32 bit words
  (\<open>Contains_iff_word\<close>), with the block of addresses of a prefix as an interval (\<open>block_iff\<close>).
\<close>

record IPNet =
  net_IP :: "byte list"
  net_Mask :: "byte list"

definition v4InV6Prefix :: "byte list" where
  "v4InV6Prefix = [0, 0, 0, 0, 0, 0, 0, 0, 0, 0, 0xff, 0xff]"

definition To4 :: "byte list \<Rightarrow> byte list option" where
  "To4 ip = (if length ip = 4 then Some ip
             else if length ip = 16 \<and> take 12 ip = v4InV6Prefix then Some (drop 12 ip)
             else None)"

subsection \<open>Parsing\<close>

definition parse_octet :: "string \<Rightarrow> byte option" where
  "parse_octet w =
     (if w \<noteq> [] \<and> length w \<le> 3 \<and> list_all is_digit w \<and> (length w > 1 \<longrightarrow> hd w \<noteq> CHR ''0'') \<and> dec_val w \<le> 255
      then Some (of_nat (dec_val w)) else None)"

definition parseIPv4 :: "string \<Rightarrow> byte list option" where
  "parseIPv4 s =
     (case Split s (CHR ''.'') of
        [a, b, c, d] \<Rightarrow>
          (case (parse_octet a, parse_octet b, parse_octet c, parse_octet d) of
             (Some x, Some y, Some z, Some u) \<Rightarrow> Some [x, y, z, u]
           | _ \<Rightarrow> None)
      | _ \<Rightarrow> None)"

definition is_hex :: "char \<Rightarrow> bool" where
  "is_hex c \<longleftrightarrow> hex_val c \<noteq> None"

definition hex_word :: "string \<Rightarrow> nat" where
  "hex_word s = foldl (\<lambda>a c. a * 16 + (case hex_val c of None \<Rightarrow> 0 | Some v \<Rightarrow> v)) 0 s"

text \<open>
  The loop of the IPv6 parser: at most \<open>n\<close> more groups; \<open>acc\<close> holds the bytes so far and \<open>ell\<close>
  the position of the ellipsis. The result is the bytes, the ellipsis and the text left over.
\<close>

fun parseIPv6_loop :: "nat \<Rightarrow> string \<Rightarrow> byte list \<Rightarrow> nat option \<Rightarrow> (byte list \<times> nat option \<times> string) option" where
  "parseIPv6_loop 0 s acc ell = Some (acc, ell, s)"
| "parseIPv6_loop (Suc n) s acc ell =
     (let h = takeWhile is_hex s; r = dropWhile is_hex s in
      if h = [] \<or> length h > 4 then None
      else if r \<noteq> [] \<and> hd r = CHR ''.'' then
        (if (ell = None \<and> length acc \<noteq> 12) \<or> length acc + 4 > 16 then None
         else map_option (\<lambda>b. (acc @ b, ell, [])) (parseIPv4 s))
      else let acc' = acc @ [of_nat (hex_word h div 256), of_nat (hex_word h mod 256)] in
        if r = [] then Some (acc', ell, [])
        else if hd r \<noteq> CHR '':'' \<or> length r = 1 then None
        else let s1 = tl r in
          if hd s1 = CHR '':'' then
            (if ell \<noteq> None then None
             else if tl s1 = [] then Some (acc', Some (length acc'), [])
             else parseIPv6_loop n (tl s1) acc' (Some (length acc')))
          else parseIPv6_loop n s1 acc' ell)"

definition parseIPv6_finish :: "byte list \<times> nat option \<times> string \<Rightarrow> byte list option" where
  "parseIPv6_finish t =
     (case t of (acc, ell, s) \<Rightarrow>
        if s \<noteq> [] then None
        else if length acc < 16 then
          (case ell of None \<Rightarrow> None
           | Some e \<Rightarrow> Some (take e acc @ replicate (16 - length acc) 0 @ drop e acc))
        else if ell \<noteq> None then None else Some acc)"

definition parseIPv6 :: "string \<Rightarrow> byte list option" where
  "parseIPv6 s =
     (if CHR ''%'' \<in> set s then None
      else if s = ''::'' then Some (replicate 16 0)
      else Option.bind
        (if HasPrefix s ''::'' then parseIPv6_loop 8 (drop 2 s) [] (Some 0)
         else parseIPv6_loop 8 s [] None) parseIPv6_finish)"

text \<open>\<open>ParseAddr s\<close>: 4 bytes for IPv4 text, 16 bytes for IPv6 text.\<close>

definition ParseAddr :: "string \<Rightarrow> byte list option" where
  "ParseAddr s =
     (case find (\<lambda>c. c = CHR ''.'' \<or> c = CHR '':'' \<or> c = CHR ''%'') s of
        None \<Rightarrow> None
      | Some c \<Rightarrow> if c = CHR ''.'' then parseIPv4 s else if c = CHR '':'' then parseIPv6 s else None)"

definition As16 :: "byte list \<Rightarrow> byte list" where
  "As16 b = (if length b = 4 then v4InV6Prefix @ b else b)"

definition ParseIP :: "string \<Rightarrow> byte list option" where
  "ParseIP s = map_option As16 (ParseAddr s)"

text \<open>\<open>CIDRMask n bits\<close> for \<open>n \<le> bits\<close>, one byte at a time.\<close>

definition CIDRMask :: "nat \<Rightarrow> nat \<Rightarrow> byte list" where
  "CIDRMask n bits = map (\<lambda>i. of_nat (256 - 2 ^ (8 - min 8 (n - 8 * i)))) [0 ..< bits div 8]"

definition IP_Mask :: "byte list \<Rightarrow> byte list \<Rightarrow> byte list" where
  "IP_Mask ip m =
     (if length m = 4 \<and> length ip = 16 \<and> take 12 ip = v4InV6Prefix then map2 (AND) (drop 12 ip) m
      else map2 (AND) ip m)"

definition CIDRError :: "string \<Rightarrow> error" where
  "CIDRError s = Msg (''invalid CIDR address: '' @ s)"

definition ParseCIDR :: "string \<Rightarrow> error + (byte list \<times> IPNet)" where
  "ParseCIDR s =
     (case SplitN2 s (CHR ''/'') of
        [adr, msk] \<Rightarrow>
          (case ParseAddr adr of
             None \<Rightarrow> Inl (CIDRError s)
           | Some b \<Rightarrow>
               if msk = [] \<or> \<not> list_all is_digit msk \<or> dec_val msk > 8 * length b then Inl (CIDRError s)
               else let m = CIDRMask (dec_val msk) (8 * length b)
                    in Inr (As16 b, \<lparr>net_IP = IP_Mask (As16 b) m, net_Mask = m\<rparr>))
      | _ \<Rightarrow> Inl (CIDRError s))"

subsection \<open>Printing\<close>

definition v4_String :: "byte list \<Rightarrow> string" where
  "v4_String b = Join (map (\<lambda>x. show_nat (unat x)) b) ''.''"

text \<open>The 16 bit groups of an address and the first longest run of two or more zero groups.\<close>

fun v6_groups :: "byte list \<Rightarrow> nat list" where
  "v6_groups (a # b # bs) = (unat a * 256 + unat b) # v6_groups bs"
| "v6_groups _ = []"

definition zero_run :: "nat list \<Rightarrow> nat \<Rightarrow> nat" where
  "zero_run gs i = length (takeWhile (\<lambda>g. g = 0) (drop i gs))"

definition longest_zero_run :: "nat list \<Rightarrow> (nat \<times> nat) option" where
  "longest_zero_run gs =
     foldl (\<lambda>best i. let l = zero_run gs i in
              if l \<ge> 2 \<and> (case best of None \<Rightarrow> True | Some (st, len) \<Rightarrow> l > len) then Some (i, l) else best)
       None [0 ..< length gs]"

definition v6_String :: "byte list \<Rightarrow> string" where
  "v6_String b =
     (let gs = v6_groups b in
      case longest_zero_run gs of
        None \<Rightarrow> Join (map show_hex gs) '':''
      | Some (i, l) \<Rightarrow> Join (map show_hex (take i gs)) '':'' @ ''::'' @ Join (map show_hex (drop (i + l) gs)) '':'')"

definition IP_String :: "byte list \<Rightarrow> string" where
  "IP_String ip =
     (if ip = [] then ''<nil>''
      else case To4 ip of
        Some v4 \<Rightarrow> v4_String v4
      | None \<Rightarrow> if length ip = 16 then v6_String ip else CHR ''?'' # hex_EncodeToString ip)"

subsection \<open>Networks\<close>

fun leading_ones :: "bool list \<Rightarrow> nat" where
  "leading_ones (True # bs) = Suc (leading_ones bs)"
| "leading_ones _ = 0"

definition mask_bits :: "byte list \<Rightarrow> bool list" where
  "mask_bits m = concat (map (\<lambda>b. map (bit b) (rev [0 ..< 8])) m)"

text \<open>\<open>Mask_Size m\<close>: the number of leading ones, or 0 when the mask is not canonical.\<close>

definition Mask_Size :: "byte list \<Rightarrow> nat" where
  "Mask_Size m =
     (let bs = mask_bits m; n = leading_ones bs in if True \<in> set (drop n bs) then 0 else n)"

definition networkNumberAndMask :: "IPNet \<Rightarrow> (byte list \<times> byte list) option" where
  "networkNumberAndMask n =
     (let ip = (case To4 (net_IP n) of Some v4 \<Rightarrow> v4 | None \<Rightarrow> net_IP n); m = net_Mask n in
      if length ip \<noteq> 4 \<and> length ip \<noteq> 16 then None
      else if length m = 4 then (if length ip \<noteq> 4 then None else Some (ip, m))
      else if length m = 16 then Some (ip, if length ip = 4 then drop 12 m else m)
      else None)"

definition IPNet_Contains :: "IPNet \<Rightarrow> byte list \<Rightarrow> bool" where
  "IPNet_Contains n ip =
     (let x = (case To4 ip of Some v4 \<Rightarrow> v4 | None \<Rightarrow> ip) in
      case networkNumberAndMask n of
        None \<Rightarrow> x = []
      | Some (nn, m) \<Rightarrow> length x = length nn \<and> map2 (AND) nn m = map2 (AND) x m)"

text \<open>
  \<^verbatim>\<open>binary.BigEndian.Uint32\<close> reads the first four bytes (every caller has at least four);
  \<^verbatim>\<open>PutUint32\<close> into a fresh slice of four is \<open>put32\<close>.
\<close>

fun BigEndian_Uint32 :: "byte list \<Rightarrow> 32 word" where
  "BigEndian_Uint32 (a # b # c # d # _) = be32 a b c d"
| "BigEndian_Uint32 _ = 0"

subsection \<open>Printing and parsing are inverse\<close>

lemma length_show_nat: "n < 1000 \<Longrightarrow> length (show_nat n) \<le> 3"
  by (simp add: show_nat.simps [of n] show_nat.simps [of "n div 10"] show_nat.simps [of "n div 10 div 10"])

lemma length_show_nat_gt1: "length (show_nat n) > 1 \<Longrightarrow> 0 < n"
  by (rule ccontr) (simp add: show_nat.simps)

lemma unat_byte: "unat (b :: byte) < 256"
  using unsigned_less [where 'a = nat, of b] by simp

lemma parse_octet_show [simp]: "parse_octet (show_nat (unat b)) = Some b"
  using unat_byte [of b] length_show_nat [of "unat b"] length_show_nat_gt1 [of "unat b"]
    show_nat_hd_zero [of "unat b"]
  by (auto simp: parse_octet_def list_all_iff show_nat_digits)

lemma show_nat_no_sep: "\<not> is_digit c \<Longrightarrow> c \<notin> set (show_nat n)"
  using show_nat_digits by blast

lemma not_digit [simp]: "\<not> is_digit (CHR ''.'')" "\<not> is_digit (CHR ''/'')" "\<not> is_digit (CHR '':'')" "\<not> is_digit (CHR ''%'')"
  by (simp_all add: is_digit_def code_def)

lemma parseIPv4_String [simp]: "parseIPv4 (v4_String [a, b, c, d]) = Some [a, b, c, d]"
proof -
  have "Split (v4_String [a, b, c, d]) (CHR ''.'') = map (\<lambda>x. show_nat (unat x)) [a, b, c, d]"
    unfolding v4_String_def by (rule Split_Join) (simp_all add: show_nat_no_sep)
  then show ?thesis
    by (simp add: parseIPv4_def)
qed

lemma find_digits_append: "(\<And>c. c \<in> set ds \<Longrightarrow> \<not> P c) \<Longrightarrow> find P (ds @ s) = find P s"
  by (induction ds) auto

lemma ParseAddr_String [simp]: "ParseAddr (v4_String [a, b, c, d]) = Some [a, b, c, d]"
proof -
  let ?P = "\<lambda>c. c = CHR ''.'' \<or> c = CHR '':'' \<or> c = CHR ''%''"
  have "find ?P (v4_String [a, b, c, d]) = Some (CHR ''.'')"
    unfolding v4_String_def using show_nat_no_sep not_digit
    by (simp, subst find_digits_append) auto
  then show ?thesis
    unfolding ParseAddr_def by simp
qed

lemma ParseIP_String: "ParseIP (v4_String [a, b, c, d]) = Some (v4InV6Prefix @ [a, b, c, d])"
  by (simp add: ParseIP_def As16_def)

lemma length_v4InV6Prefix [simp]: "length v4InV6Prefix = 12"
  by (simp add: v4InV6Prefix_def)

lemma To4_4 [simp]: "length ip = 4 \<Longrightarrow> To4 ip = Some ip"
  by (simp add: To4_def)

lemma To4_prefix [simp]: "length b = 4 \<Longrightarrow> To4 (v4InV6Prefix @ b) = Some b"
  by (simp add: To4_def)

lemma IP_String_4: "length ip = 4 \<Longrightarrow> IP_String ip = v4_String ip"
  by (auto simp: IP_String_def)

lemma IP_String_prefix: "length b = 4 \<Longrightarrow> IP_String (v4InV6Prefix @ b) = v4_String b"
  by (auto simp: IP_String_def)

lemma v4_String_no_slash: "CHR ''/'' \<notin> set (v4_String [a, b, c, d])"
  by (simp add: v4_String_def show_nat_no_sep)

lemma SplitN2_append: "sep \<notin> set s \<Longrightarrow> SplitN2 (s @ sep # t) sep = [s, t]"
proof -
  assume a: "sep \<notin> set s"
  have "takeWhile (\<lambda>c. c \<noteq> sep) (s @ sep # t) = s" "dropWhile (\<lambda>c. c \<noteq> sep) (s @ sep # t) = sep # t"
    using a by (induction s) auto
  then show ?thesis
    by (simp add: SplitN2_def)
qed

text \<open>\<open>v4net ip n\<close>: the network of the first \<open>n\<close> bits of a four byte address.\<close>

definition v4net :: "byte list \<Rightarrow> nat \<Rightarrow> IPNet" where
  "v4net b n = \<lparr>net_IP = map2 (AND) b (CIDRMask n 32), net_Mask = CIDRMask n 32\<rparr>"

lemma length_CIDRMask [simp]: "length (CIDRMask n bits) = bits div 8"
  by (simp add: CIDRMask_def)

lemma IP_Mask_prefix: "length b = 4 \<Longrightarrow> length m = 4 \<Longrightarrow> IP_Mask (v4InV6Prefix @ b) m = map2 (AND) b m"
  by (simp add: IP_Mask_def)

lemma ParseCIDR_String:
  assumes "n \<le> 32"
  shows "ParseCIDR (v4_String [a, b, c, d] @ CHR ''/'' # show_nat n)
           = Inr (v4InV6Prefix @ [a, b, c, d], v4net [a, b, c, d] n)"
  using assms
  by (simp add: ParseCIDR_def SplitN2_append v4_String_no_slash list_all_iff show_nat_digits As16_def
      IP_Mask_prefix v4net_def Let_def)

subsection \<open>What parsing returns\<close>

lemma parseIPv4_length: "parseIPv4 s = Some b \<Longrightarrow> length b = 4"
  by (auto simp: parseIPv4_def split: list.splits option.splits)

lemma parseIPv6_loop_length:
  "parseIPv6_loop n s acc ell = Some (acc', ell', s') \<Longrightarrow> length acc + 2 * n \<le> 16 \<Longrightarrow>
   (\<forall>e. ell = Some e \<longrightarrow> e \<le> length acc) \<Longrightarrow>
   length acc' \<le> 16 \<and> (\<forall>e. ell' = Some e \<longrightarrow> e \<le> length acc')"
proof (induction n arbitrary: s acc ell acc' ell' s')
  case (Suc n)
  show ?case
    using Suc.prems by (auto simp: Let_def split: if_splits dest!: Suc.IH parseIPv4_length)
qed auto

lemma parseIPv6_length: "parseIPv6 s = Some b \<Longrightarrow> length b = 16"
proof -
  have fin: "length b = 16" if "parseIPv6_loop 8 t [] (e :: nat option) = Some r"
    "e = None \<or> e = Some 0" "parseIPv6_finish r = Some b" for t e r
    using that parseIPv6_loop_length [of 8 t "[]" e "fst r" "fst (snd r)" "snd (snd r)"]
    by (auto simp: parseIPv6_finish_def split: if_splits option.splits prod.splits)
  assume "parseIPv6 s = Some b"
  then show ?thesis
    by (auto simp: parseIPv6_def bind_eq_Some_conv split: if_splits dest: fin)
qed

lemma ParseAddr_length: "ParseAddr s = Some b \<Longrightarrow> length b = 4 \<or> length b = 16"
  by (auto simp: ParseAddr_def split: option.splits if_splits dest: parseIPv4_length parseIPv6_length)

lemma ParseIP_length: "ParseIP s = Some ip \<Longrightarrow> length ip = 16"
  by (auto simp: ParseIP_def As16_def dest: ParseAddr_length)

text \<open>A parsed network is an IPv4 one of four bytes, or has 16 bytes of address and mask.\<close>

lemma ParseCIDR_cases:
  assumes "ParseCIDR s = Inr (ip, n)"
  obtains (v4) b k where "length b = 4" "k \<le> 32" "ip = v4InV6Prefix @ b" "n = v4net b k"
  | (v6) k where "length ip = 16" "k \<le> 128" "length (net_IP n) = 16" "net_Mask n = CIDRMask k 128"
proof -
  obtain w k b where b: "ParseAddr w = Some b" "k \<le> 8 * length b"
      "ip = As16 b" "n = \<lparr>net_IP = IP_Mask (As16 b) (CIDRMask k (8 * length b)), net_Mask = CIDRMask k (8 * length b)\<rparr>"
    using assms
    by (clarsimp simp: ParseCIDR_def Let_def split: list.splits option.splits if_splits) (metis not_less)
  show thesis
  proof (cases "length b = 4")
    case True
    then show thesis
      using b v4 [of b k] by (simp add: As16_def IP_Mask_prefix v4net_def)
  next
    case False
    with b ParseAddr_length have "length b = 16" by blast
    then show thesis
      using b v6 [of k] by (simp add: As16_def IP_Mask_def)
  qed
qed

subsection \<open>Networks as intervals of words\<close>

lemma CIDRMask_32_table:
  "list_all (\<lambda>n. BigEndian_Uint32 (CIDRMask n 32) = NOT (mask (32 - n)) \<and> Mask_Size (CIDRMask n 32) = n)
     [0 ..< 33]"
  by code_simp

lemma CIDRMask_32:
  assumes "n \<le> 32"
  shows "BigEndian_Uint32 (CIDRMask n 32) = NOT (mask (32 - n))" "Mask_Size (CIDRMask n 32) = n"
  using CIDRMask_32_table assms unfolding list_all_iff by auto

lemma length4E:
  assumes "length b = 4"
  obtains w x y z where "b = [w, x, y, z]"
  using assms by (auto simp: numeral_eq_Suc length_Suc_conv)

lemma Uint32_and:
  "length b = 4 \<Longrightarrow> length m = 4 \<Longrightarrow>
   BigEndian_Uint32 (map2 (AND) b m) = BigEndian_Uint32 b AND BigEndian_Uint32 m"
  by (erule length4E, erule length4E) (simp add: be32_and)

lemma Uint32_put32 [simp]: "BigEndian_Uint32 (put32 x) = x"
  using be32_put32 by (auto simp: put32_def)

lemma put32_Uint32: "length b = 4 \<Longrightarrow> put32 (BigEndian_Uint32 b) = b"
  by (erule length4E) simp

lemma Uint32_inject: "length b = 4 \<Longrightarrow> length c = 4 \<Longrightarrow> BigEndian_Uint32 b = BigEndian_Uint32 c \<longleftrightarrow> b = c"
  by (metis put32_Uint32)

text \<open>The network word of \<open>v4net b n\<close>, and membership as an equation of words.\<close>

definition net_word :: "byte list \<Rightarrow> nat \<Rightarrow> 32 word" where
  "net_word b n = BigEndian_Uint32 b AND NOT (mask (32 - n))"

lemma Uint32_v4net: "length b = 4 \<Longrightarrow> n \<le> 32 \<Longrightarrow> BigEndian_Uint32 (net_IP (v4net b n)) = net_word b n"
  by (simp add: v4net_def Uint32_and CIDRMask_32 net_word_def)

lemma length_v4net [simp]: "length b = 4 \<Longrightarrow> length (net_IP (v4net b n)) = 4"
  by (simp add: v4net_def)

lemma Contains_iff_word:
  assumes "length b = 4" "n \<le> 32"
  shows "IPNet_Contains (v4net b n) (put32 x) \<longleftrightarrow> x AND NOT (mask (32 - n)) = net_word b n"
proof -
  let ?m = "CIDRMask n 32"
  have "IPNet_Contains (v4net b n) (put32 x) \<longleftrightarrow>
          map2 (AND) (map2 (AND) b ?m) ?m = map2 (AND) (put32 x) ?m"
    using assms(1) by (simp add: IPNet_Contains_def networkNumberAndMask_def v4net_def Let_def)
  also have "\<dots> \<longleftrightarrow> BigEndian_Uint32 (map2 (AND) (map2 (AND) b ?m) ?m) = BigEndian_Uint32 (map2 (AND) (put32 x) ?m)"
    using assms(1) by (simp add: Uint32_inject)
  also have "\<dots> \<longleftrightarrow> net_word b n = x AND NOT (mask (32 - n))"
    using assms by (simp add: Uint32_and CIDRMask_32 net_word_def and.assoc)
  finally show ?thesis
    by auto
qed

lemma unat_and_not_mask: "unat ((x :: 32 word) AND NOT (mask k)) = unat x div 2 ^ k * 2 ^ k"
proof -
  have "unat (x AND NOT (mask k)) = push_bit k (drop_bit k (unat x))"
    by (rule bit_eqI) (auto simp: bit_simps dest: bit_imp_le_length)
  then show ?thesis
    by (simp add: push_bit_eq_mult drop_bit_eq_div)
qed

lemma unat_or_mask:
  assumes "net AND NOT (mask k) = (net :: 32 word)" "k \<le> 32"
  shows "unat (net OR mask k) = unat net + (2 ^ k - 1)"
proof -
  have disj: "unat net AND mask k = 0"
    using unat_and_not_mask [of net k] assms(1) by (metis mod_mult_self2_is_0 take_bit_eq_mask take_bit_eq_mod)
  have "unat (net OR mask k) = unat net OR mask k"
    using assms(2) by (intro bit_eqI) (auto simp: bit_simps)
  also have "\<dots> = unat net + mask k"
    using disj by (rule disjunctive_add_eq_or [symmetric])
  finally show ?thesis
    by (simp add: mask_eq_exp_minus_1)
qed

lemma block_iff:
  assumes "net AND NOT (mask k) = (net :: 32 word)" "k \<le> 32"
  shows "x AND NOT (mask k) = net \<longleftrightarrow> net \<le> x \<and> x \<le> net OR mask k"
proof -
  obtain q where q: "unat net = 2 ^ k * q"
    using unat_and_not_mask [of net k] assms(1) by (metis mult.commute)
  have "x AND NOT (mask k) = net \<longleftrightarrow> unat x div 2 ^ k = q"
    using q by (auto simp: word_unat_eq_iff unat_and_not_mask)
  also have "\<dots> \<longleftrightarrow> 2 ^ k * q \<le> unat x \<and> unat x < 2 ^ k * q + 2 ^ k"
    using dividend_less_times_div [of "2 ^ k" "unat x"]
    by (auto intro!: div_nat_eqI simp: algebra_simps)
  also have "\<dots> \<longleftrightarrow> net \<le> x \<and> x \<le> net OR mask k"
    using unat_or_mask [OF assms] q zero_less_power [of "2 :: nat" k]
    unfolding word_le_nat_alt by linarith
  finally show ?thesis .
qed

lemma net_word_masked: "net_word b n AND NOT (mask (32 - n)) = net_word b n"
  by (simp add: net_word_def and.assoc)

end
