(* ===== verification/Ipam.thy ===== *)
theory Ipam
  imports GoNet
begin

section \<open>Address allocation: \<^verbatim>\<open>internal/ipam\<close>, gateways, bridges, MAC addresses, subjects\<close>

text \<open>
  The functions of \<^verbatim>\<open>internal/ipam/ipam.go\<close>, \<^verbatim>\<open>internal/mac/mac.go\<close> and
  \<^verbatim>\<open>internal/nats/subjects.go\<close>, the two gateway computations of the control plane
  (\<^verbatim>\<open>services/controlplane/service.go\<close>) and of the node agent (\<^verbatim>\<open>services/nodeagent/agent.go\<close>),
  and the scan of \<^verbatim>\<open>FindAvailableIP\<close> (\<^verbatim>\<open>services/network/postgres/floating_ip_repository.go\<close>).

  Addresses are 32 bit words and all arithmetic wraps as \<^verbatim>\<open>uint32\<close> does. The scan loop starts at
  \<^verbatim>\<open>network + 2\<close>, which wraps to 0 or 1 for the last two addresses of the address space; it is a
  total function here, with the distance to the broadcast address as its measure.

  The locale \<open>address_allocator\<close> states what an allocator promises (the address it
  returns is one of the pool and not yet used; it gives up only when none is left) and
  derives that a series of allocations yields distinct addresses and stops exactly when the
  pool is exhausted. It is interpreted on \<open>NextAvailableIP\<close> and on the scan of the
  floating IP repository.
\<close>

subsection \<open>The scan loop\<close>

text \<open>\<^verbatim>\<open>for candidate := start; candidate < broadcast; candidate++\<close>, skipping used addresses and
  addresses outside the network.\<close>

function scan_free :: "(32 word \<Rightarrow> bool) \<Rightarrow> (32 word \<Rightarrow> bool) \<Rightarrow> 32 word \<Rightarrow> 32 word \<Rightarrow> 32 word option" where
  "scan_free used contains candidate broadcast =
     (if candidate < broadcast then
        (if used candidate then scan_free used contains (candidate + 1) broadcast
         else if \<not> contains candidate then scan_free used contains (candidate + 1) broadcast
         else Some candidate)
      else None)"
  by pat_completeness auto

lemma unat_Suc_less: "(x :: 32 word) < y \<Longrightarrow> unat (x + 1) = unat x + 1"
  using unsigned_less [where 'a = nat, of y]
  by (simp add: word_less_nat_alt unat_word_ariths)

lemma word_Suc_le_iff: "(x :: 32 word) < z \<Longrightarrow> x + 1 \<le> y \<longleftrightarrow> x < y"
  using unat_Suc_less [of x z] by (auto simp: word_less_nat_alt word_le_nat_alt)

termination scan_free
  by (relation "measure (\<lambda>(used, contains, candidate, broadcast). unat broadcast - unat candidate)")
    (simp_all add: unat_Suc_less word_less_nat_alt)

declare scan_free.simps [simp del]

subsection \<open>Package ipam\<close>

definition only_IPv4 :: "string \<Rightarrow> error" where
  "only_IPv4 cidr = Msg (''only IPv4 CIDR supported, got '' @ Quote cidr)"

text \<open>The word a used address stands for, if it is an IPv4 address with or without a prefix.\<close>

definition used_word :: "string \<Rightarrow> 32 word option" where
  "used_word u =
     (let ipStr = (case ParseCIDR u of Inr (parsed, _) \<Rightarrow> IP_String parsed | Inl _ \<Rightarrow> u)
      in map_option BigEndian_Uint32 (Option.bind (ParseIP ipStr) To4))"

definition NextAvailableIP :: "string \<Rightarrow> string list \<Rightarrow> string \<times> string \<times> error option" where
  "NextAvailableIP cidr usedIPs =
     (case ParseCIDR cidr of
        Inl err \<Rightarrow> ('''', '''', Some (Wrap (''invalid CIDR '' @ Quote cidr) err))
      | Inr (_, ipNet) \<Rightarrow>
          (case To4 (net_IP ipNet) of
             None \<Rightarrow> ('''', '''', Some (only_IPv4 cidr))
           | Some ip4 \<Rightarrow>
               let msk = BigEndian_Uint32 (net_Mask ipNet);
                   network = BigEndian_Uint32 ip4;
                   broadcast = network OR NOT msk;
                   gwInt = network + 1;
                   gateway = IP_String (put32 gwInt);
                   usedSet = List.map_filter used_word usedIPs @ [network, gwInt, broadcast]
               in case scan_free (\<lambda>c. c \<in> set usedSet) (\<lambda>c. IPNet_Contains ipNet (put32 c)) (network + 2) broadcast of
                    Some candidate \<Rightarrow>
                      (IP_String (put32 candidate) @ ''/'' @ show_nat (Mask_Size (net_Mask ipNet)), gateway, None)
                  | None \<Rightarrow>
                      ('''', gateway, Some (Msg (''no available IPs in '' @ cidr @ '' (used ''
                         @ show_nat (length (remdups usedSet)) @ '')'')))))"

definition GatewayIP :: "string \<Rightarrow> error + string" where
  "GatewayIP cidr =
     (case ParseCIDR cidr of
        Inl err \<Rightarrow> Inl err
      | Inr (_, ipNet) \<Rightarrow>
          (case To4 (net_IP ipNet) of
             None \<Rightarrow> Inl (Msg ''only IPv4'')
           | Some ip4 \<Rightarrow> Inr (IP_String (put32 (BigEndian_Uint32 ip4 + 1)))))"

definition BareIP :: "string \<Rightarrow> string" where
  "BareIP cidrOrIP =
     (case ParseCIDR cidrOrIP of
        Inr (ip, _) \<Rightarrow> IP_String ip
      | Inl _ \<Rightarrow> (case ParseIP cidrOrIP of Some ip \<Rightarrow> IP_String ip | None \<Rightarrow> cidrOrIP))"

definition CIDRPrefix :: "string \<Rightarrow> nat" where
  "CIDRPrefix cidr =
     (case ParseCIDR cidr of Inl _ \<Rightarrow> 24 | Inr (_, ipNet) \<Rightarrow> Mask_Size (net_Mask ipNet))"

definition BridgeForNetwork :: "string \<Rightarrow> error + string" where
  "BridgeForNetwork networkID =
     (if networkID = '''' then Inl (Msg ''networkID is required'')
      else let cleaned = ReplaceAllChar networkID (CHR ''-'') '''' in
        if length cleaned < 8 then Inr (''br-'' @ cleaned) else Inr (''br-'' @ take 8 cleaned))"

subsection \<open>The scan of the floating IP repository\<close>

text \<open>The word of a used floating address: the text is tried as an address, then as a CIDR.\<close>

definition used_float_word :: "string \<Rightarrow> 32 word option" where
  "used_float_word ipAddr =
     (let ipStr = (if Contains ipAddr ''/'' then
                     (case ParseCIDR ipAddr of Inr (parsed, _) \<Rightarrow> IP_String parsed | Inl _ \<Rightarrow> ipAddr)
                   else ipAddr)
      in case ParseIP ipStr of
           Some ip \<Rightarrow> map_option BigEndian_Uint32 (To4 ip)
         | None \<Rightarrow>
             (case ParseCIDR ipAddr of
                Inr (ip, _) \<Rightarrow> map_option BigEndian_Uint32 (To4 ip)
              | Inl _ \<Rightarrow> None))"

text \<open>The checks before the query and the scan after it; the query is in the repository.\<close>

definition FindAvailableIP_check :: "string \<Rightarrow> error + (IPNet \<times> 32 word \<times> 32 word)" where
  "FindAvailableIP_check networkCIDR =
     (case ParseCIDR networkCIDR of
        Inl err \<Rightarrow> Inl (Wrap ''invalid CIDR'' err)
      | Inr (_, ipNet) \<Rightarrow>
          (case To4 (net_IP ipNet) of
             None \<Rightarrow> Inl (only_IPv4 networkCIDR)
           | Some ip4 \<Rightarrow>
               let msk = BigEndian_Uint32 (net_Mask ipNet);
                   network = BigEndian_Uint32 ip4;
                   broadcast = network OR NOT msk
               in if broadcast - network \<le> 2
                  then Inl (Msg (''no available IPs in network '' @ networkCIDR @ '' (prefix too small)''))
                  else Inr (ipNet, network, broadcast)))"

definition FindAvailableIP_scan :: "string \<Rightarrow> string list \<Rightarrow> error + string" where
  "FindAvailableIP_scan networkCIDR rows =
     (case FindAvailableIP_check networkCIDR of
        Inl err \<Rightarrow> Inl err
      | Inr (ipNet, network, broadcast) \<Rightarrow>
          let usedSet = List.map_filter used_float_word rows @ [network, network + 1, broadcast]
          in case scan_free (\<lambda>c. c \<in> set usedSet) (\<lambda>c. IPNet_Contains ipNet (put32 c)) (network + 2) broadcast of
               Some candidate \<Rightarrow> Inr (IP_String (put32 candidate))
             | None \<Rightarrow> Inl (Msg (''no available IPs in network '' @ networkCIDR)))"

subsection \<open>Gateways\<close>

definition parseCIDR :: "string \<Rightarrow> error + (byte list \<times> IPNet)" where
  "parseCIDR cidr =
     (case ParseCIDR cidr of
        Inr r \<Rightarrow> Inr r
      | Inl _ \<Rightarrow>
          (case ParseIP cidr of
             Some ip \<Rightarrow>
               (case ParseCIDR (IP_String ip @ ''/24'') of
                  Inr (_, ipNet) \<Rightarrow> Inr (ip, ipNet)
                | Inl err \<Rightarrow> Inl err)
           | None \<Rightarrow> Inl (Msg (''invalid CIDR '' @ Quote cidr))))"

text \<open>\<^verbatim>\<open>for i := len(gwIP) - 1; i >= 0; i--\<close>: increment with carry, from the last byte.\<close>

fun inc_rev :: "byte list \<Rightarrow> byte list" where
  "inc_rev [] = []"
| "inc_rev (x # xs) = (if x + 1 \<noteq> 0 then (x + 1) # xs else (x + 1) # inc_rev xs)"

definition gatewayFromIP :: "string \<Rightarrow> error + string" where
  "gatewayFromIP cidrOrIP =
     (case parseCIDR cidrOrIP of
        Inl err \<Rightarrow> Inl err
      | Inr (_, ipNet) \<Rightarrow>
          let gwIP = (if length (net_IP ipNet) = 16 then
                        (case Option.bind (ParseIP (IP_String (net_IP ipNet))) To4 of
                           Some v4 \<Rightarrow> v4 | None \<Rightarrow> net_IP ipNet)
                      else net_IP ipNet)
          in Inr (IP_String (rev (inc_rev (rev gwIP)))))"

definition gatewayFromCIDR :: "string \<Rightarrow> error + string" where
  "gatewayFromCIDR cidrOrIP =
     (case ParseCIDR cidrOrIP of
        Inl err \<Rightarrow>
          (case ParseIP cidrOrIP of
             Some parsed \<Rightarrow>
               (case To4 parsed of
                  None \<Rightarrow> Inl (Msg ''not IPv4'')
                | Some v4 \<Rightarrow> Inr (IP_String (v4[3 := 1])))
           | None \<Rightarrow> Inl err)
      | Inr (_, ipNet) \<Rightarrow>
          (case To4 (net_IP ipNet) of
             Some v4 \<Rightarrow> Inr (IP_String (put32 (BigEndian_Uint32 v4 + 1)))
           | None \<Rightarrow> Inr (IP_String (net_IP ipNet))))"

subsection \<open>MAC addresses and subjects\<close>

definition GenerateNICMAC :: "string \<Rightarrow> string \<Rightarrow> string" where
  "GenerateNICMAC vmID nicID =
     (let h = sha256_Sum256 (bytes (vmID @ ''|'' @ nicID))
      in ''52:54:'' @ hex_byte (h ! 0) @ '':'' @ hex_byte (h ! 1) @ '':'' @ hex_byte (h ! 2) @ '':'' @ hex_byte (h ! 3))"

definition CommandsNodePrefix :: string where
  "CommandsNodePrefix = ''commands.node.''"

definition SubjectForNode :: "string \<Rightarrow> string \<Rightarrow> string" where
  "SubjectForNode nodeID action = CommandsNodePrefix @ nodeID @ ''.'' @ action"

subsection \<open>Specification: the pool of a network\<close>

text \<open>
  \<open>v4_cidr s\<close>: \<open>s\<close> is the text of an IPv4 network. \<open>host_pool s\<close>: the addresses of that network
  except the network address, the gateway (the address after it) and the broadcast address.
\<close>

definition v4_cidr :: "string \<Rightarrow> bool" where
  "v4_cidr s \<longleftrightarrow> (case ParseCIDR s of Inr (_, n) \<Rightarrow> length (net_IP n) = 4 | Inl _ \<Rightarrow> False)"

definition net_of :: "string \<Rightarrow> IPNet" where
  "net_of s = (case ParseCIDR s of Inr (_, n) \<Rightarrow> n | Inl _ \<Rightarrow> \<lparr>net_IP = [], net_Mask = []\<rparr>)"

definition network_word :: "string \<Rightarrow> 32 word" where
  "network_word s = BigEndian_Uint32 (net_IP (net_of s))"

definition broadcast_word :: "string \<Rightarrow> 32 word" where
  "broadcast_word s = network_word s OR NOT (BigEndian_Uint32 (net_Mask (net_of s)))"

definition host_pool :: "string \<Rightarrow> 32 word set" where
  "host_pool s = {x. IPNet_Contains (net_of s) (put32 x) \<and>
     x \<noteq> network_word s \<and> x \<noteq> network_word s + 1 \<and> x \<noteq> broadcast_word s}"

lemma v4_cidrE:
  assumes "v4_cidr s"
  obtains b k where "length b = 4" "k \<le> 32" "ParseCIDR s = Inr (v4InV6Prefix @ b, v4net b k)"
    "net_of s = v4net b k" "network_word s = net_word b k" "broadcast_word s = net_word b k OR mask (32 - k)"
proof -
  from assms obtain ip n where p: "ParseCIDR s = Inr (ip, n)" "length (net_IP n) = 4"
    by (auto simp: v4_cidr_def split: sum.splits)
  from p(1) show thesis
  proof (cases rule: ParseCIDR_cases)
    case (v4 b k)
    then have "BigEndian_Uint32 (net_Mask n) = NOT (mask (32 - k))"
      by (simp add: v4net_def CIDRMask_32)
    with v4 p show thesis
      by (intro that [of b k]) (auto simp: net_of_def network_word_def broadcast_word_def Uint32_v4net)
  qed (use p in simp)
qed

lemma ParseCIDR_v4_cidr: "k \<le> 32 \<Longrightarrow> v4_cidr (v4_String [a, b, c, d] @ CHR ''/'' # show_nat k)"
  by (simp add: v4_cidr_def ParseCIDR_String v4net_def)

lemma host_pool_range:
  assumes "v4_cidr s" "x \<in> host_pool s"
  shows "network_word s + 2 \<le> x" "x < broadcast_word s"
proof -
  obtain b k where k: "length b = 4" "k \<le> 32" "net_of s = v4net b k" "network_word s = net_word b k"
      "broadcast_word s = net_word b k OR mask (32 - k)"
    using assms(1) by (rule v4_cidrE)
  have in_block: "network_word s \<le> x" "x \<le> broadcast_word s"
    using assms(2) k block_iff [of "net_word b k" "32 - k" x]
    by (auto simp: host_pool_def Contains_iff_word net_word_masked)
  have ne: "x \<noteq> network_word s" "x \<noteq> network_word s + 1" "x \<noteq> broadcast_word s"
    using assms(2) by (auto simp: host_pool_def)
  have lt: "network_word s < x"
    using in_block ne by simp
  have s1: "unat (network_word s + 1) = unat (network_word s) + 1"
    using lt by (rule unat_Suc_less)
  then have lt1: "network_word s + 1 < x"
    using word_Suc_le_iff [OF lt, of x] lt ne by simp
  then have "network_word s + 1 + 1 \<le> x"
    using word_Suc_le_iff by blast
  then show "network_word s + 2 \<le> x"
    by (simp add: add.assoc)
  show "x < broadcast_word s"
    using in_block ne by simp
qed

text \<open>The scan loop returns the least address of its range that is free, and None when there is none.\<close>

lemma scan_free_Some:
  "scan_free used contains a b = Some x \<Longrightarrow>
   a \<le> x \<and> x < b \<and> \<not> used x \<and> contains x \<and> (\<forall>y. a \<le> y \<and> y < x \<longrightarrow> used y \<or> \<not> contains y)"
proof (induction used contains a b rule: scan_free.induct)
  case (1 used contains a b)
  have step: "a \<le> x \<and> (\<forall>y. a \<le> y \<and> y < x \<longrightarrow> used y \<or> \<not> contains y)"
    if "a < b" "a + 1 \<le> x" "used a \<or> \<not> contains a" "\<forall>y. a + 1 \<le> y \<and> y < x \<longrightarrow> used y \<or> \<not> contains y"
    using that(2-4) unfolding word_Suc_le_iff [OF that(1)] by (metis order.order_iff_strict)
  show ?case
    using 1(3) 1(1,2) step by (subst (asm) scan_free.simps) (auto split: if_splits)
qed

lemma scan_free_None:
  "scan_free used contains a b = None \<Longrightarrow> a \<le> y \<Longrightarrow> y < b \<Longrightarrow> used y \<or> \<not> contains y"
proof (induction used contains a b rule: scan_free.induct)
  case (1 used contains a b)
  have lt: "a < b"
    using 1(4,5) by simp
  have "y = a \<or> a + 1 \<le> y"
    using 1(4) by (auto simp: word_Suc_le_iff [OF lt])
  then show ?case
    using 1 lt by (subst (asm) (3) scan_free.simps) (auto split: if_splits)
qed

text \<open>The scan as both callers run it, on the network of a CIDR text.\<close>

definition host_scan :: "string \<Rightarrow> 32 word list \<Rightarrow> 32 word option" where
  "host_scan s used =
     scan_free (\<lambda>c. c \<in> set (used @ [network_word s, network_word s + 1, broadcast_word s]))
       (\<lambda>c. IPNet_Contains (net_of s) (put32 c)) (network_word s + 2) (broadcast_word s)"

lemma host_scan_Some:
  assumes "host_scan s used = Some x"
  shows "x \<in> host_pool s" "x \<notin> set used"
  using scan_free_Some [OF assms [unfolded host_scan_def]] by (auto simp: host_pool_def)

lemma host_scan_least:
  assumes "v4_cidr s" "host_scan s used = Some x" "y \<in> host_pool s" "y \<notin> set used"
  shows "x \<le> y"
proof (rule ccontr)
  assume "\<not> x \<le> y"
  then have "y < x" by simp
  moreover have "network_word s + 2 \<le> y"
    using assms(1,3) by (rule host_pool_range)
  ultimately show False
    using scan_free_Some [OF assms(2) [unfolded host_scan_def]] assms(3,4) by (auto simp: host_pool_def)
qed

lemma host_scan_None:
  assumes "v4_cidr s" "host_scan s used = None"
  shows "host_pool s \<subseteq> set used"
proof
  fix y assume y: "y \<in> host_pool s"
  show "y \<in> set used"
    using scan_free_None [OF assms(2) [unfolded host_scan_def], of y] host_pool_range [OF assms(1) y] y
    by (auto simp: host_pool_def)
qed

lemma NextAvailableIP_v4:
  assumes "v4_cidr s"
  shows "NextAvailableIP s used =
    (case host_scan s (List.map_filter used_word used) of
       Some x \<Rightarrow> (IP_String (put32 x) @ ''/'' @ show_nat (CIDRPrefix s), IP_String (put32 (network_word s + 1)), None)
     | None \<Rightarrow> ('''', IP_String (put32 (network_word s + 1)),
         Some (Msg (''no available IPs in '' @ s @ '' (used '' @ show_nat (length (remdups
           (List.map_filter used_word used @ [network_word s, network_word s + 1, broadcast_word s]))) @ '')''))))"
proof -
  obtain b k where k: "length b = 4" "ParseCIDR s = Inr (v4InV6Prefix @ b, v4net b k)" "net_of s = v4net b k"
    using assms by (rule v4_cidrE)
  then show ?thesis
    by (simp add: NextAvailableIP_def host_scan_def network_word_def broadcast_word_def CIDRPrefix_def Let_def
        split: option.split)
qed

lemma CIDRPrefix_v4:
  assumes "v4_cidr s"
  shows "CIDRPrefix s \<le> 32"
proof -
  obtain b k where k: "k \<le> 32" "ParseCIDR s = Inr (v4InV6Prefix @ b, v4net b k)"
    using assms by (rule v4_cidrE)
  then show ?thesis
    by (simp add: CIDRPrefix_def v4net_def CIDRMask_32)
qed

lemma put32_list: "\<exists>a b c d. put32 x = [a, b, c, d]"
  by (simp add: put32_def)

lemma ParseCIDR_put32:
  "k \<le> 32 \<Longrightarrow> ParseCIDR (IP_String (put32 x) @ ''/'' @ show_nat k) = Inr (v4InV6Prefix @ put32 x, v4net (put32 x) k)"
  using put32_list [of x] ParseCIDR_String [of k] by (auto simp: IP_String_4)

lemma ParseIP_put32: "ParseIP (IP_String (put32 x)) = Some (v4InV6Prefix @ put32 x)"
  using put32_list [of x] by (auto simp: IP_String_4 ParseIP_String)

lemma used_word_cidr: "k \<le> 32 \<Longrightarrow> used_word (IP_String (put32 x) @ ''/'' @ show_nat k) = Some x"
  using ParseCIDR_put32 [of k x] ParseIP_put32 [of x]
  by (simp add: used_word_def Let_def IP_String_prefix IP_String_4)

lemma v4_text_no_slash: "\<not> Contains (IP_String (put32 x)) ''/''"
  using put32_list [of x] v4_String_no_slash by (auto simp: IP_String_4 Contains_char)

lemma used_float_word_ip: "used_float_word (IP_String (put32 x)) = Some x"
  by (simp add: used_float_word_def v4_text_no_slash ParseIP_put32)

lemma FindAvailableIP_check_v4:
  assumes "v4_cidr s"
  shows "FindAvailableIP_check s =
    (if broadcast_word s - network_word s \<le> 2
     then Inl (Msg (''no available IPs in network '' @ s @ '' (prefix too small)''))
     else Inr (net_of s, network_word s, broadcast_word s))"
proof -
  obtain b k where k: "length b = 4" "ParseCIDR s = Inr (v4InV6Prefix @ b, v4net b k)" "net_of s = v4net b k"
    using assms by (rule v4_cidrE)
  then show ?thesis
    by (simp add: FindAvailableIP_check_def network_word_def broadcast_word_def Let_def)
qed

lemma host_pool_lower:
  assumes "v4_cidr s" "x \<in> host_pool s"
  shows "unat (network_word s) + 2 \<le> unat x"
proof -
  obtain b k where k: "length b = 4" "k \<le> 32" "net_of s = v4net b k" "network_word s = net_word b k"
      "broadcast_word s = net_word b k OR mask (32 - k)"
    using assms(1) by (rule v4_cidrE)
  have lt: "network_word s < x"
    using assms(2) k block_iff [of "net_word b k" "32 - k" x]
    by (auto simp: host_pool_def Contains_iff_word net_word_masked)
  moreover have "x \<noteq> network_word s + 1"
    using assms(2) by (simp add: host_pool_def)
  ultimately have "network_word s + 1 < x"
    using word_Suc_le_iff [OF lt, of x] by simp
  then show ?thesis
    using unat_Suc_less [OF lt] by (simp add: word_less_nat_alt)
qed

lemma small_pool_empty:
  assumes "v4_cidr s" "broadcast_word s - network_word s \<le> 2"
  shows "host_pool s = {}"
proof (rule ccontr)
  assume "host_pool s \<noteq> {}"
  then obtain x where x: "x \<in> host_pool s" by blast
  have lo: "unat (network_word s) + 2 \<le> unat x" and hi: "unat x < unat (broadcast_word s)"
    using host_pool_lower host_pool_range(2) assms(1) x by (auto simp: word_less_nat_alt)
  then have "unat (broadcast_word s - network_word s) = unat (broadcast_word s) - unat (network_word s)"
    by (simp add: unat_sub word_le_nat_alt)
  then show False
    using assms(2) lo hi by (simp add: word_le_nat_alt)
qed

lemma FindAvailableIP_scan_v4:
  assumes "v4_cidr s"
  shows "FindAvailableIP_scan s rows =
    (if broadcast_word s - network_word s \<le> 2
     then Inl (Msg (''no available IPs in network '' @ s @ '' (prefix too small)''))
     else case host_scan s (List.map_filter used_float_word rows) of
       Some x \<Rightarrow> Inr (IP_String (put32 x))
     | None \<Rightarrow> Inl (Msg (''no available IPs in network '' @ s)))"
  using assms by (simp add: FindAvailableIP_scan_def FindAvailableIP_check_v4 host_scan_def Let_def split: option.split)

subsection \<open>The contract of an allocator\<close>

text \<open>
  \<open>alloc p used\<close> is the text of a new address of pool \<open>p\<close>, given the texts in use; \<open>word_of\<close> reads
  an address text. Feeding each result back into the list of used texts, as the tables of
  interfaces and of floating addresses do, yields distinct addresses until the pool is used up.
\<close>

locale address_allocator =
  fixes valid :: "'p \<Rightarrow> bool"
    and pool :: "'p \<Rightarrow> 32 word set"
    and word_of :: "string \<Rightarrow> 32 word option"
    and alloc :: "'p \<Rightarrow> string list \<Rightarrow> string option"
  assumes alloc_Some: "valid p \<Longrightarrow> alloc p used = Some a \<Longrightarrow>
      \<exists>x\<in>pool p. word_of a = Some x \<and> (\<forall>u\<in>set used. word_of u \<noteq> Some x)"
    and alloc_None: "valid p \<Longrightarrow> alloc p used = None \<Longrightarrow> x \<in> pool p \<Longrightarrow> \<exists>u\<in>set used. word_of u = Some x"
begin

definition free :: "'p \<Rightarrow> string list \<Rightarrow> 32 word set" where
  "free p used = {x \<in> pool p. \<forall>u\<in>set used. word_of u \<noteq> Some x}"

primrec alloc_many :: "nat \<Rightarrow> 'p \<Rightarrow> string list \<Rightarrow> string list" where
  "alloc_many 0 p used = []"
| "alloc_many (Suc n) p used =
     (case alloc p used of None \<Rightarrow> [] | Some a \<Rightarrow> a # alloc_many n p (a # used))"

lemma alloc_free: "valid p \<Longrightarrow> alloc p used = Some a \<Longrightarrow> \<exists>x\<in>free p used. word_of a = Some x"
  using alloc_Some by (fastforce simp: free_def)

lemma free_step:
  "word_of a = Some x \<Longrightarrow> x \<in> free p used \<Longrightarrow> free p (a # used) = free p used - {x}"
  by (auto simp: free_def)

lemma alloc_iff: "valid p \<Longrightarrow> (\<exists>a. alloc p used = Some a) \<longleftrightarrow> free p used \<noteq> {}"
  using alloc_free alloc_None by (cases "alloc p used") (fastforce simp: free_def)+

lemma alloc_many_free:
  "valid p \<Longrightarrow> a \<in> set (alloc_many n p used) \<Longrightarrow> \<exists>x\<in>free p used. word_of a = Some x"
proof (induction n arbitrary: used)
  case (Suc n)
  then obtain b where b: "alloc p used = Some b" "a = b \<or> a \<in> set (alloc_many n p (b # used))"
    by (cases "alloc p used") auto
  have "free p (b # used) \<subseteq> free p used"
    by (auto simp: free_def)
  with b Suc alloc_free [of p used] show ?case
    by blast
qed simp

lemma alloc_many_distinct: "valid p \<Longrightarrow> distinct (map word_of (alloc_many n p used))"
proof (induction n arbitrary: used)
  case (Suc n)
  show ?case
  proof (cases "alloc p used")
    case (Some a)
    have "word_of a \<notin> word_of ` set (alloc_many n p (a # used))"
      using alloc_many_free [OF Suc.prems, of _ n "a # used"] by (fastforce simp: free_def)
    with Suc Some show ?thesis by simp
  qed simp
qed simp

lemma alloc_many_length: "valid p \<Longrightarrow> length (alloc_many n p used) = min n (card (free p used))"
proof (induction n arbitrary: used)
  case (Suc n)
  show ?case
  proof (cases "alloc p used")
    case None
    then show ?thesis
      using alloc_iff [OF Suc.prems, of used] by simp
  next
    case (Some a)
    obtain x where x: "x \<in> free p used" "word_of a = Some x"
      using alloc_free [OF Suc.prems Some] by blast
    have "card (free p used) = Suc (card (free p used - {x}))"
      using x(1) by (metis card_Suc_Diff1 finite)
    then show ?thesis
      using Suc Some x by (simp add: free_step)
  qed
qed simp

end

text \<open>The two allocators of the code.\<close>

definition next_ip :: "string \<Rightarrow> string list \<Rightarrow> string option" where
  "next_ip s used = (case NextAvailableIP s used of (a, _, None) \<Rightarrow> Some a | (_, _, Some _) \<Rightarrow> None)"

definition next_floating_ip :: "string \<Rightarrow> string list \<Rightarrow> string option" where
  "next_floating_ip s used = (case FindAvailableIP_scan s used of Inr a \<Rightarrow> Some a | Inl _ \<Rightarrow> None)"

interpretation nic_ip: address_allocator v4_cidr host_pool used_word next_ip
proof
  fix p used a assume "v4_cidr p" "next_ip p used = Some a"
  then obtain x where "host_scan p (List.map_filter used_word used) = Some x"
      "a = IP_String (put32 x) @ ''/'' @ show_nat (CIDRPrefix p)"
    by (auto simp: next_ip_def NextAvailableIP_v4 split: option.splits)
  with \<open>v4_cidr p\<close> show "\<exists>x\<in>host_pool p. used_word a = Some x \<and> (\<forall>u\<in>set used. used_word u \<noteq> Some x)"
    using host_scan_Some used_word_cidr [OF CIDRPrefix_v4, of p x] by (fastforce simp: set_map_filter)
next
  fix p used x assume "v4_cidr p" "next_ip p used = None" "x \<in> host_pool p"
  then show "\<exists>u\<in>set used. used_word u = Some x"
    using host_scan_None [of p "List.map_filter used_word used"]
    by (auto simp: next_ip_def NextAvailableIP_v4 set_map_filter split: option.splits)
qed

interpretation floating_ip: address_allocator v4_cidr host_pool used_float_word next_floating_ip
proof
  fix p used a assume v: "v4_cidr p" and "next_floating_ip p used = Some a"
  then obtain x where "host_scan p (List.map_filter used_float_word used) = Some x" "a = IP_String (put32 x)"
    by (auto simp: next_floating_ip_def FindAvailableIP_scan_v4 split: option.splits sum.splits if_splits)
  then show "\<exists>x\<in>host_pool p. used_float_word a = Some x \<and> (\<forall>u\<in>set used. used_float_word u \<noteq> Some x)"
    using host_scan_Some used_float_word_ip by (fastforce simp: set_map_filter)
next
  fix p used x assume v: "v4_cidr p" "next_floating_ip p used = None" "x \<in> host_pool p"
  show "\<exists>u\<in>set used. used_float_word u = Some x"
  proof (cases "broadcast_word p - network_word p \<le> 2")
    case True
    with v small_pool_empty show ?thesis by blast
  next
    case False
    with v show ?thesis
      using host_scan_None [of p "List.map_filter used_float_word used"]
      by (auto simp: next_floating_ip_def FindAvailableIP_scan_v4 set_map_filter split: option.splits)
  qed
qed

subsection \<open>Gateways as words\<close>

lemma unat_be32: "unat (be32 a b c d) = ((unat a * 256 + unat b) * 256 + unat c) * 256 + unat d"
proof -
  have lt: "unat a < 2 ^ 8" "unat b < 2 ^ 8" "unat c < 2 ^ 8" "unat d < 2 ^ 8"
    using unat_byte by simp_all
  have "unat (be32 a b c d) = push_bit 24 (unat a) OR push_bit 16 (unat b) OR push_bit 8 (unat c) OR unat d"
    by (rule bit_eqI) (auto simp: bit_be32 bit_simps dest: bit_imp_le_length)
  also have "\<dots> = push_bit 24 (unat a) + (push_bit 16 (unat b) + (push_bit 8 (unat c) + unat d))"
  proof -
    have 1: "push_bit 8 (unat c) AND unat d = 0"
      by (rule bit_eqI) (auto simp: bit_simps dest: bit_imp_le_length)
    have 2: "push_bit 16 (unat b) AND (push_bit 8 (unat c) OR unat d) = 0"
      by (rule bit_eqI) (auto simp: bit_simps dest: bit_imp_le_length)
    have 3: "push_bit 24 (unat a) AND (push_bit 16 (unat b) OR (push_bit 8 (unat c) OR unat d)) = 0"
      by (rule bit_eqI) (auto simp: bit_simps dest: bit_imp_le_length)
    show ?thesis
      using 1 2 3 by (simp add: disjunctive_add_eq_or or.assoc)
  qed
  finally show ?thesis
    by (simp add: push_bit_eq_mult)
qed

text \<open>Incrementing four bytes with carry is addition of 1 on the word, wrap-around included.\<close>

lemma unat_byte_Suc: "unat ((x :: byte) + 1) = (if unat x = 255 then 0 else unat x + 1)"
  using unat_byte [of x] by (simp add: unat_word_ariths)

lemma byte_Suc_zero: "(x :: byte) + 1 = 0 \<longleftrightarrow> unat x = 255"
  using unat_byte_Suc [of x] by (metis Suc_eq_plus1 nat.simps(3) unat_eq_zero)

lemma unat_word32_Suc: "unat ((x :: 32 word) + 1) = (unat x + 1) mod 4294967296"
  by (simp add: unat_word_ariths)

lemma inc_bytes_word: "BigEndian_Uint32 (rev (inc_rev [d, c, b, a])) = be32 a b c d + 1"
proof -
  have "unat (BigEndian_Uint32 (rev (inc_rev [d, c, b, a]))) = unat (be32 a b c d + 1)"
    using unat_byte [of a] unat_byte [of b] unat_byte [of c] unat_byte [of d]
    by (auto simp: byte_Suc_zero unat_be32 unat_byte_Suc unat_word32_Suc)
  then show ?thesis
    by (simp only: word_unat_eq_iff)
qed

lemma length_inc_rev [simp]: "length (inc_rev bs) = length bs"
  by (induction bs) auto

lemma inc_bytes:
  assumes "length b = 4"
  shows "rev (inc_rev (rev b)) = put32 (BigEndian_Uint32 b + 1)"
proof -
  obtain w x y z where b: "b = [w, x, y, z]"
    using assms by (rule length4E)
  have "BigEndian_Uint32 (rev (inc_rev (rev b))) = BigEndian_Uint32 b + 1"
    using inc_bytes_word [of z y x w] by (simp add: b)
  then show ?thesis
    using put32_Uint32 [of "rev (inc_rev (rev b))"] assms by simp
qed

lemma gateways_of_cidr:
  assumes "v4_cidr s"
  shows "gatewayFromIP s = Inr (IP_String (put32 (network_word s + 1)))"
    "gatewayFromCIDR s = Inr (IP_String (put32 (network_word s + 1)))"
    "GatewayIP s = Inr (IP_String (put32 (network_word s + 1)))"
proof -
  obtain b k where k: "length b = 4" "ParseCIDR s = Inr (v4InV6Prefix @ b, v4net b k)" "net_of s = v4net b k"
    using assms by (rule v4_cidrE)
  show "gatewayFromIP s = Inr (IP_String (put32 (network_word s + 1)))"
    using k by (simp add: gatewayFromIP_def parseCIDR_def inc_bytes network_word_def)
  show "gatewayFromCIDR s = Inr (IP_String (put32 (network_word s + 1)))"
    using k by (simp add: gatewayFromCIDR_def network_word_def)
  show "GatewayIP s = Inr (IP_String (put32 (network_word s + 1)))"
    using k by (simp add: GatewayIP_def network_word_def)
qed

text \<open>\<open>v4_bare s\<close>: an IPv4 address without a prefix length.\<close>

definition v4_bare :: "string \<Rightarrow> bool" where
  "v4_bare s \<longleftrightarrow> (case ParseCIDR s of
      Inl _ \<Rightarrow> (case ParseIP s of Some ip \<Rightarrow> To4 ip \<noteq> None | None \<Rightarrow> False)
    | Inr _ \<Rightarrow> False)"

lemma CIDRMask_24: "CIDRMask 24 32 = [-1, -1, -1, 0]"
  by code_simp

lemma show_nat_24: "show_nat 24 = ''24''"
  by code_simp

lemma byte_inc_0: "(0 :: byte) + 1 = 1" "(1 :: byte) \<noteq> 0"
  by simp_all

lemma To4_SomeE:
  assumes "To4 ip = Some v4"
  obtains w x y z where "v4 = [w, x, y, z]"
proof -
  have "length v4 = 4"
    using assms by (auto simp: To4_def split: if_splits)
  then show thesis
    using that by (rule length4E)
qed

lemma gateways_of_bare:
  assumes "v4_bare s"
  shows "gatewayFromIP s = gatewayFromCIDR s" "\<exists>x. gatewayFromCIDR s = Inr (IP_String (put32 x))"
proof -
  obtain err ip v4 where p: "ParseCIDR s = Inl err" "ParseIP s = Some ip" "To4 ip = Some v4"
    using assms by (auto simp: v4_bare_def split: sum.splits option.splits)
  obtain w x y z where v4: "v4 = [w, x, y, z]"
    using p(3) by (rule To4_SomeE)
  have str: "IP_String ip = v4_String v4"
    using p by (auto simp: IP_String_def dest: ParseIP_length)
  have net: "ParseCIDR (v4_String v4 @ ''/24'') = Inr (v4InV6Prefix @ v4, v4net v4 24)"
    using ParseCIDR_String [of 24 w x y z] by (simp add: v4 show_nat_24)
  have "net_IP (v4net v4 24) = [w, x, y, 0]"
    by (simp add: v4net_def CIDRMask_24 v4)
  then have "gatewayFromIP s = Inr (IP_String [w, x, y, 1])"
    using p net by (simp add: gatewayFromIP_def parseCIDR_def str)
  moreover have "gatewayFromCIDR s = Inr (IP_String [w, x, y, 1])"
    using p by (simp add: gatewayFromCIDR_def v4 numeral_eq_Suc)
  ultimately show "gatewayFromIP s = gatewayFromCIDR s" "\<exists>x. gatewayFromCIDR s = Inr (IP_String (put32 x))"
    by (auto simp only: put32_be32 [of w x y 1, symmetric])
qed

subsection \<open>The size of a pool\<close>

lemma host_pool_unat:
  assumes "v4_cidr s"
  shows "unat ` host_pool s = {unat (network_word s) + 2 ..< unat (network_word s) + (2 ^ (32 - CIDRPrefix s) - 1)}"
proof -
  obtain b k where k: "length b = 4" "k \<le> 32" "ParseCIDR s = Inr (v4InV6Prefix @ b, v4net b k)"
      "net_of s = v4net b k" "network_word s = net_word b k" "broadcast_word s = net_word b k OR mask (32 - k)"
    using assms by (rule v4_cidrE)
  have pre: "CIDRPrefix s = k"
    using k by (simp add: CIDRPrefix_def v4net_def CIDRMask_32)
  have bc: "unat (broadcast_word s) = unat (network_word s) + (2 ^ (32 - k) - 1)"
    using unat_or_mask [OF net_word_masked [of b k]] k by simp
  show ?thesis
  proof (intro equalityI subsetI)
    fix n assume "n \<in> unat ` host_pool s"
    then show "n \<in> {unat (network_word s) + 2 ..< unat (network_word s) + (2 ^ (32 - CIDRPrefix s) - 1)}"
      using host_pool_lower [OF assms] host_pool_range(2) [OF assms] by (auto simp: pre bc word_less_nat_alt)
  next
    fix n assume n: "n \<in> {unat (network_word s) + 2 ..< unat (network_word s) + (2 ^ (32 - CIDRPrefix s) - 1)}"
    define x :: "32 word" where "x = of_nat n"
    have "n < 2 ^ 32"
      using n bc unsigned_less [where 'a = nat, of "broadcast_word s"] by (simp add: pre)
    then have ux: "unat x = n"
      by (simp add: x_def unat_of_nat take_bit_eq_mod)
    have lt: "network_word s < x" and "x < broadcast_word s"
      using n ux by (auto simp: word_less_nat_alt bc pre)
    moreover have "x \<noteq> network_word s + 1"
      using n ux unat_Suc_less [OF lt] by auto
    ultimately have "x \<in> host_pool s"
      using k block_iff [of "net_word b k" "32 - k" x]
      by (auto simp: host_pool_def Contains_iff_word net_word_masked)
    with ux show "n \<in> unat ` host_pool s"
      by blast
  qed
qed

lemma card_host_pool:
  assumes "v4_cidr s"
  shows "card (host_pool s) = 2 ^ (32 - CIDRPrefix s) - 3"
proof -
  have "card (host_pool s) = card (unat ` host_pool s)"
    by (rule card_image [symmetric]) (simp add: inj_on_def word_unat_eq_iff)
  also have "\<dots> = 2 ^ (32 - CIDRPrefix s) - 3"
    unfolding host_pool_unat [OF assms] by simp
  finally show ?thesis .
qed

subsection \<open>Properties\<close>

text \<open>
  C15. On the text of an IPv4 network, \<open>NextAvailableIP\<close> returns the least address of the network
  that is not the network, gateway or broadcast address and not among the used ones, printed with
  the prefix length of the network; it fails only when every such address is in use. In both
  cases the gateway it returns is the address after the network address.
\<close>

theorem NextAvailableIP_least:
  assumes "v4_cidr s"
  shows "case NextAvailableIP s used of (a, gw, err) \<Rightarrow>
    gw = IP_String (put32 (network_word s + 1)) \<and>
    (case err of
       None \<Rightarrow> \<exists>x\<in>host_pool s. a = IP_String (put32 x) @ ''/'' @ show_nat (CIDRPrefix s) \<and>
         (\<forall>u\<in>set used. used_word u \<noteq> Some x) \<and>
         (\<forall>y\<in>host_pool s. y < x \<longrightarrow> (\<exists>u\<in>set used. used_word u = Some y))
     | Some e \<Rightarrow> \<forall>y\<in>host_pool s. \<exists>u\<in>set used. used_word u = Some y)"
proof (cases "host_scan s (List.map_filter used_word used)")
  case None
  then show ?thesis
    using host_scan_None [OF assms None] by (auto simp: NextAvailableIP_v4 [OF assms] set_map_filter)
next
  case (Some x)
  have "\<exists>u\<in>set used. used_word u = Some y" if "y \<in> host_pool s" "y < x" for y
    using host_scan_least [OF assms Some that(1)] that(2) by (force simp: set_map_filter)
  then show ?thesis
    using host_scan_Some [OF Some] Some by (auto simp: NextAvailableIP_v4 [OF assms] set_map_filter)
qed

theorem NextAvailableIP_least_witness:
  "v4_cidr ''10.0.0.0/30'' \<and>
   (case NextAvailableIP ''10.0.0.0/30'' [''10.0.0.2/30''] of (a, gw, err) \<Rightarrow>
      gw = IP_String (put32 (network_word ''10.0.0.0/30'' + 1)))"
proof -
  have v: "v4_cidr ''10.0.0.0/30''"
    by code_simp
  then show ?thesis
    using NextAvailableIP_least [OF v, of "[''10.0.0.2/30'']"] by (auto split: prod.splits)
qed

text \<open>
  C16. Repeated allocation for interfaces: when every address \<open>NextAvailableIP\<close> returns is added
  to the used ones, the addresses are pairwise distinct, none of them was in use before, and
  from an unused network of prefix length \<open>k\<close> exactly \<open>2^(32-k) - 3\<close> allocations succeed.
\<close>

theorem NextAvailableIP_series:
  assumes "v4_cidr s"
  shows "distinct (map used_word (nic_ip.alloc_many n s used)) \<and>
    (\<forall>a\<in>set (nic_ip.alloc_many n s used).
       \<exists>x\<in>host_pool s. used_word a = Some x \<and> (\<forall>u\<in>set used. used_word u \<noteq> Some x)) \<and>
    length (nic_ip.alloc_many n s []) = min n (2 ^ (32 - CIDRPrefix s) - 3)"
proof (intro conjI ballI)
  show "distinct (map used_word (nic_ip.alloc_many n s used))"
    using assms by (rule nic_ip.alloc_many_distinct)
  show "\<exists>x\<in>host_pool s. used_word a = Some x \<and> (\<forall>u\<in>set used. used_word u \<noteq> Some x)"
    if "a \<in> set (nic_ip.alloc_many n s used)" for a
    using nic_ip.alloc_many_free [OF assms that] by (fastforce simp: nic_ip.free_def)
  show "length (nic_ip.alloc_many n s []) = min n (2 ^ (32 - CIDRPrefix s) - 3)"
    using nic_ip.alloc_many_length [OF assms, of n "[]"] by (simp add: nic_ip.free_def card_host_pool [OF assms])
qed

theorem NextAvailableIP_series_witness:
  "length (nic_ip.alloc_many 300 ''192.168.7.0/24'' []) = 253 \<and>
   distinct (map used_word (nic_ip.alloc_many 300 ''192.168.7.0/24'' []))"
proof -
  have v: "v4_cidr ''192.168.7.0/24''" "CIDRPrefix ''192.168.7.0/24'' = 24"
    by code_simp+
  then show ?thesis
    using NextAvailableIP_series [OF v(1), of 300 "[]"] by simp
qed

text \<open>
  The scan of the floating IP repository meets the same contract: distinct addresses of the
  pool, and exactly as many as the pool has.
\<close>

theorem FindAvailableIP_series:
  assumes "v4_cidr s"
  shows "distinct (map used_float_word (floating_ip.alloc_many n s used)) \<and>
    length (floating_ip.alloc_many n s used) = min n (card (floating_ip.free s used)) \<and>
    floating_ip.free s [] = host_pool s"
  using floating_ip.alloc_many_distinct [OF assms] floating_ip.alloc_many_length [OF assms]
  by (simp add: floating_ip.free_def)

theorem FindAvailableIP_series_witness:
  "v4_cidr ''10.1.0.0/16'' \<and> distinct (map used_float_word (floating_ip.alloc_many 9 ''10.1.0.0/16'' []))"
proof -
  have v: "v4_cidr ''10.1.0.0/16''"
    by code_simp
  then show ?thesis
    using FindAvailableIP_series [OF v] by blast
qed

text \<open>
  C27. The control plane (\<open>gatewayFromIP\<close>), the node agent (\<open>gatewayFromCIDR\<close>) and \<open>GatewayIP\<close>
  compute the same gateway for every IPv4 network, the address after the network address, carry and
  wrap-around included; the first two also agree on an address without a prefix.
\<close>

theorem gateways_agree:
  assumes "v4_cidr s \<or> v4_bare s"
  shows "gatewayFromIP s = gatewayFromCIDR s \<and> (\<exists>x. gatewayFromIP s = Inr (IP_String (put32 x))) \<and>
    (v4_cidr s \<longrightarrow> GatewayIP s = gatewayFromIP s \<and> gatewayFromIP s = Inr (IP_String (put32 (network_word s + 1))))"
  using assms gateways_of_cidr [of s] gateways_of_bare [of s] by fastforce

theorem gateways_agree_witness:
  "gatewayFromIP ''10.0.3.77'' = gatewayFromCIDR ''10.0.3.77'' \<and> v4_bare ''10.0.3.77''"
proof -
  have v: "v4_bare ''10.0.3.77''"
    by code_simp
  then show ?thesis
    using gateways_agree [of "''10.0.3.77''"] by blast
qed

text \<open>
  A bridge name fits the 15 characters a Linux interface name may have, and two networks share
  a bridge exactly when the first eight characters of their ids, dashes removed, are the same.
\<close>

theorem BridgeForNetwork_name:
  assumes "n \<noteq> ''''" "m \<noteq> ''''"
  shows "\<exists>br. BridgeForNetwork n = Inr br \<and> HasPrefix br ''br-'' \<and> length br \<le> 11 \<and>
    (BridgeForNetwork m = Inr br \<longleftrightarrow>
       take 8 (filter (\<lambda>c. c \<noteq> CHR ''-'') m) = take 8 (filter (\<lambda>c. c \<noteq> CHR ''-'') n))"
  using assms by (auto simp: BridgeForNetwork_def Let_def ReplaceAllChar_Nil)

theorem BridgeForNetwork_name_witness:
  "\<exists>br. BridgeForNetwork ''550e8400-e29b'' = Inr br \<and> BridgeForNetwork ''550e8400-ffff'' = Inr br"
  using BridgeForNetwork_name [of "''550e8400-e29b''" "''550e8400-ffff''"] by auto

end
