(* ===== verification/CpRepos.thy ===== *)
theory CpRepos
  imports World Ipam
begin

section \<open>Repositories of the control plane: \<^verbatim>\<open>services/controlplane/postgres\<close>\<close>

text \<open>
  One definition per method; a method is one or more statements (\<open>sql\<close>) whose SQL is read off the
  query text: arguments are converted first (a text that is no UUID, address or
  enumeration value is an error), then constraints are checked, then the rows change. \<^verbatim>\<open>ON DELETE\<close>
  actions of the migrations are part of the deleting statement. A repository read that finds no row
  returns \<open>None\<close>, as the code returns nil without an error.

  The lemmas show that every method keeps \<open>db_ok\<close>, on success and on failure, and interpret the
  locale \<open>id_repository\<close> (what a get returns after a create or delete) on the repositories.
\<close>

subsection \<open>Selecting\<close>

definition select_one :: "(world \<Rightarrow> 'r list) \<Rightarrow> ('r \<Rightarrow> bool) \<Rightarrow> 'r act" where
  "select_one tbl P = (\<lambda>w. case find P (tbl w) of None \<Rightarrow> (Inl ErrNoRows, w) | Some r \<Rightarrow> (Inr r, w))"

text \<open>\<^verbatim>\<open>if err == pgx.ErrNoRows { return nil, nil }\<close>, any other error wrapped with \<open>p\<close>.\<close>

definition get_opt :: "string \<Rightarrow> 'r act \<Rightarrow> 'r option act" where
  "get_opt p m = tryM m (\<lambda>r. case r of
       Inl e \<Rightarrow> if e = ErrNoRows then ret None else throw (Wrap p e)
     | Inr x \<Rightarrow> ret (Some x))"

text \<open>A condition \<^verbatim>\<open>column = $n\<close> that is left out when the filter's string is empty.\<close>

definition uuid_cond :: "env \<Rightarrow> string \<Rightarrow> (string option \<Rightarrow> 'a act) \<Rightarrow> 'a act" where
  "uuid_cond E s k = (if s = '''' then k None else uuid_arg E s (\<lambda>c. k (Some c)))"

definition enum_cond :: "string \<Rightarrow> string list \<Rightarrow> string \<Rightarrow> 'a act \<Rightarrow> 'a act" where
  "enum_cond ty names s k = (if s = '''' \<or> s \<in> set names then k else throw (bad_enum ty s))"

definition cond_eq :: "string option \<Rightarrow> string option \<Rightarrow> bool" where
  "cond_eq c v \<longleftrightarrow> c = None \<or> c = v"

definition str_eq :: "string \<Rightarrow> string \<Rightarrow> bool" where
  "str_eq f v \<longleftrightarrow> f = '''' \<or> v = f"

definition name_like :: "string \<Rightarrow> string \<Rightarrow> bool" where
  "name_like search name \<longleftrightarrow> search = '''' \<or> ilike name (search_pattern search)"

text \<open>The count query, then the page: the shape of every list method with paging.\<close>

definition list_query :: "string \<Rightarrow> 'r list act \<Rightarrow> int \<Rightarrow> int \<Rightarrow> ('r list \<times> int) act" where
  "list_query pre rows page perPage =
     bindE (wrapE (pre @ '': count'') rows) (\<lambda>counted.
     bindE (wrapE (pre @ '': list query'') rows) (\<lambda>rs.
     bindE (wrapE (pre @ '': rows error'')
       (limit_offset (per_page_or_20 perPage) (page_offset (page_or_1 page) (per_page_or_20 perPage)) (rev rs))) (\<lambda>pg.
     ret (pg, int (length counted)))))"

definition select_where :: "(world \<Rightarrow> 'r list) \<Rightarrow> ('r \<Rightarrow> bool) \<Rightarrow> 'r list act" where
  "select_where tbl P = gets (\<lambda>w. filter P (tbl w))"

subsection \<open>Virtual machines\<close>

definition disk_types :: "string list" where
  "disk_types = [''qcow2'', ''raw'', ''block'']"

definition insert_vm :: "env \<Rightarrow> VirtualMachine \<Rightarrow> unit act" where
  "insert_vm E vm = sql E (
     uuid_arg E (vm_ID vm) (\<lambda>i.
     uuid_opt E (vm_NodeID vm) (\<lambda>n.
     uuid_arg E (vm_OrganizationID vm) (\<lambda>org.
     uuid_opt E (vm_ProjectID vm) (\<lambda>p.
     uuid_opt E (vm_SSHKeyID vm) (\<lambda>k.
     require (\<lambda>w. i \<notin> vm_ID ` set (virtual_machines w)) (unique_violation ''virtual_machines_pkey'')
     (require (\<lambda>w. case n of None \<Rightarrow> True | Some x \<Rightarrow> x \<in> node_ID ` set (nodes w))
        (fk_violation ''virtual_machines_node_id_fkey'')
     (modify (\<lambda>w. w\<lparr>virtual_machines := virtual_machines w @
        [vm\<lparr>vm_ID := i, vm_NodeID := n, vm_OrganizationID := org, vm_ProjectID := p, vm_SSHKeyID := k,
            vm_Disks := [], vm_NetworkInterfaces := []\<rparr>]\<rparr>)))))))))"

definition insert_disk :: "env \<Rightarrow> string \<Rightarrow> Disk \<Rightarrow> unit act" where
  "insert_disk E vmID d = sql E (
     uuid_arg E (d_ID d) (\<lambda>i.
     uuid_arg E vmID (\<lambda>v.
     uuid_nullif E (d_ImageID d) (\<lambda>im.
     if d_Type d \<notin> set disk_types then throw (bad_enum ''disk_type'' (d_Type d))
     else require (\<lambda>w. i \<notin> (d_ID \<circ> snd) ` set (vm_disks w)) (unique_violation ''vm_disks_pkey'')
     (require (\<lambda>w. v \<in> vm_ID ` set (virtual_machines w)) (fk_violation ''vm_disks_vm_id_fkey'')
     (require (\<lambda>w. im = '''' \<or> im \<in> img_ID ` set (images w)) (fk_violation ''vm_disks_image_id_fkey'')
     (modify (\<lambda>w. w\<lparr>vm_disks := vm_disks w @ [(v, d\<lparr>d_ID := i, d_ImageID := im\<rparr>)]\<rparr>))))))))"

definition insert_nic :: "env \<Rightarrow> string \<Rightarrow> NetworkInterface \<Rightarrow> unit act" where
  "insert_nic E vmID n = sql E (
     uuid_arg E (nic_ID n) (\<lambda>i.
     uuid_arg E vmID (\<lambda>v.
     uuid_nullif E (nic_NetworkID n) (\<lambda>net.
     inet_args E (nic_IPv4Addresses n) (\<lambda>v4.
     inet_args E (nic_IPv6Addresses n) (\<lambda>v6.
     let row = (v, n\<lparr>nic_ID := i, nic_NetworkID := net, nic_IPv4Addresses := v4, nic_IPv6Addresses := v6\<rparr>) in
     require (\<lambda>w. i \<notin> (nic_ID \<circ> snd) ` set (vm_network_interfaces w)) (unique_violation ''vm_network_interfaces_pkey'')
     (require (\<lambda>w. v \<in> vm_ID ` set (virtual_machines w)) (fk_violation ''vm_network_interfaces_vm_id_fkey'')
     (require (\<lambda>w. case nic_ip_key row of None \<Rightarrow> True
                 | Some k \<Rightarrow> k \<notin> set (List.map_filter nic_ip_key (vm_network_interfaces w)))
        (unique_violation ''idx_vm_nics_unique_ip_per_network'')
     (require (\<lambda>w. case nic_mac_key row of None \<Rightarrow> True
                 | Some k \<Rightarrow> k \<notin> set (List.map_filter nic_mac_key (vm_network_interfaces w)))
        (unique_violation ''idx_vm_nics_unique_mac'')
     (modify (\<lambda>w. w\<lparr>vm_network_interfaces := vm_network_interfaces w @ [row]\<rparr>)))))))))))"

text \<open>A statement that changes nothing: \<^verbatim>\<open>BEGIN\<close> and \<^verbatim>\<open>COMMIT\<close>.\<close>

definition no_op :: "env \<Rightarrow> unit act" where
  "no_op E = sql E (ret ())"

definition VMRepository_Create :: "env \<Rightarrow> VirtualMachine \<Rightarrow> unit act" where
  "VMRepository_Create E vm = in_tx (
     bindE (wrapE ''vm_repo: begin tx'' (no_op E)) (\<lambda>_.
     bindE (wrapE ''vm_repo: insert vm'' (insert_vm E vm)) (\<lambda>_.
     bindE (mapE (\<lambda>d. wrapE ''vm_repo: insert disk'' (insert_disk E (vm_ID vm) d)) (vm_Disks vm)) (\<lambda>_.
     bindE (mapE (\<lambda>n. wrapE ''vm_repo: insert nic'' (insert_nic E (vm_ID vm) n)) (vm_NetworkInterfaces vm)) (\<lambda>_.
     no_op E)))))"

definition disks_of :: "world \<Rightarrow> string \<Rightarrow> Disk list" where
  "disks_of w i = sort_key d_Order (map snd (filter (\<lambda>r. fst r = i) (vm_disks w)))"

definition nics_of :: "world \<Rightarrow> string \<Rightarrow> NetworkInterface list" where
  "nics_of w i = map snd (filter (\<lambda>r. fst r = i) (vm_network_interfaces w))"

definition loadRelated :: "env \<Rightarrow> VirtualMachine \<Rightarrow> VirtualMachine act" where
  "loadRelated E vm =
     bindE (wrapE ''vm_repo: query disks'' (sql E (uuid_arg E (vm_ID vm) (\<lambda>i. gets (\<lambda>w. disks_of w i))))) (\<lambda>ds.
     bindE (wrapE ''vm_repo: query nics'' (sql E (uuid_arg E (vm_ID vm) (\<lambda>i. gets (\<lambda>w. nics_of w i))))) (\<lambda>ns.
     ret (vm\<lparr>vm_Disks := vm_Disks vm @ ds, vm_NetworkInterfaces := vm_NetworkInterfaces vm @ ns\<rparr>)))"

definition scanVM :: "env \<Rightarrow> string \<Rightarrow> VirtualMachine act" where
  "scanVM E ident = sql E (uuid_arg E ident (\<lambda>i. select_one virtual_machines (\<lambda>v. vm_ID v = i)))"

definition VMRepository_GetByID :: "env \<Rightarrow> string \<Rightarrow> VirtualMachine option act" where
  "VMRepository_GetByID E ident =
     bindE (get_opt ''vm_repo: get by id'' (scanVM E ident)) (\<lambda>r.
       case r of
         None \<Rightarrow> ret None
       | Some vm \<Rightarrow> bindE (loadRelated E vm) (\<lambda>vm'. ret (Some vm')))"

definition vm_rows :: "env \<Rightarrow> VMFilter \<Rightarrow> VirtualMachine list act" where
  "vm_rows E f = sql E (
     uuid_cond E (vf_OrganizationID f) (\<lambda>org.
     uuid_cond E (vf_ProjectID f) (\<lambda>p.
     uuid_cond E (vf_NodeID f) (\<lambda>n.
     enum_cond ''vm_status'' VMStatus_names (vf_Status f)
     (select_where virtual_machines (\<lambda>v.
        cond_eq org (Some (vm_OrganizationID v)) \<and> cond_eq p (vm_ProjectID v) \<and> cond_eq n (vm_NodeID v) \<and>
        str_eq (vf_Status f) (VMStatus_string (vm_Status v)) \<and>
        name_like (vf_Search f) (vm_Name v)))))))"

definition batchLoadRelated :: "env \<Rightarrow> VirtualMachine list \<Rightarrow> VirtualMachine list act" where
  "batchLoadRelated E vms =
     bindE (wrapE ''vm_repo: batch query disks'' (sql E (gets (\<lambda>w v. disks_of w (vm_ID v))))) (\<lambda>ds.
     bindE (wrapE ''vm_repo: batch query nics'' (sql E (gets (\<lambda>w v. nics_of w (vm_ID v))))) (\<lambda>ns.
     ret (map (\<lambda>v. v\<lparr>vm_Disks := vm_Disks v @ ds v, vm_NetworkInterfaces := vm_NetworkInterfaces v @ ns v\<rparr>) vms)))"

definition VMRepository_List :: "env \<Rightarrow> VMFilter \<Rightarrow> (VirtualMachine list \<times> int) act" where
  "VMRepository_List E f =
     bindE (list_query ''vm_repo'' (vm_rows E f) (vf_Page f) (vf_PerPage f)) (\<lambda>(vms, n).
       if vms \<noteq> [] then bindE (batchLoadRelated E vms) (\<lambda>vms'. ret (vms', n)) else ret ([], n))"

text \<open>\<^verbatim>\<open>UPDATE\<close>: the rows with \<open>P\<close> change by \<open>f\<close>.\<close>

definition update_where :: "('r \<Rightarrow> bool) \<Rightarrow> ('r \<Rightarrow> 'r) \<Rightarrow> 'r list \<Rightarrow> 'r list" where
  "update_where P f rs = map (\<lambda>r. if P r then f r else r) rs"

definition VMRepository_Update :: "env \<Rightarrow> VirtualMachine \<Rightarrow> unit act" where
  "VMRepository_Update E vm = wrapE ''vm_repo: update'' (sql E (uuid_arg E (vm_ID vm) (\<lambda>i.
     modify (\<lambda>w. w\<lparr>virtual_machines := update_where (\<lambda>x. vm_ID x = i) (\<lambda>v. v\<lparr>vm_Name := vm_Name vm, vm_VCpus := vm_VCpus vm,
       vm_MemoryMB := vm_MemoryMB vm, vm_Metadata := vm_Metadata vm, vm_Labels := vm_Labels vm, vm_Tags := vm_Tags vm\<rparr>)
       (virtual_machines w)\<rparr>))))"

definition VMRepository_Delete :: "env \<Rightarrow> string \<Rightarrow> unit act" where
  "VMRepository_Delete E ident = wrapE ''vm_repo: delete'' (sql E (uuid_arg E ident (\<lambda>i.
     modify (\<lambda>w. w\<lparr>virtual_machines := filter (\<lambda>v. vm_ID v \<noteq> i) (virtual_machines w),
       vm_disks := filter (\<lambda>r. fst r \<noteq> i) (vm_disks w),
       vm_network_interfaces := filter (\<lambda>r. fst r \<noteq> i) (vm_network_interfaces w),
       snapshots := filter (\<lambda>s. snap_VMID s \<noteq> i) (snapshots w),
       backups := filter (\<lambda>b. bak_VMID b \<noteq> i) (backups w)\<rparr>))))"

definition VMRepository_UpdateStatus :: "env \<Rightarrow> string \<Rightarrow> VMStatus \<Rightarrow> unit act" where
  "VMRepository_UpdateStatus E ident st = wrapE ''vm_repo: update status'' (sql E (uuid_arg E ident (\<lambda>i.
     modify (\<lambda>w. w\<lparr>virtual_machines := update_where (\<lambda>x. vm_ID x = i) (\<lambda>v. v\<lparr>vm_Status := st\<rparr>) (virtual_machines w)\<rparr>))))"

definition VMRepository_AssignNode :: "env \<Rightarrow> string \<Rightarrow> string \<Rightarrow> unit act" where
  "VMRepository_AssignNode E ident nodeID = wrapE ''vm_repo: assign node'' (sql E (
     uuid_arg E nodeID (\<lambda>n. uuid_arg E ident (\<lambda>i.
     require (\<lambda>w. i \<notin> vm_ID ` set (virtual_machines w) \<or> n \<in> node_ID ` set (nodes w))
       (fk_violation ''virtual_machines_node_id_fkey'')
     (modify (\<lambda>w. w\<lparr>virtual_machines := update_where (\<lambda>x. vm_ID x = i) (\<lambda>v. v\<lparr>vm_NodeID := Some n\<rparr>) (virtual_machines w)\<rparr>))))))"

subsection \<open>Nodes\<close>

definition NodeRepository_Create :: "env \<Rightarrow> Node \<Rightarrow> unit act" where
  "NodeRepository_Create E n = wrapE ''node_repo: insert'' (sql E (uuid_arg E (node_ID n) (\<lambda>i.
     require (\<lambda>w. i \<notin> node_ID ` set (nodes w)) (unique_violation ''nodes_pkey'')
     (require (\<lambda>w. node_Name n \<notin> node_Name ` set (nodes w)) (unique_violation ''nodes_name_key'')
     (modify (\<lambda>w. w\<lparr>nodes := nodes w @ [n\<lparr>node_ID := i\<rparr>]\<rparr>))))))"

definition NodeRepository_GetByID :: "env \<Rightarrow> string \<Rightarrow> Node option act" where
  "NodeRepository_GetByID E ident =
     get_opt ''node_repo: get by id'' (sql E (uuid_arg E ident (\<lambda>i. select_one nodes (\<lambda>n. node_ID n = i))))"

definition NodeRepository_GetByName :: "env \<Rightarrow> string \<Rightarrow> Node option act" where
  "NodeRepository_GetByName E name =
     get_opt ''node_repo: get by name'' (sql E (select_one nodes (\<lambda>n. node_Name n = name)))"

definition node_rows :: "env \<Rightarrow> NodeFilter \<Rightarrow> Node list act" where
  "node_rows E f = sql E (enum_cond ''node_status'' NodeStatus_names (nf_Status f)
     (select_where nodes (\<lambda>n.
        str_eq (nf_Status f) (NodeStatus_string (node_Status n)) \<and> name_like (nf_Search f) (node_Name n))))"

definition NodeRepository_List :: "env \<Rightarrow> NodeFilter \<Rightarrow> (Node list \<times> int) act" where
  "NodeRepository_List E f = list_query ''node_repo'' (node_rows E f) (nf_Page f) (nf_PerPage f)"

definition NodeRepository_Update :: "env \<Rightarrow> Node \<Rightarrow> unit act" where
  "NodeRepository_Update E n = wrapE ''node_repo: update'' (sql E (uuid_arg E (node_ID n) (\<lambda>i.
     modify (\<lambda>w. w\<lparr>nodes := update_where (\<lambda>x. node_ID x = i)
       (\<lambda>x. x\<lparr>node_Labels := node_Labels n, node_Metadata := node_Metadata n\<rparr>) (nodes w)\<rparr>))))"

definition NodeRepository_Delete :: "env \<Rightarrow> string \<Rightarrow> unit act" where
  "NodeRepository_Delete E ident = wrapE ''node_repo: delete'' (sql E (uuid_arg E ident (\<lambda>i.
     modify (\<lambda>w. w\<lparr>nodes := filter (\<lambda>n. node_ID n \<noteq> i) (nodes w),
       virtual_machines := update_where (\<lambda>v. vm_NodeID v = Some i) (\<lambda>v. v\<lparr>vm_NodeID := None\<rparr>) (virtual_machines w)\<rparr>))))"

definition NodeRepository_UpdateStatus :: "env \<Rightarrow> string \<Rightarrow> NodeStatus \<Rightarrow> unit act" where
  "NodeRepository_UpdateStatus E ident st = wrapE ''node_repo: update status'' (sql E (uuid_arg E ident (\<lambda>i.
     modify (\<lambda>w. w\<lparr>nodes := update_where (\<lambda>x. node_ID x = i) (\<lambda>x. x\<lparr>node_Status := st\<rparr>) (nodes w)\<rparr>))))"

definition NodeRepository_UpdateHeartbeat :: "env \<Rightarrow> string \<Rightarrow> NodeResources \<Rightarrow> unit act" where
  "NodeRepository_UpdateHeartbeat E ident res = wrapE ''node_repo: update heartbeat'' (sql E (uuid_arg E ident (\<lambda>i.
     modify (\<lambda>w. w\<lparr>nodes := update_where (\<lambda>x. node_ID x = i) (\<lambda>x. x\<lparr>node_Resources := res\<rparr>) (nodes w)\<rparr>))))"

subsection \<open>Images\<close>

definition ImageRepository_Create :: "env \<Rightarrow> Image \<Rightarrow> unit act" where
  "ImageRepository_Create E m = wrapE ''image_repo: insert'' (sql E (uuid_arg E (img_ID m) (\<lambda>i.
     require (\<lambda>w. i \<notin> img_ID ` set (images w)) (unique_violation ''images_pkey'')
     (modify (\<lambda>w. w\<lparr>images := images w @ [m\<lparr>img_ID := i\<rparr>]\<rparr>)))))"

definition ImageRepository_GetByID :: "env \<Rightarrow> string \<Rightarrow> Image option act" where
  "ImageRepository_GetByID E ident =
     get_opt ''image_repo: get by id'' (sql E (uuid_arg E ident (\<lambda>i. select_one images (\<lambda>m. img_ID m = i))))"

definition ImageRepository_GetByName :: "env \<Rightarrow> string \<Rightarrow> Image option act" where
  "ImageRepository_GetByName E name =
     get_opt ''image_repo: get by name'' (sql E (select_one images (\<lambda>m. img_Name m = name)))"

definition image_rows :: "env \<Rightarrow> ImageFilter \<Rightarrow> Image list act" where
  "image_rows E f = sql E (select_where images (\<lambda>m.
     str_eq (if_OS f) (img_OS m) \<and> str_eq (if_Architecture f) (img_Architecture m) \<and>
     str_eq (if_Type f) (img_Type m) \<and> name_like (if_Search f) (img_Name m)))"

definition ImageRepository_List :: "env \<Rightarrow> ImageFilter \<Rightarrow> (Image list \<times> int) act" where
  "ImageRepository_List E f = list_query ''image_repo'' (image_rows E f) (if_Page f) (if_PerPage f)"

definition ImageRepository_Update :: "env \<Rightarrow> Image \<Rightarrow> unit act" where
  "ImageRepository_Update E m = wrapE ''image_repo: update'' (sql E (uuid_arg E (img_ID m) (\<lambda>i.
     modify (\<lambda>w. w\<lparr>images := update_where (\<lambda>x. img_ID x = i) (\<lambda>x. m\<lparr>img_ID := img_ID x\<rparr>) (images w)\<rparr>))))"

definition ImageRepository_UpdateStatus :: "env \<Rightarrow> string \<Rightarrow> ImageStatus \<Rightarrow> int \<Rightarrow> string \<Rightarrow> unit act" where
  "ImageRepository_UpdateStatus E ident st sizeBytes checksum = wrapE ''image_repo: update status'' (sql E (uuid_arg E ident (\<lambda>i.
     modify (\<lambda>w. w\<lparr>images := update_where (\<lambda>x. img_ID x = i) (\<lambda>x.
       if sizeBytes > 0 \<and> checksum \<noteq> '''' then x\<lparr>img_Status := st, img_SizeBytes := sizeBytes, img_Checksum := checksum\<rparr>
       else if sizeBytes > 0 then x\<lparr>img_Status := st, img_SizeBytes := sizeBytes\<rparr>
       else if checksum \<noteq> '''' then x\<lparr>img_Status := st, img_Checksum := checksum\<rparr>
       else x\<lparr>img_Status := st\<rparr>) (images w)\<rparr>))))"

definition ImageRepository_Delete :: "env \<Rightarrow> string \<Rightarrow> unit act" where
  "ImageRepository_Delete E ident = wrapE ''image_repo: delete'' (sql E (uuid_arg E ident (\<lambda>i.
     modify (\<lambda>w. w\<lparr>images := filter (\<lambda>m. img_ID m \<noteq> i) (images w),
       vm_disks := update_where (\<lambda>r. d_ImageID (snd r) = i) (\<lambda>r. (fst r, (snd r)\<lparr>d_ImageID := ''''\<rparr>)) (vm_disks w)\<rparr>))))"

subsection \<open>Snapshots and backups\<close>

definition snapshot_states :: "string list" where
  "snapshot_states = [''creating'', ''ready'', ''deleted'', ''error'']"

definition SnapshotRepository_Create :: "env \<Rightarrow> Snapshot \<Rightarrow> unit act" where
  "SnapshotRepository_Create E s = wrapE ''snapshot_repo: insert'' (sql E (
     uuid_arg E (snap_ID s) (\<lambda>i. uuid_arg E (snap_VMID s) (\<lambda>v.
     if snap_Status s \<notin> set snapshot_states then throw (bad_enum ''snapshot_status'' (snap_Status s))
     else require (\<lambda>w. i \<notin> snap_ID ` set (snapshots w)) (unique_violation ''snapshots_pkey'')
     (require (\<lambda>w. v \<in> vm_ID ` set (virtual_machines w)) (fk_violation ''snapshots_vm_id_fkey'')
     (modify (\<lambda>w. w\<lparr>snapshots := snapshots w @ [s\<lparr>snap_ID := i, snap_VMID := v\<rparr>]\<rparr>)))))))"

definition SnapshotRepository_GetByID :: "env \<Rightarrow> string \<Rightarrow> Snapshot option act" where
  "SnapshotRepository_GetByID E ident =
     get_opt ''snapshot_repo: get by id'' (sql E (uuid_arg E ident (\<lambda>i. select_one snapshots (\<lambda>s. snap_ID s = i))))"

definition SnapshotRepository_ListByVM :: "env \<Rightarrow> string \<Rightarrow> Snapshot list act" where
  "SnapshotRepository_ListByVM E vmID = wrapE ''snapshot_repo: list by vm'' (sql E (uuid_arg E vmID (\<lambda>v.
     gets (\<lambda>w. rev (filter (\<lambda>s. snap_VMID s = v) (snapshots w))))))"

definition SnapshotRepository_Delete :: "env \<Rightarrow> string \<Rightarrow> unit act" where
  "SnapshotRepository_Delete E ident = wrapE ''snapshot_repo: delete'' (sql E (uuid_arg E ident (\<lambda>i.
     modify (\<lambda>w. w\<lparr>snapshots := filter (\<lambda>s. snap_ID s \<noteq> i) (snapshots w)\<rparr>))))"

definition BackupRepository_Create :: "env \<Rightarrow> Backup \<Rightarrow> unit act" where
  "BackupRepository_Create E b = wrapE ''backup_repo: insert'' (sql E (
     uuid_arg E (bak_ID b) (\<lambda>i. uuid_arg E (bak_VMID b) (\<lambda>v. uuid_arg E (bak_OrganizationID b) (\<lambda>org.
     require (\<lambda>w. i \<notin> bak_ID ` set (backups w)) (unique_violation ''backups_pkey'')
     (require (\<lambda>w. v \<in> vm_ID ` set (virtual_machines w)) (fk_violation ''backups_vm_id_fkey'')
     (modify (\<lambda>w. w\<lparr>backups := backups w @
        [b\<lparr>bak_ID := i, bak_VMID := v, bak_OrganizationID := org, bak_Completed := False\<rparr>]\<rparr>))))))))"

definition BackupRepository_GetByID :: "env \<Rightarrow> string \<Rightarrow> Backup option act" where
  "BackupRepository_GetByID E ident =
     get_opt ''backup_repo: get by id'' (sql E (uuid_arg E ident (\<lambda>i. select_one backups (\<lambda>b. bak_ID b = i))))"

definition backup_rows :: "env \<Rightarrow> BackupFilter \<Rightarrow> Backup list act" where
  "backup_rows E f = sql E (uuid_cond E (bf_VMID f) (\<lambda>v. uuid_cond E (bf_OrganizationID f) (\<lambda>org.
     select_where backups (\<lambda>b. cond_eq v (Some (bak_VMID b)) \<and> cond_eq org (Some (bak_OrganizationID b))))))"

definition BackupRepository_List :: "env \<Rightarrow> BackupFilter \<Rightarrow> (Backup list \<times> int) act" where
  "BackupRepository_List E f = list_query ''backup_repo'' (backup_rows E f) (bf_Page f) (bf_PerPage f)"

definition BackupRepository_Update :: "env \<Rightarrow> Backup \<Rightarrow> unit act" where
  "BackupRepository_Update E b = wrapE ''backup_repo: update'' (sql E (uuid_arg E (bak_ID b) (\<lambda>i.
     modify (\<lambda>w. w\<lparr>backups := update_where (\<lambda>x. bak_ID x = i) (\<lambda>x. x\<lparr>bak_Status := bak_Status b, bak_SizeBytes := bak_SizeBytes b,
       bak_Completed := bak_Completed b\<rparr>) (backups w)\<rparr>))))"

definition BackupRepository_Delete :: "env \<Rightarrow> string \<Rightarrow> unit act" where
  "BackupRepository_Delete E ident = wrapE ''backup_repo: delete'' (sql E (uuid_arg E ident (\<lambda>i.
     modify (\<lambda>w. w\<lparr>backups := filter (\<lambda>b. bak_ID b \<noteq> i) (backups w)\<rparr>))))"

subsection \<open>Flavors and keypairs\<close>

definition FlavorRepository_Create :: "env \<Rightarrow> Flavor \<Rightarrow> unit act" where
  "FlavorRepository_Create E f = wrapE ''flavor_repo: insert'' (sql E (uuid_arg E (fl_ID f) (\<lambda>i.
     require (\<lambda>w. i \<notin> fl_ID ` set (flavors w)) (unique_violation ''flavors_pkey'')
     (require (\<lambda>w. fl_Name f \<notin> fl_Name ` set (flavors w)) (unique_violation ''flavors_name_key'')
     (modify (\<lambda>w. w\<lparr>flavors := flavors w @ [f\<lparr>fl_ID := i\<rparr>]\<rparr>))))))"

definition FlavorRepository_GetByID :: "env \<Rightarrow> string \<Rightarrow> Flavor option act" where
  "FlavorRepository_GetByID E ident =
     get_opt ''flavor_repo: get by id'' (sql E (uuid_arg E ident (\<lambda>i. select_one flavors (\<lambda>f. fl_ID f = i))))"

definition FlavorRepository_GetByName :: "env \<Rightarrow> string \<Rightarrow> Flavor option act" where
  "FlavorRepository_GetByName E name =
     get_opt ''flavor_repo: get by name'' (sql E (select_one flavors (\<lambda>f. fl_Name f = name)))"

definition FlavorRepository_List :: "env \<Rightarrow> Flavor list act" where
  "FlavorRepository_List E = wrapE ''flavor_repo: list'' (sql E (
     gets (\<lambda>w. sort_key fl_VCpus (sort_key fl_MemoryMB (flavors w)))))"

definition FlavorRepository_Delete :: "env \<Rightarrow> string \<Rightarrow> unit act" where
  "FlavorRepository_Delete E ident = wrapE ''flavor_repo: delete'' (sql E (uuid_arg E ident (\<lambda>i.
     modify (\<lambda>w. w\<lparr>flavors := filter (\<lambda>f. fl_ID f \<noteq> i) (flavors w)\<rparr>))))"

definition KeypairRepository_Create :: "env \<Rightarrow> Keypair \<Rightarrow> unit act" where
  "KeypairRepository_Create E k = wrapE ''keypair_repo: insert'' (sql E (
     uuid_arg E (kp_ID k) (\<lambda>i. uuid_arg E (kp_OrganizationID k) (\<lambda>org.
     require (\<lambda>w. i \<notin> kp_ID ` set (keypairs w)) (unique_violation ''keypairs_pkey'')
     (require (\<lambda>w. (kp_Name k, org) \<notin> (\<lambda>x. (kp_Name x, kp_OrganizationID x)) ` set (keypairs w))
        (unique_violation ''keypairs_name_organization_id_key'')
     (modify (\<lambda>w. w\<lparr>keypairs := keypairs w @ [k\<lparr>kp_ID := i, kp_OrganizationID := org\<rparr>]\<rparr>)))))))"

definition KeypairRepository_GetByID :: "env \<Rightarrow> string \<Rightarrow> Keypair option act" where
  "KeypairRepository_GetByID E ident =
     get_opt ''keypair_repo: get by id'' (sql E (uuid_arg E ident (\<lambda>i. select_one keypairs (\<lambda>k. kp_ID k = i))))"

definition KeypairRepository_GetByName :: "env \<Rightarrow> string \<Rightarrow> string \<Rightarrow> Keypair option act" where
  "KeypairRepository_GetByName E name orgID =
     get_opt ''keypair_repo: get by name'' (sql E (uuid_cond E orgID (\<lambda>org.
       select_one keypairs (\<lambda>k. kp_Name k = name \<and> cond_eq org (Some (kp_OrganizationID k))))))"

definition KeypairRepository_List :: "env \<Rightarrow> string \<Rightarrow> Keypair list act" where
  "KeypairRepository_List E orgID = wrapE ''keypair_repo: list'' (sql E (uuid_cond E orgID (\<lambda>org.
     gets (\<lambda>w. rev (filter (\<lambda>k. cond_eq org (Some (kp_OrganizationID k))) (keypairs w))))))"

definition KeypairRepository_Delete :: "env \<Rightarrow> string \<Rightarrow> unit act" where
  "KeypairRepository_Delete E ident = wrapE ''keypair_repo: delete'' (sql E (uuid_arg E ident (\<lambda>i.
     modify (\<lambda>w. w\<lparr>keypairs := filter (\<lambda>k. kp_ID k \<noteq> i) (keypairs w)\<rparr>))))"

subsection \<open>Address management\<close>

definition select_default_network :: "env \<Rightarrow> string \<Rightarrow> (string \<times> string) act" where
  "select_default_network E org = sql E (uuid_arg E org (\<lambda>o'.
     bindE (select_one private_networks (\<lambda>n. pn_OrganizationID n = o' \<and> pn_Name n = ''default''))
       (\<lambda>n. ret (pn_ID n, pn_CIDR n))))"

definition default_cidr :: string where
  "default_cidr = ''10.0.0.0/16''"

text \<open>
  \<^verbatim>\<open>uuid_generate_v4()\<close> is the server's generator; it draws from the same supply of new identifiers.
  There is no constraint that \<^verbatim>\<open>ON CONFLICT DO NOTHING\<close> could skip but the primary key.
\<close>

definition insert_default_network :: "env \<Rightarrow> string \<Rightarrow> string act" where
  "insert_default_network E org = sql E (uuid_arg E org (\<lambda>o'. inet_arg E default_cidr (\<lambda>c.
     bindE (new_uuid E) (\<lambda>i.
     require (\<lambda>w. i \<notin> pn_ID ` set (private_networks w)) ErrNoRows
     (bindE (modify (\<lambda>w. w\<lparr>private_networks := private_networks w @
        [\<lparr>pn_ID = i, pn_Name = ''default'', pn_OrganizationID = o', pn_VpcID = None, pn_Type = ''private'', pn_CIDR = c,
          pn_IPv6CIDR = None, pn_InternetGateway = False, pn_Labels = Some Map.empty, pn_Subnets = [],
          pn_FirewallRules = []\<rparr>]\<rparr>)) (\<lambda>_. ret i))))))"

definition insert_default_subnet :: "env \<Rightarrow> string \<Rightarrow> string \<Rightarrow> unit act" where
  "insert_default_subnet E networkID cidr = sql E (uuid_arg E networkID (\<lambda>n. inet_arg E cidr (\<lambda>c.
     bindE (new_uuid E) (\<lambda>i.
     require (\<lambda>w. n \<in> pn_ID ` set (private_networks w)) (fk_violation ''subnets_network_id_fkey'')
     (modify (\<lambda>w. if i \<in> sub_ID ` set (subnets w) then w else w\<lparr>subnets := subnets w @
        [\<lparr>sub_ID = i, sub_Name = ''default'', sub_NetworkID = n, sub_CIDR = c, sub_IPv6CIDR = None,
          sub_DHCPEnabled = True, sub_GatewayIP = Some (inet_next E c)\<rparr>]\<rparr>))))))"

definition EnsureDefaultNetwork :: "env \<Rightarrow> string \<Rightarrow> (string \<times> string) act" where
  "EnsureDefaultNetwork E organizationID =
     (let org = (if organizationID = '''' then nil_uuid else organizationID) in
      tryM (select_default_network E org) (\<lambda>r. case r of
        Inr found \<Rightarrow> ret found
      | Inl _ \<Rightarrow>
          tryM (insert_default_network E org) (\<lambda>r. case r of
            Inl err \<Rightarrow>
              tryM (select_default_network E org) (\<lambda>r2. case r2 of
                Inr found \<Rightarrow> ret found
              | Inl _ \<Rightarrow> throw (Wrap ''create default network'' err))
          | Inr networkID \<Rightarrow>
              ignoreE (insert_default_subnet E networkID default_cidr) (ret (networkID, default_cidr)))))"

text \<open>The first subnet by \<^verbatim>\<open>ORDER BY dhcp_enabled DESC, created_at ASC\<close>, and its gateway.\<close>

definition first_subnet :: "Subnet list \<Rightarrow> Subnet option" where
  "first_subnet ss = (case find sub_DHCPEnabled ss of Some s \<Rightarrow> Some s | None \<Rightarrow> (case ss of [] \<Rightarrow> None | s # _ \<Rightarrow> Some s))"

definition select_subnet :: "env \<Rightarrow> string \<Rightarrow> (string \<times> string) act" where
  "select_subnet E networkID = sql E (uuid_arg E networkID (\<lambda>n. (\<lambda>w.
     case first_subnet (filter (\<lambda>s. sub_NetworkID s = n) (subnets w)) of
       None \<Rightarrow> (Inl ErrNoRows, w)
     | Some s \<Rightarrow> (Inr (sub_CIDR s, case sub_GatewayIP s of Some g \<Rightarrow> g | None \<Rightarrow> inet_next E (sub_CIDR s)), w))))"

definition select_used_ips :: "env \<Rightarrow> string \<Rightarrow> string list act" where
  "select_used_ips E networkID = sql E (uuid_arg E networkID (\<lambda>n. gets (\<lambda>w.
     map (\<lambda>r. hd (nic_IPv4Addresses (snd r)))
       (filter (\<lambda>r. nic_NetworkID (snd r) = n \<and> nic_IPv4Addresses (snd r) \<noteq> []) (vm_network_interfaces w)))))"

definition AllocateIP :: "env \<Rightarrow> string \<Rightarrow> (string \<times> string \<times> string) act" where
  "AllocateIP E networkID =
     bindE (wrapE (''network '' @ networkID @ '' has no subnet'') (select_subnet E networkID)) (\<lambda>(subnetCIDR, gateway).
     bindE (wrapE ''query used IPs'' (select_used_ips E networkID)) (\<lambda>used.
     case NextAvailableIP subnetCIDR used of (allocated, gw2, err) \<Rightarrow>
       (case err of
          Some e \<Rightarrow> throw e
        | None \<Rightarrow> ret (allocated, if gateway = '''' then gw2 else gateway, subnetCIDR))))"

subsection \<open>Every method keeps the constraints\<close>

lemma update_where_keys [simp]: "(\<And>r. g (f r) = g r) \<Longrightarrow> map g (update_where P f rs) = map g rs"
  by (auto simp: update_where_def)

lemma update_where_image [simp]: "(\<And>r. g (f r) = g r) \<Longrightarrow> g ` set (update_where P f rs) = g ` set rs"
  by (metis image_set update_where_keys)

lemma ball_update_where [simp]:
  "(\<forall>r\<in>set (update_where P f rs). Q r) \<longleftrightarrow> (\<forall>r\<in>set rs. if P r then Q (f r) else Q r)"
  by (auto simp: update_where_def)

lemma preserves_select_one [pres]: "preserves I (select_one tbl P)"
  by (simp add: preserves_def select_one_def split: option.split)

lemma preserves_select_where [pres]: "preserves I (select_where tbl P)"
  unfolding select_where_def by (intro pres)

lemma preserves_get_opt [pres]: "preserves I m \<Longrightarrow> preserves I (get_opt p m)"
  unfolding get_opt_def by (intro pres)

lemma preserves_uuid_cond [pres]: "(\<And>c. preserves I (k c)) \<Longrightarrow> preserves I (uuid_cond E s k)"
  unfolding uuid_cond_def by (intro pres)

lemma preserves_enum_cond [pres]: "preserves I k \<Longrightarrow> preserves I (enum_cond ty ns s k)"
  unfolding enum_cond_def by (intro pres)

lemma preserves_list_query [pres]: "preserves I rows \<Longrightarrow> preserves I (list_query p rows pg pp)"
  unfolding list_query_def by (intro pres)

lemma preserves_no_op [pres]: "counter_blind I \<Longrightarrow> preserves I (no_op E)"
  unfolding no_op_def by (intro pres)

lemma db_insert_vm [pres]: "preserves db_ok (insert_vm E vm)"
  unfolding insert_vm_def
  by (intro pres; rule preservesI) (auto simp: require_def db_defs split: option.splits)

lemma db_insert_disk [pres]: "preserves db_ok (insert_disk E v d)"
  unfolding insert_disk_def
  by (intro pres; (rule preservesI)?) (auto simp: require_def db_defs intro!: pres)

lemma db_insert_nic [pres]: "preserves db_ok (insert_nic E v n)"
  unfolding insert_nic_def Let_def
  by (intro pres; rule preservesI)
    (auto simp: require_def db_defs distinct_map_filter_snoc split: option.splits)

lemma db_VMRepository_Create [pres]: "preserves db_ok (VMRepository_Create E vm)"
  unfolding VMRepository_Create_def by (intro pres)

lemma preserves_scanVM [pres]: "counter_blind I \<Longrightarrow> preserves I (scanVM E i)"
  unfolding scanVM_def by (intro pres)

lemma preserves_loadRelated [pres]: "counter_blind I \<Longrightarrow> preserves I (loadRelated E vm)"
  unfolding loadRelated_def by (intro pres)

lemma preserves_VM_GetByID [pres]: "counter_blind I \<Longrightarrow> preserves I (VMRepository_GetByID E i)"
  unfolding VMRepository_GetByID_def by (intro pres)

lemma preserves_VM_List [pres]: "counter_blind I \<Longrightarrow> preserves I (VMRepository_List E f)"
  unfolding VMRepository_List_def vm_rows_def batchLoadRelated_def by (intro pres)

lemma db_VMRepository_Update [pres]: "preserves db_ok (VMRepository_Update E vm)"
  unfolding VMRepository_Update_def
  by (intro pres; rule preservesI) (auto simp: db_defs)

lemma db_VMRepository_Delete [pres]: "preserves db_ok (VMRepository_Delete E i)"
  unfolding VMRepository_Delete_def
  by (intro pres; rule preservesI) (auto simp: db_defs distinct_map_filterI distinct_map_filter_filter)

lemma db_VMRepository_UpdateStatus [pres]: "preserves db_ok (VMRepository_UpdateStatus E i st)"
  unfolding VMRepository_UpdateStatus_def
  by (intro pres; rule preservesI) (auto simp: db_defs)

lemma db_VMRepository_AssignNode [pres]: "preserves db_ok (VMRepository_AssignNode E i n)"
  unfolding VMRepository_AssignNode_def
  by (intro pres; rule preservesI) (auto simp: require_def db_defs)

lemma db_NodeRepository_Create [pres]: "preserves db_ok (NodeRepository_Create E n)"
  unfolding NodeRepository_Create_def
  by (intro pres; rule preservesI) (auto simp: require_def db_defs)

lemma preserves_Node_gets [pres]:
  "counter_blind I \<Longrightarrow> preserves I (NodeRepository_GetByID E i)"
  "counter_blind I \<Longrightarrow> preserves I (NodeRepository_GetByName E s)"
  "counter_blind I \<Longrightarrow> preserves I (NodeRepository_List E nf)"
  unfolding NodeRepository_GetByID_def NodeRepository_GetByName_def NodeRepository_List_def node_rows_def
  by (intro pres; assumption)+

lemma db_NodeRepository_Update [pres]: "preserves db_ok (NodeRepository_Update E n)"
  unfolding NodeRepository_Update_def
  by (intro pres; rule preservesI) (auto simp: db_defs)

lemma db_NodeRepository_Delete [pres]: "preserves db_ok (NodeRepository_Delete E i)"
  unfolding NodeRepository_Delete_def
  by (intro pres; rule preservesI) (auto simp: db_defs distinct_map_filterI)

lemma db_NodeRepository_UpdateStatus [pres]: "preserves db_ok (NodeRepository_UpdateStatus E i st)"
  unfolding NodeRepository_UpdateStatus_def
  by (intro pres; rule preservesI) (auto simp: db_defs)

lemma db_NodeRepository_UpdateHeartbeat [pres]: "preserves db_ok (NodeRepository_UpdateHeartbeat E i res)"
  unfolding NodeRepository_UpdateHeartbeat_def
  by (intro pres; rule preservesI) (auto simp: db_defs)

lemma db_ImageRepository_Create [pres]: "preserves db_ok (ImageRepository_Create E m)"
  unfolding ImageRepository_Create_def
  by (intro pres; rule preservesI) (auto simp: require_def db_defs)

lemma preserves_Image_gets [pres]:
  "counter_blind I \<Longrightarrow> preserves I (ImageRepository_GetByID E i)"
  "counter_blind I \<Longrightarrow> preserves I (ImageRepository_GetByName E s)"
  "counter_blind I \<Longrightarrow> preserves I (ImageRepository_List E f)"
  unfolding ImageRepository_GetByID_def ImageRepository_GetByName_def ImageRepository_List_def image_rows_def
  by (intro pres; assumption)+

lemma db_ImageRepository_Update [pres]: "preserves db_ok (ImageRepository_Update E m)"
  unfolding ImageRepository_Update_def
  by (intro pres; rule preservesI) (auto simp: db_defs)

lemma db_ImageRepository_UpdateStatus [pres]: "preserves db_ok (ImageRepository_UpdateStatus E i st n c)"
  unfolding ImageRepository_UpdateStatus_def
  by (intro pres; rule preservesI) (auto simp: db_defs)

lemma db_ImageRepository_Delete [pres]: "preserves db_ok (ImageRepository_Delete E i)"
  unfolding ImageRepository_Delete_def
  by (intro pres; rule preservesI) (auto simp: db_defs distinct_map_filterI)

lemma db_SnapshotRepository_Create [pres]: "preserves db_ok (SnapshotRepository_Create E s)"
  unfolding SnapshotRepository_Create_def
  by (intro pres; (rule preservesI)?) (auto simp: require_def db_defs intro!: pres)

lemma preserves_Snapshot_gets [pres]:
  "counter_blind I \<Longrightarrow> preserves I (SnapshotRepository_GetByID E i)"
  "counter_blind I \<Longrightarrow> preserves I (SnapshotRepository_ListByVM E i)"
  unfolding SnapshotRepository_GetByID_def SnapshotRepository_ListByVM_def by (intro pres; assumption)+

lemma db_SnapshotRepository_Delete [pres]: "preserves db_ok (SnapshotRepository_Delete E i)"
  unfolding SnapshotRepository_Delete_def
  by (intro pres; rule preservesI) (auto simp: db_defs distinct_map_filterI)

lemma db_BackupRepository_Create [pres]: "preserves db_ok (BackupRepository_Create E b)"
  unfolding BackupRepository_Create_def
  by (intro pres; rule preservesI) (auto simp: require_def db_defs)

lemma preserves_Backup_gets [pres]:
  "counter_blind I \<Longrightarrow> preserves I (BackupRepository_GetByID E i)"
  "counter_blind I \<Longrightarrow> preserves I (BackupRepository_List E f)"
  unfolding BackupRepository_GetByID_def BackupRepository_List_def backup_rows_def by (intro pres; assumption)+

lemma db_BackupRepository_Update [pres]: "preserves db_ok (BackupRepository_Update E b)"
  unfolding BackupRepository_Update_def
  by (intro pres; rule preservesI) (auto simp: db_defs)

lemma db_BackupRepository_Delete [pres]: "preserves db_ok (BackupRepository_Delete E i)"
  unfolding BackupRepository_Delete_def
  by (intro pres; rule preservesI) (auto simp: db_defs distinct_map_filterI)

lemma db_FlavorRepository_Create [pres]: "preserves db_ok (FlavorRepository_Create E f)"
  unfolding FlavorRepository_Create_def
  by (intro pres; rule preservesI) (auto simp: require_def db_defs)

lemma preserves_Flavor_gets [pres]:
  "counter_blind I \<Longrightarrow> preserves I (FlavorRepository_GetByID E i)"
  "counter_blind I \<Longrightarrow> preserves I (FlavorRepository_GetByName E s)"
  "counter_blind I \<Longrightarrow> preserves I (FlavorRepository_List E)"
  unfolding FlavorRepository_GetByID_def FlavorRepository_GetByName_def FlavorRepository_List_def
  by (intro pres; assumption)+

lemma db_FlavorRepository_Delete [pres]: "preserves db_ok (FlavorRepository_Delete E i)"
  unfolding FlavorRepository_Delete_def
  by (intro pres; rule preservesI) (auto simp: db_defs distinct_map_filterI)

lemma db_KeypairRepository_Create [pres]: "preserves db_ok (KeypairRepository_Create E k)"
  unfolding KeypairRepository_Create_def
  by (intro pres; rule preservesI) (auto simp: require_def db_defs)

lemma preserves_Keypair_gets [pres]:
  "counter_blind I \<Longrightarrow> preserves I (KeypairRepository_GetByID E i)"
  "counter_blind I \<Longrightarrow> preserves I (KeypairRepository_GetByName E s i)"
  "counter_blind I \<Longrightarrow> preserves I (KeypairRepository_List E i)"
  unfolding KeypairRepository_GetByID_def KeypairRepository_GetByName_def KeypairRepository_List_def
  by (intro pres; assumption)+

lemma db_KeypairRepository_Delete [pres]: "preserves db_ok (KeypairRepository_Delete E i)"
  unfolding KeypairRepository_Delete_def
  by (intro pres; rule preservesI) (auto simp: db_defs distinct_map_filterI)

lemma preserves_select_default_network [pres]: "counter_blind I \<Longrightarrow> preserves I (select_default_network E i)"
  unfolding select_default_network_def by (intro pres)

lemma db_insert_default_network [pres]: "preserves db_ok (insert_default_network E i)"
  unfolding insert_default_network_def
  by (intro pres; rule preservesI) (auto simp: require_def bindE_apply db_defs)

lemma db_insert_default_subnet [pres]: "preserves db_ok (insert_default_subnet E n c)"
  unfolding insert_default_subnet_def
  by (intro pres; rule preservesI) (auto simp: require_def db_defs)

lemma db_EnsureDefaultNetwork [pres]: "preserves db_ok (EnsureDefaultNetwork E org)"
  unfolding EnsureDefaultNetwork_def Let_def by (intro pres)

lemma preserves_AllocateIP [pres]: "counter_blind I \<Longrightarrow> preserves I (AllocateIP E n)"
proof -
  assume I: "counter_blind I"
  have "preserves I (select_subnet E n)"
    unfolding select_subnet_def using I
    by (intro pres) (auto simp: preserves_def split: option.split)
  moreover have "preserves I (select_used_ips E n)"
    unfolding select_used_ips_def using I by (intro pres)
  ultimately show ?thesis
    unfolding AllocateIP_def by (intro pres)
qed

subsection \<open>The contract of a repository\<close>

text \<open>
  A repository with rows found by id: \<open>look w c\<close> is the row with canonical id \<open>c\<close>, \<open>stored E r\<close> the row
  that a create of \<open>r\<close> leaves. The laws say what each method does to \<open>look\<close>; the lemmas are what a client
  may rely on.
\<close>

locale id_repository =
  fixes create :: "env \<Rightarrow> 'r \<Rightarrow> unit act"
    and get :: "env \<Rightarrow> string \<Rightarrow> 'r option act"
    and remove :: "env \<Rightarrow> string \<Rightarrow> unit act"
    and rowid :: "'r \<Rightarrow> string"
    and look :: "world \<Rightarrow> string \<Rightarrow> 'r option"
    and stored :: "env \<Rightarrow> 'r \<Rightarrow> 'r"
  assumes create_law: "create E r w = (Inr (), w') \<Longrightarrow>
      \<exists>c. uuid_parse E (rowid r) = Some c \<and> look w c = None \<and> rowid (stored E r) = c \<and>
          (\<forall>j. look w' j = (if j = c then Some (stored E r) else look w j))"
    and create_fails: "create E r w = (Inl e, w') \<Longrightarrow> look w' = look w"
    and get_ok: "healthy E \<Longrightarrow> uuid_parse E i = Some c \<Longrightarrow> \<exists>w'. get E i w = (Inr (look w c), w')"
    and get_frame: "look (snd (get E i w)) = look w"
    and remove_law: "remove E i w = (Inr (), w') \<Longrightarrow>
      \<exists>c. uuid_parse E i = Some c \<and> (\<forall>j. look w' j = (if j = c then None else look w j))"
begin



lemma create_then_get:
  assumes "healthy E" "create E r w = (Inr (), w1)"
  shows "\<exists>w2. get E (rowid r) w1 = (Inr (Some (stored E r)), w2)"
proof -
  obtain c where "uuid_parse E (rowid r) = Some c" "look w1 c = Some (stored E r)"
    using create_law [OF assms(2)] by force
  then show ?thesis
    using get_ok [OF assms(1), of "rowid r" c w1] by simp
qed

lemma create_keeps:
  assumes "create E r w = (Inr (), w1)" "look w j = Some q"
  shows "look w1 j = Some q"
  using create_law [OF assms(1)] assms(2) by auto

lemma create_twice:
  assumes "create E r w = (Inr (), w1)" "create E r' w1 = (Inr (), w2)"
  shows "uuid_parse E (rowid r) \<noteq> uuid_parse E (rowid r')"
  using create_law [OF assms(1)] create_law [OF assms(2)] by auto

lemma remove_then_get:
  assumes "healthy E" "remove E i w = (Inr (), w1)"
  shows "\<exists>w2. get E i w1 = (Inr None, w2)"
proof -
  obtain c where c: "uuid_parse E i = Some c" "look w1 c = None"
    using remove_law [OF assms(2)] by force
  show ?thesis
    using get_ok [OF assms(1) c(1), of w1] c(2) by simp
qed

lemma create_remove:
  assumes "create E r w = (Inr (), w1)" "remove E (rowid r) w1 = (Inr (), w2)"
  shows "look w2 = look w"
  using create_law [OF assms(1)] remove_law [OF assms(2)] by fastforce

end

text \<open>
  The shape that all repositories share: one statement that inserts, one that selects, one that
  filters. The facts below discharge the laws of every instance.
\<close>

definition by_id :: "('r \<Rightarrow> string) \<Rightarrow> 'r list \<Rightarrow> string \<Rightarrow> 'r option" where
  "by_id key rs i = find (\<lambda>r. key r = i) rs"

lemma by_id_snoc: "by_id key (rs @ [r]) j = (case by_id key rs j of None \<Rightarrow> if key r = j then Some r else None | Some x \<Rightarrow> Some x)"
  by (simp add: by_id_def find_append split: option.split)

lemma by_id_None: "by_id key rs i = None \<longleftrightarrow> i \<notin> key ` set rs"
  by (simp add: by_id_def find_key_None)

lemma by_id_filter: "by_id key (filter (\<lambda>r. key r \<noteq> j) rs) i = (if i = j then None else by_id key rs i)"
  by (simp add: by_id_def find_filter_key)

lemma by_id_add: "c \<notin> key ` set rs \<Longrightarrow> key r = c \<Longrightarrow>
  by_id key (rs @ [r]) j = (if j = c then Some r else by_id key rs j)"
  by (auto simp: by_id_snoc by_id_None [symmetric] split: option.splits)

lemma sql_Inr_iff:
  "sql E q w = (Inr x, w') \<longleftrightarrow> db_fault E (stmt_no w) = None \<and> q (w\<lparr>stmt_no := Suc (stmt_no w)\<rparr>) = (Inr x, w')"
  by (simp add: sql_def Let_def split: option.split)

lemma uuid_arg_Inr_iff: "uuid_arg E s k w = (Inr x, w') \<longleftrightarrow> (\<exists>c. uuid_parse E s = Some c \<and> k c w = (Inr x, w'))"
  by (simp add: uuid_arg_def split: option.split)

lemma require_Inr_iff: "require b e k w = (Inr x, w') \<longleftrightarrow> b w \<and> k w = (Inr x, w')"
  by (simp add: require_def)

text \<open>Reading a row: the value in a healthy environment; no table changes.\<close>

lemma get_opt_select_ok:
  assumes "healthy E" "uuid_parse E s = Some c" "\<And>w n. tbl (w\<lparr>stmt_no := n\<rparr>) = tbl w"
  shows "get_opt p (sql E (uuid_arg E s (\<lambda>i. select_one tbl (\<lambda>r. key r = i)))) w =
    (Inr (by_id key (tbl w) c), w\<lparr>stmt_no := Suc (stmt_no w)\<rparr>)"
  using assms by (simp add: get_opt_def tryM_apply sql_healthy uuid_arg_ok select_one_def by_id_def split: option.split)

lemmas stmt_iffs = sql_Inr_iff uuid_arg_Inr_iff require_Inr_iff wrapE_Inr_iff

definition stored_node :: "env \<Rightarrow> Node \<Rightarrow> Node" where
  "stored_node E n = n\<lparr>node_ID := the (uuid_parse E (node_ID n))\<rparr>"

definition stored_image :: "env \<Rightarrow> Image \<Rightarrow> Image" where
  "stored_image E m = m\<lparr>img_ID := the (uuid_parse E (img_ID m))\<rparr>"

definition stored_snapshot :: "env \<Rightarrow> Snapshot \<Rightarrow> Snapshot" where
  "stored_snapshot E s = s\<lparr>snap_ID := the (uuid_parse E (snap_ID s)), snap_VMID := the (uuid_parse E (snap_VMID s))\<rparr>"

definition stored_backup :: "env \<Rightarrow> Backup \<Rightarrow> Backup" where
  "stored_backup E b = b\<lparr>bak_ID := the (uuid_parse E (bak_ID b)), bak_VMID := the (uuid_parse E (bak_VMID b)),
     bak_OrganizationID := the (uuid_parse E (bak_OrganizationID b)), bak_Completed := False\<rparr>"

definition stored_flavor :: "env \<Rightarrow> Flavor \<Rightarrow> Flavor" where
  "stored_flavor E f = f\<lparr>fl_ID := the (uuid_parse E (fl_ID f))\<rparr>"

definition stored_keypair :: "env \<Rightarrow> Keypair \<Rightarrow> Keypair" where
  "stored_keypair E k = k\<lparr>kp_ID := the (uuid_parse E (kp_ID k)), kp_OrganizationID := the (uuid_parse E (kp_OrganizationID k))\<rparr>"

lemmas stored_defs = stored_node_def stored_image_def stored_snapshot_def stored_backup_def stored_flavor_def stored_keypair_def

lemma id_repositoryI:
  fixes tbl :: "world \<Rightarrow> 'r list"
  assumes blind: "\<And>w n. tbl (w\<lparr>stmt_no := n\<rparr>) = tbl w"
    and create: "\<And>E r. create E r = wrapE pc (sql E (ins E r))"
    and get: "\<And>E i. get E i = get_opt pg (sql E (uuid_arg E i (\<lambda>c. select_one tbl (\<lambda>r. rowid r = c))))"
    and remove: "\<And>E i. remove E i = wrapE pd (sql E (uuid_arg E i (\<lambda>c. modify (del c))))"
    and ins_ok: "\<And>E r w w'. ins E r w = (Inr (), w') \<Longrightarrow>
      uuid_parse E (rowid r) = Some (rowid (stored E r)) \<and> rowid (stored E r) \<notin> rowid ` set (tbl w) \<and>
      tbl w' = tbl w @ [stored E r]"
    and ins_fails: "\<And>E r w e w'. ins E r w = (Inl e, w') \<Longrightarrow> w' = w"
    and del_ok: "\<And>c w. tbl (del c w) = filter (\<lambda>r. rowid r \<noteq> c) (tbl w)"
  shows "id_repository create get remove rowid (\<lambda>w. by_id rowid (tbl w)) stored"
proof (unfold_locales, goal_cases)
  case (1 E r w w')
  then show ?case
    by (auto simp: create stmt_iffs blind by_id_None by_id_add dest!: ins_ok)
next
  case (2 E r w e w')
  then show ?case
    by (auto simp: create wrapE_apply sql_def Let_def blind split: option.splits prod.splits sum.splits dest!: ins_fails)
next
  case (3 E i c w)
  then show ?case
    by (simp add: get get_opt_select_ok blind)
next
  case (4 E i w)
  show ?case
    by (simp add: get get_opt_def tryM_apply sql_def uuid_arg_def select_one_def blind Let_def split: option.split)
next
  case (5 E i w w')
  then show ?case
    by (auto simp: remove stmt_iffs del_ok blind by_id_filter)
qed

lemmas insert_simps = uuid_arg_def require_def stored_defs

interpretation node_repo: id_repository NodeRepository_Create NodeRepository_GetByID NodeRepository_Delete node_ID
  "\<lambda>w. by_id node_ID (nodes w)" stored_node
  by (rule id_repositoryI [OF _ NodeRepository_Create_def NodeRepository_GetByID_def NodeRepository_Delete_def])
    (auto simp: insert_simps split: option.splits if_splits)

interpretation image_repo: id_repository ImageRepository_Create ImageRepository_GetByID ImageRepository_Delete img_ID
  "\<lambda>w. by_id img_ID (images w)" stored_image
  by (rule id_repositoryI [OF _ ImageRepository_Create_def ImageRepository_GetByID_def ImageRepository_Delete_def])
    (auto simp: insert_simps split: option.splits if_splits)

interpretation snapshot_repo: id_repository SnapshotRepository_Create SnapshotRepository_GetByID SnapshotRepository_Delete
  snap_ID "\<lambda>w. by_id snap_ID (snapshots w)" stored_snapshot
  by (rule id_repositoryI [OF _ SnapshotRepository_Create_def SnapshotRepository_GetByID_def SnapshotRepository_Delete_def])
    (auto simp: insert_simps split: option.splits if_splits)

interpretation backup_repo: id_repository BackupRepository_Create BackupRepository_GetByID BackupRepository_Delete bak_ID
  "\<lambda>w. by_id bak_ID (backups w)" stored_backup
  by (rule id_repositoryI [OF _ BackupRepository_Create_def BackupRepository_GetByID_def BackupRepository_Delete_def])
    (auto simp: insert_simps split: option.splits if_splits)

interpretation flavor_repo: id_repository FlavorRepository_Create FlavorRepository_GetByID FlavorRepository_Delete fl_ID
  "\<lambda>w. by_id fl_ID (flavors w)" stored_flavor
  by (rule id_repositoryI [OF _ FlavorRepository_Create_def FlavorRepository_GetByID_def FlavorRepository_Delete_def])
    (auto simp: insert_simps split: option.splits if_splits)

interpretation keypair_repo: id_repository KeypairRepository_Create KeypairRepository_GetByID KeypairRepository_Delete kp_ID
  "\<lambda>w. by_id kp_ID (keypairs w)" stored_keypair
  by (rule id_repositoryI [OF _ KeypairRepository_Create_def KeypairRepository_GetByID_def KeypairRepository_Delete_def])
    (auto simp: insert_simps split: option.splits if_splits)

subsection \<open>Virtual machines: what a create stores and a get returns\<close>

definition canon :: "env \<Rightarrow> string \<Rightarrow> string" where
  "canon E s = (case uuid_parse E s of Some c \<Rightarrow> c | None \<Rightarrow> s)"

definition canon_inet :: "env \<Rightarrow> string \<Rightarrow> string" where
  "canon_inet E s = (case inet_text E s of Some c \<Rightarrow> c | None \<Rightarrow> s)"

definition stored_disk :: "env \<Rightarrow> Disk \<Rightarrow> Disk" where
  "stored_disk E d = d\<lparr>d_ID := canon E (d_ID d), d_ImageID := (if d_ImageID d = '''' then '''' else canon E (d_ImageID d))\<rparr>"

definition stored_nic :: "env \<Rightarrow> NetworkInterface \<Rightarrow> NetworkInterface" where
  "stored_nic E n = n\<lparr>nic_ID := canon E (nic_ID n),
     nic_NetworkID := (if nic_NetworkID n = '''' then '''' else canon E (nic_NetworkID n)),
     nic_IPv4Addresses := map (canon_inet E) (nic_IPv4Addresses n),
     nic_IPv6Addresses := map (canon_inet E) (nic_IPv6Addresses n)\<rparr>"

definition stored_vm :: "env \<Rightarrow> VirtualMachine \<Rightarrow> VirtualMachine" where
  "stored_vm E vm = vm\<lparr>vm_ID := canon E (vm_ID vm), vm_NodeID := map_option (canon E) (vm_NodeID vm),
     vm_OrganizationID := canon E (vm_OrganizationID vm), vm_ProjectID := map_option (canon E) (vm_ProjectID vm),
     vm_SSHKeyID := map_option (canon E) (vm_SSHKeyID vm), vm_Disks := [], vm_NetworkInterfaces := []\<rparr>"

lemma uuid_nullif_Inr_iff:
  "uuid_nullif E s k w = (Inr x, w') \<longleftrightarrow>
     (if s = '''' then k '''' w = (Inr x, w') else \<exists>c. uuid_parse E s = Some c \<and> k c w = (Inr x, w'))"
  by (simp add: uuid_nullif_def uuid_arg_Inr_iff)

lemma uuid_opt_Inr_iff:
  "uuid_opt E s k w = (Inr x, w') \<longleftrightarrow>
     (case s of None \<Rightarrow> k None w = (Inr x, w') | Some y \<Rightarrow> \<exists>c. uuid_parse E y = Some c \<and> k (Some c) w = (Inr x, w'))"
  by (simp add: uuid_opt_def uuid_arg_Inr_iff split: option.split)

lemma inet_args_Inr_iff:
  "inet_args E ss k w = (Inr x, w') \<longleftrightarrow>
     (\<forall>s\<in>set ss. inet_text E s \<noteq> None) \<and> k (map (canon_inet E) ss) w = (Inr x, w')"
  by (induction E ss k rule: inet_args.induct) (auto simp: inet_arg_def canon_inet_def split: option.splits)

lemma canon_eq: "uuid_parse E s = Some c \<Longrightarrow> canon E s = c"
  by (simp add: canon_def)

lemma insert_vm_ok:
  assumes "insert_vm E vm w = (Inr (), w')"
  shows "w' = w\<lparr>stmt_no := Suc (stmt_no w), virtual_machines := virtual_machines w @ [stored_vm E vm]\<rparr> \<and>
    uuid_parse E (vm_ID vm) = Some (canon E (vm_ID vm)) \<and> canon E (vm_ID vm) \<notin> vm_ID ` set (virtual_machines w)"
proof -
  have opt: "uuid_opt E s k v = (Inr (), w') \<Longrightarrow> k (map_option (canon E) s) v = (Inr (), w')" for s v k
    by (auto simp: uuid_opt_Inr_iff canon_eq split: option.splits)
  have arg: "uuid_arg E s k v = (Inr (), w') \<Longrightarrow> uuid_parse E s = Some (canon E s) \<and> k (canon E s) v = (Inr (), w')" for s v k
    by (auto simp: uuid_arg_Inr_iff canon_eq)
  have "uuid_parse E (vm_ID vm) = Some (canon E (vm_ID vm))"
    using assms unfolding insert_vm_def sql_Inr_iff by (blast dest: arg)
  moreover have "require (\<lambda>w. canon E (vm_ID vm) \<notin> vm_ID ` set (virtual_machines w)) (unique_violation ''virtual_machines_pkey'')
     (require (\<lambda>w. case map_option (canon E) (vm_NodeID vm) of None \<Rightarrow> True | Some x \<Rightarrow> x \<in> node_ID ` set (nodes w))
        (fk_violation ''virtual_machines_node_id_fkey'')
     (modify (\<lambda>w. w\<lparr>virtual_machines := virtual_machines w @ [stored_vm E vm]\<rparr>)))
     (w\<lparr>stmt_no := Suc (stmt_no w)\<rparr>) = (Inr (), w')"
    using assms unfolding insert_vm_def sql_Inr_iff stored_vm_def
    by (elim conjE) (drule arg, elim conjE, drule opt, drule arg, elim conjE, drule opt, drule opt, assumption)
  ultimately show ?thesis
    by (auto simp: require_Inr_iff)
qed

lemma insert_disk_ok:
  assumes "insert_disk E v d w = (Inr (), w')"
  shows "w' = w\<lparr>stmt_no := Suc (stmt_no w), vm_disks := vm_disks w @ [(canon E v, stored_disk E d)]\<rparr>"
  using assms
  by (auto simp: insert_disk_def stmt_iffs uuid_nullif_Inr_iff stored_disk_def canon_eq split: if_splits)

lemma insert_nic_ok:
  assumes "insert_nic E v n w = (Inr (), w')"
  shows "w' = w\<lparr>stmt_no := Suc (stmt_no w), vm_network_interfaces := vm_network_interfaces w @ [(canon E v, stored_nic E n)]\<rparr>"
proof -
  obtain i vv where iv: "uuid_parse E (nic_ID n) = Some i" "uuid_parse E v = Some vv"
    using assms unfolding insert_nic_def sql_Inr_iff uuid_arg_Inr_iff by (elim conjE exE) (rule that)
  obtain net where net: "net = (if nic_NetworkID n = '''' then '''' else canon E (nic_NetworkID n))"
    by blast
  have "modify (\<lambda>w. w\<lparr>vm_network_interfaces := vm_network_interfaces w @ [(vv, n\<lparr>nic_ID := i, nic_NetworkID := net,
      nic_IPv4Addresses := map (canon_inet E) (nic_IPv4Addresses n),
      nic_IPv6Addresses := map (canon_inet E) (nic_IPv6Addresses n)\<rparr>)]\<rparr>) (w\<lparr>stmt_no := Suc (stmt_no w)\<rparr>) = (Inr (), w')"
    using assms iv unfolding insert_nic_def Let_def sql_Inr_iff uuid_arg_Inr_iff uuid_nullif_Inr_iff inet_args_Inr_iff
      require_Inr_iff net
    by (cases "nic_NetworkID n = ''''") (clarsimp simp: canon_eq)+
  then show ?thesis
    using iv by (auto simp: net stored_nic_def canon_eq)
qed

lemma insert_disks_ok:
  assumes "mapE (\<lambda>d. wrapE p (insert_disk E v d)) ds w = (Inr x, w')"
  shows "w' = w\<lparr>stmt_no := stmt_no w', vm_disks := vm_disks w @ map (\<lambda>d. (canon E v, stored_disk E d)) ds\<rparr>"
  using assms
proof (induction ds arbitrary: w x)
  case Nil
  then show ?case by simp
next
  case (Cons d ds)
  obtain w1 y where "insert_disk E v d w = (Inr (), w1)"
    and "mapE (\<lambda>d. wrapE p (insert_disk E v d)) ds w1 = (Inr y, w')"
    using Cons.prems by (auto simp: op_Inr_iff)
  from insert_disk_ok [OF this(1)] Cons.IH [OF this(2)] show ?case
    by (cases w') simp
qed

lemma insert_nics_ok:
  assumes "mapE (\<lambda>d. wrapE p (insert_nic E v d)) ns w = (Inr x, w')"
  shows "w' = w\<lparr>stmt_no := stmt_no w',
    vm_network_interfaces := vm_network_interfaces w @ map (\<lambda>d. (canon E v, stored_nic E d)) ns\<rparr>"
  using assms
proof (induction ns arbitrary: w x)
  case Nil
  then show ?case by simp
next
  case (Cons d ds)
  obtain w1 y where "insert_nic E v d w = (Inr (), w1)"
    and "mapE (\<lambda>d. wrapE p (insert_nic E v d)) ds w1 = (Inr y, w')"
    using Cons.prems by (auto simp: op_Inr_iff)
  from insert_nic_ok [OF this(1)] Cons.IH [OF this(2)] show ?case
    by (cases w') simp
qed

lemma in_tx_Inr_iff: "in_tx m w = (Inr x, w') \<longleftrightarrow> m w = (Inr x, w')"
  by (auto simp: in_tx_def split: prod.splits sum.splits)

lemma in_tx_Inl: "in_tx m w = (Inl e, w') \<Longrightarrow> \<exists>n. w' = w\<lparr>stmt_no := n\<rparr>"
  by (auto simp: in_tx_def split: prod.splits sum.splits)

lemma no_op_Inr: "no_op E w = (Inr x, w') \<Longrightarrow> w' = w\<lparr>stmt_no := Suc (stmt_no w)\<rparr>"
  by (simp add: no_op_def sql_Inr_iff)

lemma VM_Create_ok:
  assumes "VMRepository_Create E vm w = (Inr (), w')"
  shows "w' = w\<lparr>stmt_no := stmt_no w', virtual_machines := virtual_machines w @ [stored_vm E vm],
    vm_disks := vm_disks w @ map (\<lambda>d. (canon E (vm_ID vm), stored_disk E d)) (vm_Disks vm),
    vm_network_interfaces := vm_network_interfaces w @ map (\<lambda>d. (canon E (vm_ID vm), stored_nic E d)) (vm_NetworkInterfaces vm)\<rparr>"
    and "uuid_parse E (vm_ID vm) = Some (canon E (vm_ID vm))"
    and "canon E (vm_ID vm) \<notin> vm_ID ` set (virtual_machines w)"
proof -
  obtain w1 w2 w3 w4 x y where
    steps: "no_op E w = (Inr (), w1)" "insert_vm E vm w1 = (Inr (), w2)"
      "mapE (\<lambda>d. wrapE ''vm_repo: insert disk'' (insert_disk E (vm_ID vm) d)) (vm_Disks vm) w2 = (Inr x, w3)"
      "mapE (\<lambda>n. wrapE ''vm_repo: insert nic'' (insert_nic E (vm_ID vm) n)) (vm_NetworkInterfaces vm) w3 = (Inr y, w4)"
      "no_op E w4 = (Inr (), w')"
    using assms by (auto simp: VMRepository_Create_def in_tx_Inr_iff op_Inr_iff)
  note eqs = no_op_Inr [OF steps(1)] insert_vm_ok [OF steps(2)] insert_disks_ok [OF steps(3)]
    insert_nics_ok [OF steps(4)] no_op_Inr [OF steps(5)]
  show "w' = w\<lparr>stmt_no := stmt_no w', virtual_machines := virtual_machines w @ [stored_vm E vm],
    vm_disks := vm_disks w @ map (\<lambda>d. (canon E (vm_ID vm), stored_disk E d)) (vm_Disks vm),
    vm_network_interfaces := vm_network_interfaces w @ map (\<lambda>d. (canon E (vm_ID vm), stored_nic E d)) (vm_NetworkInterfaces vm)\<rparr>"
    using eqs by (cases w3; cases w4; cases w') simp
  show "uuid_parse E (vm_ID vm) = Some (canon E (vm_ID vm))" "canon E (vm_ID vm) \<notin> vm_ID ` set (virtual_machines w)"
    using eqs by simp_all
qed

lemma VM_Create_fails: "VMRepository_Create E vm w = (Inl e, w') \<Longrightarrow> \<exists>n. w' = w\<lparr>stmt_no := n\<rparr>"
  unfolding VMRepository_Create_def by (rule in_tx_Inl)

text \<open>\<open>vm_of w c\<close> is the machine with id \<open>c\<close> as a get assembles it from the three tables.\<close>

definition vm_of :: "world \<Rightarrow> string \<Rightarrow> VirtualMachine option" where
  "vm_of w c = map_option (\<lambda>v. v\<lparr>vm_Disks := disks_of w c, vm_NetworkInterfaces := nics_of w c\<rparr>)
     (by_id vm_ID (virtual_machines w) c)"

lemma related_stmt [simp]:
  "disks_of (w\<lparr>stmt_no := n\<rparr>) = disks_of w" "nics_of (w\<lparr>stmt_no := n\<rparr>) = nics_of w"
  by (auto simp: disks_of_def nics_of_def)

lemma rows_flatD: "db_ok w \<Longrightarrow> v \<in> set (virtual_machines w) \<Longrightarrow> vm_Disks v = [] \<and> vm_NetworkInterfaces v = []"
  by (simp add: db_ok_def rows_flat_def)

lemma by_id_Some: "by_id key rs c = Some r \<Longrightarrow> r \<in> set rs \<and> key r = c"
  using find_key_Some by (fastforce simp: by_id_def)

lemma VM_GetByID_ok:
  assumes "healthy E" "uuid_ok E" "db_ok w" "uuid_parse E i = Some c"
  shows "\<exists>n. VMRepository_GetByID E i w = (Inr (vm_of w c), w\<lparr>stmt_no := n\<rparr>)"
proof (cases "by_id vm_ID (virtual_machines w) c")
  case None
  then show ?thesis
    using assms
    by (auto simp: VMRepository_GetByID_def bindE_apply scanVM_def get_opt_select_ok vm_of_def)
next
  case (Some v)
  then have "vm_ID v = c" "v \<in> set (virtual_machines w)"
    using by_id_Some by fastforce+
  moreover from this have "vm_Disks v = []" "vm_NetworkInterfaces v = []"
    using rows_flatD [OF assms(3)] by auto
  moreover have "get_opt ''vm_repo: get by id'' (scanVM E i) w = (Inr (Some v), w\<lparr>stmt_no := Suc (stmt_no w)\<rparr>)"
    using assms Some by (simp add: scanVM_def get_opt_select_ok)
  ultimately show ?thesis
    using assms(1) Some uuid_ok_canon [OF assms(2,4)]
    by (auto simp: VMRepository_GetByID_def bindE_apply vm_of_def loadRelated_def wrapE_apply sql_healthy uuid_arg_ok)
qed

lemma filter_fst_const: "filter (\<lambda>r. fst r = c) (map (\<lambda>d. (c, f d)) ds) = map (\<lambda>d. (c, f d)) ds"
  by (induction ds) auto



text \<open>A machine just created is found as it was stored, its disks in their order.\<close>

definition owned :: "world \<Rightarrow> bool" where
  "owned w \<longleftrightarrow> fst ` set (vm_disks w) \<subseteq> vm_ID ` set (virtual_machines w) \<and>
     fst ` set (vm_network_interfaces w) \<subseteq> vm_ID ` set (virtual_machines w)"

lemma db_ok_owned: "db_ok w \<Longrightarrow> owned w"
  by (auto simp: db_ok_def refs_ok_def owned_def)

lemma vm_of_created:
  assumes "owned w" "VMRepository_Create E vm w = (Inr (), w')"
  shows "vm_of w' (canon E (vm_ID vm)) = Some ((stored_vm E vm)\<lparr>vm_Disks := sort_key d_Order (map (stored_disk E) (vm_Disks vm)),
    vm_NetworkInterfaces := map (stored_nic E) (vm_NetworkInterfaces vm)\<rparr>)"
proof -
  let ?c = "canon E (vm_ID vm)"
  note ok = VM_Create_ok [OF assms(2)]
  have none: "filter (\<lambda>r. fst r = ?c) (vm_disks w) = []" "filter (\<lambda>r. fst r = ?c) (vm_network_interfaces w) = []"
    using assms(1) ok(3) by (auto simp: owned_def filter_empty_conv)
  have "by_id vm_ID (virtual_machines w @ [stored_vm E vm]) ?c = Some (stored_vm E vm)"
    using ok(3) by (simp add: by_id_add stored_vm_def)
  then show ?thesis
    unfolding vm_of_def disks_of_def nics_of_def
    by (subst (1 2 3) ok(1)) (simp add: none filter_fst_const comp_def)
qed

text \<open>The other machines stay as they are.\<close>

lemma vm_of_others:
  assumes "VMRepository_Create E vm w = (Inr (), w')" "j \<noteq> canon E (vm_ID vm)"
  shows "vm_of w' j = vm_of w j"
proof -
  note ok = VM_Create_ok [OF assms(1)]
  have other: "filter (\<lambda>r. fst r = j) (map (\<lambda>d. (canon E (vm_ID vm), f d)) ds) = []" for f :: "'x \<Rightarrow> 'y" and ds
    using assms(2) by (induction ds) auto
  have "by_id vm_ID (virtual_machines w @ [stored_vm E vm]) j = by_id vm_ID (virtual_machines w) j"
    using ok(3) assms(2) by (simp add: by_id_add stored_vm_def)
  then show ?thesis
    unfolding vm_of_def disks_of_def nics_of_def by (subst (1 2 3) ok(1)) (simp add: other)
qed

text \<open>
  C12. A machine whose creation succeeds can be read back: the get that follows returns the machine as it was
  given, with its disks in the order of their positions and its interfaces, identifiers and addresses in
  the canonical form of the database; every other machine reads as before. A creation that fails, at any of
  its statements, leaves every machine, disk and interface as it was.
\<close>

theorem VM_create_roundtrip:
  assumes "db_ok w" "healthy E" "uuid_ok E" "VMRepository_Create E vm w = (r, w')"
  shows "case r of
      Inl e \<Rightarrow> virtual_machines w' = virtual_machines w \<and> vm_disks w' = vm_disks w \<and>
        vm_network_interfaces w' = vm_network_interfaces w
    | Inr _ \<Rightarrow>
        (\<exists>w''. VMRepository_GetByID E (vm_ID vm) w' = (Inr (Some ((stored_vm E vm)
           \<lparr>vm_Disks := sort_key d_Order (map (stored_disk E) (vm_Disks vm)),
            vm_NetworkInterfaces := map (stored_nic E) (vm_NetworkInterfaces vm)\<rparr>)), w'')) \<and>
        (\<forall>i c. uuid_parse E i = Some c \<longrightarrow> c \<noteq> canon E (vm_ID vm) \<longrightarrow>
           (\<exists>w1 w2. VMRepository_GetByID E i w' = (Inr (vm_of w c), w1) \<and> VMRepository_GetByID E i w = (Inr (vm_of w c), w2)))"
proof (cases r)
  case (Inl e)
  then show ?thesis
    using VM_Create_fails [of E vm w e w'] assms(4) by auto
next
  case (Inr u)
  then have run: "VMRepository_Create E vm w = (Inr (), w')"
    using assms(4) by simp
  have "db_ok w'"
    using preserves_result [OF db_VMRepository_Create assms(1) run] .
  note get = VM_GetByID_ok [OF assms(2,3) this] VM_GetByID_ok [OF assms(2,3,1)]
  have "\<exists>w1 w2. VMRepository_GetByID E i w' = (Inr (vm_of w c), w1) \<and> VMRepository_GetByID E i w = (Inr (vm_of w c), w2)"
    if "uuid_parse E i = Some c" "c \<noteq> canon E (vm_ID vm)" for i c
    using get(1) [OF that(1)] get(2) [OF that(1)] vm_of_others [OF run that(2)] by auto
  then show ?thesis
    using get(1) [OF VM_Create_ok(2) [OF run]] vm_of_created [OF db_ok_owned [OF assms(1)] run] by (auto simp: Inr)
qed

definition sample_vm :: VirtualMachine where
  "sample_vm = \<lparr>vm_ID = ''v'', vm_Name = ''web'', vm_NodeID = None, vm_OrganizationID = nil_uuid, vm_ProjectID = None,
     vm_Status = VMStatusCreating, vm_VCpus = 2, vm_MemoryMB = 512, vm_CPUModel = '''', vm_MachineType = '''',
     vm_EnableSecureBoot = False, vm_EnableTPM = False, vm_Hugepages = False, vm_CloudInit = '''', vm_SSHKeyID = None,
     vm_Tags = [], vm_Metadata = None, vm_Labels = None,
     vm_Disks = [\<lparr>d_ID = ''d'', d_Name = ''root'', d_SizeBytes = 1, d_Type = ''qcow2'', d_StoragePool = ''default'',
       d_ImageID = '''', d_Boot = True, d_Order = 0\<rparr>],
     vm_NetworkInterfaces = [\<lparr>nic_ID = ''n'', nic_Name = ''eth0'', nic_NetworkID = '''', nic_MACAddress = ''m'',
       nic_IPv4Addresses = [''10.0.0.2/16''], nic_IPv6Addresses = [], nic_IsPrimary = True\<rparr>]\<rparr>"

lemma sample_vm_created: "fst (VMRepository_Create sample_env sample_vm empty_world) = Inr ()"
  by (simp add: VMRepository_Create_def in_tx_def bindE_apply wrapE_apply no_op_def sql_healthy insert_vm_def uuid_arg_def
      uuid_opt_def require_def insert_disk_def insert_nic_def uuid_nullif_def inet_arg_def sample_vm_def empty_world_def
      nil_uuid_def disk_types_def nic_ip_key_def nic_mac_key_def List.map_filter_simps Let_def split: option.splits)

theorem VM_create_roundtrip_witness:
  "fst (VMRepository_Create sample_env sample_vm empty_world) = Inr () \<and>
   (\<exists>w''. VMRepository_GetByID sample_env ''v'' (snd (VMRepository_Create sample_env sample_vm empty_world)) = (Inr (Some sample_vm), w''))"
  using VM_create_roundtrip [of empty_world sample_env sample_vm "Inr ()" "snd (VMRepository_Create sample_env sample_vm empty_world)"]
    sample_vm_created
  by (auto simp: prod_eq_iff sample_vm_def stored_vm_def stored_disk_def stored_nic_def canon_def canon_inet_def nil_uuid_def)

text \<open>
  C13. The repositories of nodes, images, snapshots, backups, flavors and keypairs keep the contract of a
  repository: after a successful create a get of the id returns the created row (with identifiers in
  canonical form); after a successful delete it returns no row; a create refuses an id that is present.
\<close>

theorem repositories_roundtrip:
  assumes "healthy E"
  shows "(NodeRepository_Create E n w = (Inr (), w1) \<longrightarrow>
       by_id node_ID (nodes w) (canon E (node_ID n)) = None \<and>
       (\<exists>w2. NodeRepository_GetByID E (node_ID n) w1 = (Inr (Some (stored_node E n)), w2))) \<and>
     (ImageRepository_Create E m w = (Inr (), w1) \<longrightarrow>
       by_id img_ID (images w) (canon E (img_ID m)) = None \<and>
       (\<exists>w2. ImageRepository_GetByID E (img_ID m) w1 = (Inr (Some (stored_image E m)), w2))) \<and>
     (SnapshotRepository_Create E s w = (Inr (), w1) \<longrightarrow>
       by_id snap_ID (snapshots w) (canon E (snap_ID s)) = None \<and>
       (\<exists>w2. SnapshotRepository_GetByID E (snap_ID s) w1 = (Inr (Some (stored_snapshot E s)), w2))) \<and>
     (BackupRepository_Create E b w = (Inr (), w1) \<longrightarrow>
       by_id bak_ID (backups w) (canon E (bak_ID b)) = None \<and>
       (\<exists>w2. BackupRepository_GetByID E (bak_ID b) w1 = (Inr (Some (stored_backup E b)), w2))) \<and>
     (FlavorRepository_Create E f w = (Inr (), w1) \<longrightarrow>
       by_id fl_ID (flavors w) (canon E (fl_ID f)) = None \<and>
       (\<exists>w2. FlavorRepository_GetByID E (fl_ID f) w1 = (Inr (Some (stored_flavor E f)), w2))) \<and>
     (KeypairRepository_Create E k w = (Inr (), w1) \<longrightarrow>
       by_id kp_ID (keypairs w) (canon E (kp_ID k)) = None \<and>
       (\<exists>w2. KeypairRepository_GetByID E (kp_ID k) w1 = (Inr (Some (stored_keypair E k)), w2))) \<and>
     (NodeRepository_Delete E i w = (Inr (), w1) \<longrightarrow> (\<exists>w2. NodeRepository_GetByID E i w1 = (Inr None, w2))) \<and>
     (ImageRepository_Delete E i w = (Inr (), w1) \<longrightarrow> (\<exists>w2. ImageRepository_GetByID E i w1 = (Inr None, w2))) \<and>
     (SnapshotRepository_Delete E i w = (Inr (), w1) \<longrightarrow> (\<exists>w2. SnapshotRepository_GetByID E i w1 = (Inr None, w2))) \<and>
     (BackupRepository_Delete E i w = (Inr (), w1) \<longrightarrow> (\<exists>w2. BackupRepository_GetByID E i w1 = (Inr None, w2))) \<and>
     (FlavorRepository_Delete E i w = (Inr (), w1) \<longrightarrow> (\<exists>w2. FlavorRepository_GetByID E i w1 = (Inr None, w2))) \<and>
     (KeypairRepository_Delete E i w = (Inr (), w1) \<longrightarrow> (\<exists>w2. KeypairRepository_GetByID E i w1 = (Inr None, w2)))"
  using assms node_repo.create_then_get node_repo.create_law node_repo.remove_then_get
    image_repo.create_then_get image_repo.create_law image_repo.remove_then_get
    snapshot_repo.create_then_get snapshot_repo.create_law snapshot_repo.remove_then_get
    backup_repo.create_then_get backup_repo.create_law backup_repo.remove_then_get
    flavor_repo.create_then_get flavor_repo.create_law flavor_repo.remove_then_get
    keypair_repo.create_then_get keypair_repo.create_law keypair_repo.remove_then_get
    canon_eq
  by (intro conjI impI) metis+

theorem repositories_roundtrip_witness:
  "\<exists>w1 w2. FlavorRepository_Create sample_env \<lparr>fl_ID = ''f'', fl_Name = ''small'', fl_Description = '''', fl_VCpus = 1,
       fl_MemoryMB = 512, fl_DiskGB = 10\<rparr> empty_world = (Inr (), w1) \<and>
     FlavorRepository_GetByID sample_env ''f'' w1 = (Inr (Some \<lparr>fl_ID = ''f'', fl_Name = ''small'', fl_Description = '''',
       fl_VCpus = 1, fl_MemoryMB = 512, fl_DiskGB = 10\<rparr>), w2)"
proof -
  let ?f = "\<lparr>fl_ID = ''f'', fl_Name = ''small'', fl_Description = '''', fl_VCpus = 1, fl_MemoryMB = 512, fl_DiskGB = 10\<rparr>"
  have "FlavorRepository_Create sample_env ?f empty_world =
      (Inr (), empty_world\<lparr>stmt_no := 1, flavors := [?f]\<rparr>)"
    by (simp add: FlavorRepository_Create_def wrapE_apply sql_healthy uuid_arg_def require_def empty_world_def)
  then show ?thesis
    using repositories_roundtrip [of sample_env _ empty_world "empty_world\<lparr>stmt_no := 1, flavors := [?f]\<rparr>" _ _ _ ?f]
    by (simp add: stored_flavor_def)
qed

end
