(* ===== verification/Catalog.thy ===== *)
theory Catalog
  imports GoStrings
begin

section \<open>Official images: \<^verbatim>\<open>services/controlplane/catalog/catalog.go\<close>\<close>

text \<open>
  The table of official images, its aliases and the two lookups. \<open>Find_sound\<close> is what the
  callers rely on: whichever of the three searches answers, the image has the operating
  system, version and architecture asked for. \<open>ResolveImageAlias_complete\<close> says that every name
  and every alias of the tables resolves, and to the image it names.
\<close>

record OfficialImage =
  oi_Name :: string
  oi_OS :: string
  oi_OSVersion :: string
  oi_Architecture :: string
  oi_URL :: string
  oi_Checksum :: string
  oi_SizeBytes :: int
  oi_Description :: string

definition official :: "string \<Rightarrow> string \<Rightarrow> string \<Rightarrow> string \<Rightarrow> string \<Rightarrow> string \<Rightarrow> OfficialImage" where
  "official name os ver arch url desc =
     \<lparr>oi_Name = name, oi_OS = os, oi_OSVersion = ver, oi_Architecture = arch, oi_URL = url,
      oi_Checksum = '''', oi_SizeBytes = 0, oi_Description = desc\<rparr>"

definition officialImages :: "OfficialImage list" where
  "officialImages =
     [official ''ubuntu-24.04'' ''ubuntu'' ''24.04'' ''amd64''
        ''https://cloud-images.ubuntu.com/noble/current/noble-server-cloudimg-amd64.img''
        ''Ubuntu 24.04 LTS (Noble) cloud image - amd64'',
      official ''ubuntu-22.04'' ''ubuntu'' ''22.04'' ''amd64''
        ''https://cloud-images.ubuntu.com/jammy/current/jammy-server-cloudimg-amd64.img''
        ''Ubuntu 22.04 LTS (Jammy) cloud image - amd64'',
      official ''ubuntu-20.04'' ''ubuntu'' ''20.04'' ''amd64''
        ''https://cloud-images.ubuntu.com/focal/current/focal-server-cloudimg-amd64.img''
        ''Ubuntu 20.04 LTS (Focal) cloud image - amd64'',
      official ''ubuntu-24.04-arm64'' ''ubuntu'' ''24.04'' ''arm64''
        ''https://cloud-images.ubuntu.com/noble/current/noble-server-cloudimg-arm64.img''
        ''Ubuntu 24.04 LTS (Noble) cloud image - arm64'',
      official ''debian-12'' ''debian'' ''12'' ''amd64''
        ''https://cloud.debian.org/images/cloud/bookworm/latest/debian-12-generic-amd64.qcow2''
        ''Debian 12 (Bookworm) generic cloud image - amd64'',
      official ''debian-11'' ''debian'' ''11'' ''amd64''
        ''https://cloud.debian.org/images/cloud/bullseye/latest/debian-11-generic-amd64.qcow2''
        ''Debian 11 (Bullseye) generic cloud image - amd64'',
      official ''debian-12-arm64'' ''debian'' ''12'' ''arm64''
        ''https://cloud.debian.org/images/cloud/bookworm/latest/debian-12-generic-arm64.qcow2''
        ''Debian 12 (Bookworm) generic cloud image - arm64'']"

definition aliases :: "(string \<times> string) list" where
  "aliases =
     [(''ubuntu'', ''ubuntu-22.04''),
      (''ubuntu-lts'', ''ubuntu-22.04''),
      (''ubuntu-latest'', ''ubuntu-24.04''),
      (''debian'', ''debian-12''),
      (''debian-latest'', ''debian-12'')]"

definition catalog_List :: "OfficialImage list" where
  "catalog_List = officialImages"

definition Find :: "string \<Rightarrow> string \<Rightarrow> string \<Rightarrow> error + OfficialImage" where
  "Find os0 version0 arch0 =
     (let os = ToLower (TrimSpace os0);
          version = TrimSpace version0;
          arch1 = ToLower (TrimSpace arch0);
          arch = (if arch1 = '''' then ''amd64'' else arch1);
          by_alias = (case map_of aliases os of
              Some alias \<Rightarrow> if version = '''' then
                  find (\<lambda>oi. oi_Name oi = alias \<and> oi_Architecture oi = arch) officialImages else None
            | None \<Rightarrow> None);
          combined = (if version \<noteq> '''' then
              (if arch \<noteq> ''amd64'' then os @ ''-'' @ version @ ''-'' @ arch else os @ ''-'' @ version)
            else os)
      in case by_alias of
           Some oi \<Rightarrow> Inr oi
         | None \<Rightarrow>
             (case find (\<lambda>oi. oi_Name oi = combined) officialImages of
                Some oi \<Rightarrow> Inr oi
              | None \<Rightarrow>
                  (case find (\<lambda>oi. oi_OS oi = os \<and> oi_Architecture oi = arch \<and>
                                (version = '''' \<or> oi_OSVersion oi = version)) officialImages of
                     Some oi \<Rightarrow> Inr oi
                   | None \<Rightarrow> Inl (Msg (''official image not found for os='' @ os @ '' version='' @ version
                              @ '' arch='' @ arch)))))"

text \<open>The operating system, version and architecture the parts of an alias stand for.\<close>

definition alias_parts :: "string list \<Rightarrow> string \<times> string \<times> string" where
  "alias_parts parts =
     (case parts of
        [] \<Rightarrow> ('''', '''', ''amd64'')
      | [p0] \<Rightarrow> (p0, '''', ''amd64'')
      | [p0, p1] \<Rightarrow> if p1 = ''amd64'' \<or> p1 = ''arm64'' then (p0, '''', p1) else (p0, p1, ''amd64'')
      | p0 # p1 # p2 # _ \<Rightarrow> (p0, p1, p2))"

definition ResolveImageAlias :: "string \<Rightarrow> error + OfficialImage" where
  "ResolveImageAlias image0 =
     (let image = ToLower (TrimSpace image0) in
      if image = '''' then Inl (Msg ''image alias is empty'')
      else case find (\<lambda>oi. oi_Name oi = image) officialImages of
        Some oi \<Rightarrow> Inr oi
      | None \<Rightarrow>
          (case Option.bind (map_of aliases image) (\<lambda>alias. find (\<lambda>oi. oi_Name oi = alias) officialImages) of
             Some oi \<Rightarrow> Inr oi
           | None \<Rightarrow>
               (case alias_parts (Split image (CHR ''-'')) of (os, version, arch) \<Rightarrow>
                  (case Find os version arch of
                     Inr img \<Rightarrow> Inr img
                   | Inl _ \<Rightarrow> Inl (Msg (''unknown image alias '' @ Quote image
                       @ '', try ubuntu, ubuntu-22.04, ubuntu-24.04, debian, debian-12''))))))"

subsection \<open>The tables\<close>

text \<open>A name is the operating system, the version and, unless it is amd64, the architecture.\<close>

lemma official_names:
  "oi \<in> set officialImages \<Longrightarrow>
   Split (oi_Name oi) (CHR ''-'') =
     [oi_OS oi, oi_OSVersion oi] @ (if oi_Architecture oi = ''amd64'' then [] else [oi_Architecture oi])"
proof -
  have "list_all (\<lambda>oi. Split (oi_Name oi) (CHR ''-'') =
     [oi_OS oi, oi_OSVersion oi] @ (if oi_Architecture oi = ''amd64'' then [] else [oi_Architecture oi])) officialImages"
    by code_simp
  then show "oi \<in> set officialImages \<Longrightarrow> ?thesis"
    by (simp add: list_all_iff)
qed

lemma alias_os:
  "map_of aliases a = Some n \<Longrightarrow> CHR ''-'' \<notin> set a \<Longrightarrow> oi \<in> set officialImages \<Longrightarrow> oi_Name oi = n \<Longrightarrow> oi_OS oi = a"
proof -
  have "list_all (\<lambda>(a, n). CHR ''-'' \<notin> set a \<longrightarrow> list_all (\<lambda>oi. oi_Name oi = n \<longrightarrow> oi_OS oi = a) officialImages) aliases"
    by code_simp
  then show "map_of aliases a = Some n \<Longrightarrow> CHR ''-'' \<notin> set a \<Longrightarrow> oi \<in> set officialImages \<Longrightarrow> oi_Name oi = n \<Longrightarrow> ?thesis"
    by (auto simp: list_all_iff dest!: map_of_SomeD)
qed

lemma Split_two: "c \<notin> set a \<Longrightarrow> c \<notin> set b \<Longrightarrow> Split (a @ [c] @ b) c = [a, b]"
  by (simp add: Split_append_sep Split_single)

lemma Split_three:
  "c \<notin> set a \<Longrightarrow> c \<notin> set b \<Longrightarrow> Split (a @ [c] @ b @ [c] @ d) c = a # b # Split d c"
  by (simp add: Split_append_sep)

lemma Split_eq_single: "Split d c = [w] \<Longrightarrow> d = w"
  using Join_Split [of d c] by simp

text \<open>The search by name: a match agrees with every part of the combined name.\<close>

lemma combined_match:
  assumes oi: "oi \<in> set officialImages" and nm: "oi_Name oi = combined"
    and os: "CHR ''-'' \<notin> set os" and ver: "CHR ''-'' \<notin> set version"
    and comb: "combined = (if version \<noteq> '''' then
      (if arch \<noteq> ''amd64'' then os @ ''-'' @ version @ ''-'' @ arch else os @ ''-'' @ version) else os)"
  shows "oi_OS oi = os \<and> oi_Architecture oi = arch \<and> version \<noteq> '''' \<and> oi_OSVersion oi = version"
proof -
  note parts = official_names [OF oi, unfolded nm comb]
  show ?thesis
  proof (cases "version = ''''")
    case True
    then show ?thesis
      using parts os by (simp add: Split_single split: if_splits)
  next
    case False
    show ?thesis
    proof (cases "arch = ''amd64''")
      case True
      then show ?thesis
        using parts False Split_two [OF os ver] by (simp split: if_splits)
    next
      case arch: False
      then show ?thesis
        using parts False Split_three [OF os ver, of arch] Split_eq_single [of arch "CHR ''-''"]
        by (auto split: if_splits simp: eq_commute [of _ "Split arch (CHR ''-'')"])
    qed
  qed
qed

lemma find_SomeD: "find P xs = Some x \<Longrightarrow> x \<in> set xs \<and> P x"
  by (auto simp: find_Some_iff)

subsection \<open>Properties\<close>

text \<open>
  An image that \<open>Find\<close> returns is one of the official images and has the operating system, the
  architecture (amd64 when none is given) and, when a version is given, the version asked for, as
  long as the operating system and the version contain no dash.
\<close>

theorem Find_sound:
  assumes "Find os0 version0 arch0 = Inr oi"
    and "CHR ''-'' \<notin> set (ToLower (TrimSpace os0))" "CHR ''-'' \<notin> set (TrimSpace version0)"
  shows "oi \<in> set officialImages \<and> oi_OS oi = ToLower (TrimSpace os0) \<and>
    oi_Architecture oi = (if ToLower (TrimSpace arch0) = '''' then ''amd64'' else ToLower (TrimSpace arch0)) \<and>
    (TrimSpace version0 \<noteq> '''' \<longrightarrow> oi_OSVersion oi = TrimSpace version0)"
  using assms
  by (auto simp: Find_def Let_def split: option.splits if_splits
      dest!: find_SomeD dest: alias_os combined_match [OF _ _ _ _ refl])

theorem Find_sound_witness:
  "\<exists>oi. Find '' Ubuntu'' ''24.04'' ''ARM64'' = Inr oi \<and> oi_Architecture oi = ''arm64''"
proof -
  have "isl (Find '' Ubuntu'' ''24.04'' ''ARM64'') = False"
    by code_simp
  then obtain oi where oi: "Find '' Ubuntu'' ''24.04'' ''ARM64'' = Inr oi"
    by (auto simp: isl_def split: sum.splits) (metis sum.exhaust)
  have n: "CHR ''-'' \<notin> set (ToLower (TrimSpace '' Ubuntu''))" "CHR ''-'' \<notin> set (TrimSpace ''24.04'')"
      "ToLower (TrimSpace ''ARM64'') = ''arm64''"
    by code_simp+
  show ?thesis
    using Find_sound [OF oi n(1,2)] oi n(3) by auto
qed

text \<open>
  Every name of an official image resolves to that image, whatever its case and surrounding
  blanks, and every alias resolves to the image it is an alias of.
\<close>

theorem ResolveImageAlias_complete:
  "(\<forall>oi\<in>set officialImages. ToLower (TrimSpace s) = oi_Name oi \<longrightarrow> ResolveImageAlias s = Inr oi) \<and>
   (\<forall>(a, n)\<in>set aliases. ToLower (TrimSpace s) = a \<longrightarrow>
      (\<exists>oi\<in>set officialImages. oi_Name oi = n \<and> ResolveImageAlias s = Inr oi))"
proof -
  have n: "list_all (\<lambda>oi. oi_Name oi \<noteq> '''' \<and> find (\<lambda>x. oi_Name x = oi_Name oi) officialImages = Some oi) officialImages"
    by code_simp
  have a: "list_all (\<lambda>(a, n). a \<noteq> '''' \<and> find (\<lambda>x. oi_Name x = a) officialImages = None \<and> map_of aliases a = Some n \<and>
      find (\<lambda>x. oi_Name x = n) officialImages \<noteq> None) aliases"
    by code_simp
  have "ResolveImageAlias s = Inr oi" if "oi \<in> set officialImages" "ToLower (TrimSpace s) = oi_Name oi" for oi
    using n that by (auto simp: ResolveImageAlias_def list_all_iff)
  moreover have "\<exists>oi\<in>set officialImages. oi_Name oi = n \<and> ResolveImageAlias s = Inr oi"
    if "(k, n) \<in> set aliases" "ToLower (TrimSpace s) = k" for k n
    using a that by (fastforce simp: ResolveImageAlias_def list_all_iff dest: find_SomeD)
  ultimately show ?thesis
    by blast
qed

theorem ResolveImageAlias_complete_witness:
  "\<exists>oi. ResolveImageAlias ''Debian '' = Inr oi \<and> oi_Name oi = ''debian-12''"
proof -
  have "(''debian'', ''debian-12'') \<in> set aliases" "ToLower (TrimSpace ''Debian '') = ''debian''"
    by code_simp+
  then show ?thesis
    using ResolveImageAlias_complete [of "''Debian ''"] by fastforce
qed

end
