(* ===== verification/GoPath.thy ===== *)
theory GoPath
  imports GoStrings
begin

section \<open>Paths: Go's \<^verbatim>\<open>path/filepath\<close> on Unix\<close>

text \<open>
  \<open>filepath_Clean\<close>, \<open>filepath_Join\<close>, \<open>filepath_Ext\<close> and \<open>filepath_Base\<close> as the services use them. The lemmas
  show that a directory and a file name can be told apart again, so that files named after different
  identifiers are different files.
\<close>

definition Separator :: char where
  "Separator = CHR ''/''"

text \<open>One element of a path: nothing and the dot are dropped, two dots take back the element before.\<close>

definition clean_step :: "bool \<Rightarrow> string list \<Rightarrow> string \<Rightarrow> string list" where
  "clean_step rooted stack e =
     (if e = '''' \<or> e = ''.'' then stack
      else if e = ''..'' then
        (case stack of
           [] \<Rightarrow> if rooted then [] else [''..'']
         | t # ts \<Rightarrow> if t = ''..'' then ''..'' # stack else ts)
      else e # stack)"

definition filepath_Clean :: "string \<Rightarrow> string" where
  "filepath_Clean path =
     (if path = '''' then ''.''
      else let rooted = hd path = Separator;
               elems = rev (foldl (clean_step rooted) [] (Split path Separator))
           in if rooted then Separator # Join elems [Separator]
              else if elems = [] then ''.'' else Join elems [Separator])"

fun filepath_Join :: "string list \<Rightarrow> string" where
  "filepath_Join [] = ''''"
| "filepath_Join (e # es) = (if e = '''' then filepath_Join es else filepath_Clean (Join (e # es) [Separator]))"

definition filepath_Ext :: "string \<Rightarrow> string" where
  "filepath_Ext path = (let name = rev (takeWhile (\<lambda>c. c \<noteq> Separator) (rev path)) in
     if CHR ''.'' \<in> set name then CHR ''.'' # rev (takeWhile (\<lambda>c. c \<noteq> CHR ''.'') (rev name)) else '''')"

definition filepath_Base :: "string \<Rightarrow> string" where
  "filepath_Base path =
     (if path = '''' then ''.''
      else let p = TrimRight path [Separator]; name = rev (takeWhile (\<lambda>c. c \<noteq> Separator) (rev p))
           in if name = '''' then [Separator] else name)"

subsection \<open>Files of a directory\<close>

lemma Split_append: "c \<notin> set name \<Longrightarrow> Split (d @ c # name) c = Split d c @ [name]"
proof -
  assume c: "c \<notin> set name"
  have name: "Split name c = [name]"
    using c by (induction name) auto
  have ne: "Split d c \<noteq> []" for d
    by (induction d) (auto split: list.splits)
  show ?thesis
  proof (induction d)
    case Nil
    then show ?case using name by simp
  next
    case (Cons x d)
    then show ?case using ne [of d] by (auto split: list.splits)
  qed
qed

definition plain_name :: "string \<Rightarrow> bool" where
  "plain_name n \<longleftrightarrow> Separator \<notin> set n \<and> n \<notin> {'''', ''.'', ''..''}"

definition dir_prefix :: "string \<Rightarrow> string" where
  "dir_prefix d = (if d = '''' then ''''
     else let rooted = hd d = Separator; elems = rev (foldl (clean_step rooted) [] (Split d Separator))
          in (if rooted then [Separator] else '''') @ (if elems = [] then '''' else Join elems [Separator] @ [Separator]))"

lemma Split_plain: "c \<notin> set s \<Longrightarrow> Split s c = [s]"
  by (induction s) auto

lemma Join_snoc: "Join (es @ [n]) s = (if es = [] then n else Join es s @ s @ n)"
proof (induction es)
  case (Cons e es)
  then show ?case by (cases es) auto
qed simp

lemma clean_step_plain: "plain_name n \<Longrightarrow> clean_step r st n = n # st"
  by (simp add: clean_step_def plain_name_def)

lemma filepath_Join_file: "plain_name n \<Longrightarrow> filepath_Join [d, n] = dir_prefix d @ n"
proof (cases "d = ''''")
  case True
  assume n: "plain_name n"
  then have "hd n \<noteq> Separator" "n \<noteq> ''''" by (cases n, auto simp: plain_name_def)
  then show ?thesis
    using True n Split_plain [of Separator n] by (simp add: filepath_Clean_def dir_prefix_def clean_step_plain plain_name_def)
next
  case False
  assume n: "plain_name n"
  then have "Split (d @ Separator # n) Separator = Split d Separator @ [n]"
    by (simp add: Split_append plain_name_def)
  then show ?thesis
    using False n by (simp add: filepath_Clean_def dir_prefix_def clean_step_plain Join_snoc Let_def)
qed

declare filepath_Join.simps [simp del]

lemma dir_prefix_end: "dir_prefix d = '''' \<or> (\<exists>p. dir_prefix d = p @ [Separator])"
  by (auto simp: dir_prefix_def Let_def)

lemma filepath_Ext_file:
  assumes "Separator \<notin> set n"
  shows "filepath_Ext (dir_prefix d @ n) = filepath_Ext n"
proof -
  have "takeWhile (\<lambda>c. c \<noteq> Separator) (rev (dir_prefix d @ n)) = rev n" "takeWhile (\<lambda>c. c \<noteq> Separator) (rev n) = rev n"
    using assms dir_prefix_end [of d]
    by (auto simp: takeWhile_eq_all_conv, subst takeWhile_append2, auto)
  then show ?thesis by (simp only: filepath_Ext_def)
qed

lemma filepath_Ext_qcow2: "Separator \<notin> set i \<Longrightarrow> filepath_Ext (i @ ''.qcow2'') = ''.qcow2''"
proof -
  assume "Separator \<notin> set i"
  then have "takeWhile (\<lambda>c. c \<noteq> Separator) (rev (i @ ''.qcow2'')) = rev (i @ ''.qcow2'')"
    by (auto simp: takeWhile_eq_all_conv Separator_def)
  then show ?thesis by (simp add: filepath_Ext_def)
qed

text \<open>The file of an identifier: the identifier is a plain text without a separator.\<close>

lemma plain_qcow2: "Separator \<notin> set i \<Longrightarrow> plain_name (i @ ''.qcow2'')"
  by (auto simp: plain_name_def Separator_def append_eq_Cons_conv)

lemma qcow2_path_inj:
  assumes "Separator \<notin> set i" "Separator \<notin> set j"
  shows "filepath_Join [d, i @ ''.qcow2''] = filepath_Join [d, j @ ''.qcow2''] \<longleftrightarrow> i = j"
  using assms by (simp add: filepath_Join_file plain_qcow2)

text \<open>Cleaning a path twice is cleaning it once; a name joined to a joined path.\<close>

definition settled_stack :: "bool \<Rightarrow> string list \<Rightarrow> bool" where
  "settled_stack r st \<longleftrightarrow> foldl (clean_step r) [] (rev st) = st \<and> (\<forall>e\<in>set st. Separator \<notin> set e \<and> e \<noteq> '''' \<and> e \<noteq> ''.'')"

lemma settled_push:
  "settled_stack r st \<Longrightarrow> clean_step r st e = e # st \<Longrightarrow> Separator \<notin> set e \<Longrightarrow> e \<notin> {'''', ''.''} \<Longrightarrow> settled_stack r (e # st)"
  by (simp add: settled_stack_def)

lemma settled_pop: "settled_stack r (t # ts) \<Longrightarrow> t \<noteq> ''..'' \<Longrightarrow> settled_stack r ts"
  by (simp add: settled_stack_def, simp add: clean_step_def split: if_splits)

lemma settled_step:
  assumes "settled_stack r st" "Separator \<notin> set e"
  shows "settled_stack r (clean_step r st e)"
proof -
  have step: "clean_step r st e = st \<or> e \<notin> {'''', ''.''} \<and> clean_step r st e = e # st \<or>
      (\<exists>t ts. st = t # ts \<and> t \<noteq> ''..'' \<and> clean_step r st e = ts)"
  proof (cases "e = ''..''")
    case True
    then show ?thesis by (cases st; cases r; cases "hd st = ''..''") (simp_all add: clean_step_def)
  next
    case False
    then show ?thesis by (simp add: clean_step_def)
  qed
  then show ?thesis
  proof (elim disjE conjE exE)
    fix t ts assume "st = t # ts" "t \<noteq> ''..''" "clean_step r st e = ts"
    then show ?thesis using settled_pop assms(1) by simp
  qed (use assms settled_push [OF assms(1) _ assms(2)] in simp_all)
qed

lemma Split_elems: "w \<in> set (Split s c) \<Longrightarrow> c \<notin> set w"
  by (induction s arbitrary: w) (auto split: if_splits list.splits)

lemma settled_foldl: "settled_stack r st \<Longrightarrow> (\<forall>e\<in>set es. Separator \<notin> set e) \<Longrightarrow> settled_stack r (foldl (clean_step r) st es)"
  by (induction es arbitrary: st) (simp_all add: settled_step)

lemma settled_Split: "settled_stack r (foldl (clean_step r) [] (Split p Separator))"
  by (rule settled_foldl) (auto simp: settled_stack_def dest: Split_elems)

lemma dir_prefix_Clean:
  assumes "p \<noteq> ''''"
  shows "dir_prefix (filepath_Clean p) = dir_prefix p"
proof -
  define r where "r \<longleftrightarrow> hd p = Separator"
  define st where "st = foldl (clean_step r) [] (Split p Separator)"
  have st: "foldl (clean_step r) [] (rev st) = st" "\<forall>e\<in>set st. Separator \<notin> set e \<and> e \<noteq> []"
    using settled_Split [of r p] by (simp_all add: settled_stack_def st_def)
  have split: "st \<noteq> [] \<Longrightarrow> Split (Join (rev st) [Separator]) Separator = rev st"
    using st(2) by (intro Split_Join) auto
  have first: "st \<noteq> [] \<Longrightarrow> hd (Join (rev st) [Separator]) \<noteq> Separator \<and> Join (rev st) [Separator] \<noteq> []"
  proof -
    assume "st \<noteq> []"
    then obtain e es where es: "rev st = e # es" by (cases "rev st") auto
    then have "e \<in> set st" by (metis list.set_intros(1) set_rev)
    then have "e \<noteq> []" "Separator \<notin> set e" using st(2) by auto
    then show ?thesis
      using es by (cases e; cases es) auto
  qed
  have clean: "filepath_Clean p = (if r then Separator # Join (rev st) [Separator]
      else if st = [] then ''.'' else Join (rev st) [Separator])"
    and prefix: "dir_prefix p = (if r then [Separator] else []) @ (if st = [] then [] else Join (rev st) [Separator] @ [Separator])"
    using assms by (simp_all add: filepath_Clean_def dir_prefix_def Let_def r_def st_def)
  have skip: "clean_step True [] [] = []" "clean_step False [] ''.'' = []" "CHR ''.'' \<noteq> Separator"
    by (simp_all add: clean_step_def Separator_def)
  show ?thesis
  proof (cases "st = []")
    case True
    then show ?thesis
      using skip by (simp add: clean prefix) (simp add: dir_prefix_def)
  next
    case False
    then show ?thesis
      using skip st(1) split first by (cases r) (simp_all add: clean prefix, simp_all add: dir_prefix_def)
  qed
qed

lemma filepath_Join_nested:
  assumes "plain_name c" "a \<noteq> ''''"
  shows "filepath_Join [filepath_Join [a, b], c] = filepath_Join [a, b, c]"
proof -
  have ab: "filepath_Join [a, b] = filepath_Clean (a @ Separator # b)"
    using assms(2) by (simp add: filepath_Join.simps)
  have "filepath_Join [a, b, c] = filepath_Join [a @ Separator # b, c]"
    using assms(2) by (simp add: filepath_Join.simps)
  then show ?thesis
    unfolding ab by (simp add: filepath_Join_file [OF assms(1)] dir_prefix_Clean)
qed

end
