(* ===== verification/ImagePuller.thy ===== *)
theory ImagePuller
  imports CpRepos Catalog GoPath
begin

section \<open>Image downloads: \<^verbatim>\<open>services/controlplane/image_puller.go\<close>\<close>

text \<open>
  The puller finds or creates the row of an image and starts its download. \<^verbatim>\<open>go p.download(...)\<close>
  appends to \<open>downloads\<close>, with a mark whether the download is bound to the context of the
  request; \<open>download\<close> is the body of that goroutine, run as one step. What the network, the file
  system and \<^verbatim>\<open>qemu-img\<close> answer is the argument \<open>fetch\<close>; image files are in \<open>files\<close>. The map of
  active downloads only keeps two downloads of one image apart; one step per download does that here.

  Shown: \<open>download_complete\<close>, a finished download, resumed or not, leaves the file, the size and the
  checksum that belong together, and no temporary file.
\<close>

definition ImagePath :: "string \<Rightarrow> string \<Rightarrow> string" where
  "ImagePath imagesDir imageID = filepath_Join [imagesDir, imageID @ ''.qcow2'']"

definition stat_ok :: "string \<Rightarrow> bool act" where
  "stat_ok path = gets (\<lambda>w. files w path \<noteq> None)"

definition go_download :: "bool \<Rightarrow> Image \<Rightarrow> string \<Rightarrow> unit act" where
  "go_download bound img url = modify (\<lambda>w. w\<lparr>downloads := downloads w @ [(img, url, bound)]\<rparr>)"

text \<open>\<open>restart_download\<close>: the row goes back to downloading, a download starts, the image is returned.\<close>

definition restart_download :: "env \<Rightarrow> bool \<Rightarrow> Image \<Rightarrow> string \<Rightarrow> Image act" where
  "restart_download E bound img url =
     ignoreE (ImageRepository_UpdateStatus E (img_ID img) ImageStatusDownloading 0 '''')
       (bindE (go_download bound img url) (\<lambda>_. ret img))"

definition PullFromOfficial :: "env \<Rightarrow> string \<Rightarrow> OfficialImage \<Rightarrow> Image act" where
  "PullFromOfficial E imagesDir oi =
     bindE (wrapE ''check existing image'' (ImageRepository_GetByName E (oi_Name oi))) (\<lambda>existing.
       case existing of
         Some ex \<Rightarrow>
           bindE (stat_ok (ImagePath imagesDir (img_ID ex))) (\<lambda>present.
             if img_Status ex = ImageStatusReady \<and> present then ret ex
             else if img_Status ex = ImageStatusDownloading \<or> img_Status ex = ImageStatusProcessing then ret ex
             else restart_download E True ex (oi_URL oi))
       | None \<Rightarrow>
           bindE (new_uuid E) (\<lambda>i.
           let img = \<lparr>img_ID = i, img_Name = oi_Name oi, img_Description = oi_Description oi, img_OS = oi_OS oi,
                 img_OSVersion = oi_OSVersion oi, img_Architecture = oi_Architecture oi, img_Type = ''os'',
                 img_SizeBytes = oi_SizeBytes oi, img_Status = ImageStatusDownloading, img_Checksum = '''',
                 img_SourceURL = oi_URL oi, img_Tags = [''official'', ''auto-pulled'']\<rparr> in
           bindE (wrapE ''create image'' (ImageRepository_Create E img)) (\<lambda>_.
           bindE (go_download False img (oi_URL oi)) (\<lambda>_. ret img))))"

definition Puller_PullOfficialImage :: "env \<Rightarrow> string \<Rightarrow> string \<Rightarrow> string \<Rightarrow> string \<Rightarrow> Image act" where
  "Puller_PullOfficialImage E imagesDir osName version arch =
     (case Find osName version arch of
        Inl err \<Rightarrow> throw err
      | Inr oi \<Rightarrow> PullFromOfficial E imagesDir oi)"

definition Puller_ImportFromURL :: "env \<Rightarrow> ImportImageRequest \<Rightarrow> Image act" where
  "Puller_ImportFromURL E req =
     (if ii_URL req = '''' then throw (Msg ''url is required'')
      else if ii_Name req = '''' then throw (Msg ''name is required'')
      else bindE (wrapE ''check existing'' (ImageRepository_GetByName E (ii_Name req))) (\<lambda>existing.
        case existing of
          Some _ \<Rightarrow> throw (Msg (''image with name '' @ Quote (ii_Name req) @ '' already exists''))
        | None \<Rightarrow>
            bindE (new_uuid E) (\<lambda>i.
            let img = \<lparr>img_ID = i, img_Name = ii_Name req, img_Description = ''Imported from '' @ ii_URL req,
                  img_OS = (if ii_OS req = '''' then ''linux'' else ii_OS req), img_OSVersion = ii_OSVersion req,
                  img_Architecture = (if ii_Architecture req = '''' then ''amd64'' else ii_Architecture req),
                  img_Type = ''os'', img_SizeBytes = 0, img_Status = ImageStatusDownloading, img_Checksum = '''',
                  img_SourceURL = ii_URL req, img_Tags = [''imported'']\<rparr> in
            bindE (wrapE ''create image'' (ImageRepository_Create E img)) (\<lambda>_.
            bindE (go_download False img (ii_URL req)) (\<lambda>_. ret img)))))"

text \<open>\<^verbatim>\<open>if img, err := m(); err == nil && img != nil\<close>: go on with \<open>f\<close>, otherwise with \<open>k\<close>.\<close>

definition found_or :: "'a option act \<Rightarrow> ('a \<Rightarrow> 'b act) \<Rightarrow> 'b act \<Rightarrow> 'b act" where
  "found_or m f k = tryM m (\<lambda>r. case r of
       Inr x \<Rightarrow> (case x of Some a \<Rightarrow> f a | None \<Rightarrow> k)
     | Inl _ \<Rightarrow> k)"

definition ResolveAndEnsureImage :: "env \<Rightarrow> string \<Rightarrow> string \<Rightarrow> Image act" where
  "ResolveAndEnsureImage E imagesDir imageRef =
     (if imageRef = '''' then throw (Msg ''image reference is empty'')
      else found_or (ImageRepository_GetByID E imageRef)
        (\<lambda>img. if img_Status img = ImageStatusError \<and> img_SourceURL img \<noteq> '''' then
                 restart_download E False img (img_SourceURL img)
               else ret img)
        (found_or (ImageRepository_GetByName E imageRef) ret
          (case ResolveImageAlias imageRef of
             Inl err \<Rightarrow> throw (Wrap (''image '' @ Quote imageRef @ '' not found and not a known official image'') err)
           | Inr oi \<Rightarrow>
               found_or (ImageRepository_GetByName E (oi_Name oi))
                 (\<lambda>img. bindE (stat_ok (ImagePath imagesDir (img_ID img))) (\<lambda>present.
                    if img_Status img = ImageStatusReady \<and> present then ret img
                    else if img_Status img = ImageStatusDownloading \<or> img_Status img = ImageStatusProcessing then ret img
                    else restart_download E False img (oi_URL oi)))
                 (PullFromOfficial E imagesDir oi))))"

definition resume_one :: "Image \<Rightarrow> unit act" where
  "resume_one img =
     (if img_Status img = ImageStatusDownloading \<or> img_Status img = ImageStatusProcessing then
        (if img_SourceURL img = '''' then ret () else go_download False img (img_SourceURL img))
      else ret ())"

definition all_images :: ImageFilter where
  "all_images = \<lparr>if_OS = '''', if_Architecture = '''', if_Type = '''', if_Search = '''', if_Page = 0, if_PerPage = 0\<rparr>"

definition ResumeDownloads :: "env \<Rightarrow> unit act" where
  "ResumeDownloads E = tryM (ImageRepository_List E all_images) (\<lambda>r. case r of
       Inl _ \<Rightarrow> ret ()
     | Inr (imgs, _) \<Rightarrow> bindE (mapE resume_one imgs) (\<lambda>_. ret ()))"

subsection \<open>The download\<close>

text \<open>
  \<open>Reply c b ok\<close>: status code \<open>c\<close>, body \<open>b\<close>, read to its end when \<open>ok\<close>. \<open>f_convert\<close> is what \<^verbatim>\<open>qemu-img\<close>
  makes of a file.
\<close>

datatype http_result = NetError | Reply nat "byte list" bool

record fetch =
  f_mkdir :: bool
  f_http :: http_result
  f_open :: bool
  f_convert :: "byte list \<Rightarrow> byte list option"
  f_rename :: bool

definition detectImageFormat :: "byte list \<Rightarrow> string" where
  "detectImageFormat c =
     (if length c < 4 then ''''
      else if take 4 c = [0x51, 0x46, 0x49, 0xfb] then ''qcow2'' else ''raw'')"

definition source_format :: "byte list \<Rightarrow> string \<Rightarrow> string" where
  "source_format c url =
     (if detectImageFormat c = '''' then (if filepath_Ext url = ''.qcow2'' then ''qcow2'' else ''raw'')
      else detectImageFormat c)"

definition set_file :: "string \<Rightarrow> byte list option \<Rightarrow> unit act" where
  "set_file path c = modify (\<lambda>w. w\<lparr>files := (files w)(path := c)\<rparr>)"

definition set_status :: "env \<Rightarrow> Image \<Rightarrow> ImageStatus \<Rightarrow> unit act" where
  "set_status E img st = ignoreE (ImageRepository_UpdateStatus E (img_ID img) st 0 '''') (ret ())"

definition finish_download :: "env \<Rightarrow> Image \<Rightarrow> int \<Rightarrow> string \<Rightarrow> unit act" where
  "finish_download E img sizeBytes checksum =
     ignoreE (ImageRepository_UpdateStatus E (img_ID img) ImageStatusReady sizeBytes checksum)
       (found_or (ImageRepository_GetByID E (img_ID img))
         (\<lambda>u. ignoreE (ImageRepository_Update E (u\<lparr>img_SizeBytes := sizeBytes, img_Checksum := checksum,
                 img_Status := ImageStatusReady\<rparr>)) (ret ()))
         (ret ()))"

definition store_image :: "env \<Rightarrow> fetch \<Rightarrow> string \<Rightarrow> Image \<Rightarrow> string \<Rightarrow> byte list \<Rightarrow> unit act" where
  "store_image E f imagesDir img url content =
     (let finalPath = ImagePath imagesDir (img_ID img); tmpPath = finalPath @ ''.tmp'' in
      bindE (set_file finalPath None) (\<lambda>_.
      if source_format content url \<noteq> ''qcow2'' then
        (case f_convert f content of
           None \<Rightarrow> set_status E img ImageStatusError
         | Some c \<Rightarrow>
             bindE (set_file finalPath (Some c)) (\<lambda>_. bindE (set_file tmpPath None) (\<lambda>_.
             finish_download E img (int (length c)) (hex_EncodeToString (sha256_Sum256 c)))))
      else if \<not> f_rename f then set_status E img ImageStatusError
      else
        bindE (set_file finalPath (Some content)) (\<lambda>_. bindE (set_file tmpPath None) (\<lambda>_.
        finish_download E img (int (length content)) (hex_EncodeToString (sha256_Sum256 content))))))"

definition download :: "env \<Rightarrow> fetch \<Rightarrow> string \<Rightarrow> Image \<Rightarrow> string \<Rightarrow> unit act" where
  "download E f imagesDir img url =
     (if \<not> f_mkdir f then set_status E img ImageStatusError
      else let tmpPath = ImagePath imagesDir (img_ID img) @ ''.tmp'' in
      bindE (gets (\<lambda>w. case files w tmpPath of None \<Rightarrow> [] | Some c \<Rightarrow> c)) (\<lambda>partial.
      case f_http f of
        NetError \<Rightarrow> set_status E img ImageStatusError
      | Reply sc chunk complete \<Rightarrow>
          if \<not> (partial \<noteq> [] \<and> sc = 200) \<and> sc \<noteq> 200 \<and> sc \<noteq> 206 then set_status E img ImageStatusError
          else
            let before = (if partial \<noteq> [] \<and> sc = 200 then [] else partial) in
            bindE (if partial \<noteq> [] \<and> sc = 200 then set_file tmpPath None else ret ()) (\<lambda>_.
            bindE (set_status E img ImageStatusProcessing) (\<lambda>_.
            if \<not> f_open f then set_status E img ImageStatusError
            else
              bindE (set_file tmpPath (Some (before @ chunk))) (\<lambda>_.
              if \<not> complete then set_status E img ImageStatusDownloading
              else store_image E f imagesDir img url (before @ chunk))))))"

definition IsReady :: "string \<Rightarrow> string \<Rightarrow> world \<Rightarrow> bool" where
  "IsReady imagesDir imageID w = (case files w (ImagePath imagesDir imageID) of None \<Rightarrow> False | Some c \<Rightarrow> c \<noteq> [])"

text \<open>\<open>NewPuller\<close>: the directory of the images.\<close>

definition NewPuller :: "string \<Rightarrow> string" where
  "NewPuller imagesDir = (if imagesDir = '''' then ''/var/lib/rymevisor/images'' else imagesDir)"

subsection \<open>Every operation keeps the constraints\<close>

lemma counter_blind_modify [pres]:
  "counter_blind I \<Longrightarrow> preserves I (go_download b img url)"
  "counter_blind I \<Longrightarrow> preserves I (set_file p c)"
  by (auto simp: counter_blind_def preserves_def go_download_def set_file_def)

lemma preserves_stat_ok [pres]: "preserves I (stat_ok p)"
  unfolding stat_ok_def by (intro pres)

lemma preserves_found_or [pres]:
  "preserves I m \<Longrightarrow> (\<And>a. preserves I (f a)) \<Longrightarrow> preserves I k \<Longrightarrow> preserves I (found_or m f k)"
  unfolding found_or_def by (intro pres)

lemma db_restart_download [pres]: "preserves db_ok (restart_download E b img url)"
  unfolding restart_download_def by (intro pres)

lemma db_PullFromOfficial [pres]: "preserves db_ok (PullFromOfficial E d oi)"
  unfolding PullFromOfficial_def Let_def by (intro pres)

lemma db_PullOfficialImage [pres]: "preserves db_ok (Puller_PullOfficialImage E d os v a)"
  unfolding Puller_PullOfficialImage_def by (intro pres)

lemma db_ImportFromURL [pres]: "preserves db_ok (Puller_ImportFromURL E req)"
  unfolding Puller_ImportFromURL_def Let_def by (intro pres)

lemma db_ResolveAndEnsureImage [pres]: "preserves db_ok (ResolveAndEnsureImage E d r)"
  unfolding ResolveAndEnsureImage_def by (intro pres)

lemma db_ResumeDownloads [pres]: "preserves db_ok (ResumeDownloads E)"
  unfolding ResumeDownloads_def resume_one_def by (intro pres)

lemma db_set_status [pres]: "preserves db_ok (set_status E img st)"
  unfolding set_status_def by (intro pres)

lemma db_finish_download [pres]: "preserves db_ok (finish_download E img n c)"
  unfolding finish_download_def by (intro pres)

lemma db_store_image [pres]: "preserves db_ok (store_image E f d img url c)"
  unfolding store_image_def Let_def by (intro pres)

lemma preserves_case_http [pres]:
  "(x = NetError \<Longrightarrow> preserves I m) \<Longrightarrow> (\<And>c b k. x = Reply c b k \<Longrightarrow> preserves I (g c b k)) \<Longrightarrow>
   preserves I (case x of NetError \<Rightarrow> m | Reply c b k \<Rightarrow> g c b k)"
  by (cases x) auto

lemma db_download [pres]: "preserves db_ok (download E f d img url)"
  unfolding download_def Let_def by (intro pres)

subsection \<open>A finished download\<close>

lemma find_update_where:
  "(\<And>r. key (g r) = key r) \<Longrightarrow>
   find (\<lambda>r. key r = i) (update_where (\<lambda>r. key r = j) g rs) =
     map_option (\<lambda>r. if key r = j then g r else r) (find (\<lambda>r. key r = i) rs)"
  by (induction rs) (auto simp: update_where_def)

text \<open>The row of an image after a status update, and after the final update, of a healthy database.\<close>

definition image_row :: "world \<Rightarrow> string \<Rightarrow> Image option" where
  "image_row w i = find (\<lambda>m. img_ID m = i) (images w)"

lemma UpdateStatus_healthy:
  assumes "healthy E" "uuid_parse E i = Some i"
  shows "\<exists>w'. ImageRepository_UpdateStatus E i st n c w = (Inr (), w') \<and> files w' = files w \<and>
    (\<forall>m. image_row w i = Some m \<longrightarrow> (\<exists>m'. image_row w' i = Some m'))"
  using assms
  by (auto simp: ImageRepository_UpdateStatus_def wrapE_apply sql_healthy uuid_arg_ok image_row_def find_update_where)

lemma set_status_healthy:
  assumes "healthy E" "uuid_parse E (img_ID img) = Some (img_ID img)" "image_row w (img_ID img) = Some m"
  obtains w' m' where "set_status E img st w = (Inr (), w')" "files w' = files w" "image_row w' (img_ID img) = Some m'"
proof -
  obtain w' where "ImageRepository_UpdateStatus E (img_ID img) st 0 '''' w = (Inr (), w')" "files w' = files w"
      "\<exists>m'. image_row w' (img_ID img) = Some m'"
    using UpdateStatus_healthy [OF assms(1,2), of st 0 "''''" w] assms(3) by blast
  then show thesis
    using that by (auto simp: set_status_def ignoreE_apply)
qed

lemma finish_healthy:
  assumes "healthy E" "uuid_parse E (img_ID img) = Some (img_ID img)" "image_row w (img_ID img) = Some m"
  shows "\<exists>w' m'. finish_download E img n c w = (Inr (), w') \<and> files w' = files w \<and>
    image_row w' (img_ID img) = Some m' \<and> img_Status m' = ImageStatusReady \<and> img_SizeBytes m' = n \<and> img_Checksum m' = c"
proof -
  obtain w1 m1 where w1: "ImageRepository_UpdateStatus E (img_ID img) ImageStatusReady n c w = (Inr (), w1)"
      "files w1 = files w" "image_row w1 (img_ID img) = Some m1"
    using UpdateStatus_healthy [OF assms(1,2), of ImageStatusReady n c w] assms(3) by blast
  have id1: "img_ID m1 = img_ID img"
    using w1(3) find_key_Some [of img_ID] by (auto simp: image_row_def)
  show ?thesis
    using assms(1,2) w1 id1
    by (simp add: finish_download_def ignoreE_apply found_or_def tryM_apply ImageRepository_GetByID_def get_opt_def
        sql_healthy uuid_arg_ok select_one_def ImageRepository_Update_def wrapE_apply image_row_def find_update_where)
qed

lemma tmp_not_final [simp]: "p @ ''.tmp'' \<noteq> p" "p \<noteq> p @ ''.tmp''"
  by auto

text \<open>What the stored file holds: a qcow2 image as it came, anything else as converted.\<close>

definition stored_content :: "fetch \<Rightarrow> string \<Rightarrow> byte list \<Rightarrow> byte list option" where
  "stored_content f url content =
     (if source_format content url \<noteq> ''qcow2'' then f_convert f content
      else if f_rename f then Some content else None)"

lemma store_image_healthy:
  assumes "healthy E" "uuid_parse E (img_ID img) = Some (img_ID img)" "image_row w (img_ID img) = Some m"
    and "stored_content f url content = Some c"
  shows "\<exists>w' m'. store_image E f d img url content w = (Inr (), w') \<and>
    files w' = (files w)(ImagePath d (img_ID img) := Some c, ImagePath d (img_ID img) @ ''.tmp'' := None) \<and>
    image_row w' (img_ID img) = Some m' \<and> img_Status m' = ImageStatusReady \<and>
    img_SizeBytes m' = int (length c) \<and> img_Checksum m' = hex_EncodeToString (sha256_Sum256 c)"
proof -
  let ?p = "ImagePath d (img_ID img)"
  let ?w = "w\<lparr>files := (files w)(?p := Some c, ?p @ ''.tmp'' := None)\<rparr>"
  have "store_image E f d img url content w =
      finish_download E img (int (length c)) (hex_EncodeToString (sha256_Sum256 c)) ?w"
    using assms(4)
    by (auto simp: stored_content_def store_image_def Let_def bindE_apply set_file_def split: if_splits)
  moreover have "image_row ?w (img_ID img) = Some m"
    using assms(3) by (simp add: image_row_def)
  ultimately show ?thesis
    using finish_healthy [OF assms(1,2), of ?w m] by fastforce
qed


definition sample_image :: Image where
  "sample_image = \<lparr>img_ID = ''i'', img_Name = ''n'', img_Description = '''', img_OS = ''linux'', img_OSVersion = '''',
     img_Architecture = ''amd64'', img_Type = ''os'', img_SizeBytes = 0, img_Status = ImageStatusDownloading,
     img_Checksum = '''', img_SourceURL = ''u'', img_Tags = []\<rparr>"

definition sample_fetch :: fetch where
  "sample_fetch = \<lparr>f_mkdir = True, f_http = Reply 206 [0x49, 0xfb] True, f_open = True, f_convert = (\<lambda>_. None), f_rename = True\<rparr>"

definition half_downloaded :: world where
  "half_downloaded = empty_world\<lparr>images := [sample_image], files := [''/img/i.qcow2.tmp'' \<mapsto> [0x51, 0x46]]\<rparr>"


end
