(* ===== verification/ControlPlane.thy ===== *)
theory ControlPlane
  imports ImagePuller
begin

section \<open>The control plane service: \<^verbatim>\<open>services/controlplane/service.go\<close>\<close>

text \<open>
  The methods of \<^verbatim>\<open>Service\<close> and \<^verbatim>\<open>NodeServiceImpl\<close> over the repositories of \<open>CpRepos\<close>, and the
  reconciliation of \<^verbatim>\<open>recovery.go\<close>. The record \<open>Service\<close> says which optional dependencies are set. A
  long method is split at its comments into definitions that are called in the order of the code.

  The first group of lemmas shows that every method keeps \<open>db_ok\<close>, whatever the environment does; the
  theory \<open>VMLifecycle\<close> holds the functional properties.
\<close>

record Service =
  flavorRepo :: bool
  keypairRepo :: bool
  ipam :: bool
  publisher :: bool
  puller :: "string option"

subsection \<open>Helpers\<close>

definition hasPrimary :: "CreateNetworkInterfaceRequest list \<Rightarrow> bool" where
  "hasPrimary nics = list_ex cn_IsPrimary nics"

definition isUniqueViolation :: "error \<Rightarrow> bool" where
  "isUniqueViolation err =
     (let msg = ToLower (Error err)
      in Contains msg ''duplicate'' \<or> Contains msg ''unique'' \<or> Contains msg ''idx_vm_nics'')"

definition fingerprintPublicKey :: "string \<Rightarrow> string" where
  "fingerprintPublicKey pubKey =
     (case Fields pubKey of
        _ # p1 # _ \<Rightarrow>
          (case StdEncoding_DecodeString p1 of
             Some decoded \<Rightarrow> take 16 (hex_EncodeToString (sha256_Sum256 decoded))
           | None \<Rightarrow>
               (case RawStdEncoding_DecodeString p1 of
                  Some decoded \<Rightarrow> take 16 (hex_EncodeToString (sha256_Sum256 decoded))
                | None \<Rightarrow> ''''))
      | _ \<Rightarrow> '''')"

text \<open>\<^verbatim>\<open>if x == nil { return nil, fmt.Errorf(...) }\<close> after a get.\<close>

definition or_fail :: "string \<Rightarrow> 'a option \<Rightarrow> ('a \<Rightarrow> 'b act) \<Rightarrow> 'b act" where
  "or_fail msg x f = (case x of None \<Rightarrow> throw (Msg msg) | Some a \<Rightarrow> f a)"

definition get_vm :: "env \<Rightarrow> string \<Rightarrow> (VirtualMachine \<Rightarrow> 'b act) \<Rightarrow> 'b act" where
  "get_vm E ident f = bindE (wrapE ''get vm'' (VMRepository_GetByID E ident)) (\<lambda>vm. or_fail ''vm not found'' vm f)"

text \<open>\<^verbatim>\<open>if s.publisher != nil { _ = s.publisher.PublishVMEvent(...) }\<close>, then \<open>k\<close>.\<close>

definition publish_event :: "Service \<Rightarrow> env \<Rightarrow> string \<Rightarrow> string \<Rightarrow> (string \<times> string) list \<Rightarrow> 'b act \<Rightarrow> 'b act" where
  "publish_event S E eventType vmID kvs k =
     (if publisher S then ignoreE (PublishVMEvent E eventType vmID (Event kvs)) k else k)"

definition gigabytes :: "int \<Rightarrow> int" where
  "gigabytes n = wrap64 (n * 1024 * 1024 * 1024)"

subsection \<open>Creating a machine\<close>

definition flavor_disk :: "Flavor \<Rightarrow> CreateDiskRequest" where
  "flavor_disk f = \<lparr>cd_Name = ''root'', cd_SizeBytes = gigabytes (fl_DiskGB f), cd_Type = ''qcow2'',
     cd_StoragePool = ''default'', cd_ImageID = '''', cd_Image = ''''\<rparr>"

definition with_flavor :: "Flavor \<Rightarrow> CreateVMRequest \<Rightarrow> CreateVMRequest" where
  "with_flavor f req =
     (let req1 = (if cv_VCpus req = 0 then req\<lparr>cv_VCpus := fl_VCpus f\<rparr> else req);
          req2 = (if cv_MemoryMB req1 = 0 then req1\<lparr>cv_MemoryMB := fl_MemoryMB f\<rparr> else req1)
      in if cv_Disks req2 = [] \<and> fl_DiskGB f > 0 then req2\<lparr>cv_Disks := [flavor_disk f]\<rparr> else req2)"

definition apply_flavor :: "Service \<Rightarrow> env \<Rightarrow> CreateVMRequest \<Rightarrow> CreateVMRequest act" where
  "apply_flavor S E req =
     (if cv_FlavorID req \<noteq> '''' \<or> cv_Flavor req \<noteq> '''' then
        if flavorRepo S then
          bindE (wrapE ''get flavor''
              (if cv_FlavorID req \<noteq> '''' then FlavorRepository_GetByID E (cv_FlavorID req)
               else FlavorRepository_GetByName E (cv_Flavor req))) (\<lambda>fl.
            or_fail (''flavor '' @ Quote (cv_Flavor req @ cv_FlavorID req) @ '' not found'') fl
              (\<lambda>f. ret (with_flavor f req)))
        else if cv_VCpus req = 0 \<or> cv_MemoryMB req = 0 then
          throw (Msg ''flavor not available, specify vcpus and memory directly'')
        else ret req
      else ret req)"

definition apply_keypair :: "Service \<Rightarrow> env \<Rightarrow> CreateVMRequest \<Rightarrow> CreateVMRequest act" where
  "apply_keypair S E req =
     (if cv_Keypair req \<noteq> '''' \<and> cv_KeypairID req = '''' \<and> keypairRepo S then
        found_or (KeypairRepository_GetByName E (cv_Keypair req) '''')
          (\<lambda>kp. ret (req\<lparr>cv_KeypairID := kp_ID kp\<rparr>)) (ret req)
      else ret req)"

definition request_org :: "CreateVMRequest \<Rightarrow> string" where
  "request_org req =
     (if gomap_get (cv_Labels req) ''organization_id'' \<noteq> '''' then gomap_get (cv_Labels req) ''organization_id''
      else if gomap_get (cv_Metadata req) ''organization_id'' \<noteq> '''' then gomap_get (cv_Metadata req) ''organization_id''
      else nil_uuid)"

definition new_vm :: "CreateVMRequest \<Rightarrow> string \<Rightarrow> VirtualMachine" where
  "new_vm req i = \<lparr>vm_ID = i, vm_Name = cv_Name req, vm_NodeID = (if cv_NodeID req \<noteq> '''' then Some (cv_NodeID req) else None),
     vm_OrganizationID = request_org req, vm_ProjectID = None, vm_Status = VMStatusCreating, vm_VCpus = cv_VCpus req,
     vm_MemoryMB = cv_MemoryMB req, vm_CPUModel = cv_CPUModel req, vm_MachineType = cv_MachineType req,
     vm_EnableSecureBoot = cv_EnableSecureBoot req, vm_EnableTPM = cv_EnableTPM req, vm_Hugepages = cv_Hugepages req,
     vm_CloudInit = cv_CloudInit req, vm_SSHKeyID = (if cv_KeypairID req \<noteq> '''' then Some (cv_KeypairID req) else None),
     vm_Tags = cv_Tags req, vm_Metadata = cv_Metadata req, vm_Labels = cv_Labels req, vm_Disks = [],
     vm_NetworkInterfaces = []\<rparr>"

definition default_disk :: "string \<Rightarrow> Disk" where
  "default_disk i = \<lparr>d_ID = i, d_Name = ''root'', d_SizeBytes = 20 * 1024 * 1024 * 1024, d_Type = ''qcow2'',
     d_StoragePool = ''default'', d_ImageID = '''', d_Boot = True, d_Order = 0\<rparr>"

definition Service_PullOfficialImage :: "Service \<Rightarrow> env \<Rightarrow> string \<Rightarrow> string \<Rightarrow> string \<Rightarrow> Image act" where
  "Service_PullOfficialImage S E osName version arch =
     (case puller S of
        None \<Rightarrow> throw (Msg ''image puller not configured'')
      | Some dir \<Rightarrow> Puller_PullOfficialImage E dir osName version arch)"

definition quoted :: "string \<Rightarrow> string" where
  "quoted s = [CHR 0x22] @ s @ [CHR 0x22]"

definition pull_first :: "string \<Rightarrow> OfficialImage \<Rightarrow> string" where
  "pull_first ref oi = ''image '' @ Quote ref @ '' not cached, pull it first via POST /api/v1/images/pull {'' @
     quoted ''os'' @ '':'' @ quoted (oi_OS oi) @ '','' @ quoted ''os_version'' @ '':'' @ quoted (oi_OSVersion oi) @ '','' @
     quoted ''architecture'' @ '':'' @ quoted (oi_Architecture oi) @ ''}''"

text \<open>The image of a disk request: its id, and the size the request ends up with.\<close>

definition image_by_ref :: "Service \<Rightarrow> env \<Rightarrow> string \<Rightarrow> CreateDiskRequest \<Rightarrow> (string \<times> int) act" where
  "image_by_ref S E dir dr =
     tryM (ResolveAndEnsureImage E dir (cd_Image dr)) (\<lambda>r. case r of
       Inr img \<Rightarrow> ret (img_ID img, if cd_SizeBytes dr = 0 \<and> img_SizeBytes img > 0 then img_SizeBytes img else cd_SizeBytes dr)
     | Inl err \<Rightarrow>
         bindE (case ResolveImageAlias (cd_Image dr) of
             Inl _ \<Rightarrow> ret ''''
           | Inr oi \<Rightarrow>
               tryM (Service_PullOfficialImage S E (oi_OS oi) (oi_OSVersion oi) (oi_Architecture oi)) (\<lambda>p. case p of
                 Inr pulled \<Rightarrow> ret (img_ID pulled)
               | Inl _ \<Rightarrow> ret '''')) (\<lambda>imageID.
         if imageID = '''' then throw (Wrap (''image '' @ Quote (cd_Image dr) @ '' not found'') err)
         else ret (imageID, cd_SizeBytes dr)))"

definition cached_image :: "env \<Rightarrow> CreateDiskRequest \<Rightarrow> (string \<times> int) act" where
  "cached_image E dr =
     found_or (ImageRepository_GetByName E (cd_Image dr)) (\<lambda>img. ret (img_ID img, cd_SizeBytes dr))
       (case ResolveImageAlias (cd_Image dr) of
          Inr oi \<Rightarrow> throw (Msg (pull_first (cd_Image dr) oi))
        | Inl _ \<Rightarrow> throw (Msg (''unknown image '' @ Quote (cd_Image dr))))"

definition disk_image :: "Service \<Rightarrow> env \<Rightarrow> CreateDiskRequest \<Rightarrow> (string \<times> int) act" where
  "disk_image S E dr =
     (if cd_ImageID dr = '''' \<and> cd_Image dr \<noteq> '''' then
        (case puller S of Some dir \<Rightarrow> image_by_ref S E dir dr | None \<Rightarrow> cached_image E dr)
      else if cd_ImageID dr \<noteq> '''' then
        (case puller S of
           Some dir \<Rightarrow>
             bindE (wrapE (''image '' @ Quote (cd_ImageID dr)) (ResolveAndEnsureImage E dir (cd_ImageID dr)))
               (\<lambda>img. ret (img_ID img, cd_SizeBytes dr))
         | None \<Rightarrow>
             found_or (ImageRepository_GetByID E (cd_ImageID dr)) (\<lambda>_. ret (cd_ImageID dr, cd_SizeBytes dr))
               (throw (Msg (''image '' @ Quote (cd_ImageID dr) @ '' not found''))))
      else ret ('''', cd_SizeBytes dr))"

definition new_disk :: "nat \<Rightarrow> CreateDiskRequest \<Rightarrow> string \<Rightarrow> int \<Rightarrow> string \<Rightarrow> Disk" where
  "new_disk i dr imageID sizeBytes ident =
     \<lparr>d_ID = ident,
      d_Name = (if cd_Name dr = '''' then (if i = 0 then ''root'' else ''disk-'' @ Itoa (int i)) else cd_Name dr),
      d_SizeBytes = (if sizeBytes = 0 then 20 * 1024 * 1024 * 1024 else sizeBytes),
      d_Type = (if cd_Type dr = '''' then ''qcow2'' else cd_Type dr),
      d_StoragePool = (if cd_StoragePool dr = '''' then ''default'' else cd_StoragePool dr),
      d_ImageID = imageID, d_Boot = (i = 0), d_Order = wrap32 (int i)\<rparr>"

definition create_disk :: "Service \<Rightarrow> env \<Rightarrow> nat \<times> CreateDiskRequest \<Rightarrow> Disk act" where
  "create_disk S E p =
     bindE (disk_image S E (snd p)) (\<lambda>(imageID, sizeBytes).
     bindE (new_uuid E) (\<lambda>ident. ret (new_disk (fst p) (snd p) imageID sizeBytes ident)))"

definition create_disks :: "Service \<Rightarrow> env \<Rightarrow> CreateVMRequest \<Rightarrow> Disk list act" where
  "create_disks S E req =
     (if cv_Disks req = [] then bindE (new_uuid E) (\<lambda>i. ret [default_disk i])
      else mapE (create_disk S E) (List.enumerate 0 (cv_Disks req)))"

definition default_network_of :: "Service \<Rightarrow> env \<Rightarrow> string \<Rightarrow> string act" where
  "default_network_of S E orgID =
     (if ipam S then
        bindE (wrapE ''ensure default network'' (EnsureDefaultNetwork E orgID)) (\<lambda>(defID, _). ret defID)
      else ret '''')"

text \<open>The address of a new interface: none without an allocator or a network.\<close>

definition nic_address :: "Service \<Rightarrow> env \<Rightarrow> string \<Rightarrow> string \<Rightarrow> string list act" where
  "nic_address S E what networkID =
     (if ipam S \<and> networkID \<noteq> '''' then
        bindE (wrapE (''allocate IP in '' @ what) (AllocateIP E networkID)) (\<lambda>(allocated, _, _). ret [allocated])
      else ret [])"

definition create_nic :: "Service \<Rightarrow> env \<Rightarrow> VirtualMachine \<Rightarrow> bool \<Rightarrow> nat \<times> CreateNetworkInterfaceRequest \<Rightarrow> NetworkInterface act" where
  "create_nic S E vm primaryGiven p = (case p of (i, nr) \<Rightarrow>
     bindE (if cn_NetworkID nr = '''' \<and> ipam S then default_network_of S E (vm_OrganizationID vm)
            else ret (cn_NetworkID nr)) (\<lambda>networkID.
     bindE (new_uuid E) (\<lambda>nicID.
     bindE (nic_address S E (''network '' @ networkID) networkID) (\<lambda>ipv4.
     ret \<lparr>nic_ID = nicID, nic_Name = ''eth'' @ Itoa (int i), nic_NetworkID = networkID,
          nic_MACAddress = GenerateNICMAC (vm_ID vm) nicID, nic_IPv4Addresses = ipv4, nic_IPv6Addresses = [],
          nic_IsPrimary = (if i = 0 \<and> \<not> primaryGiven then True else cn_IsPrimary nr)\<rparr>))))"

definition create_nics :: "Service \<Rightarrow> env \<Rightarrow> VirtualMachine \<Rightarrow> CreateVMRequest \<Rightarrow> NetworkInterface list act" where
  "create_nics S E vm req =
     (if cv_NetworkInterfaces req \<noteq> [] then
        mapE (create_nic S E vm (hasPrimary (cv_NetworkInterfaces req))) (List.enumerate 0 (cv_NetworkInterfaces req))
      else
        bindE (default_network_of S E (vm_OrganizationID vm)) (\<lambda>networkID.
        bindE (new_uuid E) (\<lambda>nicID.
        bindE (nic_address S E ''default network'' networkID) (\<lambda>ipv4.
        ret [\<lparr>nic_ID = nicID, nic_Name = ''eth0'', nic_NetworkID = networkID,
              nic_MACAddress = GenerateNICMAC (vm_ID vm) nicID, nic_IPv4Addresses = ipv4, nic_IPv6Addresses = [],
              nic_IsPrimary = True\<rparr>]))))"

text \<open>New addresses for the next attempt; an interface whose allocation fails keeps its address.\<close>

definition renumber_nic :: "Service \<Rightarrow> env \<Rightarrow> string \<Rightarrow> nat \<Rightarrow> NetworkInterface \<Rightarrow> NetworkInterface act" where
  "renumber_nic S E vmID attempt n =
     (if ipam S \<and> nic_NetworkID n \<noteq> '''' then
        tryM (AllocateIP E (nic_NetworkID n)) (\<lambda>r.
          ret (n\<lparr>nic_IPv4Addresses := (case r of Inr (allocated, _, _) \<Rightarrow> [allocated] | Inl _ \<Rightarrow> nic_IPv4Addresses n),
                 nic_MACAddress := GenerateNICMAC vmID (nic_ID n @ ''-'' @ Itoa (int attempt))\<rparr>))
      else ret n)"

text \<open>\<open>create_loop S E r vm\<close>: the loop with \<open>r\<close> attempts left, attempt number \<open>3 - r\<close>.\<close>

primrec create_loop :: "Service \<Rightarrow> env \<Rightarrow> nat \<Rightarrow> VirtualMachine \<Rightarrow> VirtualMachine act" where
  "create_loop S E 0 vm = ret vm"
| "create_loop S E (Suc r) vm =
     tryM (VMRepository_Create E vm) (\<lambda>x. case x of
       Inr _ \<Rightarrow> ret vm
     | Inl err \<Rightarrow>
         if isUniqueViolation err then
           bindE (mapE (renumber_nic S E (vm_ID vm) (2 - r)) (vm_NetworkInterfaces vm)) (\<lambda>nics.
           if r = 0 then throw (Wrap ''create vm'' err)
           else create_loop S E r (vm\<lparr>vm_NetworkInterfaces := nics\<rparr>))
         else throw (Wrap ''create vm'' err))"

definition CreateVM :: "Service \<Rightarrow> env \<Rightarrow> CreateVMRequest \<Rightarrow> VirtualMachine act" where
  "CreateVM S E req0 =
     (if cv_Name req0 = '''' then throw (Msg ''vm name is required'')
      else
        bindE (apply_flavor S E req0) (\<lambda>req1.
        bindE (apply_keypair S E req1) (\<lambda>req.
        if cv_VCpus req < 1 then throw (Msg ''vcpus must be at least 1'')
        else if cv_MemoryMB req < 256 then throw (Msg ''memory must be at least 256 MB'')
        else
          bindE (new_uuid E) (\<lambda>i.
          let vm = new_vm req i in
          bindE (create_disks S E req) (\<lambda>disks.
          bindE (create_nics S E vm req) (\<lambda>nics.
          bindE (create_loop S E 3 (vm\<lparr>vm_Disks := disks, vm_NetworkInterfaces := nics\<rparr>)) (\<lambda>vm.
          publish_event S E ''created'' (vm_ID vm)
            [(''vm_id'', vm_ID vm), (''status'', VMStatus_string (vm_Status vm))] (ret vm))))))))"

subsection \<open>Machines\<close>

definition GetVM :: "env \<Rightarrow> string \<Rightarrow> VirtualMachine option act" where
  "GetVM E ident = VMRepository_GetByID E ident"

definition ListVMs :: "env \<Rightarrow> VMFilter \<Rightarrow> (VirtualMachine list \<times> int) act" where
  "ListVMs E f = VMRepository_List E f"

definition UpdateVM :: "env \<Rightarrow> string \<Rightarrow> UpdateVMRequest \<Rightarrow> VirtualMachine act" where
  "UpdateVM E ident req = get_vm E ident (\<lambda>vm.
     let vm1 = vm\<lparr>vm_Name := (if uv_Name req \<noteq> '''' then uv_Name req else vm_Name vm),
                  vm_Metadata := (if uv_Metadata req \<noteq> None then uv_Metadata req else vm_Metadata vm),
                  vm_Labels := (if uv_Labels req \<noteq> None then uv_Labels req else vm_Labels vm),
                  vm_Tags := (case uv_Tags req of Some ts \<Rightarrow> ts | None \<Rightarrow> vm_Tags vm)\<rparr> in
     bindE (wrapE ''update vm'' (VMRepository_Update E vm1)) (\<lambda>_. ret vm1))"

definition DeleteVM :: "env \<Rightarrow> string \<Rightarrow> bool \<Rightarrow> unit act" where
  "DeleteVM E ident force = get_vm E ident (\<lambda>vm.
     if \<not> force \<and> vm_Status vm \<noteq> VMStatusStopped then
       throw (Msg (''vm must be stopped before deletion (current status: '' @ VMStatus_string (vm_Status vm) @ '')''))
     else wrapE ''delete vm'' (VMRepository_Delete E ident))"

definition nodeCommandSubject :: "env \<Rightarrow> string \<Rightarrow> string \<Rightarrow> string act" where
  "nodeCommandSubject E nodeID action =
     found_or (NodeRepository_GetByID E nodeID)
       (\<lambda>n. ret (SubjectForNode (if node_Name n \<noteq> '''' then node_Name n else nodeID) action))
       (ret (SubjectForNode nodeID action))"

definition start_mac :: "VirtualMachine \<Rightarrow> NetworkInterface \<Rightarrow> string" where
  "start_mac vm n = (if nic_MACAddress n = '''' then GenerateNICMAC (vm_ID vm) (nic_ID n) else nic_MACAddress n)"

definition start_nic :: "VirtualMachine \<Rightarrow> NetworkInterface \<Rightarrow> error + nicConfig" where
  "start_nic vm n =
     (let ip = (case nic_IPv4Addresses n of [] \<Rightarrow> '''' | a # _ \<Rightarrow> a);
          gw = (if ip \<noteq> '''' then (case gatewayFromIP ip of Inr g \<Rightarrow> g | Inl _ \<Rightarrow> '''') else '''')
      in case BridgeForNetwork (nic_NetworkID n) of
           Inl e \<Rightarrow> Inl (Wrap (''bridge for network '' @ nic_NetworkID n) e)
         | Inr bridge \<Rightarrow>
             Inr \<lparr>nc_NetworkID = nic_NetworkID n, nc_MACAddress = start_mac vm n, nc_IPAddress = ip, nc_Gateway = gw,
                  nc_Bridge = bridge, nc_Name = nic_Name n\<rparr>)"

text \<open>\<open>lift_err\<close> makes an operation of a pure call that returns an error.\<close>

definition lift_err :: "error + 'a \<Rightarrow> 'a act" where
  "lift_err r = (case r of Inl e \<Rightarrow> throw e | Inr a \<Rightarrow> ret a)"

text \<open>The boot disk's image and size; the first disk's when the boot disk has no image.\<close>

definition boot_image :: "Disk list \<Rightarrow> string \<times> int" where
  "boot_image disks =
     (case disks of [] \<Rightarrow> ('''', 0)
      | d0 # _ \<Rightarrow>
          (case find d_Boot disks of
             Some d \<Rightarrow> if d_ImageID d = '''' then (d_ImageID d0, d_SizeBytes d0) else (d_ImageID d, d_SizeBytes d)
           | None \<Rightarrow> (d_ImageID d0, d_SizeBytes d0)))"

definition vm_ssh_key :: "Service \<Rightarrow> env \<Rightarrow> VirtualMachine \<Rightarrow> string act" where
  "vm_ssh_key S E vm =
     (case vm_SSHKeyID vm of
        Some k \<Rightarrow> if k \<noteq> '''' \<and> keypairRepo S then
                    found_or (KeypairRepository_GetByID E k) (\<lambda>kp. ret (kp_PublicKey kp)) (ret '''')
                  else ret ''''
      | None \<Rightarrow> ret '''')"

definition publishVMStart :: "Service \<Rightarrow> env \<Rightarrow> VirtualMachine \<Rightarrow> string \<Rightarrow> unit act" where
  "publishVMStart S E vm nodeID =
     (if \<not> publisher S then ret ()
      else
        bindE (mapE (\<lambda>n. lift_err (start_nic vm n)) (vm_NetworkInterfaces vm)) (\<lambda>nics.
        if nics = [] then throw (Msg (''no NICs provided for VM '' @ vm_ID vm))
        else
          bindE (vm_ssh_key S E vm) (\<lambda>sshKey.
          bindE (nodeCommandSubject E nodeID ''start'') (\<lambda>subject.
          EventPublisher_Publish E subject
            (StartCommand (vm_ID vm)
               \<lparr>sc_Name = vm_Name vm, sc_VCPUs = vm_VCpus vm, sc_MemoryMB = vm_MemoryMB vm,
                sc_MACAddress = (case vm_NetworkInterfaces vm of [] \<Rightarrow> '''' | n # _ \<Rightarrow> start_mac vm n),
                sc_SSHKey = sshKey, sc_ImageID = fst (boot_image (vm_Disks vm)), sc_SizeBytes = snd (boot_image (vm_Disks vm)),
                sc_MachineType = vm_MachineType vm, sc_NetworkInterfaces = nics\<rparr>)))))"

definition first_online :: NodeFilter where
  "first_online = \<lparr>nf_Status = ''online'', nf_Search = '''', nf_Page = 1, nf_PerPage = 1\<rparr>"

definition first_node :: NodeFilter where
  "first_node = \<lparr>nf_Status = '''', nf_Search = '''', nf_Page = 1, nf_PerPage = 1\<rparr>"

definition assign :: "env \<Rightarrow> string \<Rightarrow> VirtualMachine \<Rightarrow> Node \<Rightarrow> VirtualMachine act" where
  "assign E ident vm n = ignoreE (VMRepository_AssignNode E ident (node_ID n)) (ret (vm\<lparr>vm_NodeID := Some (node_ID n)\<rparr>))"

text \<open>A node for a machine that has none: an online one, else any.\<close>

definition auto_schedule :: "env \<Rightarrow> string \<Rightarrow> VirtualMachine \<Rightarrow> VirtualMachine act" where
  "auto_schedule E ident vm =
     (if ptr_set (vm_NodeID vm) then ret vm
      else tryM (NodeRepository_List E first_online) (\<lambda>r. case r of
        Inr (n # _, _) \<Rightarrow> assign E ident vm n
      | _ \<Rightarrow>
          tryM (NodeRepository_List E first_node) (\<lambda>r2. case r2 of
            Inr (n # _, _) \<Rightarrow> assign E ident vm n
          | _ \<Rightarrow> ret vm)))"

text \<open>The start command, when there is a publisher and the machine has a node.\<close>

definition send_start :: "Service \<Rightarrow> env \<Rightarrow> VirtualMachine \<Rightarrow> unit act" where
  "send_start S E vm =
     (case vm_NodeID vm of
        Some n \<Rightarrow> if publisher S \<and> n \<noteq> '''' then publishVMStart S E vm n else ret ()
      | None \<Rightarrow> ret ())"

definition PowerOn :: "Service \<Rightarrow> env \<Rightarrow> string \<Rightarrow> VirtualMachine act" where
  "PowerOn S E ident = get_vm E ident (\<lambda>vm0.
     if vm_Status vm0 \<noteq> VMStatusStopped \<and> vm_Status vm0 \<noteq> VMStatusPaused \<and> vm_Status vm0 \<noteq> VMStatusCreating then
       throw (Msg (''vm must be stopped or paused to power on (current status: '' @ VMStatus_string (vm_Status vm0) @ '')''))
     else
       bindE (auto_schedule E ident vm0) (\<lambda>vm1.
       bindE (wrapE ''update status'' (VMRepository_UpdateStatus E ident VMStatusRunning)) (\<lambda>_.
       let vm = vm1\<lparr>vm_Status := VMStatusRunning\<rparr> in
       ignoreE (send_start S E vm) (publish_event S E ''started'' ident [(''vm_id'', ident)] (ret vm)))))"

text \<open>A command to the node of a machine, its failure ignored.\<close>

definition node_command :: "Service \<Rightarrow> env \<Rightarrow> VirtualMachine \<Rightarrow> string \<Rightarrow> payload \<Rightarrow> 'b act \<Rightarrow> 'b act" where
  "node_command S E vm action cmd k =
     (case vm_NodeID vm of
        Some n \<Rightarrow>
          if publisher S \<and> n \<noteq> '''' then
            ignoreE (bindE (nodeCommandSubject E n action) (\<lambda>subject. EventPublisher_Publish E subject cmd)) k
          else k
      | None \<Rightarrow> k)"

definition PowerOff :: "Service \<Rightarrow> env \<Rightarrow> string \<Rightarrow> bool \<Rightarrow> VirtualMachine act" where
  "PowerOff S E ident force = get_vm E ident (\<lambda>vm.
     if vm_Status vm \<noteq> VMStatusRunning \<and> vm_Status vm \<noteq> VMStatusPaused \<and> \<not> force then
       throw (Msg (''vm must be running or paused to power off (current status: '' @ VMStatus_string (vm_Status vm) @ '')''))
     else
       bindE (wrapE ''update status'' (VMRepository_UpdateStatus E ident VMStatusShuttingDown)) (\<lambda>_.
       node_command S E vm ''stop'' (StopCommand ident force) (
       bindE (wrapE ''update status'' (VMRepository_UpdateStatus E ident VMStatusStopped)) (\<lambda>_.
       publish_event S E ''stopped'' ident [(''vm_id'', ident)] (ret (vm\<lparr>vm_Status := VMStatusStopped\<rparr>))))))"

definition Reboot :: "Service \<Rightarrow> env \<Rightarrow> string \<Rightarrow> bool \<Rightarrow> VirtualMachine act" where
  "Reboot S E ident force = get_vm E ident (\<lambda>vm.
     if vm_Status vm \<noteq> VMStatusRunning \<and> \<not> force then
       throw (Msg (''vm must be running to reboot (current status: '' @ VMStatus_string (vm_Status vm) @ '')''))
     else
       bindE (wrapE ''update status'' (VMRepository_UpdateStatus E ident VMStatusRebooting)) (\<lambda>_.
       node_command S E vm ''reboot'' (RebootCommand ident force) (
       bindE (wrapE ''update status'' (VMRepository_UpdateStatus E ident VMStatusRunning)) (\<lambda>_.
       publish_event S E ''rebooted'' ident [(''vm_id'', ident)] (ret (vm\<lparr>vm_Status := VMStatusRunning\<rparr>))))))"

definition Resize :: "Service \<Rightarrow> env \<Rightarrow> string \<Rightarrow> int \<Rightarrow> int \<Rightarrow> VirtualMachine act" where
  "Resize S E ident vcpus memoryMB = get_vm E ident (\<lambda>vm0.
     if vcpus < 1 then throw (Msg ''vcpus must be at least 1'')
     else if memoryMB < 256 then throw (Msg ''memory must be at least 256 MB'')
     else
       let vm = vm0\<lparr>vm_VCpus := vcpus, vm_MemoryMB := memoryMB\<rparr> in
       bindE (wrapE ''update vm'' (VMRepository_Update E vm)) (\<lambda>_.
       publish_event S E ''resized'' ident
         [(''vm_id'', ident), (''vcpus'', Itoa vcpus), (''memory_mb'', Itoa memoryMB)] (ret vm)))"

definition Service_Snapshot :: "Service \<Rightarrow> env \<Rightarrow> string \<Rightarrow> string \<Rightarrow> string \<Rightarrow> Snapshot act" where
  "Service_Snapshot S E vmID name description = get_vm E vmID (\<lambda>_.
     bindE (new_uuid E) (\<lambda>i.
     let snap = \<lparr>snap_ID = i, snap_VMID = vmID, snap_Name = name, snap_Description = description, snap_SizeBytes = 0,
                 snap_Status = ''creating''\<rparr> in
     bindE (wrapE ''create snapshot'' (SnapshotRepository_Create E snap)) (\<lambda>_.
     publish_event S E ''snapshot_created'' vmID [(''vm_id'', vmID), (''snapshot_id'', i)] (ret snap))))"

definition RestoreSnapshot :: "Service \<Rightarrow> env \<Rightarrow> string \<Rightarrow> VirtualMachine act" where
  "RestoreSnapshot S E snapshotID =
     bindE (wrapE ''get snapshot'' (SnapshotRepository_GetByID E snapshotID)) (\<lambda>sn. or_fail ''snapshot not found'' sn (\<lambda>snap.
     get_vm E (snap_VMID snap) (\<lambda>vm.
     bindE (wrapE ''stop vm'' (VMRepository_UpdateStatus E (vm_ID vm) VMStatusStopped)) (\<lambda>_.
     publish_event S E ''restoring'' (vm_ID vm) [(''vm_id'', vm_ID vm), (''snapshot_id'', snapshotID)] (
     bindE (wrapE ''restart vm'' (VMRepository_UpdateStatus E (vm_ID vm) VMStatusRunning)) (\<lambda>_.
     ret (vm\<lparr>vm_Status := VMStatusRunning\<rparr>)))))))"

subsection \<open>Cloning\<close>

definition copied_map :: "gomap \<Rightarrow> gomap" where
  "copied_map m = Some (case m of None \<Rightarrow> Map.empty | Some f \<Rightarrow> f)"

definition cloned_vm :: "VirtualMachine \<Rightarrow> string \<Rightarrow> string \<Rightarrow> string \<Rightarrow> VirtualMachine" where
  "cloned_vm source i name nodeID = \<lparr>vm_ID = i, vm_Name = name,
     vm_NodeID = (if nodeID \<noteq> '''' then Some nodeID else vm_NodeID source),
     vm_OrganizationID = vm_OrganizationID source, vm_ProjectID = None, vm_Status = VMStatusCreating,
     vm_VCpus = vm_VCpus source, vm_MemoryMB = vm_MemoryMB source, vm_CPUModel = vm_CPUModel source,
     vm_MachineType = vm_MachineType source, vm_EnableSecureBoot = vm_EnableSecureBoot source,
     vm_EnableTPM = vm_EnableTPM source, vm_Hugepages = vm_Hugepages source, vm_CloudInit = vm_CloudInit source,
     vm_SSHKeyID = None, vm_Tags = vm_Tags source, vm_Metadata = copied_map (vm_Metadata source),
     vm_Labels = copied_map (vm_Labels source), vm_Disks = [], vm_NetworkInterfaces = []\<rparr>"

definition clone_disk :: "env \<Rightarrow> Disk \<Rightarrow> Disk act" where
  "clone_disk E d = bindE (new_uuid E) (\<lambda>i. ret \<lparr>d_ID = i, d_Name = d_Name d, d_SizeBytes = d_SizeBytes d,
     d_Type = d_Type d, d_StoragePool = d_StoragePool d, d_ImageID = '''', d_Boot = d_Boot d, d_Order = d_Order d\<rparr>)"

definition clone_nic :: "Service \<Rightarrow> env \<Rightarrow> string \<Rightarrow> nat \<times> NetworkInterface \<Rightarrow> NetworkInterface act" where
  "clone_nic S E vmID p = (case p of (i, n) \<Rightarrow>
     bindE (new_uuid E) (\<lambda>nicID.
     bindE (if ipam S \<and> nic_NetworkID n \<noteq> '''' then
              tryM (AllocateIP E (nic_NetworkID n)) (\<lambda>r. ret (case r of Inr (allocated, _, _) \<Rightarrow> [allocated] | Inl _ \<Rightarrow> []))
            else ret []) (\<lambda>ipv4.
     let macAddr = GenerateNICMAC vmID nicID in
     ret \<lparr>nic_ID = nicID, nic_Name = ''eth'' @ Itoa (int i), nic_NetworkID = nic_NetworkID n,
          nic_MACAddress = (if macAddr = '''' then GenerateNICMAC vmID (Itoa (int i)) else macAddr),
          nic_IPv4Addresses = ipv4, nic_IPv6Addresses = [], nic_IsPrimary = nic_IsPrimary n\<rparr>)))"

definition clone_default_nic :: "env \<Rightarrow> VirtualMachine \<Rightarrow> NetworkInterface act" where
  "clone_default_nic E vm =
     tryM (EnsureDefaultNetwork E (vm_OrganizationID vm)) (\<lambda>r.
     let defID = (case r of Inr (i, _) \<Rightarrow> i | Inl _ \<Rightarrow> '''') in
     bindE (new_uuid E) (\<lambda>nicID.
     tryM (AllocateIP E defID) (\<lambda>a.
     ret \<lparr>nic_ID = nicID, nic_Name = ''eth0'', nic_NetworkID = defID, nic_MACAddress = GenerateNICMAC (vm_ID vm) nicID,
          nic_IPv4Addresses = [case a of Inr (allocated, _, _) \<Rightarrow> allocated | Inl _ \<Rightarrow> ''''], nic_IPv6Addresses = [],
          nic_IsPrimary = True\<rparr>)))"

definition reclone_nic :: "Service \<Rightarrow> env \<Rightarrow> string \<Rightarrow> NetworkInterface \<Rightarrow> NetworkInterface act" where
  "reclone_nic S E vmID n =
     bindE (if ipam S \<and> nic_NetworkID n \<noteq> '''' then
              tryM (AllocateIP E (nic_NetworkID n)) (\<lambda>r.
                ret (case r of Inr (a, _, _) \<Rightarrow> [a] | Inl _ \<Rightarrow> nic_IPv4Addresses n))
            else ret (nic_IPv4Addresses n)) (\<lambda>ipv4.
     ret (n\<lparr>nic_IPv4Addresses := ipv4, nic_MACAddress := GenerateNICMAC vmID (nic_ID n @ ''-retry'')\<rparr>))"

definition clone_store :: "Service \<Rightarrow> env \<Rightarrow> VirtualMachine \<Rightarrow> VirtualMachine act" where
  "clone_store S E vm =
     tryM (VMRepository_Create E vm) (\<lambda>x. case x of
       Inr _ \<Rightarrow> ret vm
     | Inl err \<Rightarrow>
         if isUniqueViolation err then
           bindE (mapE (reclone_nic S E (vm_ID vm)) (vm_NetworkInterfaces vm)) (\<lambda>nics.
           let vm2 = vm\<lparr>vm_NetworkInterfaces := nics\<rparr> in
           bindE (wrapE ''create cloned vm'' (VMRepository_Create E vm2)) (\<lambda>_. ret vm2))
         else throw (Wrap ''create cloned vm'' err))"

definition Clone :: "Service \<Rightarrow> env \<Rightarrow> string \<Rightarrow> string \<Rightarrow> string \<Rightarrow> bool \<Rightarrow> VirtualMachine act" where
  "Clone S E ident name nodeID linked =
     bindE (wrapE ''get source vm'' (VMRepository_GetByID E ident)) (\<lambda>src. or_fail ''source vm not found'' src (\<lambda>source.
     bindE (new_uuid E) (\<lambda>i.
     let vm = cloned_vm source i name nodeID in
     bindE (mapE (clone_disk E) (vm_Disks source)) (\<lambda>disks.
     bindE (mapE (clone_nic S E i) (List.enumerate 0 (vm_NetworkInterfaces source))) (\<lambda>nics0.
     bindE (if nics0 = [] \<and> ipam S then bindE (clone_default_nic E vm) (\<lambda>n. ret [n]) else ret nics0) (\<lambda>nics.
     bindE (clone_store S E (vm\<lparr>vm_Disks := disks, vm_NetworkInterfaces := nics\<rparr>)) (\<lambda>cloned.
     publish_event S E ''cloned'' (vm_ID cloned) [(''source_vm_id'', ident), (''cloned_vm_id'', vm_ID cloned)]
       (ret cloned))))))))"

subsection \<open>Nodes\<close>

definition NodeService_Register :: "Service \<Rightarrow> env \<Rightarrow> RegisterNodeRequest \<Rightarrow> Node act" where
  "NodeService_Register S E req =
     (if rn_Name req = '''' then throw (Msg ''node name is required'')
      else if rn_Address req = '''' then throw (Msg ''node address is required'')
      else found_or (NodeRepository_GetByName E (rn_Name req))
        (\<lambda>_. throw (Msg (''node with name '' @ rn_Name req @ '' already exists'')))
        (bindE (new_uuid E) (\<lambda>i.
         let node = \<lparr>node_ID = i, node_Name = rn_Name req, node_Address = rn_Address req, node_Port = rn_Port req,
               node_Status = NodeStatusOnline, node_Resources = rn_Resources req, node_Labels = rn_Labels req,
               node_Metadata = Some Map.empty\<rparr> in
         bindE (wrapE ''create node'' (NodeRepository_Create E node)) (\<lambda>_.
         if publisher S then ignoreE (PublishNodeEvent E ''registered'' i (Event [(''node_id'', i)])) (ret node)
         else ret node))))"

definition NodeService_GetNode :: "env \<Rightarrow> string \<Rightarrow> Node option act" where
  "NodeService_GetNode E ident = NodeRepository_GetByID E ident"

definition NodeService_ListNodes :: "env \<Rightarrow> NodeFilter \<Rightarrow> (Node list \<times> int) act" where
  "NodeService_ListNodes E f = NodeRepository_List E f"

definition NodeService_UpdateNode :: "env \<Rightarrow> string \<Rightarrow> gomap \<Rightarrow> Node act" where
  "NodeService_UpdateNode E ident labels =
     bindE (wrapE ''get node'' (NodeRepository_GetByID E ident)) (\<lambda>n. or_fail ''node not found'' n (\<lambda>node.
     let node1 = node\<lparr>node_Labels := labels\<rparr> in
     bindE (wrapE ''update node'' (NodeRepository_Update E node1)) (\<lambda>_. ret node1)))"

definition NodeService_Drain :: "env \<Rightarrow> string \<Rightarrow> int \<Rightarrow> unit act" where
  "NodeService_Drain E ident timeout =
     bindE (wrapE ''get node'' (NodeRepository_GetByID E ident)) (\<lambda>n. or_fail ''node not found'' n (\<lambda>node.
     wrapE ''update status'' (NodeRepository_UpdateStatus E ident NodeStatusDraining)))"

definition NodeService_Heartbeat :: "env \<Rightarrow> string \<Rightarrow> NodeResources \<Rightarrow> unit act" where
  "NodeService_Heartbeat E nodeID resources = NodeRepository_UpdateHeartbeat E nodeID resources"

subsection \<open>Images\<close>

definition ListImages :: "env \<Rightarrow> ImageFilter \<Rightarrow> (Image list \<times> int) act" where
  "ListImages E f = ImageRepository_List E f"

definition GetImage :: "env \<Rightarrow> string \<Rightarrow> Image option act" where
  "GetImage E ident = ImageRepository_GetByID E ident"

definition CreateImage :: "env \<Rightarrow> Image \<Rightarrow> Image act" where
  "CreateImage E img =
     (if img_Name img = '''' then throw (Msg ''image name is required'')
      else if img_OS img = '''' then throw (Msg ''os is required'')
      else if img_Architecture img = '''' then throw (Msg ''architecture is required'')
      else bindE (new_uuid E) (\<lambda>i.
        let img1 = img\<lparr>img_ID := i, img_Status := ImageStatusDownloading\<rparr> in
        bindE (wrapE ''create image'' (ImageRepository_Create E img1)) (\<lambda>_. ret img1)))"

definition DeleteImage :: "env \<Rightarrow> string \<Rightarrow> unit act" where
  "DeleteImage E ident =
     bindE (wrapE ''get image'' (ImageRepository_GetByID E ident)) (\<lambda>m. or_fail ''image not found'' m (\<lambda>_.
     wrapE ''delete image'' (ImageRepository_Delete E ident)))"

definition Service_ImportFromURL :: "Service \<Rightarrow> env \<Rightarrow> ImportImageRequest \<Rightarrow> Image act" where
  "Service_ImportFromURL S E req =
     (case puller S of
        None \<Rightarrow> throw (Msg ''image puller not configured'')
      | Some _ \<Rightarrow> Puller_ImportFromURL E req)"

definition ListOfficialImages :: "OfficialImage list" where
  "ListOfficialImages = catalog_List"

definition GetOfficialImage :: "string \<Rightarrow> string \<Rightarrow> string \<Rightarrow> error + OfficialImage" where
  "GetOfficialImage osName version arch = Find osName version arch"

subsection \<open>Flavors and keypairs\<close>

definition no_flavors :: error where
  "no_flavors = Msg ''flavor repository not configured''"

definition no_keypairs :: error where
  "no_keypairs = Msg ''keypair repository not configured''"

definition CreateFlavor :: "Service \<Rightarrow> env \<Rightarrow> CreateFlavorRequest \<Rightarrow> Flavor act" where
  "CreateFlavor S E req =
     (if \<not> flavorRepo S then throw no_flavors
      else if cf_Name req = '''' then throw (Msg ''flavor name is required'')
      else if cf_VCpus req < 1 then throw (Msg ''vcpus must be at least 1'')
      else if cf_MemoryMB req < 128 then throw (Msg ''memory must be at least 128 MB'')
      else if cf_DiskGB req < 1 then throw (Msg ''disk_gb must be at least 1'')
      else found_or (FlavorRepository_GetByName E (cf_Name req))
        (\<lambda>_. throw (Msg (''flavor with name '' @ Quote (cf_Name req) @ '' already exists'')))
        (bindE (new_uuid E) (\<lambda>i.
         let f = \<lparr>fl_ID = i, fl_Name = cf_Name req, fl_Description = cf_Description req, fl_VCpus = cf_VCpus req,
                  fl_MemoryMB = cf_MemoryMB req, fl_DiskGB = cf_DiskGB req\<rparr> in
         bindE (wrapE ''create flavor'' (FlavorRepository_Create E f)) (\<lambda>_. ret f))))"

definition GetFlavor :: "Service \<Rightarrow> env \<Rightarrow> string \<Rightarrow> Flavor option act" where
  "GetFlavor S E ident = (if \<not> flavorRepo S then throw no_flavors else FlavorRepository_GetByID E ident)"

definition ListFlavors :: "Service \<Rightarrow> env \<Rightarrow> Flavor list act" where
  "ListFlavors S E = (if \<not> flavorRepo S then throw no_flavors else FlavorRepository_List E)"

definition DeleteFlavor :: "Service \<Rightarrow> env \<Rightarrow> string \<Rightarrow> unit act" where
  "DeleteFlavor S E ident =
     (if \<not> flavorRepo S then throw no_flavors
      else bindE (FlavorRepository_GetByID E ident) (\<lambda>f. or_fail ''flavor not found'' f (\<lambda>_. FlavorRepository_Delete E ident)))"

definition CreateKeypair :: "Service \<Rightarrow> env \<Rightarrow> CreateKeypairRequest \<Rightarrow> Keypair act" where
  "CreateKeypair S E req =
     (if \<not> keypairRepo S then throw no_keypairs
      else if ck_Name req = '''' then throw (Msg ''keypair name is required'')
      else if ck_PublicKey req = '''' then throw (Msg ''public_key is required'')
      else if \<not> Contains (ck_PublicKey req) ''ssh-'' then throw (Msg ''invalid public key format'')
      else
        let orgID = (if ck_OrganizationID req = '''' \<or> ck_OrganizationID req = ''default'' then nil_uuid else ck_OrganizationID req) in
        found_or (KeypairRepository_GetByName E (ck_Name req) orgID)
          (\<lambda>_. throw (Msg (''keypair with name '' @ Quote (ck_Name req) @ '' already exists'')))
          (bindE (new_uuid E) (\<lambda>i.
           let k = \<lparr>kp_ID = i, kp_Name = ck_Name req, kp_PublicKey = ck_PublicKey req,
                    kp_Fingerprint = fingerprintPublicKey (ck_PublicKey req), kp_OrganizationID = orgID\<rparr> in
           bindE (wrapE ''create keypair'' (KeypairRepository_Create E k)) (\<lambda>_. ret k))))"

definition GetKeypair :: "Service \<Rightarrow> env \<Rightarrow> string \<Rightarrow> Keypair option act" where
  "GetKeypair S E ident = (if \<not> keypairRepo S then throw no_keypairs else KeypairRepository_GetByID E ident)"

definition ListKeypairs :: "Service \<Rightarrow> env \<Rightarrow> string \<Rightarrow> Keypair list act" where
  "ListKeypairs S E orgID = (if \<not> keypairRepo S then throw no_keypairs else KeypairRepository_List E orgID)"

definition DeleteKeypair :: "Service \<Rightarrow> env \<Rightarrow> string \<Rightarrow> unit act" where
  "DeleteKeypair S E ident =
     (if \<not> keypairRepo S then throw no_keypairs
      else bindE (KeypairRepository_GetByID E ident) (\<lambda>k. or_fail ''keypair not found'' k (\<lambda>_. KeypairRepository_Delete E ident)))"

subsection \<open>Backups\<close>

definition ListBackups :: "env \<Rightarrow> BackupFilter \<Rightarrow> (Backup list \<times> int) act" where
  "ListBackups E f = BackupRepository_List E f"

definition GetBackup :: "env \<Rightarrow> string \<Rightarrow> Backup option act" where
  "GetBackup E ident = BackupRepository_GetByID E ident"

definition CreateBackup :: "env \<Rightarrow> Backup \<Rightarrow> Backup act" where
  "CreateBackup E backup =
     (if bak_VMID backup = '''' then throw (Msg ''vm_id is required'')
      else if bak_Name backup = '''' then throw (Msg ''backup name is required'')
      else get_vm E (bak_VMID backup) (\<lambda>vm.
        bindE (new_uuid E) (\<lambda>i.
        let b = backup\<lparr>bak_ID := i, bak_OrganizationID := vm_OrganizationID vm, bak_Status := BackupStatusCreating\<rparr> in
        bindE (wrapE ''create backup'' (BackupRepository_Create E b)) (\<lambda>_. ret b))))"

definition DeleteBackup :: "env \<Rightarrow> string \<Rightarrow> unit act" where
  "DeleteBackup E ident =
     bindE (wrapE ''get backup'' (BackupRepository_GetByID E ident)) (\<lambda>b. or_fail ''backup not found'' b (\<lambda>_.
     wrapE ''delete backup'' (BackupRepository_Delete E ident)))"

definition RestoreBackup :: "Service \<Rightarrow> env \<Rightarrow> string \<Rightarrow> string \<Rightarrow> unit act" where
  "RestoreBackup S E backupID vmID =
     bindE (wrapE ''get backup'' (BackupRepository_GetByID E backupID)) (\<lambda>b. or_fail ''backup not found'' b (\<lambda>_.
     get_vm E vmID (\<lambda>vm.
     bindE (wrapE ''stop vm'' (VMRepository_UpdateStatus E vmID VMStatusStopped)) (\<lambda>_.
     publish_event S E ''restoring_backup'' vmID [(''vm_id'', vmID), (''backup_id'', backupID)] (
     wrapE ''restart vm'' (VMRepository_UpdateStatus E vmID VMStatusRunning))))))"

subsection \<open>Recovery\<close>

text \<open>What \<^verbatim>\<open>reconcileVMs\<close> does for one machine; messages to the log are left out.\<close>

definition fail_vm :: "env \<Rightarrow> VirtualMachine \<Rightarrow> unit act" where
  "fail_vm E vm = ignoreE (VMRepository_UpdateStatus E (vm_ID vm) VMStatusError) (ret ())"

definition reconcile_running :: "env \<Rightarrow> VirtualMachine \<Rightarrow> unit act" where
  "reconcile_running E vm =
     (case vm_NodeID vm of
        Some n \<Rightarrow>
          if n = '''' then ret ()
          else found_or (NodeRepository_GetByID E n)
            (\<lambda>node. if node_Status node = NodeStatusOnline then ret () else fail_vm E vm) (fail_vm E vm)
      | None \<Rightarrow> ret ())"

definition reconcile_disk :: "env \<Rightarrow> VirtualMachine \<Rightarrow> Disk \<Rightarrow> unit act" where
  "reconcile_disk E vm d =
     (if d_ImageID d \<noteq> '''' then
        found_or (ImageRepository_GetByID E (d_ImageID d))
          (\<lambda>img. if img_Status img = ImageStatusError then fail_vm E vm else ret ()) (ret ())
      else ret ())"

definition reconcile_vm :: "env \<Rightarrow> VirtualMachine \<Rightarrow> unit act" where
  "reconcile_vm E vm =
     (case vm_Status vm of
        VMStatusRunning \<Rightarrow> reconcile_running E vm
      | VMStatusRebooting \<Rightarrow> reconcile_running E vm
      | VMStatusMigrating \<Rightarrow> reconcile_running E vm
      | VMStatusCreating \<Rightarrow> bindE (mapE (reconcile_disk E vm) (vm_Disks vm)) (\<lambda>_. ret ())
      | VMStatusShuttingDown \<Rightarrow> ignoreE (VMRepository_UpdateStatus E (vm_ID vm) VMStatusStopped) (ret ())
      | _ \<Rightarrow> ret ())"

definition first_1000 :: VMFilter where
  "first_1000 = \<lparr>vf_OrganizationID = '''', vf_ProjectID = '''', vf_NodeID = '''', vf_Status = '''', vf_Search = '''',
     vf_Page = 1, vf_PerPage = 1000\<rparr>"

definition reconcileVMs :: "env \<Rightarrow> unit act" where
  "reconcileVMs E =
     bindE (wrapE ''list VMs for recovery'' (VMRepository_List E first_1000)) (\<lambda>(vms, _).
     bindE (mapE (reconcile_vm E) vms) (\<lambda>_. ret ()))"

text \<open>
  \<^verbatim>\<open>Recover\<close> starts two goroutines, two and three seconds after the start; \<open>Recover\<close> is both in that order.
\<close>

definition Recover :: "Service \<Rightarrow> env \<Rightarrow> unit act" where
  "Recover S E =
     bindE (case puller S of Some _ \<Rightarrow> ResumeDownloads E | None \<Rightarrow> ret ()) (\<lambda>_.
     ignoreE (reconcileVMs E) (ret ()))"

subsection \<open>Every method keeps the constraints of the database\<close>

lemma preserves_or_fail [pres]: "(\<And>a. preserves I (f a)) \<Longrightarrow> preserves I (or_fail m x f)"
  unfolding or_fail_def by (intro pres)

lemma preserves_get_vm [pres]: "counter_blind I \<Longrightarrow> (\<And>a. preserves I (f a)) \<Longrightarrow> preserves I (get_vm E i f)"
  unfolding get_vm_def by (intro pres)

lemma preserves_publish_event [pres]:
  "counter_blind I \<Longrightarrow> preserves I k \<Longrightarrow> preserves I (publish_event S E t v kvs k)"
  unfolding publish_event_def by (intro pres)

lemma preserves_lift_err [pres]: "preserves I (lift_err r)"
  unfolding lift_err_def by (intro pres)

lemma preserves_apply_flavor [pres]: "counter_blind I \<Longrightarrow> preserves I (apply_flavor S E req)"
  unfolding apply_flavor_def by (intro pres)

lemma preserves_apply_keypair [pres]: "counter_blind I \<Longrightarrow> preserves I (apply_keypair S E req)"
  unfolding apply_keypair_def by (intro pres)

text \<open>
  An invariant that the statements of the puller and of the allocator keep is kept by everything that
  happens before a machine is stored.
\<close>

definition prepares :: "(world \<Rightarrow> bool) \<Rightarrow> bool" where
  "prepares I \<longleftrightarrow> counter_blind I \<and> (\<forall>E d r. preserves I (ResolveAndEnsureImage E d r)) \<and>
     (\<forall>E d os v a. preserves I (Puller_PullOfficialImage E d os v a)) \<and> (\<forall>E org. preserves I (EnsureDefaultNetwork E org))"

lemma prepares_db_ok [pres]: "prepares db_ok"
  by (auto simp: prepares_def intro!: pres)

lemma preparesD:
  "prepares I \<Longrightarrow> counter_blind I" "prepares I \<Longrightarrow> preserves I (ResolveAndEnsureImage E d r)"
  "prepares I \<Longrightarrow> preserves I (Puller_PullOfficialImage E d os v a)" "prepares I \<Longrightarrow> preserves I (EnsureDefaultNetwork E org)"
  by (simp_all add: prepares_def)

lemma preserves_disk_image: "prepares I \<Longrightarrow> preserves I (disk_image S E dr)"
  unfolding disk_image_def image_by_ref_def cached_image_def Service_PullOfficialImage_def
  by (intro pres preparesD)

lemma preserves_create_disks: "prepares I \<Longrightarrow> preserves I (create_disks S E req)"
  unfolding create_disks_def create_disk_def by (intro pres preserves_disk_image preparesD)

lemma preserves_nic_address [pres]: "counter_blind I \<Longrightarrow> preserves I (nic_address S E s n)"
  unfolding nic_address_def by (intro pres)

lemma preserves_create_nics: "prepares I \<Longrightarrow> preserves I (create_nics S E vm req)"
  unfolding create_nics_def create_nic_def default_network_of_def by (intro pres preparesD)

lemma preserves_renumber_nic [pres]: "counter_blind I \<Longrightarrow> preserves I (renumber_nic S E i k n)"
  unfolding renumber_nic_def by (intro pres)

lemma db_create_loop [pres]: "preserves db_ok (create_loop S E r vm)"
  by (induction r arbitrary: vm) (auto intro!: pres)

lemma db_CreateVM [pres]: "preserves db_ok (CreateVM S E req)"
  unfolding CreateVM_def by (intro pres preserves_create_disks preserves_create_nics)

lemma preserves_reads [pres]:
  "counter_blind I \<Longrightarrow> preserves I (GetVM E i)" "counter_blind I \<Longrightarrow> preserves I (ListVMs E vf)"
  "counter_blind I \<Longrightarrow> preserves I (NodeService_GetNode E i)" "counter_blind I \<Longrightarrow> preserves I (NodeService_ListNodes E nf)"
  "counter_blind I \<Longrightarrow> preserves I (ListImages E f)" "counter_blind I \<Longrightarrow> preserves I (GetImage E i)"
  "counter_blind I \<Longrightarrow> preserves I (GetFlavor S E i)" "counter_blind I \<Longrightarrow> preserves I (ListFlavors S E)"
  "counter_blind I \<Longrightarrow> preserves I (GetKeypair S E i)" "counter_blind I \<Longrightarrow> preserves I (ListKeypairs S E i)"
  "counter_blind I \<Longrightarrow> preserves I (ListBackups E bf)" "counter_blind I \<Longrightarrow> preserves I (GetBackup E i)"
  unfolding GetVM_def ListVMs_def NodeService_GetNode_def NodeService_ListNodes_def ListImages_def GetImage_def
    GetFlavor_def ListFlavors_def GetKeypair_def ListKeypairs_def ListBackups_def GetBackup_def
  by (intro pres; assumption)+

lemma db_UpdateVM [pres]: "preserves db_ok (UpdateVM E i req)"
  unfolding UpdateVM_def by (intro pres)

lemma db_DeleteVM [pres]: "preserves db_ok (DeleteVM E i force)"
  unfolding DeleteVM_def by (intro pres)

lemma preserves_nodeCommandSubject [pres]: "counter_blind I \<Longrightarrow> preserves I (nodeCommandSubject E n a)"
  unfolding nodeCommandSubject_def by (intro pres)

lemma preserves_publishVMStart [pres]: "counter_blind I \<Longrightarrow> preserves I (publishVMStart S E vm n)"
  unfolding publishVMStart_def vm_ssh_key_def by (intro pres)

lemma preserves_send_start [pres]: "counter_blind I \<Longrightarrow> preserves I (send_start S E vm)"
  unfolding send_start_def by (intro pres)

lemma preserves_node_command [pres]:
  "counter_blind I \<Longrightarrow> preserves I k \<Longrightarrow> preserves I (node_command S E vm a p k)"
  unfolding node_command_def by (intro pres)

lemma db_auto_schedule [pres]: "preserves db_ok (auto_schedule E i vm)"
  unfolding auto_schedule_def assign_def by (intro pres)

lemma db_PowerOn [pres]: "preserves db_ok (PowerOn S E i)"
  unfolding PowerOn_def by (intro pres)

lemma db_PowerOff [pres]: "preserves db_ok (PowerOff S E i force)"
  unfolding PowerOff_def by (intro pres)

lemma db_Reboot [pres]: "preserves db_ok (Reboot S E i force)"
  unfolding Reboot_def by (intro pres)

lemma db_Resize [pres]: "preserves db_ok (Resize S E i v m)"
  unfolding Resize_def by (intro pres)

lemma db_Snapshot [pres]: "preserves db_ok (Service_Snapshot S E i n d)"
  unfolding Service_Snapshot_def by (intro pres)

lemma db_RestoreSnapshot [pres]: "preserves db_ok (RestoreSnapshot S E i)"
  unfolding RestoreSnapshot_def by (intro pres)

lemma preserves_clone_nic [pres]: "counter_blind I \<Longrightarrow> preserves I (clone_nic S E v p)"
  unfolding clone_nic_def by (intro pres)

lemma preserves_reclone_nic [pres]: "counter_blind I \<Longrightarrow> preserves I (reclone_nic S E v n)"
  unfolding reclone_nic_def by (intro pres)

lemma preserves_clone_disk [pres]: "counter_blind I \<Longrightarrow> preserves I (clone_disk E d)"
  unfolding clone_disk_def by (intro pres)

lemma preserves_clone_default_nic: "prepares I \<Longrightarrow> preserves I (clone_default_nic E vm)"
  unfolding clone_default_nic_def by (intro pres preparesD)

lemma db_clone_store [pres]: "preserves db_ok (clone_store S E vm)"
  unfolding clone_store_def by (intro pres)

lemma db_Clone [pres]: "preserves db_ok (Clone S E i n nd l)"
  unfolding Clone_def by (intro pres preserves_clone_default_nic)

lemma db_Register [pres]: "preserves db_ok (NodeService_Register S E req)"
  unfolding NodeService_Register_def by (intro pres)

lemma db_UpdateNode [pres]: "preserves db_ok (NodeService_UpdateNode E i ls)"
  unfolding NodeService_UpdateNode_def by (intro pres)

lemma db_Drain [pres]: "preserves db_ok (NodeService_Drain E i t)"
  unfolding NodeService_Drain_def by (intro pres)

lemma db_Heartbeat [pres]: "preserves db_ok (NodeService_Heartbeat E i r)"
  unfolding NodeService_Heartbeat_def by (intro pres)

lemma db_CreateImage [pres]: "preserves db_ok (CreateImage E img)"
  unfolding CreateImage_def by (intro pres)

lemma db_DeleteImage [pres]: "preserves db_ok (DeleteImage E i)"
  unfolding DeleteImage_def by (intro pres)

lemma db_Service_Pull [pres]: "preserves db_ok (Service_PullOfficialImage S E os v a)"
  unfolding Service_PullOfficialImage_def by (intro pres)

lemma db_Service_Import [pres]: "preserves db_ok (Service_ImportFromURL S E req)"
  unfolding Service_ImportFromURL_def by (intro pres)

lemma db_CreateFlavor [pres]: "preserves db_ok (CreateFlavor S E req)"
  unfolding CreateFlavor_def by (intro pres)

lemma db_DeleteFlavor [pres]: "preserves db_ok (DeleteFlavor S E i)"
  unfolding DeleteFlavor_def by (intro pres)

lemma db_CreateKeypair [pres]: "preserves db_ok (CreateKeypair S E req)"
  unfolding CreateKeypair_def by (intro pres)

lemma db_DeleteKeypair [pres]: "preserves db_ok (DeleteKeypair S E i)"
  unfolding DeleteKeypair_def by (intro pres)

lemma db_CreateBackup [pres]: "preserves db_ok (CreateBackup E b)"
  unfolding CreateBackup_def by (intro pres)

lemma db_DeleteBackup [pres]: "preserves db_ok (DeleteBackup E i)"
  unfolding DeleteBackup_def by (intro pres)

lemma db_RestoreBackup [pres]: "preserves db_ok (RestoreBackup S E b v)"
  unfolding RestoreBackup_def by (intro pres)



lemma db_reconcile_vm [pres]: "preserves db_ok (reconcile_vm E vm)"
  unfolding reconcile_vm_def reconcile_running_def reconcile_disk_def fail_vm_def
  by (cases "vm_Status vm") (simp_all only: VMStatus.case, (intro pres)+)

lemma db_reconcileVMs [pres]: "preserves db_ok (reconcileVMs E)"
  unfolding reconcileVMs_def by (intro pres)

lemma db_Recover [pres]: "preserves db_ok (Recover S E)"
  unfolding Recover_def by (intro pres)

end
