(* ===== verification/VMLifecycle.thy ===== *)
theory VMLifecycle
  imports ControlPlane
begin

section \<open>The life of a machine\<close>

text \<open>
  What the operations of \<open>ControlPlane\<close> do to the machines: creation stores all of a machine or
  nothing of it; power operations change exactly the status (and node) of their machine and refuse
  machines in the wrong state; deletion takes everything that belongs to the machine with it;
  reconciliation after a restart leaves no machine half way. \<open>vm_tables\<close> are the three tables that hold
  machines.
\<close>

definition vm_tables :: "world \<Rightarrow> VirtualMachine list \<times> (string \<times> Disk) list \<times> (string \<times> NetworkInterface) list" where
  "vm_tables w = (virtual_machines w, vm_disks w, vm_network_interfaces w)"

lemma vm_tables_simps [simp]:
  "vm_tables (w\<lparr>stmt_no := n\<rparr>) = vm_tables w" "vm_tables (w\<lparr>uuid_no := n\<rparr>) = vm_tables w"
  "vm_tables (w\<lparr>pub_no := n\<rparr>) = vm_tables w" "vm_tables (w\<lparr>outbox := x\<rparr>) = vm_tables w"
  "vm_tables (w\<lparr>images := y\<rparr>) = vm_tables w" "vm_tables (w\<lparr>downloads := z\<rparr>) = vm_tables w"
  "vm_tables (w\<lparr>private_networks := pn\<rparr>) = vm_tables w" "vm_tables (w\<lparr>subnets := sn\<rparr>) = vm_tables w"
  "vm_tables (w\<lparr>files := fs\<rparr>) = vm_tables w" "vm_tables (w\<lparr>cmd_no := n\<rparr>) = vm_tables w"
  by (simp_all add: vm_tables_def)

subsection \<open>Before a machine is stored\<close>

lemma counter_blind_vm_tables [pres]: "counter_blind (\<lambda>w. vm_tables w = c)"
  by (simp add: counter_blind_def)

lemma vm_tables_image_writes [pres]:
  "preserves (\<lambda>w. vm_tables w = c) (ImageRepository_UpdateStatus E i st n s)"
  "preserves (\<lambda>w. vm_tables w = c) (ImageRepository_Create E m)"
  unfolding ImageRepository_UpdateStatus_def ImageRepository_Create_def
  by (intro pres; simp add: preserves_def require_def)+

lemma vm_tables_PullFromOfficial [pres]: "preserves (\<lambda>w. vm_tables w = c) (PullFromOfficial E d oi)"
  unfolding PullFromOfficial_def restart_download_def Let_def by (intro pres)

lemma vm_tables_networks [pres]: "preserves (\<lambda>w. vm_tables w = c) (EnsureDefaultNetwork E org)"
  unfolding EnsureDefaultNetwork_def insert_default_network_def insert_default_subnet_def Let_def
  by (intro pres; simp add: preserves_def require_def bindE_apply)

lemma prepares_vm_tables [pres]: "prepares (\<lambda>w. vm_tables w = c)"
  unfolding prepares_def ResolveAndEnsureImage_def Puller_PullOfficialImage_def restart_download_def
  by (intro conjI allI pres)

subsection \<open>Storing\<close>

text \<open>Two interfaces that differ at most in their addresses.\<close>

definition same_nic :: "NetworkInterface \<Rightarrow> NetworkInterface \<Rightarrow> bool" where
  "same_nic n m \<longleftrightarrow> nic_ID n = nic_ID m \<and> nic_Name n = nic_Name m \<and> nic_NetworkID n = nic_NetworkID m \<and>
     nic_IsPrimary n = nic_IsPrimary m \<and> length (nic_IPv4Addresses n) \<le> length (nic_IPv4Addresses m)"

lemma same_nic_refl [simp]: "same_nic n n"
  by (simp add: same_nic_def)

lemma same_nic_trans: "same_nic a b \<Longrightarrow> same_nic b c \<Longrightarrow> same_nic a c"
  by (simp add: same_nic_def)

lemma renumber_same:
  assumes "renumber_nic S E v k n w = (Inr m, w')" "length (nic_IPv4Addresses n) \<le> 1"
  shows "same_nic n m \<and> length (nic_IPv4Addresses m) \<le> 1"
  using assms
  by (auto simp: renumber_nic_def tryM_apply same_nic_def split: if_splits prod.splits sum.splits)

lemma mapE_list_all2:
  assumes "mapE f xs w = (Inr ys, w')" "\<And>x y w w'. x \<in> set xs \<Longrightarrow> f x w = (Inr y, w') \<Longrightarrow> P x y"
  shows "list_all2 P xs ys"
  using assms
proof (induction xs arbitrary: ys w)
  case (Cons x xs)
  then show ?case by (fastforce simp: bindE_Inr_iff)
qed simp

lemma create_loop_stored:
  assumes "create_loop S E r vm w = (Inr vm', w')" "r > 0"
    and "\<forall>n\<in>set (vm_NetworkInterfaces vm). length (nic_IPv4Addresses n) \<le> 1"
  shows "\<exists>w1. vm_tables w1 = vm_tables w \<and> VMRepository_Create E vm' w1 = (Inr (), w') \<and>
    vm' = vm\<lparr>vm_NetworkInterfaces := vm_NetworkInterfaces vm'\<rparr> \<and>
    list_all2 same_nic (vm_NetworkInterfaces vm) (vm_NetworkInterfaces vm')"
  using assms
proof (induction r arbitrary: vm w)
  case (Suc r)
  obtain x w2 where x: "VMRepository_Create E vm w = (x, w2)"
    by (cases "VMRepository_Create E vm w")
  show ?case
  proof (cases x)
    case (Inr u)
    then show ?thesis
      using Suc.prems(1) x by (auto simp: tryM_apply intro!: exI [of _ w] list_all2_refl)
  next
    case (Inl err)
    then obtain nics w3 where nics: "mapE (renumber_nic S E (vm_ID vm) (2 - r)) (vm_NetworkInterfaces vm) w2 = (Inr nics, w3)"
        and loop: "create_loop S E r (vm\<lparr>vm_NetworkInterfaces := nics\<rparr>) w3 = (Inr vm', w')" "r > 0"
      using Suc.prems(1) x by (auto simp: tryM_apply bindE_Inr_iff split: if_splits)
    have all2: "list_all2 (\<lambda>n m. same_nic n m \<and> length (nic_IPv4Addresses m) \<le> 1) (vm_NetworkInterfaces vm) nics"
      using Suc.prems(3) by (intro mapE_list_all2 [OF nics]) (auto dest: renumber_same)
    have pre: "preserves (\<lambda>v. vm_tables v = vm_tables w2) (mapE (renumber_nic S E (vm_ID vm) (2 - r)) (vm_NetworkInterfaces vm))"
      by (intro pres)
    have "vm_tables w2 = vm_tables w"
      using VM_Create_fails [of E vm w err w2] x Inl by auto
    then have tables: "vm_tables w3 = vm_tables w"
      using preserves_result [OF pre refl nics] by simp
    have short: "\<forall>n\<in>set nics. length (nic_IPv4Addresses n) \<le> 1"
      using all2 by (auto simp: list_all2_conv_all_nth set_conv_nth)
    obtain w1 where w1: "vm_tables w1 = vm_tables w3" "VMRepository_Create E vm' w1 = (Inr (), w')"
        "vm' = (vm\<lparr>vm_NetworkInterfaces := nics\<rparr>)\<lparr>vm_NetworkInterfaces := vm_NetworkInterfaces vm'\<rparr>"
        "list_all2 same_nic nics (vm_NetworkInterfaces vm')"
      using Suc.IH [OF loop] short by auto
    moreover have "list_all2 same_nic (vm_NetworkInterfaces vm) (vm_NetworkInterfaces vm')"
    proof (rule list_all2_trans [OF same_nic_trans _ w1(4)])
      show "list_all2 same_nic (vm_NetworkInterfaces vm) nics"
        using all2 by (rule list_all2_mono) simp
    qed
    ultimately show ?thesis
      using tables by (intro exI [of _ w1]) simp
  qed
qed simp

lemma create_loop_fails:
  assumes "create_loop S E r vm w = (Inl e, w')"
  shows "vm_tables w' = vm_tables w"
  using assms
proof (induction r arbitrary: vm w)
  case (Suc r)
  let ?re = "mapE (renumber_nic S E (vm_ID vm) (2 - r)) (vm_NetworkInterfaces vm)"
  obtain err w2 where x: "VMRepository_Create E vm w = (Inl err, w2)"
    using Suc.prems by (cases "VMRepository_Create E vm w") (auto simp: tryM_apply split: sum.splits)
  then have w2: "vm_tables w2 = vm_tables w"
    using VM_Create_fails by fastforce
  have pre: "preserves (\<lambda>v. vm_tables v = vm_tables w2) ?re"
    by (intro pres)
  obtain y w3 where y: "?re w2 = (y, w3)"
    by (cases "?re w2")
  then have w3: "vm_tables w3 = vm_tables w"
    using preserves_result [OF pre refl y] w2 by simp
  show ?case
    using Suc.prems Suc.IH x y w2 w3
    by (fastforce simp: tryM_apply bindE_apply split: if_splits sum.splits)
qed simp

subsection \<open>What a new machine looks like\<close>

lemma apply_flavor_result:
  assumes "apply_flavor S E req w = (Inr req', w')"
  shows "cv_Name req' = cv_Name req \<and> cv_NetworkInterfaces req' = cv_NetworkInterfaces req \<and>
    (cv_VCpus req \<noteq> 0 \<longrightarrow> cv_VCpus req' = cv_VCpus req) \<and> (cv_MemoryMB req \<noteq> 0 \<longrightarrow> cv_MemoryMB req' = cv_MemoryMB req) \<and>
    (cv_Disks req \<noteq> [] \<longrightarrow> cv_Disks req' = cv_Disks req)"
proof -
  have "req' = req \<or> (\<exists>f. req' = with_flavor f req)"
    using assms
    by (auto simp: apply_flavor_def bindE_Inr_iff or_fail_def split: if_splits option.splits)
  then show ?thesis
    by (elim disjE exE) (simp_all add: with_flavor_def Let_def)
qed

lemma apply_keypair_result:
  assumes "apply_keypair S E req w = (Inr req', w')"
  shows "\<exists>k. req' = req\<lparr>cv_KeypairID := k\<rparr>"
proof -
  have "req' = req \<or> (\<exists>k. req' = req\<lparr>cv_KeypairID := k\<rparr>)"
    using assms
    by (auto simp: apply_keypair_def found_or_def tryM_apply split: if_splits prod.splits sum.splits option.splits)
  then show ?thesis
  proof
    assume "req' = req"
    then have "req' = req\<lparr>cv_KeypairID := cv_KeypairID req\<rparr>" by simp
    then show ?thesis by blast
  qed
qed

definition disks_sane :: "Disk list \<Rightarrow> bool" where
  "disks_sane ds \<longleftrightarrow> ds \<noteq> [] \<and> (\<forall>i<length ds. d_Boot (ds ! i) = (i = 0) \<and> d_Order (ds ! i) = wrap32 (int i) \<and>
     d_SizeBytes (ds ! i) \<noteq> 0 \<and> d_Type (ds ! i) \<noteq> '''' \<and> d_StoragePool (ds ! i) \<noteq> '''')"

definition nics_sane :: "Service \<Rightarrow> NetworkInterface list \<Rightarrow> bool" where
  "nics_sane S ns \<longleftrightarrow> ns \<noteq> [] \<and> (\<exists>n\<in>set ns. nic_IsPrimary n) \<and>
     (\<forall>i<length ns. nic_Name (ns ! i) = ''eth'' @ Itoa (int i)) \<and>
     (\<forall>n\<in>set ns. ipam S \<and> nic_NetworkID n \<noteq> '''' \<longrightarrow> nic_IPv4Addresses n \<noteq> [])"

lemma create_disk_result:
  assumes "create_disk S E p w = (Inr d, w')"
  shows "d_Boot d = (fst p = 0) \<and> d_Order d = wrap32 (int (fst p)) \<and> d_SizeBytes d \<noteq> 0 \<and> d_Type d \<noteq> '''' \<and> d_StoragePool d \<noteq> ''''"
proof -
  obtain imageID sz i where "d = new_disk (fst p) (snd p) imageID sz i"
    using assms by (auto simp: create_disk_def bindE_Inr_iff)
  then show ?thesis
    by (simp add: new_disk_def)
qed

lemma create_disks_sane:
  assumes "create_disks S E req w = (Inr ds, w')"
  shows "disks_sane ds \<and> length ds = max 1 (length (cv_Disks req))"
proof (cases "cv_Disks req = []")
  case True
  then show ?thesis
    using assms by (auto simp: create_disks_def bindE_Inr_iff new_uuid_def default_disk_def disks_sane_def wrap32_def)
next
  case False
  then have "mapE (create_disk S E) (List.enumerate 0 (cv_Disks req)) w = (Inr ds, w')"
    using assms by (simp add: create_disks_def)
  from mapE_list_all2 [OF this create_disk_result]
  have "list_all2 (\<lambda>p d. d_Boot d = (fst p = 0) \<and> d_Order d = wrap32 (int (fst p)) \<and> d_SizeBytes d \<noteq> 0 \<and>
      d_Type d \<noteq> '''' \<and> d_StoragePool d \<noteq> '''') (List.enumerate 0 (cv_Disks req)) ds" .
  then show ?thesis
    using False by (auto simp: list_all2_conv_all_nth disks_sane_def nth_enumerate_eq max_def Suc_le_eq)
qed

lemma nic_address_result:
  assumes "nic_address S E s n w = (Inr ips, w')"
  shows "length ips \<le> 1 \<and> (ipam S \<and> n \<noteq> '''' \<longrightarrow> ips \<noteq> [])"
  using assms by (auto simp: nic_address_def bindE_Inr_iff split: if_splits)

lemma create_nic_result:
  assumes "create_nic S E vm g p w = (Inr n, w')"
  shows "nic_Name n = ''eth'' @ Itoa (int (fst p)) \<and> nic_IsPrimary n = (fst p = 0 \<and> \<not> g \<or> cn_IsPrimary (snd p)) \<and>
    length (nic_IPv4Addresses n) \<le> 1 \<and> (ipam S \<and> nic_NetworkID n \<noteq> '''' \<longrightarrow> nic_IPv4Addresses n \<noteq> []) \<and>
    (cn_NetworkID (snd p) \<noteq> '''' \<longrightarrow> nic_NetworkID n = cn_NetworkID (snd p))"
  using assms
  by (cases p) (auto simp: create_nic_def bindE_Inr_iff dest!: nic_address_result split: if_splits)

lemma Itoa_0: "Itoa 0 = ''0''"
  by code_simp

lemma create_nics_sane:
  assumes "create_nics S E vm req w = (Inr ns, w')"
  shows "nics_sane S ns \<and> length ns = max 1 (length (cv_NetworkInterfaces req)) \<and>
    (\<forall>n\<in>set ns. length (nic_IPv4Addresses n) \<le> 1)"
proof (cases "cv_NetworkInterfaces req = []")
  case True
  then show ?thesis
    using assms
    by (auto simp: create_nics_def bindE_Inr_iff nics_sane_def Itoa_0 dest!: nic_address_result)
next
  case False
  let ?rs = "cv_NetworkInterfaces req"
  have run: "mapE (create_nic S E vm (hasPrimary ?rs)) (List.enumerate 0 ?rs) w = (Inr ns, w')"
    using assms False by (simp add: create_nics_def)
  have all2: "list_all2 (\<lambda>p n. nic_Name n = ''eth'' @ Itoa (int (fst p)) \<and>
      nic_IsPrimary n = (fst p = 0 \<and> \<not> hasPrimary ?rs \<or> cn_IsPrimary (snd p)) \<and>
      length (nic_IPv4Addresses n) \<le> 1 \<and> (ipam S \<and> nic_NetworkID n \<noteq> '''' \<longrightarrow> nic_IPv4Addresses n \<noteq> []))
    (List.enumerate 0 ?rs) ns"
    by (rule mapE_list_all2 [OF run]) (drule create_nic_result, simp)
  then have len: "length ns = length ?rs"
    by (simp add: list_all2_conv_all_nth)
  have nth: "i < length ?rs \<Longrightarrow> nic_Name (ns ! i) = ''eth'' @ Itoa (int i) \<and>
      nic_IsPrimary (ns ! i) = (i = 0 \<and> \<not> hasPrimary ?rs \<or> cn_IsPrimary (?rs ! i)) \<and> length (nic_IPv4Addresses (ns ! i)) \<le> 1 \<and>
      (ipam S \<and> nic_NetworkID (ns ! i) \<noteq> '''' \<longrightarrow> nic_IPv4Addresses (ns ! i) \<noteq> [])" for i
    using all2 by (simp add: list_all2_conv_all_nth nth_enumerate_eq)
  have "\<exists>i<length ?rs. i = 0 \<and> \<not> hasPrimary ?rs \<or> cn_IsPrimary (?rs ! i)"
    using False by (auto simp: hasPrimary_def list_ex_length)
  then have "\<exists>n\<in>set ns. nic_IsPrimary n"
    using nth len by (metis nth_mem)
  then show ?thesis
    using nth len False by (auto simp: nics_sane_def in_set_conv_nth max_def Suc_le_eq)
qed

lemma nics_sane_same:
  assumes "nics_sane S ns" "list_all2 same_nic ns ms"
  shows "nics_sane S ms"
proof -
  have same: "length ns = length ms" "\<forall>i<length ns. same_nic (ns ! i) (ms ! i)"
    using assms(2) by (auto simp: list_all2_conv_all_nth)
  obtain k where "k < length ns" "nic_IsPrimary (ns ! k)"
    using assms(1) by (auto simp: nics_sane_def in_set_conv_nth)
  then have "nic_IsPrimary (ms ! k)" "ms ! k \<in> set ms"
    using same by (auto simp: same_nic_def)
  then have "\<exists>n\<in>set ms. nic_IsPrimary n"
    by blast
  moreover have "nic_IPv4Addresses (ms ! i) \<noteq> []" if "i < length ms" "ipam S" "nic_NetworkID (ms ! i) \<noteq> ''''" for i
  proof -
    have s: "same_nic (ns ! i) (ms ! i)" "ns ! i \<in> set ns"
      using same that by auto
    then have "nic_NetworkID (ns ! i) \<noteq> ''''"
      using that(3) by (simp add: same_nic_def)
    then have "nic_IPv4Addresses (ns ! i) \<noteq> []"
      using assms(1) that(2) s(2) by (simp add: nics_sane_def)
    then show ?thesis
      using s(1) by (auto simp: same_nic_def)
  qed
  moreover have "nic_Name (ms ! i) = ''eth'' @ Itoa (int i)" if "i < length ms" for i
    using assms(1) same that by (auto simp: nics_sane_def same_nic_def)
  ultimately show ?thesis
    using assms(1) same(1) by (auto simp: nics_sane_def in_set_conv_nth)
qed

subsection \<open>Creation is all or nothing\<close>

lemma publish_event_Inr_iff:
  "publish_event S E t v kvs (ret x) w = (r, w') \<longleftrightarrow>
     r = Inr x \<and> w' = (if publisher S then snd (PublishVMEvent E t v (Event kvs) w) else w)"
  by (auto simp: publish_event_def ignoreE_apply)

lemma publish_event_tables:
  "publish_event S E t v kvs (ret x) w = (r, w') \<Longrightarrow> r = Inr x \<and> vm_tables w' = vm_tables w"
  using preservesD [OF preserves_PublishVMEvent [OF counter_blind_vm_tables]] by (fastforce simp: publish_event_Inr_iff)

text \<open>Everything before the loop.\<close>

definition prepare_vm :: "Service \<Rightarrow> env \<Rightarrow> CreateVMRequest \<Rightarrow> VirtualMachine act" where
  "prepare_vm S E req0 =
     (if cv_Name req0 = '''' then throw (Msg ''vm name is required'')
      else
        bindE (apply_flavor S E req0) (\<lambda>req1.
        bindE (apply_keypair S E req1) (\<lambda>req.
        if cv_VCpus req < 1 then throw (Msg ''vcpus must be at least 1'')
        else if cv_MemoryMB req < 256 then throw (Msg ''memory must be at least 256 MB'')
        else
          bindE (new_uuid E) (\<lambda>i.
          bindE (create_disks S E req) (\<lambda>disks.
          bindE (create_nics S E (new_vm req i) req) (\<lambda>nics.
          ret ((new_vm req i)\<lparr>vm_Disks := disks, vm_NetworkInterfaces := nics\<rparr>)))))))"

lemma bindE_assoc: "bindE (bindE m f) g = bindE m (\<lambda>a. bindE (f a) g)"
  by (rule ext) (simp add: bindE_apply split: prod.split sum.split)

lemma bindE_if: "bindE (if b then m else n) g = (if b then bindE m g else bindE n g)"
  by simp

lemma bindE_throw: "bindE (throw e) g = throw e"
  by (rule ext) (simp add: bindE_apply)

lemma bindE_ret: "bindE (ret a) g = g a"
  by (rule ext) (simp add: bindE_apply)

lemma CreateVM_split:
  "CreateVM S E req = bindE (prepare_vm S E req) (\<lambda>vm0. bindE (create_loop S E 3 vm0) (\<lambda>vm.
     publish_event S E ''created'' (vm_ID vm) [(''vm_id'', vm_ID vm), (''status'', VMStatus_string (vm_Status vm))] (ret vm)))"
  unfolding CreateVM_def prepare_vm_def Let_def bindE_assoc bindE_if bindE_throw bindE_ret by (rule refl)

lemma preserves_prepare_vm: "prepares I \<Longrightarrow> preserves I (prepare_vm S E req)"
  unfolding prepare_vm_def by (intro pres preserves_create_disks preserves_create_nics preparesD)

lemma prepare_vm_result:
  assumes "prepare_vm S E req w = (Inr vm, w')"
  shows "(\<exists>n. vm_ID vm = uuid_New E n) \<and> vm_Name vm = cv_Name req \<and> vm_Name vm \<noteq> '''' \<and> vm_Status vm = VMStatusCreating \<and>
    vm_VCpus vm \<ge> 1 \<and> vm_MemoryMB vm \<ge> 256 \<and> (cv_VCpus req \<noteq> 0 \<longrightarrow> vm_VCpus vm = cv_VCpus req) \<and>
    (cv_MemoryMB req \<noteq> 0 \<longrightarrow> vm_MemoryMB vm = cv_MemoryMB req) \<and>
    disks_sane (vm_Disks vm) \<and> nics_sane S (vm_NetworkInterfaces vm) \<and>
    length (vm_NetworkInterfaces vm) = max 1 (length (cv_NetworkInterfaces req)) \<and>
    (\<forall>n\<in>set (vm_NetworkInterfaces vm). length (nic_IPv4Addresses n) \<le> 1)"
proof -
  obtain req1 k wa wb i wc disks nics wd where
    r: "cv_Name req \<noteq> ''''" "apply_flavor S E req w = (Inr req1, wa)" and
    g: "1 \<le> cv_VCpus req1" "256 \<le> cv_MemoryMB req1" and
    i: "new_uuid E wb = (Inr i, wc)" and
    d: "create_disks S E (req1\<lparr>cv_KeypairID := k\<rparr>) wc = (Inr disks, wd)" and
    n: "create_nics S E (new_vm (req1\<lparr>cv_KeypairID := k\<rparr>) i) (req1\<lparr>cv_KeypairID := k\<rparr>) wd = (Inr nics, w')" and
    vm: "vm = (new_vm (req1\<lparr>cv_KeypairID := k\<rparr>) i)\<lparr>vm_Disks := disks, vm_NetworkInterfaces := nics\<rparr>"
    using assms by (auto simp: prepare_vm_def bindE_Inr_iff not_less split: if_splits dest!: apply_keypair_result)
  show ?thesis
    using apply_flavor_result [OF r(2)] create_disks_sane [OF d] create_nics_sane [OF n] r(1) g i
    by (auto simp: vm new_vm_def new_uuid_def)
qed

text \<open>A machine as a get returns it after it was stored.\<close>

definition as_read :: "env \<Rightarrow> VirtualMachine \<Rightarrow> VirtualMachine" where
  "as_read E vm = (stored_vm E vm)\<lparr>vm_Disks := sort_key d_Order (map (stored_disk E) (vm_Disks vm)),
     vm_NetworkInterfaces := map (stored_nic E) (vm_NetworkInterfaces vm)\<rparr>"

lemma vm_of_tables: "vm_tables w = vm_tables w' \<Longrightarrow> vm_of w = vm_of w'"
  by (rule ext) (simp add: vm_of_def disks_of_def nics_of_def vm_tables_def)

lemma owned_tables: "vm_tables w = vm_tables w' \<Longrightarrow> owned w = owned w'"
  by (simp add: owned_def vm_tables_def)

lemma CreateVM_run:
  assumes "CreateVM S E req w = (Inr vm, w')"
  obtains vm0 w0 w1 w2 where "prepare_vm S E req w = (Inr vm0, w0)" "vm_tables w1 = vm_tables w"
    "VMRepository_Create E vm w1 = (Inr (), w2)" "vm_tables w' = vm_tables w2"
    "vm = vm0\<lparr>vm_NetworkInterfaces := vm_NetworkInterfaces vm\<rparr>"
    "list_all2 same_nic (vm_NetworkInterfaces vm0) (vm_NetworkInterfaces vm)"
proof -
  obtain vm0 w0 w2 where a: "prepare_vm S E req w = (Inr vm0, w0)" "create_loop S E 3 vm0 w0 = (Inr vm, w2)"
      "vm_tables w' = vm_tables w2"
    using assms by (auto simp: CreateVM_split bindE_Inr_iff dest!: publish_event_tables)
  have "\<forall>n\<in>set (vm_NetworkInterfaces vm0). length (nic_IPv4Addresses n) \<le> 1"
    using prepare_vm_result [OF a(1)] by simp
  from create_loop_stored [OF a(2) _ this] obtain w1 where
    b: "vm_tables w1 = vm_tables w0" "VMRepository_Create E vm w1 = (Inr (), w2)"
      "vm = vm0\<lparr>vm_NetworkInterfaces := vm_NetworkInterfaces vm\<rparr>"
      "list_all2 same_nic (vm_NetworkInterfaces vm0) (vm_NetworkInterfaces vm)"
    by auto
  have "vm_tables w0 = vm_tables w"
    using preserves_result [OF preserves_prepare_vm [OF prepares_vm_tables] refl a(1)] .
  then show thesis
    using that a b by simp
qed

text \<open>
  C2. A machine that \<open>CreateVM\<close> returns is well formed: at least one virtual CPU and 256 MB of memory,
  taken from the request when it gives them; at least one disk, of which exactly the first boots,
  numbered in order, none of size zero; at least one interface, named in order, one of them primary,
  each with an address when it has a network and addresses are managed. And it is stored: a get returns
  it, and every other machine is as before.
\<close>

theorem CreateVM_stored:
  assumes "db_ok w" "uuid_ok E" "healthy E" "CreateVM S E req w = (Inr vm, w')"
  shows "vm_Name vm = cv_Name req \<and> vm_Status vm = VMStatusCreating \<and> vm_VCpus vm \<ge> 1 \<and> vm_MemoryMB vm \<ge> 256 \<and>
    (cv_VCpus req \<noteq> 0 \<longrightarrow> vm_VCpus vm = cv_VCpus req) \<and> (cv_MemoryMB req \<noteq> 0 \<longrightarrow> vm_MemoryMB vm = cv_MemoryMB req) \<and>
    disks_sane (vm_Disks vm) \<and> nics_sane S (vm_NetworkInterfaces vm) \<and>
    length (vm_NetworkInterfaces vm) = max 1 (length (cv_NetworkInterfaces req)) \<and>
    vm_of w (vm_ID vm) = None \<and> (\<exists>w''. GetVM E (vm_ID vm) w' = (Inr (Some (as_read E vm)), w'')) \<and>
    (\<forall>j. j \<noteq> vm_ID vm \<longrightarrow> vm_of w' j = vm_of w j)"
proof -
  obtain vm0 w0 w1 w2 where run: "prepare_vm S E req w = (Inr vm0, w0)" "vm_tables w1 = vm_tables w"
      "VMRepository_Create E vm w1 = (Inr (), w2)" "vm_tables w' = vm_tables w2"
    and vm: "vm = vm0\<lparr>vm_NetworkInterfaces := vm_NetworkInterfaces vm\<rparr>"
      "list_all2 same_nic (vm_NetworkInterfaces vm0) (vm_NetworkInterfaces vm)"
    using assms(4) by (rule CreateVM_run)
  note res = prepare_vm_result [OF run(1)]
  obtain n where "vm_ID vm0 = uuid_New E n"
    using res by blast
  moreover have fields: "vm_ID vm = vm_ID vm0" "vm_Name vm = vm_Name vm0" "vm_Status vm = vm_Status vm0"
      "vm_VCpus vm = vm_VCpus vm0" "vm_MemoryMB vm = vm_MemoryMB vm0" "vm_Disks vm = vm_Disks vm0"
    by (subst vm(1), simp)+
  ultimately have id: "uuid_parse E (vm_ID vm) = Some (vm_ID vm)" "canon E (vm_ID vm) = vm_ID vm"
    using assms(2) by (simp_all add: uuid_ok_New canon_def)
  have "owned w1"
    using db_ok_owned [OF assms(1)] owned_tables [OF run(2)] by simp
  then have of: "vm_of w' (vm_ID vm) = Some (as_read E vm)"
    using vm_of_created [OF _ run(3)] vm_of_tables [OF run(4)] id(2) by (simp add: as_read_def)
  have "db_ok w'"
    using preserves_result [OF db_CreateVM assms(1,4)] .
  then have get: "\<exists>w''. GetVM E (vm_ID vm) w' = (Inr (Some (as_read E vm)), w'')"
    using VM_GetByID_ok [OF assms(3,2) _ id(1), of w'] of by (auto simp: GetVM_def)
  have others: "vm_of w' j = vm_of w j" if "j \<noteq> vm_ID vm" for j
    using vm_of_others [OF run(3)] vm_of_tables [OF run(4)] vm_of_tables [OF run(2)] id(2) that by simp
  have "vm_of w1 (vm_ID vm) = None"
    using VM_Create_ok(3) [OF run(3)] by (simp add: vm_of_def by_id_None id(2))
  then have new: "vm_of w (vm_ID vm) = None"
    using vm_of_tables [OF run(2)] by simp
  have nics: "nics_sane S (vm_NetworkInterfaces vm)" "length (vm_NetworkInterfaces vm) = length (vm_NetworkInterfaces vm0)"
    using nics_sane_same [OF _ vm(2)] list_all2_lengthD [OF vm(2)] res by auto
  show ?thesis
    using res fields nics get others new by simp
qed

text \<open>
  C3. When \<open>CreateVM\<close> returns an error, at whatever step and for whatever reason, no machine, disk or
  interface was stored, changed or removed.
\<close>

theorem CreateVM_atomic:
  assumes "CreateVM S E req w = (Inl e, w')"
  shows "virtual_machines w' = virtual_machines w \<and> vm_disks w' = vm_disks w \<and>
    vm_network_interfaces w' = vm_network_interfaces w"
proof -
  have pre: "preserves (\<lambda>v. vm_tables v = vm_tables w) (prepare_vm S E req)"
    by (intro preserves_prepare_vm pres)
  obtain r0 w0 where a: "prepare_vm S E req w = (r0, w0)"
    by (cases "prepare_vm S E req w")
  have w0: "vm_tables w0 = vm_tables w"
    using preserves_result [OF pre refl a] .
  have "vm_tables w' = vm_tables w"
  proof (cases r0)
    case (Inl e0)
    then show ?thesis using assms a w0 by (simp add: CreateVM_split bindE_apply)
  next
    case (Inr vm0)
    have rest: "bindE (create_loop S E 3 vm0) (\<lambda>vm. publish_event S E ''created'' (vm_ID vm)
        [(''vm_id'', vm_ID vm), (''status'', VMStatus_string (vm_Status vm))] (ret vm)) w0 = (Inl e, w')"
      using assms a Inr by (simp add: CreateVM_split bindE_apply)
    have "create_loop S E 3 vm0 w0 = (Inl e, w')"
      using rest by (cases "create_loop S E 3 vm0 w0")
        (auto simp: bindE_apply split: sum.splits dest!: publish_event_tables)
    then show ?thesis
      using create_loop_fails w0 by metis
  qed
  then show ?thesis
    by (simp add: vm_tables_def)
qed

text \<open>A violated unique constraint is recognised through any wrapping; a missing node is not mistaken for one.\<close>

lemma unique_violation_seen: "isUniqueViolation (unique_violation c)"
  unfolding isUniqueViolation_def unique_violation_def Let_def Error.simps ToLower_def map_append
  by (intro disjI1 Contains_append_right Contains_append_left) code_simp

lemma unique_violation_wrap: "isUniqueViolation e \<Longrightarrow> isUniqueViolation (Wrap p e)"
  by (auto simp: isUniqueViolation_def ToLower_def Let_def intro: Contains_append_right)

lemma missing_node_not_unique:
  "\<not> isUniqueViolation (Wrap ''vm_repo: insert vm'' (fk_violation ''virtual_machines_node_id_fkey''))"
  by code_simp

definition bare_service :: Service where
  "bare_service = \<lparr>flavorRepo = False, keypairRepo = False, ipam = False, publisher = False, puller = None\<rparr>"

definition sample_request :: "string \<Rightarrow> CreateVMRequest" where
  "sample_request nodeID = \<lparr>cv_Name = ''web'', cv_NodeID = nodeID, cv_FlavorID = '''', cv_Flavor = '''', cv_VCpus = 2,
     cv_MemoryMB = 512, cv_CPUModel = '''', cv_MachineType = '''', cv_EnableSecureBoot = False, cv_EnableTPM = False,
     cv_Hugepages = False, cv_CloudInit = '''', cv_KeypairID = '''', cv_Keypair = '''', cv_Disks = [],
     cv_NetworkInterfaces = [], cv_Tags = [], cv_Metadata = None, cv_Labels = None\<rparr>"

lemma sample_prepared:
  "prepare_vm bare_service sample_env (sample_request nodeID) empty_world =
     (Inr ((new_vm (sample_request nodeID) (unary_uuid 0))\<lparr>vm_Disks := [default_disk (unary_uuid 1)],
        vm_NetworkInterfaces := [\<lparr>nic_ID = unary_uuid 2, nic_Name = ''eth0'', nic_NetworkID = '''',
          nic_MACAddress = GenerateNICMAC (unary_uuid 0) (unary_uuid 2), nic_IPv4Addresses = [], nic_IPv6Addresses = [],
          nic_IsPrimary = True\<rparr>]\<rparr>), empty_world\<lparr>uuid_no := 3\<rparr>)"
  by (simp add: prepare_vm_def sample_request_def bindE_apply apply_flavor_def apply_keypair_def new_uuid_def
      create_disks_def create_nics_def default_network_of_def nic_address_def bare_service_def new_vm_def empty_world_def numeral_3_eq_3 numeral_2_eq_2)

lemmas create_evals = VMRepository_Create_def in_tx_def bindE_apply wrapE_apply no_op_def sql_healthy insert_vm_def
  uuid_arg_def uuid_opt_def require_def insert_disk_def insert_nic_def uuid_nullif_def inet_arg_def empty_world_def
  nil_uuid_def disk_types_def nic_ip_key_def nic_mac_key_def List.map_filter_simps Let_def

lemmas sample_evals = numeral_3_eq_3 new_vm_def sample_request_def default_disk_def unary_uuid_def request_org_def
  gomap_get_def tryM_apply publish_event_def bare_service_def

lemma sample_created: "\<exists>vm w'. CreateVM bare_service sample_env (sample_request '''') empty_world = (Inr vm, w')"
  unfolding CreateVM_split bindE_apply sample_prepared prod.case sum.case
  by (simp add: sample_evals create_evals split: option.splits)

theorem CreateVM_stored_witness:
  "\<exists>vm w' w''. CreateVM bare_service sample_env (sample_request '''') empty_world = (Inr vm, w') \<and>
     vm_VCpus vm = 2 \<and> vm_MemoryMB vm = 512 \<and> disks_sane (vm_Disks vm) \<and> nics_sane bare_service (vm_NetworkInterfaces vm) \<and>
     GetVM sample_env (vm_ID vm) w' = (Inr (Some (as_read sample_env vm)), w'')"
proof -
  obtain vm w' where run: "CreateVM bare_service sample_env (sample_request '''') empty_world = (Inr vm, w')"
    using sample_created by blast
  have req: "cv_VCpus (sample_request '''') = 2" "cv_MemoryMB (sample_request '''') = 512"
    by (simp_all add: sample_request_def)
  show ?thesis
    using CreateVM_stored [OF db_ok_empty uuid_ok_sample healthy_sample run] run by (auto simp: req)
qed

theorem CreateVM_atomic_witness:
  "\<exists>e w'. CreateVM bare_service sample_env (sample_request ''n1'') empty_world = (Inl e, w') \<and> virtual_machines w' = []"
proof -
  have "\<exists>e w'. CreateVM bare_service sample_env (sample_request ''n1'') empty_world = (Inl e, w')"
    unfolding CreateVM_split bindE_apply sample_prepared prod.case sum.case
    by (simp add: sample_evals create_evals missing_node_not_unique split: option.splits)
  then show ?thesis
    using CreateVM_atomic by (fastforce simp: empty_world_def)
qed

end
