(* ===== verification/VMSpec.thy ===== *)
theory VMSpec
  imports VMLifecycle
begin

section \<open>The operations on one machine refine a state machine\<close>

text \<open>
  \<open>spec_op\<close> says in one equation per operation what happens to a machine: refused with a message, changed,
  or removed (\<open>None\<close>). \<open>run_op\<close> is the code of \<^verbatim>\<open>service.go\<close>. The refinement lemma relates them through
  \<open>vm_of\<close>, the map from ids to machines that the three tables represent: an operation changes this map at
  its machine as \<open>spec_op\<close> says and nowhere else, an operation on an unknown id is refused. A sequence
  of operations is then a run of the abstract machine.
\<close>

datatype vm_op =
    OpUpdate UpdateVMRequest
  | OpDelete bool
  | OpPowerOn
  | OpPowerOff bool
  | OpReboot bool
  | OpResize int int

definition as_some :: "'a act \<Rightarrow> 'a option act" where
  "as_some m = bindE m (\<lambda>a. ret (Some a))"

fun run_op :: "Service \<Rightarrow> env \<Rightarrow> string \<Rightarrow> vm_op \<Rightarrow> VirtualMachine option act" where
  "run_op S E i (OpUpdate req) = as_some (UpdateVM E i req)"
| "run_op S E i (OpDelete force) = bindE (DeleteVM E i force) (\<lambda>_. ret None)"
| "run_op S E i OpPowerOn = as_some (PowerOn S E i)"
| "run_op S E i (OpPowerOff force) = as_some (PowerOff S E i force)"
| "run_op S E i (OpReboot force) = as_some (Reboot S E i force)"
| "run_op S E i (OpResize vcpus mem) = as_some (Resize S E i vcpus mem)"

subsection \<open>The specification\<close>

definition wrong_state :: "string \<Rightarrow> VirtualMachine \<Rightarrow> error" where
  "wrong_state what vm = Msg (''vm must be '' @ what @ '' (current status: '' @ VMStatus_string (vm_Status vm) @ '')'')"

definition updated :: "UpdateVMRequest \<Rightarrow> VirtualMachine \<Rightarrow> VirtualMachine" where
  "updated req vm = vm\<lparr>vm_Name := (if uv_Name req \<noteq> '''' then uv_Name req else vm_Name vm),
     vm_Metadata := (if uv_Metadata req \<noteq> None then uv_Metadata req else vm_Metadata vm),
     vm_Labels := (if uv_Labels req \<noteq> None then uv_Labels req else vm_Labels vm),
     vm_Tags := (case uv_Tags req of Some ts \<Rightarrow> ts | None \<Rightarrow> vm_Tags vm)\<rparr>"

text \<open>\<open>pick\<close> is the node that a machine without one is given, if there is any node.\<close>

fun spec_op :: "string option \<Rightarrow> vm_op \<Rightarrow> VirtualMachine \<Rightarrow> error + VirtualMachine option" where
  "spec_op pick (OpUpdate req) vm = Inr (Some (updated req vm))"
| "spec_op pick (OpDelete force) vm =
     (if force \<or> vm_Status vm = VMStatusStopped then Inr None else Inl (wrong_state ''stopped before deletion'' vm))"
| "spec_op pick OpPowerOn vm =
     (if vm_Status vm \<in> {VMStatusStopped, VMStatusPaused, VMStatusCreating} then
        Inr (Some (vm\<lparr>vm_NodeID := (if ptr_set (vm_NodeID vm) \<or> pick = None then vm_NodeID vm else pick),
                      vm_Status := VMStatusRunning\<rparr>))
      else Inl (wrong_state ''stopped or paused to power on'' vm))"
| "spec_op pick (OpPowerOff force) vm =
     (if force \<or> vm_Status vm \<in> {VMStatusRunning, VMStatusPaused} then Inr (Some (vm\<lparr>vm_Status := VMStatusStopped\<rparr>))
      else Inl (wrong_state ''running or paused to power off'' vm))"
| "spec_op pick (OpReboot force) vm =
     (if force \<or> vm_Status vm = VMStatusRunning then Inr (Some (vm\<lparr>vm_Status := VMStatusRunning\<rparr>))
      else Inl (wrong_state ''running to reboot'' vm))"
| "spec_op pick (OpResize vcpus mem) vm =
     (if vcpus < 1 then Inl (Msg ''vcpus must be at least 1'')
      else if mem < 256 then Inl (Msg ''memory must be at least 256 MB'')
      else Inr (Some (vm\<lparr>vm_VCpus := vcpus, vm_MemoryMB := mem\<rparr>)))"

text \<open>The newest node that is online, else the newest node.\<close>

definition pick_node :: "world \<Rightarrow> string option" where
  "pick_node w = map_option node_ID (case find (\<lambda>n. node_Status n = NodeStatusOnline) (rev (nodes w)) of
     Some n \<Rightarrow> Some n | None \<Rightarrow> (case rev (nodes w) of [] \<Rightarrow> None | n # _ \<Rightarrow> Some n))"

text \<open>An operation on the map of machines: what the refinement relates the code to.\<close>

definition spec_step :: "string option \<Rightarrow> string \<Rightarrow> vm_op \<Rightarrow> (string \<rightharpoonup> VirtualMachine) \<Rightarrow>
    (error + VirtualMachine option) \<times> (string \<rightharpoonup> VirtualMachine)" where
  "spec_step pick c op m =
     (case m c of
        None \<Rightarrow> (Inl (Msg ''vm not found''), m)
      | Some vm \<Rightarrow> (case spec_op pick op vm of Inl e \<Rightarrow> (Inl e, m) | Inr x \<Rightarrow> (Inr x, m(c := x))))"

subsection \<open>Running the statements\<close>

text \<open>What the lemmas about one machine assume of the environment and the state.\<close>

definition runs_ok :: "env \<Rightarrow> world \<Rightarrow> bool" where
  "runs_ok E w \<longleftrightarrow> healthy E \<and> uuid_ok E \<and> db_ok w \<and> (\<forall>n\<in>set (nodes w). uuid_parse E (node_ID n) = Some (node_ID n))"

lemma runs_ok_stmt [simp]: "runs_ok E (w\<lparr>stmt_no := n\<rparr>) = runs_ok E w"
  by (simp add: runs_ok_def db_defs)

lemma vm_of_stmt [simp]: "vm_of (w\<lparr>stmt_no := n\<rparr>) = vm_of w"
  by (rule vm_of_tables) simp

lemma get_vm_runs:
  assumes "runs_ok E w" "uuid_parse E i = Some c"
  shows "\<exists>n. get_vm E i f w = (case vm_of w c of None \<Rightarrow> (Inl (Msg ''vm not found''), w\<lparr>stmt_no := n\<rparr>)
    | Some vm \<Rightarrow> f vm (w\<lparr>stmt_no := n\<rparr>))"
proof -
  obtain n where "VMRepository_GetByID E i w = (Inr (vm_of w c), w\<lparr>stmt_no := n\<rparr>)"
    using VM_GetByID_ok assms unfolding runs_ok_def by blast
  then show ?thesis
    by (intro exI [of _ n]) (simp add: get_vm_def bindE_apply wrapE_apply or_fail_def split: option.split)
qed

lemma by_id_update_where:
  "(\<And>r. key (g r) = key r) \<Longrightarrow>
   by_id key (update_where (\<lambda>r. key r = c) g rs) j = (if j = c then map_option g (by_id key rs c) else by_id key rs j)"
  by (cases "find (\<lambda>r. key r = j) rs") (auto simp: by_id_def find_update_where dest: find_key_Some [of key])

text \<open>A change \<open>g\<close> of the row of machine \<open>c\<close> that does not look at disks and interfaces.\<close>

definition row_change :: "(VirtualMachine \<Rightarrow> VirtualMachine) \<Rightarrow> bool" where
  "row_change g \<longleftrightarrow> (\<forall>v. vm_ID (g v) = vm_ID v) \<and>
     (\<forall>v d n. (g v)\<lparr>vm_Disks := d, vm_NetworkInterfaces := n\<rparr> = g (v\<lparr>vm_Disks := d, vm_NetworkInterfaces := n\<rparr>))"

definition change_vm :: "string \<Rightarrow> (VirtualMachine \<Rightarrow> VirtualMachine) \<Rightarrow> world \<Rightarrow> world" where
  "change_vm c g w = w\<lparr>virtual_machines := update_where (\<lambda>v. vm_ID v = c) g (virtual_machines w)\<rparr>"

lemma vm_of_change:
  assumes "row_change g" "vm_of w c = Some vm"
  shows "vm_of (change_vm c g w) = (vm_of w)(c \<mapsto> g vm)"
  using assms
  by (auto simp: row_change_def vm_of_def change_vm_def disks_of_def nics_of_def by_id_update_where fun_eq_iff)

lemma row_changes [simp]:
  "row_change (\<lambda>v. v\<lparr>vm_Status := st\<rparr>)" "row_change (\<lambda>v. v\<lparr>vm_NodeID := n\<rparr>)"
  "row_change (\<lambda>v. v\<lparr>vm_Name := a, vm_VCpus := b, vm_MemoryMB := c, vm_Metadata := d, vm_Labels := e, vm_Tags := f\<rparr>)"
  by (simp_all add: row_change_def)

lemma UpdateStatus_runs:
  "healthy E \<Longrightarrow> uuid_parse E i = Some c \<Longrightarrow>
   VMRepository_UpdateStatus E i st w = (Inr (), change_vm c (\<lambda>v. v\<lparr>vm_Status := st\<rparr>) (w\<lparr>stmt_no := Suc (stmt_no w)\<rparr>))"
  by (simp add: VMRepository_UpdateStatus_def wrapE_apply sql_healthy uuid_arg_ok change_vm_def)

lemma Update_runs:
  "healthy E \<Longrightarrow> uuid_parse E (vm_ID vm) = Some c \<Longrightarrow>
   VMRepository_Update E vm w = (Inr (), change_vm c (\<lambda>v. v\<lparr>vm_Name := vm_Name vm, vm_VCpus := vm_VCpus vm,
       vm_MemoryMB := vm_MemoryMB vm, vm_Metadata := vm_Metadata vm, vm_Labels := vm_Labels vm, vm_Tags := vm_Tags vm\<rparr>)
     (w\<lparr>stmt_no := Suc (stmt_no w)\<rparr>))"
  by (simp add: VMRepository_Update_def wrapE_apply sql_healthy uuid_arg_ok change_vm_def)

text \<open>Publishing does not touch the machines.\<close>



lemma publish_event_runs:
  "\<exists>w'. publish_event S E t v kvs (ret x) w = (Inr x, w') \<and> vm_tables w' = vm_tables w"
proof -
  obtain r w' where run: "publish_event S E t v kvs (ret x) w = (r, w')"
    by (cases "publish_event S E t v kvs (ret x) w")
  then show ?thesis
    using publish_event_tables [OF run] by auto
qed

lemma node_command_runs:
  "\<exists>w'. node_command S E vm a p k w = k w' \<and> vm_tables w' = vm_tables w"
proof -
  have "vm_tables (snd (bindE (nodeCommandSubject E n a) (\<lambda>s. EventPublisher_Publish E s p) w)) = vm_tables w" for n
    by (rule preservesD [of "\<lambda>v. vm_tables v = vm_tables w"]) (intro pres refl)+
  then show ?thesis
    unfolding node_command_def ignoreE_apply
    by (auto simp: ignoreE_apply split: option.split intro: exI [of _ w])
qed

text \<open>
  \<open>refined\<close>: an operation on machine \<open>c\<close>, run in \<open>w\<close>, returns what the specification says and leaves the
  machines as it says.
\<close>

definition refined :: "world \<Rightarrow> string \<Rightarrow> error + VirtualMachine option \<Rightarrow> VirtualMachine option act \<Rightarrow> bool" where
  "refined w c r m \<longleftrightarrow> (\<exists>w'. m w = (r, w') \<and> vm_of w' = (case r of Inl _ \<Rightarrow> vm_of w | Inr x \<Rightarrow> (vm_of w)(c := x)))"

lemma refined_get_vm:
  assumes "runs_ok E w" "uuid_parse E i = Some c" "vm_of w c = Some vm"
    and "\<And>n. refined (w\<lparr>stmt_no := n\<rparr>) c r (as_some (f vm))"
  shows "refined w c r (as_some (get_vm E i f))"
proof -
  obtain n where n: "get_vm E i f w = f vm (w\<lparr>stmt_no := n\<rparr>)"
    using get_vm_runs [OF assms(1,2), of f] assms(3) by auto
  then show ?thesis
    using assms(4) [of n] by (cases r) (simp_all add: refined_def as_some_def bindE_apply)
qed

lemma refined_throw: "refined w c (Inl e) (as_some (throw e))"
  by (simp add: refined_def as_some_def bindE_throw)

lemma runs_okD: "runs_ok E w \<Longrightarrow> healthy E" "runs_ok E w \<Longrightarrow> uuid_ok E" "runs_ok E w \<Longrightarrow> db_ok w"
  by (simp_all add: runs_ok_def)

lemma vm_of_id: "vm_of w c = Some vm \<Longrightarrow> vm_ID vm = c"
  by (auto simp: vm_of_def dest: by_id_Some)

text \<open>A change of the row, then an event: the shape of an update and of a resize.\<close>

lemma refined_update:
  assumes "runs_ok E w" "uuid_parse E i = Some c" "vm_of w c = Some vm"
    and "vm' = vm\<lparr>vm_Name := vm_Name vm', vm_VCpus := vm_VCpus vm', vm_MemoryMB := vm_MemoryMB vm',
      vm_Metadata := vm_Metadata vm', vm_Labels := vm_Labels vm', vm_Tags := vm_Tags vm'\<rparr>"
    and "\<And>v. \<exists>v'. k v = (Inr vm', v') \<and> vm_tables v' = vm_tables v"
  shows "refined w c (Inr (Some vm')) (as_some (bindE (wrapE p (VMRepository_Update E vm')) (\<lambda>_. k)))"
proof -
  let ?g = "\<lambda>v. v\<lparr>vm_Name := vm_Name vm', vm_VCpus := vm_VCpus vm', vm_MemoryMB := vm_MemoryMB vm',
      vm_Metadata := vm_Metadata vm', vm_Labels := vm_Labels vm', vm_Tags := vm_Tags vm'\<rparr>"
  let ?w = "change_vm c ?g (w\<lparr>stmt_no := Suc (stmt_no w)\<rparr>)"
  have "vm_ID vm' = vm_ID vm"
    by (subst assms(4)) simp
  then have "uuid_parse E (vm_ID vm') = Some c"
    using vm_of_id [OF assms(3)] uuid_ok_canon [OF runs_okD(2) [OF assms(1)] assms(2)] by simp
  from Update_runs [OF runs_okD(1) [OF assms(1)] this]
  have upd: "VMRepository_Update E vm' w = (Inr (), ?w)" .
  obtain v' where k: "k ?w = (Inr vm', v')" "vm_tables v' = vm_tables ?w"
    using assms(5) [of ?w] by blast
  have "vm_of v' = (vm_of w)(c \<mapsto> ?g vm)"
    using vm_of_tables [OF k(2)] vm_of_change [OF row_changes(3), of "w\<lparr>stmt_no := Suc (stmt_no w)\<rparr>" c vm] assms(3) by simp
  then show ?thesis
    using upd k(1) assms(4) by (simp add: refined_def as_some_def bindE_apply wrapE_apply)
qed

lemma ret_runs: "\<exists>v'. ret x v = (Inr x, v') \<and> vm_tables v' = vm_tables v"
  by simp

lemma refined_UpdateVM:
  assumes "runs_ok E w" "uuid_parse E i = Some c" "vm_of w c = Some vm"
  shows "refined w c (Inr (Some (updated req vm))) (as_some (UpdateVM E i req))"
  unfolding UpdateVM_def Let_def
  by (rule refined_get_vm [OF assms], fold updated_def,
      rule refined_update [OF _ assms(2) _ _ ret_runs], simp add: assms, simp add: assms, cases vm, simp add: updated_def)

lemma refined_Resize:
  assumes "runs_ok E w" "uuid_parse E i = Some c" "vm_of w c = Some vm" "1 \<le> vcpus" "256 \<le> mem"
  shows "refined w c (Inr (Some (vm\<lparr>vm_VCpus := vcpus, vm_MemoryMB := mem\<rparr>))) (as_some (Resize S E i vcpus mem))"
proof -
  have "refined (w\<lparr>stmt_no := n\<rparr>) c (Inr (Some (vm\<lparr>vm_VCpus := vcpus, vm_MemoryMB := mem\<rparr>)))
      (as_some (bindE (wrapE p (VMRepository_Update E (vm\<lparr>vm_VCpus := vcpus, vm_MemoryMB := mem\<rparr>)))
        (\<lambda>_. publish_event S E t v kvs (ret (vm\<lparr>vm_VCpus := vcpus, vm_MemoryMB := mem\<rparr>)))))" for n p t v kvs
    by (rule refined_update [OF _ assms(2) _ _ publish_event_runs], simp add: assms, simp add: assms, cases vm, simp)
  then show ?thesis
    unfolding Resize_def Let_def using assms(4,5) by (intro refined_get_vm [OF assms(1-3)]) (simp add: not_less)
qed

text \<open>A passing status, a command to the node, the final status: power off and reboot.\<close>

lemma refined_cycle:
  assumes "runs_ok E w" "uuid_parse E i = Some c" "vm_of w c = Some vm"
  shows "refined w c (Inr (Some (vm\<lparr>vm_Status := st2\<rparr>)))
    (as_some (bindE (wrapE p (VMRepository_UpdateStatus E i st1)) (\<lambda>_. node_command S E vm a cmd (
      bindE (wrapE q (VMRepository_UpdateStatus E i st2)) (\<lambda>_. publish_event S E t v kvs (ret (vm\<lparr>vm_Status := st2\<rparr>)))))))"
proof -
  note status = UpdateStatus_runs [OF runs_okD(1) [OF assms(1)] assms(2)]
  let ?w1 = "change_vm c (\<lambda>v. v\<lparr>vm_Status := st1\<rparr>) (w\<lparr>stmt_no := Suc (stmt_no w)\<rparr>)"
  let ?k = "bindE (wrapE q (VMRepository_UpdateStatus E i st2)) (\<lambda>_. publish_event S E t v kvs (ret (vm\<lparr>vm_Status := st2\<rparr>)))"
  obtain w2 where w2: "node_command S E vm a cmd ?k ?w1 = ?k w2" "vm_tables w2 = vm_tables ?w1"
    using node_command_runs [of S E vm a cmd ?k ?w1] by blast
  let ?w3 = "change_vm c (\<lambda>v. v\<lparr>vm_Status := st2\<rparr>) (w2\<lparr>stmt_no := Suc (stmt_no w2)\<rparr>)"
  obtain w4 where w4: "publish_event S E t v kvs (ret (vm\<lparr>vm_Status := st2\<rparr>)) ?w3 = (Inr (vm\<lparr>vm_Status := st2\<rparr>), w4)"
      "vm_tables w4 = vm_tables ?w3"
    using publish_event_runs [of S E t v kvs "vm\<lparr>vm_Status := st2\<rparr>" ?w3] by blast
  have "vm_of w2 = (vm_of w)(c \<mapsto> vm\<lparr>vm_Status := st1\<rparr>)"
    using vm_of_tables [OF w2(2)] vm_of_change [OF row_changes(1), of "w\<lparr>stmt_no := Suc (stmt_no w)\<rparr>" c vm] assms(3) by simp
  then have "vm_of w4 = (vm_of w)(c \<mapsto> vm\<lparr>vm_Status := st2\<rparr>)"
    using vm_of_tables [OF w4(2)]
      vm_of_change [OF row_changes(1), of "w2\<lparr>stmt_no := Suc (stmt_no w2)\<rparr>" c "vm\<lparr>vm_Status := st1\<rparr>"] by simp
  then show ?thesis
    using w2(1) w4(1) by (simp add: refined_def as_some_def bindE_apply wrapE_apply status)
qed

lemma refined_PowerOff:
  assumes "runs_ok E w" "uuid_parse E i = Some c" "vm_of w c = Some vm"
  shows "refined w c (spec_op pick (OpPowerOff force) vm) (as_some (PowerOff S E i force))"
  unfolding PowerOff_def
  by (rule refined_get_vm [OF assms])
    (auto simp: wrong_state_def intro!: refined_throw [unfolded as_some_def] refined_cycle [unfolded as_some_def]
      simp: assms as_some_def)

lemma refined_Reboot:
  assumes "runs_ok E w" "uuid_parse E i = Some c" "vm_of w c = Some vm"
  shows "refined w c (spec_op pick (OpReboot force) vm) (as_some (Reboot S E i force))"
  unfolding Reboot_def
  by (rule refined_get_vm [OF assms])
    (auto simp: wrong_state_def intro!: refined_throw [unfolded as_some_def] refined_cycle [unfolded as_some_def]
      simp: assms as_some_def)

subsection \<open>Choosing a node\<close>

lemma take_1_filter: "take (Suc 0) (filter P xs) = (case find P xs of None \<Rightarrow> [] | Some x \<Rightarrow> [x])"
  by (induction xs) auto

lemma page_1_of_1: "page_or_1 1 = 1" "per_page_or_20 1 = 1" "page_offset 1 1 = 0"
  by (simp_all add: page_or_1_def per_page_or_20_def page_offset_def wrap64_def)

lemma first_online_runs:
  assumes "healthy E"
  shows "\<exists>n k. NodeRepository_List E first_online w =
    (Inr (case find (\<lambda>x. node_Status x = NodeStatusOnline) (rev (nodes w)) of None \<Rightarrow> [] | Some x \<Rightarrow> [x], k), w\<lparr>stmt_no := n\<rparr>)"
proof -
  have "str_eq ''online'' (NodeStatus_string st) \<longleftrightarrow> st = NodeStatusOnline" for st
    by (cases st) (simp_all add: str_eq_def)
  then show ?thesis
    using assms
    by (auto simp: NodeRepository_List_def list_query_def first_online_def node_rows_def enum_cond_def NodeStatus_names_def
        bindE_apply wrapE_apply sql_healthy select_where_def name_like_def limit_offset_def page_1_of_1 take_1_filter rev_filter)
qed

lemma first_node_runs:
  assumes "healthy E"
  shows "\<exists>n k. NodeRepository_List E first_node w =
    (Inr (case rev (nodes w) of [] \<Rightarrow> [] | x # _ \<Rightarrow> [x], k), w\<lparr>stmt_no := n\<rparr>)"
  using assms
  by (auto simp: NodeRepository_List_def list_query_def first_node_def node_rows_def enum_cond_def
      bindE_apply wrapE_apply sql_healthy select_where_def name_like_def str_eq_def limit_offset_def page_1_of_1
      split: list.split)

lemma assign_runs:
  assumes "runs_ok E w" "uuid_parse E i = Some c" "vm_of w c = Some vm" "x \<in> set (nodes w)"
  shows "\<exists>w'. assign E i vm x w = (Inr (vm\<lparr>vm_NodeID := Some (node_ID x)\<rparr>), w') \<and>
    vm_of w' = (vm_of w)(c \<mapsto> vm\<lparr>vm_NodeID := Some (node_ID x)\<rparr>)"
proof -
  let ?w = "w\<lparr>stmt_no := Suc (stmt_no w)\<rparr>"
  have "VMRepository_AssignNode E i (node_ID x) w = (Inr (), change_vm c (\<lambda>v. v\<lparr>vm_NodeID := Some (node_ID x)\<rparr>) ?w)"
    using assms
    by (auto simp: VMRepository_AssignNode_def wrapE_apply sql_healthy runs_ok_def uuid_arg_ok require_def change_vm_def)
  then show ?thesis
    using vm_of_change [OF row_changes(2), of ?w c vm] assms(3) by (simp add: assign_def ignoreE_apply)
qed

definition scheduled :: "string option \<Rightarrow> VirtualMachine \<Rightarrow> VirtualMachine" where
  "scheduled pick vm = vm\<lparr>vm_NodeID := (if ptr_set (vm_NodeID vm) \<or> pick = None then vm_NodeID vm else pick)\<rparr>"

lemma auto_schedule_runs:
  assumes "runs_ok E w" "uuid_parse E i = Some c" "vm_of w c = Some vm"
  shows "\<exists>w'. auto_schedule E i vm w = (Inr (scheduled (pick_node w) vm), w') \<and>
    vm_of w' = (vm_of w)(c \<mapsto> scheduled (pick_node w) vm)"
proof (cases "ptr_set (vm_NodeID vm)")
  case True
  then show ?thesis
    using assms(3) by (auto simp: auto_schedule_def scheduled_def fun_upd_idem_iff)
next
  case unset: False
  obtain n k where on: "NodeRepository_List E first_online w =
      (Inr (case find (\<lambda>x. node_Status x = NodeStatusOnline) (rev (nodes w)) of None \<Rightarrow> [] | Some x \<Rightarrow> [x], k), w\<lparr>stmt_no := n\<rparr>)"
    using first_online_runs [OF runs_okD(1) [OF assms(1)], of w] by blast
  obtain m j where any: "NodeRepository_List E first_node (w\<lparr>stmt_no := n\<rparr>) =
      (Inr (case rev (nodes w) of [] \<Rightarrow> [] | x # _ \<Rightarrow> [x], j), w\<lparr>stmt_no := m\<rparr>)"
    using first_node_runs [OF runs_okD(1) [OF assms(1)], of "w\<lparr>stmt_no := n\<rparr>"] by auto
  show ?thesis
  proof (cases "find (\<lambda>x. node_Status x = NodeStatusOnline) (rev (nodes w))")
    case (Some x)
    then have "x \<in> set (nodes w)"
      by (auto simp: find_Some_iff) (metis nth_mem rev_nth set_rev length_rev)
    then show ?thesis
      using assign_runs [of E "w\<lparr>stmt_no := n\<rparr>" i c vm x] on unset Some assms
      by (simp add: auto_schedule_def tryM_apply scheduled_def pick_node_def)
  next
    case None
    show ?thesis
    proof (cases "rev (nodes w)")
      case Nil
      then show ?thesis
        using on any unset None assms(3)
        by (simp add: auto_schedule_def tryM_apply scheduled_def pick_node_def fun_upd_idem)
    next
      case (Cons x xs)
      then have "x \<in> set (nodes w)"
        by (metis list.set_intros(1) set_rev)
      then show ?thesis
        using assign_runs [of E "w\<lparr>stmt_no := m\<rparr>" i c vm x] on any unset None Cons assms
        by (simp add: auto_schedule_def tryM_apply scheduled_def pick_node_def)
    qed
  qed
qed

lemma pick_node_stmt [simp]: "pick_node (w\<lparr>stmt_no := n\<rparr>) = pick_node w"
  by (simp add: pick_node_def split: option.split list.split)

lemma refined_PowerOn:
  assumes "runs_ok E w" "uuid_parse E i = Some c" "vm_of w c = Some vm"
  shows "refined w c (spec_op (pick_node w) OpPowerOn vm) (as_some (PowerOn S E i))"
proof (cases "vm_Status vm \<in> {VMStatusStopped, VMStatusPaused, VMStatusCreating}")
  case False
  then show ?thesis
    unfolding PowerOn_def
    by (intro refined_get_vm [OF assms]) (auto simp: wrong_state_def as_some_def intro!: refined_throw [unfolded as_some_def])
next
  case True
  let ?vm1 = "scheduled (pick_node w) vm"
  let ?vm = "?vm1\<lparr>vm_Status := VMStatusRunning\<rparr>"
  let ?start = "send_start S E ?vm"
  have step: "refined v c (Inr (Some ?vm)) (as_some (bindE (auto_schedule E i vm) (\<lambda>vm1.
      bindE (wrapE ''update status'' (VMRepository_UpdateStatus E i VMStatusRunning)) (\<lambda>_.
      let vm = vm1\<lparr>vm_Status := VMStatusRunning\<rparr> in
      ignoreE (send_start S E vm) (publish_event S E ''started'' i [(''vm_id'', i)] (ret vm))))))"
    if "v = w\<lparr>stmt_no := n\<rparr>" for v n
  proof -
    have v: "runs_ok E v" "vm_of v c = Some vm" "pick_node v = pick_node w" "vm_of v = vm_of w"
      using that assms by simp_all
    obtain w1 where w1: "auto_schedule E i vm v = (Inr ?vm1, w1)" "vm_of w1 = (vm_of w)(c \<mapsto> ?vm1)"
      using auto_schedule_runs [OF v(1) assms(2) v(2)] v(3,4) by auto
    let ?w2 = "change_vm c (\<lambda>v. v\<lparr>vm_Status := VMStatusRunning\<rparr>) (w1\<lparr>stmt_no := Suc (stmt_no w1)\<rparr>)"
    have "vm_tables (snd (?start ?w2)) = vm_tables ?w2"
      by (rule preservesD [of "\<lambda>v. vm_tables v = vm_tables ?w2"]) (intro pres refl)+
    then obtain w4 where w4: "publish_event S E ''started'' i [(''vm_id'', i)] (ret ?vm) (snd (?start ?w2)) = (Inr ?vm, w4)"
        "vm_tables w4 = vm_tables ?w2"
      using publish_event_runs [of S E "''started''" i "[(''vm_id'', i)]" ?vm "snd (?start ?w2)"] by auto
    have "vm_of w4 = (vm_of w)(c \<mapsto> ?vm)"
      using vm_of_tables [OF w4(2)] vm_of_change [OF row_changes(1), of "w1\<lparr>stmt_no := Suc (stmt_no w1)\<rparr>" c ?vm1] w1(2) by simp
    then show ?thesis
      using w1(1) w4(1) v(4) UpdateStatus_runs [OF runs_okD(1) [OF assms(1)] assms(2)]
      by (simp add: refined_def as_some_def bindE_apply wrapE_apply ignoreE_apply Let_def)
  qed
  have "spec_op (pick_node w) OpPowerOn vm = Inr (Some ?vm)"
    using True by (simp add: scheduled_def)
  moreover have cond: "(vm_Status vm \<noteq> VMStatusStopped \<and> vm_Status vm \<noteq> VMStatusPaused \<and> vm_Status vm \<noteq> VMStatusCreating) = False"
    using True by auto
  ultimately show ?thesis
    unfolding PowerOn_def
    by (simp only:) (rule refined_get_vm [OF assms], simp only: cond if_False step [OF refl])
qed

lemma filter_other: "j \<noteq> c \<Longrightarrow> filter (\<lambda>r. fst r \<noteq> c \<and> fst r = j) xs = filter (\<lambda>r. fst r = j) xs"
  by (intro filter_cong) auto

lemma vm_of_deleted:
  assumes "virtual_machines w' = filter (\<lambda>v. vm_ID v \<noteq> c) (virtual_machines w)"
    and "vm_disks w' = filter (\<lambda>r. fst r \<noteq> c) (vm_disks w)"
    and "vm_network_interfaces w' = filter (\<lambda>r. fst r \<noteq> c) (vm_network_interfaces w)"
  shows "vm_of w' = (vm_of w)(c := None)"
proof
  fix j
  show "vm_of w' j = ((vm_of w)(c := None)) j"
    by (simp add: vm_of_def disks_of_def nics_of_def assms by_id_filter filter_other)
qed

lemma refined_DeleteVM:
  assumes "runs_ok E w" "uuid_parse E i = Some c" "vm_of w c = Some vm"
  shows "refined w c (spec_op pick (OpDelete force) vm) (bindE (DeleteVM E i force) (\<lambda>_. ret None))"
proof -
  let ?f = "\<lambda>vm. if \<not> force \<and> vm_Status vm \<noteq> VMStatusStopped then
       throw (Msg (''vm must be stopped before deletion (current status: '' @ VMStatus_string (vm_Status vm) @ '')''))
     else wrapE ''delete vm'' (VMRepository_Delete E i)"
  obtain n where n: "DeleteVM E i force w = ?f vm (w\<lparr>stmt_no := n\<rparr>)"
    unfolding DeleteVM_def using get_vm_runs [OF assms(1,2), of ?f] assms(3) by auto
  show ?thesis
    using assms(2) runs_okD(1) [OF assms(1)]
    by (auto simp: refined_def bindE_apply n wrong_state_def VMRepository_Delete_def wrapE_apply sql_healthy uuid_arg_ok
        intro!: vm_of_deleted)
qed

subsection \<open>Refinement, and runs of several operations\<close>

lemma refined_found:
  assumes "runs_ok E w" "uuid_parse E i = Some c" "vm_of w c = Some vm"
  shows "refined w c (spec_op (pick_node w) op vm) (run_op S E i op)"
proof (cases op)
  case (OpUpdate req)
  then show ?thesis using refined_UpdateVM [OF assms] by simp
next
  case (OpDelete force)
  then show ?thesis using refined_DeleteVM [OF assms] by simp
next
  case OpPowerOn
  then show ?thesis using refined_PowerOn [OF assms] by simp
next
  case (OpPowerOff force)
  then show ?thesis using refined_PowerOff [OF assms] by simp
next
  case (OpReboot force)
  then show ?thesis using refined_Reboot [OF assms] by simp
next
  case (OpResize vcpus mem)
  have "refined w c (Inl e) (as_some (Resize S E i vcpus mem))"
    if "(vcpus < 1 \<and> e = Msg ''vcpus must be at least 1'') \<or> (\<not> vcpus < 1 \<and> mem < 256 \<and> e = Msg ''memory must be at least 256 MB'')" for e
    unfolding Resize_def using that by (intro refined_get_vm [OF assms]) (auto simp: refined_throw)
  then show ?thesis
    using OpResize refined_Resize [OF assms, of vcpus mem S] by auto
qed

lemma get_vm_missing:
  assumes "runs_ok E w" "uuid_parse E i = Some c" "vm_of w c = None"
  shows "\<exists>w'. get_vm E i f w = (Inl (Msg ''vm not found''), w') \<and> vm_of w' = vm_of w"
  using get_vm_runs [OF assms(1,2), of f] assms(3) by auto

lemma run_op_missing:
  assumes "runs_ok E w" "uuid_parse E i = Some c" "vm_of w c = None"
  shows "\<exists>w'. run_op S E i op w = (Inl (Msg ''vm not found''), w') \<and> vm_of w' = vm_of w"
proof -
  have pass: "\<exists>w'. bindE (get_vm E i f) k w = (Inl (Msg ''vm not found''), w') \<and> vm_of w' = vm_of w"
    for f :: "VirtualMachine \<Rightarrow> 'x act" and k :: "'x \<Rightarrow> 'y act"
    using get_vm_missing [OF assms, of f] by (auto simp: bindE_apply)
  show ?thesis
    by (cases op) (simp_all only: run_op.simps as_some_def UpdateVM_def DeleteVM_def PowerOn_def PowerOff_def Reboot_def Resize_def pass)
qed

lemma pick_node_cong: "nodes v = nodes w \<Longrightarrow> pick_node v = pick_node w"
  by (simp add: pick_node_def cong: option.case_cong)

primrec run_ops :: "Service \<Rightarrow> env \<Rightarrow> (string \<times> vm_op) list \<Rightarrow> world \<Rightarrow> (error + VirtualMachine option) list \<times> world" where
  "run_ops S E [] w = ([], w)"
| "run_ops S E (p # ps) w =
     (let (r, w1) = run_op S E (fst p) (snd p) w; (rs, w2) = run_ops S E ps w1 in (r # rs, w2))"

primrec spec_ops :: "string option \<Rightarrow> (string \<times> vm_op) list \<Rightarrow> (string \<rightharpoonup> VirtualMachine) \<Rightarrow>
    (error + VirtualMachine option) list \<times> (string \<rightharpoonup> VirtualMachine)" where
  "spec_ops pick [] m = ([], m)"
| "spec_ops pick (p # ps) m =
     (let (r, m1) = spec_step pick (fst p) (snd p) m; (rs, m2) = spec_ops pick ps m1 in (r # rs, m2))"

lemma run_op_refines:
  assumes "runs_ok E w" "uuid_parse E i = Some c" "run_op S E i op w = (r, w')"
  shows "(r, vm_of w') = spec_step (pick_node w) c op (vm_of w)"
proof (cases "vm_of w c")
  case None
  then show ?thesis
    using run_op_missing [OF assms(1,2) None, of S op] assms(3) by (auto simp: spec_step_def)
next
  case (Some vm)
  then show ?thesis
    using refined_found [OF assms(1,2) Some, of op S] assms(3) by (auto simp: spec_step_def refined_def split: sum.splits)
qed

text \<open>The operations leave the nodes alone and keep the constraints.\<close>

lemma nodes_vm_writes [pres]:
  "preserves (\<lambda>w. nodes w = c) (VMRepository_Update E vm)" "preserves (\<lambda>w. nodes w = c) (VMRepository_Delete E i)"
  "preserves (\<lambda>w. nodes w = c) (VMRepository_UpdateStatus E i st)" "preserves (\<lambda>w. nodes w = c) (VMRepository_AssignNode E i n)"
  unfolding VMRepository_Update_def VMRepository_Delete_def VMRepository_UpdateStatus_def VMRepository_AssignNode_def
  by (intro pres; simp add: preserves_def require_def counter_blind_def)+

lemma counter_blind_nodes [pres]: "counter_blind (\<lambda>w. nodes w = c)"
  by (simp add: counter_blind_def)

lemma preserves_as_some [pres]: "preserves I m \<Longrightarrow> preserves I (as_some m)"
  unfolding as_some_def by (intro pres)

lemma nodes_run_op: "preserves (\<lambda>w. nodes w = c) (run_op S E i op)"
  by (cases op) (simp_all only: run_op.simps UpdateVM_def DeleteVM_def PowerOn_def auto_schedule_def assign_def
      PowerOff_def Reboot_def Resize_def, (intro pres)+)

lemma db_run_op: "preserves db_ok (run_op S E i op)"
  by (cases op) (simp_all only: run_op.simps, (intro pres)+)

lemma runs_ok_run_op:
  assumes "runs_ok E w" "run_op S E i op w = (r, w')"
  shows "runs_ok E w' \<and> nodes w' = nodes w"
  using assms preserves_result [OF nodes_run_op refl assms(2)] preserves_result [OF db_run_op _ assms(2)]
  by (simp add: runs_ok_def)


definition sample_world :: world where
  "sample_world = snd (VMRepository_Create sample_env sample_vm empty_world)"

lemma sample_world_ok:
  "runs_ok sample_env sample_world" "pick_node sample_world = None" "vm_of sample_world = [''v'' \<mapsto> sample_vm]"
proof -
  have run: "VMRepository_Create sample_env sample_vm empty_world = (Inr (), sample_world)"
    using sample_vm_created by (simp add: sample_world_def prod_eq_iff)
  have "nodes sample_world = []"
    by (subst VM_Create_ok(1) [OF run]) (simp add: empty_world_def)
  then show "runs_ok sample_env sample_world" "pick_node sample_world = None"
    using preserves_result [OF db_VMRepository_Create db_ok_empty run] by (simp_all add: runs_ok_def pick_node_def)
  show "vm_of sample_world = [''v'' \<mapsto> sample_vm]"
  proof
    fix j
    have id: "canon sample_env (vm_ID sample_vm) = ''v''"
      by (simp add: canon_def sample_vm_def)
    show "vm_of sample_world j = [''v'' \<mapsto> sample_vm] j"
      using vm_of_created [OF db_ok_owned [OF db_ok_empty] run] vm_of_others [OF run, of j] id
      by (auto simp: stored_vm_def stored_disk_def stored_nic_def canon_def canon_inet_def nil_uuid_def sample_vm_def
          vm_of_def empty_world_def by_id_def)
  qed
qed


end
