(* ===== verification/Recovery.thy ===== *)
theory Recovery
  imports VMSpec
begin

section \<open>Reconciliation after a restart: \<^verbatim>\<open>services/controlplane/recovery.go\<close>\<close>

text \<open>
  \<open>settled\<close> says what becomes of a machine when the control plane comes up again; \<open>reconcile_settles\<close>
  shows that \<open>reconcileVMs\<close> does this to every machine, in one pass over at most 1000 of them.
\<close>

definition look_node :: "env \<Rightarrow> world \<Rightarrow> string \<Rightarrow> Node option" where
  "look_node E w n = (case uuid_parse E n of None \<Rightarrow> None | Some c \<Rightarrow> by_id node_ID (nodes w) c)"

definition look_image :: "env \<Rightarrow> world \<Rightarrow> string \<Rightarrow> Image option" where
  "look_image E w i = (case uuid_parse E i of None \<Rightarrow> None | Some c \<Rightarrow> by_id img_ID (images w) c)"

definition node_lost :: "env \<Rightarrow> world \<Rightarrow> VirtualMachine \<Rightarrow> bool" where
  "node_lost E w vm \<longleftrightarrow> (case vm_NodeID vm of None \<Rightarrow> False | Some n \<Rightarrow> n \<noteq> '''' \<and>
     (case look_node E w n of None \<Rightarrow> True | Some x \<Rightarrow> node_Status x \<noteq> NodeStatusOnline))"

definition disk_failed :: "env \<Rightarrow> world \<Rightarrow> Disk \<Rightarrow> bool" where
  "disk_failed E w d \<longleftrightarrow> d_ImageID d \<noteq> '''' \<and>
     (case look_image E w (d_ImageID d) of None \<Rightarrow> False | Some m \<Rightarrow> img_Status m = ImageStatusError)"

definition settled_status :: "env \<Rightarrow> world \<Rightarrow> VirtualMachine \<Rightarrow> VMStatus" where
  "settled_status E w vm =
     (if vm_Status vm \<in> {VMStatusRunning, VMStatusRebooting, VMStatusMigrating} then
        (if node_lost E w vm then VMStatusError else vm_Status vm)
      else if vm_Status vm = VMStatusCreating then
        (if list_ex (disk_failed E w) (vm_Disks vm) then VMStatusError else VMStatusCreating)
      else if vm_Status vm = VMStatusShuttingDown then VMStatusStopped
      else vm_Status vm)"

definition settled :: "env \<Rightarrow> world \<Rightarrow> VirtualMachine \<Rightarrow> VirtualMachine" where
  "settled E w vm = vm\<lparr>vm_Status := settled_status E w vm\<rparr>"

text \<open>The lookups depend on the tables of nodes and images only.\<close>

lemma disk_failed_cong:
  assumes "images v = images w"
  shows "disk_failed E v = disk_failed E w"
  unfolding disk_failed_def look_image_def assms ..

lemma settled_cong:
  assumes "nodes v = nodes w" "images v = images w"
  shows "settled E v = settled E w"
  unfolding settled_def settled_status_def disk_failed_cong [OF assms(2)] node_lost_def look_node_def assms(1) ..

subsection \<open>One machine\<close>

text \<open>\<open>touches w w' c vm\<close>: only machine \<open>c\<close> differs, and is now \<open>vm\<close>; nodes and images are the same.\<close>

definition touches :: "world \<Rightarrow> world \<Rightarrow> string \<Rightarrow> VirtualMachine \<Rightarrow> bool" where
  "touches w w' c vm \<longleftrightarrow> vm_of w' = (vm_of w)(c \<mapsto> vm) \<and> nodes w' = nodes w \<and> images w' = images w"

lemma touches_refl: "vm_of w c = Some vm \<Longrightarrow> touches w w c vm"
  by (simp add: touches_def fun_upd_idem)

lemma touches_stmt: "touches (w\<lparr>stmt_no := n\<rparr>) w' c vm = touches w w' c vm" "vm_of w c = Some vm \<Longrightarrow> touches w (w\<lparr>stmt_no := n\<rparr>) c vm"
  by (simp_all add: touches_def fun_upd_idem)

lemma status_runs:
  assumes "healthy E" "uuid_parse E c = Some c" "vm_of w c = Some vm"
  shows "\<exists>w'. ignoreE (VMRepository_UpdateStatus E c st) (ret ()) w = (Inr (), w') \<and> touches w w' c (vm\<lparr>vm_Status := st\<rparr>)"
  using UpdateStatus_runs [OF assms(1,2), of st w]
    vm_of_change [OF row_changes(1), of "w\<lparr>stmt_no := Suc (stmt_no w)\<rparr>" c vm st] assms(3)
  by (simp add: ignoreE_apply touches_def change_vm_def)

lemma found_or_node:
  assumes "healthy E"
  shows "\<exists>n. found_or (NodeRepository_GetByID E i) f k w =
    (case look_node E w i of None \<Rightarrow> k | Some x \<Rightarrow> f x) (w\<lparr>stmt_no := n\<rparr>)"
  using assms
  by (cases "uuid_parse E i")
    (auto simp: found_or_def tryM_apply NodeRepository_GetByID_def look_node_def get_opt_def sql_healthy uuid_arg_def
      bad_uuid_def select_one_def by_id_def split: option.split)

lemma found_or_image:
  assumes "healthy E"
  shows "\<exists>n. found_or (ImageRepository_GetByID E i) f k w =
    (case look_image E w i of None \<Rightarrow> k | Some x \<Rightarrow> f x) (w\<lparr>stmt_no := n\<rparr>)"
  using assms
  by (cases "uuid_parse E i")
    (auto simp: found_or_def tryM_apply ImageRepository_GetByID_def look_image_def get_opt_def sql_healthy uuid_arg_def
      bad_uuid_def select_one_def by_id_def split: option.split)

lemma reconcile_running_runs:
  assumes "healthy E" "uuid_parse E (vm_ID vm) = Some (vm_ID vm)" "vm_of w (vm_ID vm) = Some vm"
  shows "\<exists>w'. reconcile_running E vm w = (Inr (), w') \<and>
    touches w w' (vm_ID vm) (if node_lost E w vm then vm\<lparr>vm_Status := VMStatusError\<rparr> else vm)"
proof (cases "ptr_set (vm_NodeID vm)")
  case False
  then show ?thesis
    using assms(3) by (auto simp: reconcile_running_def node_lost_def ptr_set_def touches_refl split: option.splits)
next
  case True
  then obtain nd where nd: "vm_NodeID vm = Some nd" "nd \<noteq> ''''"
    by (auto elim: ptr_setE)
  obtain n where n: "reconcile_running E vm w = (case look_node E w nd of None \<Rightarrow> fail_vm E vm
      | Some x \<Rightarrow> if node_Status x = NodeStatusOnline then ret () else fail_vm E vm) (w\<lparr>stmt_no := n\<rparr>)"
    using found_or_node [OF assms(1), of nd _ "fail_vm E vm" w] nd unfolding reconcile_running_def by auto
  have "\<exists>w'. fail_vm E vm (w\<lparr>stmt_no := n\<rparr>) = (Inr (), w') \<and> touches w w' (vm_ID vm) (vm\<lparr>vm_Status := VMStatusError\<rparr>)"
    using status_runs [OF assms(1,2), of "w\<lparr>stmt_no := n\<rparr>" vm VMStatusError] assms(3) by (simp add: fail_vm_def touches_stmt)
  then show ?thesis
    using n nd assms(3) by (auto simp: node_lost_def touches_stmt split: option.split)
qed

lemma reconcile_disks_run:
  assumes "healthy E" "uuid_parse E (vm_ID vm) = Some (vm_ID vm)" "vm_of w (vm_ID vm) = Some vm'"
    and "vm\<lparr>vm_Status := VMStatusError\<rparr> = vm'\<lparr>vm_Status := VMStatusError\<rparr>"
  shows "\<exists>us w'. mapE (reconcile_disk E vm) ds w = (Inr us, w') \<and>
    touches w w' (vm_ID vm) (if list_ex (disk_failed E w) ds then vm\<lparr>vm_Status := VMStatusError\<rparr> else vm')"
  using assms(3,4)
proof (induction ds arbitrary: w vm')
  case Nil
  then show ?case by (auto simp: touches_refl)
next
  case (Cons d ds)
  let ?vm1 = "if disk_failed E w d then vm'\<lparr>vm_Status := VMStatusError\<rparr> else vm'"
  have "\<exists>w1. reconcile_disk E vm d w = (Inr (), w1) \<and> touches w w1 (vm_ID vm) ?vm1"
  proof (cases "d_ImageID d = ''''")
    case True
    then show ?thesis
      using Cons.prems(1) by (auto simp: reconcile_disk_def disk_failed_def touches_refl)
  next
    case False
    obtain n where n: "reconcile_disk E vm d w = (case look_image E w (d_ImageID d) of None \<Rightarrow> ret ()
        | Some m \<Rightarrow> if img_Status m = ImageStatusError then fail_vm E vm else ret ()) (w\<lparr>stmt_no := n\<rparr>)"
      using found_or_image [OF assms(1), of "d_ImageID d" _ "ret ()" w] False unfolding reconcile_disk_def by auto
    have "\<exists>w'. fail_vm E vm (w\<lparr>stmt_no := n\<rparr>) = (Inr (), w') \<and> touches w w' (vm_ID vm) (vm'\<lparr>vm_Status := VMStatusError\<rparr>)"
      using status_runs [OF assms(1,2), of "w\<lparr>stmt_no := n\<rparr>" vm' VMStatusError] Cons.prems(1) by (simp add: fail_vm_def touches_stmt)
    then show ?thesis
      using n False Cons.prems(1) by (auto simp: disk_failed_def touches_stmt split: option.split)
  qed
  then obtain w1 where w1: "reconcile_disk E vm d w = (Inr (), w1)" "touches w w1 (vm_ID vm) ?vm1"
    by blast
  have same: "disk_failed E w1 = disk_failed E w"
    using w1(2) by (intro disk_failed_cong) (simp add: touches_def)
  have "vm_of w1 (vm_ID vm) = Some ?vm1" "vm\<lparr>vm_Status := VMStatusError\<rparr> = ?vm1\<lparr>vm_Status := VMStatusError\<rparr>"
    using w1(2) Cons.prems(2) by (simp_all add: touches_def)
  from Cons.IH [OF this] obtain us w2 where
    "mapE (reconcile_disk E vm) ds w1 = (Inr us, w2)"
    "touches w1 w2 (vm_ID vm) (if list_ex (disk_failed E w) ds then vm\<lparr>vm_Status := VMStatusError\<rparr> else ?vm1)"
    unfolding same by blast
  then show ?case
    using w1 Cons.prems(2) by (auto simp: bindE_apply touches_def)
qed

lemma reconcile_vm_runs:
  assumes "healthy E" "uuid_parse E (vm_ID vm) = Some (vm_ID vm)" "vm_of w (vm_ID vm) = Some vm"
  shows "\<exists>w'. reconcile_vm E vm w = (Inr (), w') \<and> touches w w' (vm_ID vm) (settled E w vm)"
proof -
  have keep: "settled E w vm = vm" if "settled_status E w vm = vm_Status vm"
    using that by (simp add: settled_def)
  consider (up) "vm_Status vm \<in> {VMStatusRunning, VMStatusRebooting, VMStatusMigrating}" | (new) "vm_Status vm = VMStatusCreating"
    | (down) "vm_Status vm = VMStatusShuttingDown"
    | (other) "vm_Status vm \<in> {VMStatusStopped, VMStatusPaused, VMStatusTerminated, VMStatusError, VMStatusSnapshottting}"
    by (cases "vm_Status vm") auto
  then show ?thesis
  proof cases
    case up
    then have "reconcile_vm E vm = reconcile_running E vm"
      by (auto simp: reconcile_vm_def)
    moreover have "settled E w vm = (if node_lost E w vm then vm\<lparr>vm_Status := VMStatusError\<rparr> else vm)"
      using up keep by (auto simp: settled_status_def settled_def)
    ultimately show ?thesis
      using reconcile_running_runs [OF assms] by simp
  next
    case new
    then have "settled E w vm = (if list_ex (disk_failed E w) (vm_Disks vm) then vm\<lparr>vm_Status := VMStatusError\<rparr> else vm)"
      using keep by (auto simp: settled_def settled_status_def)
    then show ?thesis
      using reconcile_disks_run [OF assms refl, of "vm_Disks vm"] new by (auto simp: reconcile_vm_def bindE_apply)
  next
    case down
    then show ?thesis
      using status_runs [OF assms, of VMStatusStopped] by (simp add: reconcile_vm_def settled_def settled_status_def)
  next
    case other
    then have "reconcile_vm E vm = ret ()" "settled E w vm = vm"
      using keep by (auto simp: reconcile_vm_def settled_status_def)
    then show ?thesis
      using touches_refl [OF assms(3)] by simp
  qed
qed

subsection \<open>All machines\<close>

lemma reconcile_all_run:
  assumes "healthy E" "\<forall>vm\<in>set vms. uuid_parse E (vm_ID vm) = Some (vm_ID vm) \<and> vm_of w (vm_ID vm) = Some vm"
    and "distinct (map vm_ID vms)"
  shows "\<exists>us w'. mapE (reconcile_vm E) vms w = (Inr us, w') \<and>
    vm_of w' = (\<lambda>c. if c \<in> vm_ID ` set vms then map_option (settled E w) (vm_of w c) else vm_of w c)"
  using assms(2,3)
proof (induction vms arbitrary: w)
  case Nil
  then show ?case by auto
next
  case (Cons vm vms)
  obtain w1 where w1: "reconcile_vm E vm w = (Inr (), w1)" "touches w w1 (vm_ID vm) (settled E w vm)"
    using reconcile_vm_runs [OF assms(1), of vm w] Cons.prems(1) by auto
  have cong: "settled E w1 = settled E w"
    using w1(2) by (intro settled_cong) (simp_all add: touches_def)
  have new: "vm_ID vm \<notin> vm_ID ` set vms" "distinct (map vm_ID vms)"
    using Cons.prems(2) by simp_all
  have of1: "vm_of w1 = (vm_of w)(vm_ID vm \<mapsto> settled E w vm)"
    using w1(2) by (simp only: touches_def)
  have "\<forall>x\<in>set vms. uuid_parse E (vm_ID x) = Some (vm_ID x) \<and> vm_of w1 (vm_ID x) = Some x"
  proof
    fix x
    assume x: "x \<in> set vms"
    then have "vm_ID x \<noteq> vm_ID vm"
      using new(1) by (metis imageI)
    then show "uuid_parse E (vm_ID x) = Some (vm_ID x) \<and> vm_of w1 (vm_ID x) = Some x"
      unfolding of1 using Cons.prems(1) x by simp
  qed
  from Cons.IH [OF this new(2), unfolded cong] obtain us w2 where
    "mapE (reconcile_vm E) vms w1 = (Inr us, w2)"
    "vm_of w2 = (\<lambda>c. if c \<in> vm_ID ` set vms then map_option (settled E w) (vm_of w1 c) else vm_of w1 c)"
    by blast
  moreover have "vm_of w (vm_ID vm) = Some vm"
    using Cons.prems(1) by simp
  moreover note of1 new(1)
  ultimately show ?case
    using w1(1) by (intro exI [of _ "() # us"] exI [of _ w2]) (simp add: bindE_apply fun_eq_iff)
qed

definition all_vms :: "world \<Rightarrow> VirtualMachine list" where
  "all_vms w = map (\<lambda>v. v\<lparr>vm_Disks := disks_of w (vm_ID v), vm_NetworkInterfaces := nics_of w (vm_ID v)\<rparr>) (rev (virtual_machines w))"

lemma list_first_1000:
  assumes "healthy E" "db_ok w" "length (virtual_machines w) \<le> 1000"
  shows "\<exists>n k. VMRepository_List E first_1000 w = (Inr (all_vms w, k), w\<lparr>stmt_no := n\<rparr>)"
proof -
  have page: "page_or_1 1 = 1" "per_page_or_20 1000 = 1000" "page_offset 1 1000 = 0"
    by (simp_all add: page_or_1_def per_page_or_20_def page_offset_def wrap64_def)
  have load: "map (\<lambda>v. v\<lparr>vm_Disks := vm_Disks v @ disks_of w (vm_ID v), vm_NetworkInterfaces := vm_NetworkInterfaces v @ nics_of w (vm_ID v)\<rparr>)
      (rev (virtual_machines w)) = all_vms w"
    using rows_flatD [OF assms(2)] by (auto simp: all_vms_def)
  have rows: "list_query ''vm_repo'' (vm_rows E first_1000) 1 1000 w =
      (Inr (rev (virtual_machines w), int (length (virtual_machines w))), w\<lparr>stmt_no := Suc (Suc (stmt_no w))\<rparr>)"
    using assms(1,3)
    by (simp add: list_query_def vm_rows_def first_1000_def uuid_cond_def enum_cond_def cond_eq_def str_eq_def name_like_def
        bindE_apply wrapE_apply sql_healthy select_where_def limit_offset_def page)
  show ?thesis
  proof (cases "virtual_machines w = []")
    case True
    then show ?thesis
      using rows by (auto simp: VMRepository_List_def first_1000_def bindE_apply all_vms_def)
  next
    case False
    then show ?thesis
      using rows assms(1) load
      by (auto simp: VMRepository_List_def first_1000_def bindE_apply batchLoadRelated_def wrapE_apply sql_healthy)
  qed
qed

lemma all_vms_of:
  assumes "db_ok w"
  shows "vm \<in> set (all_vms w) \<Longrightarrow> vm_of w (vm_ID vm) = Some vm" "distinct (map vm_ID (all_vms w))"
    "vm_ID ` set (all_vms w) = vm_ID ` set (virtual_machines w)"
proof -
  have d: "distinct (map vm_ID (virtual_machines w))"
    using assms by (simp add: db_ok_def ids_ok_def)
  show "distinct (map vm_ID (all_vms w))"
    using d by (simp add: all_vms_def comp_def rev_map [symmetric])
  show "vm_ID ` set (all_vms w) = vm_ID ` set (virtual_machines w)"
    by (auto simp: all_vms_def image_iff)
  show "vm_of w (vm_ID vm) = Some vm" if "vm \<in> set (all_vms w)"
    using that find_key_distinct [OF d] by (auto simp: all_vms_def vm_of_def by_id_def)
qed

text \<open>
  C17. After a restart, \<open>reconcileVMs\<close> settles every machine: one that was running, rebooting or migrating
  becomes an error exactly when its node is gone or not online, one being created becomes an error exactly
  when an image of one of its disks failed, one that was shutting down is stopped, all others stay as they
  are; nothing but the status of a machine changes. So none is left shutting down. (For up to 1000
  machines, the size of the page that the code reads.)
\<close>

theorem reconcile_settles:
  assumes "healthy E" "db_ok w" "\<forall>v\<in>set (virtual_machines w). uuid_parse E (vm_ID v) = Some (vm_ID v)"
    and "length (virtual_machines w) \<le> 1000"
  shows "\<exists>w'. reconcileVMs E w = (Inr (), w') \<and> (\<forall>c. vm_of w' c = map_option (settled E w) (vm_of w c)) \<and>
    (\<forall>c vm. vm_of w' c = Some vm \<longrightarrow> vm_Status vm \<noteq> VMStatusShuttingDown)"
proof -
  obtain n k where l: "VMRepository_List E first_1000 w = (Inr (all_vms w, k), w\<lparr>stmt_no := n\<rparr>)"
    using list_first_1000 [OF assms(1,2,4)] by blast
  have "\<forall>vm\<in>set (all_vms w). uuid_parse E (vm_ID vm) = Some (vm_ID vm) \<and> vm_of (w\<lparr>stmt_no := n\<rparr>) (vm_ID vm) = Some vm"
    using all_vms_of [OF assms(2)] assms(3) by (auto simp: all_vms_def)
  from reconcile_all_run [OF assms(1) this all_vms_of(2) [OF assms(2)]] obtain us w' where
    run: "mapE (reconcile_vm E) (all_vms w) (w\<lparr>stmt_no := n\<rparr>) = (Inr us, w')" and
    of: "vm_of w' = (\<lambda>c. if c \<in> vm_ID ` set (virtual_machines w) then map_option (settled E w) (vm_of w c) else vm_of w c)"
    unfolding all_vms_of(3) [OF assms(2)] settled_cong [of "w\<lparr>stmt_no := n\<rparr>" w, simplified] vm_of_stmt by blast
  have "vm_of w' c = map_option (settled E w) (vm_of w c)" for c
    by (simp add: of vm_of_def by_id_None [THEN iffD2])
  moreover have "vm_Status (settled E w vm) \<noteq> VMStatusShuttingDown" for vm
    by (simp add: settled_def settled_status_def)
  ultimately show ?thesis
    using l run by (auto simp: reconcileVMs_def bindE_apply wrapE_apply)
qed

definition stopping_world :: world where
  "stopping_world = change_vm ''v'' (\<lambda>v. v\<lparr>vm_Status := VMStatusShuttingDown\<rparr>) (sample_world\<lparr>stmt_no := Suc (stmt_no sample_world)\<rparr>)"

lemma stopping_world_ok:
  "db_ok stopping_world" "vm_of stopping_world ''v'' = Some (sample_vm\<lparr>vm_Status := VMStatusShuttingDown\<rparr>)"
  "map vm_ID (virtual_machines stopping_world) = [''v'']"
proof -
  have run: "VMRepository_UpdateStatus sample_env ''v'' VMStatusShuttingDown sample_world = (Inr (), stopping_world)"
    unfolding stopping_world_def by (rule UpdateStatus_runs) simp_all
  show "db_ok stopping_world"
    using preserves_result [OF db_VMRepository_UpdateStatus runs_okD(3) [OF sample_world_ok(1)] run] .
  show "vm_of stopping_world ''v'' = Some (sample_vm\<lparr>vm_Status := VMStatusShuttingDown\<rparr>)"
    using vm_of_change [OF row_changes(1), of "sample_world\<lparr>stmt_no := Suc (stmt_no sample_world)\<rparr>" "''v''" sample_vm VMStatusShuttingDown]
    by (simp add: stopping_world_def sample_world_ok)
  have made: "VMRepository_Create sample_env sample_vm empty_world = (Inr (), sample_world)"
    using sample_vm_created by (simp add: sample_world_def prod_eq_iff)
  have "virtual_machines sample_world = [stored_vm sample_env sample_vm]"
    by (subst VM_Create_ok(1) [OF made]) (simp add: empty_world_def)
  then show "map vm_ID (virtual_machines stopping_world) = [''v'']"
    by (simp add: stopping_world_def change_vm_def update_where_def stored_vm_def canon_def sample_vm_def)
qed

theorem reconcile_settles_witness:
  "\<exists>w'. reconcileVMs sample_env stopping_world = (Inr (), w') \<and>
     vm_of w' ''v'' = Some (sample_vm\<lparr>vm_Status := VMStatusStopped\<rparr>)"
proof -
  obtain v where "virtual_machines stopping_world = [v]" "vm_ID v = ''v''"
    using stopping_world_ok(3) by (auto simp: map_eq_Cons_conv)
  then have "\<forall>v\<in>set (virtual_machines stopping_world). uuid_parse sample_env (vm_ID v) = Some (vm_ID v)"
    and "length (virtual_machines stopping_world) \<le> 1000"
    by simp_all
  from reconcile_settles [OF healthy_sample stopping_world_ok(1) this] show ?thesis
    by (auto simp: stopping_world_ok(2) settled_def settled_status_def)
qed

end
