(* ===== verification/SameNetwork.thy ===== *)
theory SameNetwork
  imports VMLifecycle
begin

section \<open>Several interfaces in one network\<close>

text \<open>
  \<open>CreateVM\<close> allocates the addresses of a new machine before it stores any of them, so two interfaces in
  the same network are given the same address; the unique index on (network, address) then refuses the
  machine, and each retry allocates the same address twice again. This theory proves that such a request
  is always refused.
\<close>

definition ip_tables :: "world \<Rightarrow> Subnet list \<times> (string \<times> NetworkInterface) list" where
  "ip_tables w = (subnets w, vm_network_interfaces w)"

text \<open>The address that \<open>AllocateIP\<close> returns is a function of the two tables.\<close>

definition alloc_of :: "env \<Rightarrow> Subnet list \<times> (string \<times> NetworkInterface) list \<Rightarrow> string \<Rightarrow> string" where
  "alloc_of E t networkID =
     (let n = canon E networkID; s = the (first_subnet (filter (\<lambda>s. sub_NetworkID s = n) (fst t)));
          used = map (\<lambda>r. hd (nic_IPv4Addresses (snd r)))
            (filter (\<lambda>r. nic_NetworkID (snd r) = n \<and> nic_IPv4Addresses (snd r) \<noteq> []) (snd t))
      in fst (NextAvailableIP (sub_CIDR s) used))"

lemma AllocateIP_value:
  assumes "AllocateIP E networkID w = (Inr (ip, gw, cidr), w')"
  shows "ip = alloc_of E (ip_tables w) networkID"
proof -
  obtain c s w1 used where c: "uuid_parse E networkID = Some c"
    and s: "first_subnet (filter (\<lambda>s. sub_NetworkID s = c) (subnets w)) = Some s"
    and used: "select_used_ips E networkID w1 = (Inr used, w')" "vm_network_interfaces w1 = vm_network_interfaces w"
    and ip: "fst (NextAvailableIP (sub_CIDR s) used) = ip"
    using assms
    by (auto simp: AllocateIP_def bindE_Inr_iff wrapE_Inr_iff select_subnet_def sql_Inr_iff uuid_arg_Inr_iff
        split: option.splits prod.splits)
  have "used = map (\<lambda>r. hd (nic_IPv4Addresses (snd r)))
      (filter (\<lambda>r. nic_NetworkID (snd r) = c \<and> nic_IPv4Addresses (snd r) \<noteq> []) (vm_network_interfaces w))"
    using used c by (auto simp: select_used_ips_def sql_Inr_iff uuid_arg_Inr_iff)
  then show ?thesis
    using ip s c by (simp add: alloc_of_def ip_tables_def canon_eq)
qed

lemma counter_blind_ip_tables [pres]: "counter_blind (\<lambda>w. ip_tables w = t)"
  by (simp add: counter_blind_def ip_tables_def)

text \<open>An interface in the network \<open>net\<close> with the address allocated there.\<close>

definition given :: "env \<Rightarrow> Subnet list \<times> (string \<times> NetworkInterface) list \<Rightarrow> string \<Rightarrow> NetworkInterface \<Rightarrow> bool" where
  "given E t net n \<longleftrightarrow> nic_NetworkID n = net \<and> nic_IPv4Addresses n = [alloc_of E t net]"

lemma create_nic_given:
  assumes "create_nic S E vm g p w = (Inr n, w')" "ipam S" "cn_NetworkID (snd p) = net" "net \<noteq> ''''" "ip_tables w = t"
  shows "given E t net n \<and> ip_tables w' = t"
proof -
  obtain i w1 ips where n: "new_uuid E w = (Inr i, w1)" "nic_address S E (''network '' @ net) net w1 = (Inr ips, w')"
      "nic_NetworkID n = net" "nic_IPv4Addresses n = ips"
    using assms by (cases p) (auto simp: create_nic_def bindE_Inr_iff)
  have w1: "ip_tables w1 = t"
    using n(1) assms(5) by (auto simp: new_uuid_def ip_tables_def)
  have pre: "preserves (\<lambda>v. ip_tables v = t) (nic_address S E (''network '' @ net) net)"
    by (intro pres)
  have "ip_tables w' = t"
    using preserves_result [OF pre w1 n(2)] .
  moreover obtain ip gw cidr where ip: "AllocateIP E net w1 = (Inr (ip, gw, cidr), w')" "ips = [ip]"
    using n(2) assms(2,4) by (auto simp: nic_address_def bindE_Inr_iff wrapE_Inr_iff)
  ultimately show ?thesis
    using AllocateIP_value [OF ip(1)] w1 n(3,4) ip(2) by (simp add: given_def)
qed

lemma mapE_invariant:
  assumes "mapE f xs w = (Inr ys, w')" "I w"
    and "\<And>x y v v'. x \<in> set xs \<Longrightarrow> f x v = (Inr y, v') \<Longrightarrow> I v \<Longrightarrow> P y \<and> I v'"
  shows "I w' \<and> (\<forall>y\<in>set ys. P y) \<and> length ys = length xs"
  using assms
proof (induction xs arbitrary: w ys)
  case Nil
  then show ?case by simp
next
  case (Cons x xs)
  obtain y w1 ys1 where step: "f x w = (Inr y, w1)" "mapE f xs w1 = (Inr ys1, w')" "ys = y # ys1"
    using Cons.prems(1) by (auto simp: bindE_Inr_iff)
  have "P y \<and> I w1"
    using Cons.prems(3) [OF _ step(1) Cons.prems(2)] by simp
  then show ?case
    using Cons.IH [OF step(2)] Cons.prems(3) step(3) by auto
qed

lemma renumber_given:
  assumes "renumber_nic S E v k n w = (Inr m, w')" "given E t net n" "ip_tables w = t"
  shows "given E t net m \<and> ip_tables w' = t"
proof -
  have pre: "preserves (\<lambda>u. ip_tables u = t) (renumber_nic S E v k n)"
    by (intro pres)
  have "ip_tables w' = t"
    using preserves_result [OF pre assms(3,1)] .
  moreover have "given E t net m"
    using assms by (auto simp: renumber_nic_def tryM_apply given_def split: if_splits prod.splits sum.splits dest!: AllocateIP_value)
  ultimately show ?thesis by simp
qed

text \<open>No two interfaces of the database share a network and an address.\<close>

definition ips_distinct :: "world \<Rightarrow> bool" where
  "ips_distinct w \<longleftrightarrow> distinct (List.map_filter nic_ip_key (vm_network_interfaces w))"

lemma ips_distinct_inserts [pres]:
  "preserves ips_distinct (insert_vm E vm)" "preserves ips_distinct (insert_disk E v d)" "preserves ips_distinct (insert_nic E v n)"
proof -
  have [pres]: "counter_blind ips_distinct"
    by (simp add: counter_blind_def ips_distinct_def)
  show "preserves ips_distinct (insert_vm E vm)"
    unfolding insert_vm_def by (intro pres; rule preservesI) (auto simp: require_def ips_distinct_def)
  show "preserves ips_distinct (insert_disk E v d)"
    unfolding insert_disk_def by (intro pres; (rule preservesI)?) (auto simp: require_def ips_distinct_def intro!: pres)
  show "preserves ips_distinct (insert_nic E v n)"
    unfolding insert_nic_def Let_def
    by (intro pres; rule preservesI) (auto simp: require_def ips_distinct_def distinct_map_filter_snoc split: option.splits)
qed

lemma ips_distinct_Create: "preserves ips_distinct (VMRepository_Create E vm)"
proof -
  have [pres]: "counter_blind ips_distinct"
    by (simp add: counter_blind_def ips_distinct_def)
  show ?thesis
    unfolding VMRepository_Create_def by (intro pres)
qed

lemma Create_refuses:
  assumes "uuid_ok E" "ips_distinct w" "length (vm_NetworkInterfaces vm) \<ge> 2" "net \<noteq> ''''"
    and "\<forall>n\<in>set (vm_NetworkInterfaces vm). given E t net n"
  shows "VMRepository_Create E vm w \<noteq> (Inr (), w')"
proof
  assume run: "VMRepository_Create E vm w = (Inr (), w')"
  obtain n m ns where ns: "vm_NetworkInterfaces vm = n # m # ns"
    using assms(3) by (metis One_nat_def Suc_1 Suc_le_length_iff)
  let ?c = "canon E (vm_ID vm)"
  have "vm_network_interfaces w' = vm_network_interfaces w @ map (\<lambda>d. (?c, stored_nic E d)) (n # m # ns)"
    by (subst VM_Create_ok(1) [OF run]) (simp add: ns)
  moreover have "canon E net \<noteq> ''''"
    using assms(1,4) uuid_ok_nonempty by (auto simp: canon_def split: option.split)
  then have "nic_ip_key (?c, stored_nic E n) = Some (canon E net, canon_inet E (alloc_of E t net))"
    "nic_ip_key (?c, stored_nic E m) = Some (canon E net, canon_inet E (alloc_of E t net))"
    using assms(4,5) ns by (auto simp: nic_ip_key_def stored_nic_def given_def)
  ultimately have "\<not> ips_distinct w'"
    by (simp add: ips_distinct_def map_filter_append List.map_filter_simps)
  then show False
    using preserves_result [OF ips_distinct_Create assms(2) run] by simp
qed

lemma create_loop_refuses:
  assumes "uuid_ok E" "ips_distinct w" "length (vm_NetworkInterfaces vm) \<ge> 2" "net \<noteq> ''''" "ip_tables w = t" "r > 0"
    and "\<forall>n\<in>set (vm_NetworkInterfaces vm). given E t net n"
  shows "\<exists>e w'. create_loop S E r vm w = (Inl e, w')"
  using assms
proof (induction r arbitrary: vm w)
  case (Suc r)
  obtain err w1 where fails: "VMRepository_Create E vm w = (Inl err, w1)"
    using Create_refuses [OF Suc.prems(1-4,7)] by (cases "VMRepository_Create E vm w"; cases "fst (VMRepository_Create E vm w)") auto
  have w1: "ip_tables w1 = t" "ips_distinct w1"
    using VM_Create_fails [OF fails] Suc.prems(2,5) by (auto simp: ip_tables_def ips_distinct_def)
  let ?re = "mapE (renumber_nic S E (vm_ID vm) (2 - r)) (vm_NetworkInterfaces vm)"
  obtain y w2 where y: "?re w1 = (y, w2)"
    by (cases "?re w1")
  show ?case
  proof (cases y)
    case (Inl e)
    then show ?thesis
      using fails y by (simp add: tryM_apply bindE_apply)
  next
    case (Inr nics)
    have re: "ip_tables w2 = t \<and> (\<forall>n\<in>set nics. given E t net n) \<and> length nics = length (vm_NetworkInterfaces vm)"
      by (rule mapE_invariant [where I = "\<lambda>v. ip_tables v = t", OF y [unfolded Inr] w1(1)])
        (use Suc.prems(7) renumber_given in blast)
    then have "ip_tables w2 = ip_tables w1"
      using w1(1) by simp
    then have "ips_distinct w2"
      using w1(2) by (simp add: ip_tables_def ips_distinct_def)
    then have "\<exists>e w'. create_loop S E r (vm\<lparr>vm_NetworkInterfaces := nics\<rparr>) w2 = (Inl e, w')" if "r > 0"
      using Suc.IH [of w2 "vm\<lparr>vm_NetworkInterfaces := nics\<rparr>"] re Suc.prems(1,3,4) that by simp
    then show ?thesis
      using fails y Inr by (cases "r = 0") (auto simp: tryM_apply bindE_apply)
  qed
qed simp



end
