(* ===== verification/NetworkSvc.thy ===== *)
theory NetworkSvc
  imports CpRepos
begin

section \<open>The network service: \<^verbatim>\<open>services/network\<close>\<close>

text \<open>
  Repositories and service of networks, subnets, firewall rules and floating addresses. The repositories
  return the errors of the database as they are. The lemmas show that every method keeps \<open>db_ok\<close>, interpret
  \<open>id_repository\<close> on subnets and firewall rules, and show what creating and deleting a network does and that a
  floating address handed out is free.
\<close>

subsection \<open>Repositories: \<^verbatim>\<open>services/network/postgres\<close>\<close>

definition get_nil :: "'r act \<Rightarrow> 'r option act" where
  "get_nil m = tryM m (\<lambda>r. case r of
       Inl e \<Rightarrow> if e = ErrNoRows then ret None else throw e
     | Inr x \<Rightarrow> ret (Some x))"

definition NetworkRepository_Create :: "env \<Rightarrow> PrivateNetwork \<Rightarrow> unit act" where
  "NetworkRepository_Create E net = sql E (
     uuid_arg E (pn_ID net) (\<lambda>i.
     uuid_nullif E (pn_OrganizationID net) (\<lambda>org.
     uuid_opt E (pn_VpcID net) (\<lambda>vpc.
     inet_arg E (pn_CIDR net) (\<lambda>c.
     inet_opt E (pn_IPv6CIDR net) (\<lambda>c6.
     if pn_Type net \<notin> {''private'', ''public''} then throw (bad_enum ''network_type'' (pn_Type net))
     else if org = '''' then throw (not_null_violation ''organization_id'')
     else require (\<lambda>w. i \<notin> pn_ID ` set (private_networks w)) (unique_violation ''private_networks_pkey'')
     (modify (\<lambda>w. w\<lparr>private_networks := private_networks w @
        [net\<lparr>pn_ID := i, pn_OrganizationID := org, pn_VpcID := vpc, pn_CIDR := c, pn_IPv6CIDR := c6,
             pn_Subnets := [], pn_FirewallRules := []\<rparr>]\<rparr>))))))))"

definition listSubnets :: "env \<Rightarrow> string \<Rightarrow> Subnet list act" where
  "listSubnets E networkID = sql E (uuid_arg E networkID (\<lambda>n. gets (\<lambda>w. filter (\<lambda>s. sub_NetworkID s = n) (subnets w))))"

definition listFirewallRules :: "env \<Rightarrow> string \<Rightarrow> FirewallRule list act" where
  "listFirewallRules E networkID =
     sql E (uuid_arg E networkID (\<lambda>n. gets (\<lambda>w. filter (\<lambda>f. fw_NetworkID f = n) (firewall_rules w))))"

definition NetworkRepository_GetByID :: "env \<Rightarrow> string \<Rightarrow> PrivateNetwork option act" where
  "NetworkRepository_GetByID E ident =
     bindE (get_nil (sql E (uuid_arg E ident (\<lambda>i. select_one private_networks (\<lambda>n. pn_ID n = i))))) (\<lambda>r.
       case r of
         None \<Rightarrow> ret None
       | Some net \<Rightarrow>
           bindE (listSubnets E ident) (\<lambda>ss.
           bindE (listFirewallRules E ident) (\<lambda>fs.
           ret (Some (net\<lparr>pn_Subnets := ss, pn_FirewallRules := fs\<rparr>)))))"

definition network_rows :: "env \<Rightarrow> NetworkFilter \<Rightarrow> PrivateNetwork list act" where
  "network_rows E f = sql E (uuid_cond E (pf_OrganizationID f) (\<lambda>org.
     select_where private_networks (\<lambda>n. cond_eq org (Some (pn_OrganizationID n)))))"

text \<open>Count and page as in \<open>list_query\<close>, with the errors as they are.\<close>

definition raw_list :: "'r list act \<Rightarrow> int \<Rightarrow> int \<Rightarrow> ('r list \<times> int) act" where
  "raw_list rows page perPage =
     bindE rows (\<lambda>counted.
     bindE rows (\<lambda>rs.
     bindE (limit_offset (per_page_or_20 perPage) (page_offset (page_or_1 page) (per_page_or_20 perPage)) (rev rs)) (\<lambda>pg.
     ret (pg, int (length counted)))))"

definition NetworkRepository_List :: "env \<Rightarrow> NetworkFilter \<Rightarrow> (PrivateNetwork list \<times> int) act" where
  "NetworkRepository_List E f = raw_list (network_rows E f) (pf_Page f) (pf_PerPage f)"

definition NetworkRepository_Delete :: "env \<Rightarrow> string \<Rightarrow> unit act" where
  "NetworkRepository_Delete E ident = sql E (uuid_arg E ident (\<lambda>i.
     modify (\<lambda>w. w\<lparr>private_networks := filter (\<lambda>n. pn_ID n \<noteq> i) (private_networks w),
       subnets := filter (\<lambda>s. sub_NetworkID s \<noteq> i) (subnets w),
       firewall_rules := filter (\<lambda>f. fw_NetworkID f \<noteq> i) (firewall_rules w),
       floating_ips := update_where (\<lambda>f. fip_NetworkID f = Some i) (\<lambda>f. f\<lparr>fip_NetworkID := None\<rparr>) (floating_ips w)\<rparr>)))"

definition insert_subnet :: "env \<Rightarrow> Subnet \<Rightarrow> unit act" where
  "insert_subnet E s =
     uuid_arg E (sub_ID s) (\<lambda>i. uuid_arg E (sub_NetworkID s) (\<lambda>n. inet_arg E (sub_CIDR s) (\<lambda>c.
     inet_opt E (sub_IPv6CIDR s) (\<lambda>c6. inet_opt E (sub_GatewayIP s) (\<lambda>g.
     require (\<lambda>w. i \<notin> sub_ID ` set (subnets w)) (unique_violation ''subnets_pkey'')
     (require (\<lambda>w. n \<in> pn_ID ` set (private_networks w)) (fk_violation ''subnets_network_id_fkey'')
     (modify (\<lambda>w. w\<lparr>subnets := subnets w @
        [s\<lparr>sub_ID := i, sub_NetworkID := n, sub_CIDR := c, sub_IPv6CIDR := c6, sub_GatewayIP := g\<rparr>]\<rparr>))))))))"

definition SubnetRepository_Create :: "env \<Rightarrow> Subnet \<Rightarrow> unit act" where
  "SubnetRepository_Create E s = sql E (insert_subnet E s)"

definition SubnetRepository_GetByID :: "env \<Rightarrow> string \<Rightarrow> Subnet option act" where
  "SubnetRepository_GetByID E ident = get_nil (sql E (uuid_arg E ident (\<lambda>i. select_one subnets (\<lambda>s. sub_ID s = i))))"

definition SubnetRepository_ListByNetwork :: "env \<Rightarrow> string \<Rightarrow> Subnet list act" where
  "SubnetRepository_ListByNetwork E networkID = listSubnets E networkID"

definition SubnetRepository_Delete :: "env \<Rightarrow> string \<Rightarrow> unit act" where
  "SubnetRepository_Delete E ident = sql E (uuid_arg E ident (\<lambda>i.
     modify (\<lambda>w. w\<lparr>subnets := filter (\<lambda>s. sub_ID s \<noteq> i) (subnets w)\<rparr>)))"

definition insert_rule :: "env \<Rightarrow> FirewallRule \<Rightarrow> unit act" where
  "insert_rule E f =
     uuid_arg E (fw_ID f) (\<lambda>i. uuid_arg E (fw_NetworkID f) (\<lambda>n.
     inet_args E (fw_SourceCIDRs f) (\<lambda>src. inet_args E (fw_DestinationCIDRs f) (\<lambda>dst.
     if fw_Action f \<notin> {''allow'', ''deny''} then throw (bad_enum ''firewall_action'' (fw_Action f))
     else if fw_Direction f \<notin> {''ingress'', ''egress''} then throw (bad_enum ''firewall_direction'' (fw_Direction f))
     else require (\<lambda>w. i \<notin> fw_ID ` set (firewall_rules w)) (unique_violation ''firewall_rules_pkey'')
     (require (\<lambda>w. n \<in> pn_ID ` set (private_networks w)) (fk_violation ''firewall_rules_network_id_fkey'')
     (modify (\<lambda>w. w\<lparr>firewall_rules := firewall_rules w @
        [f\<lparr>fw_ID := i, fw_NetworkID := n, fw_SourceCIDRs := src, fw_DestinationCIDRs := dst\<rparr>]\<rparr>)))))))"

definition FirewallRepository_Create :: "env \<Rightarrow> FirewallRule \<Rightarrow> unit act" where
  "FirewallRepository_Create E f = sql E (insert_rule E f)"

definition FirewallRepository_GetByID :: "env \<Rightarrow> string \<Rightarrow> FirewallRule option act" where
  "FirewallRepository_GetByID E ident = get_nil (sql E (uuid_arg E ident (\<lambda>i. select_one firewall_rules (\<lambda>f. fw_ID f = i))))"

definition FirewallRepository_ListByNetwork :: "env \<Rightarrow> string \<Rightarrow> FirewallRule list act" where
  "FirewallRepository_ListByNetwork E networkID = listFirewallRules E networkID"

definition FirewallRepository_Delete :: "env \<Rightarrow> string \<Rightarrow> unit act" where
  "FirewallRepository_Delete E ident = sql E (uuid_arg E ident (\<lambda>i.
     modify (\<lambda>w. w\<lparr>firewall_rules := filter (\<lambda>f. fw_ID f \<noteq> i) (firewall_rules w)\<rparr>)))"

text \<open>The argument of \<^verbatim>\<open>NULLIF($n, '')::uuid\<close> for a pointer to a string: both nil and the empty text are NULL.\<close>

definition uuid_nullif_opt :: "env \<Rightarrow> string option \<Rightarrow> (string option \<Rightarrow> 'a act) \<Rightarrow> 'a act" where
  "uuid_nullif_opt E p k = (if ptr_set p then uuid_arg E (the p) (\<lambda>c. k (Some c)) else k None)"

definition FloatingIPRepository_Allocate :: "env \<Rightarrow> FloatingIP \<Rightarrow> unit act" where
  "FloatingIPRepository_Allocate E f = sql E (
     uuid_arg E (fip_ID f) (\<lambda>i. inet_arg E (fip_IPAddress f) (\<lambda>a.
     uuid_nullif_opt E (fip_NetworkID f) (\<lambda>n. uuid_nullif_opt E (fip_VMID f) (\<lambda>v.
     uuid_nullif E (fip_OrganizationID f) (\<lambda>org.
     if org = '''' then throw (not_null_violation ''organization_id'')
     else require (\<lambda>w. i \<notin> fip_ID ` set (floating_ips w)) (unique_violation ''floating_ips_pkey'')
     (require (\<lambda>w. a \<notin> fip_IPAddress ` set (floating_ips w)) (unique_violation ''floating_ips_ip_address_key'')
     (require (\<lambda>w. case n of None \<Rightarrow> True | Some x \<Rightarrow> x \<in> pn_ID ` set (private_networks w)) (fk_violation ''floating_ips_network_id_fkey'')
     (modify (\<lambda>w. w\<lparr>floating_ips := floating_ips w @
        [\<lparr>fip_ID = i, fip_IPAddress = a, fip_NetworkID = n, fip_VMID = v, fip_OrganizationID = org\<rparr>]\<rparr>))))))))))"

definition FloatingIPRepository_Release :: "env \<Rightarrow> string \<Rightarrow> unit act" where
  "FloatingIPRepository_Release E ident = sql E (uuid_arg E ident (\<lambda>i.
     modify (\<lambda>w. w\<lparr>floating_ips := filter (\<lambda>f. fip_ID f \<noteq> i) (floating_ips w)\<rparr>)))"

definition FloatingIPRepository_List :: "env \<Rightarrow> string \<Rightarrow> FloatingIP list act" where
  "FloatingIPRepository_List E organizationID = sql E (gets (\<lambda>w. rev (floating_ips w)))"

text \<open>The addresses of \<^verbatim>\<open>ip_address <<= $1::cidr\<close>; the cast fails for a text that is no network.\<close>

definition select_floating :: "env \<Rightarrow> string \<Rightarrow> string \<Rightarrow> string list act" where
  "select_floating E networkCIDR organizationID = sql E (
     if inet_within E networkCIDR networkCIDR = None then throw (bad_inet networkCIDR)
     else uuid_cond E organizationID (\<lambda>org.
       gets (\<lambda>w. map fip_IPAddress (filter (\<lambda>f. inet_within E (fip_IPAddress f) networkCIDR = Some True \<and>
         cond_eq org (Some (fip_OrganizationID f))) (floating_ips w)))))"

definition FloatingIPRepository_FindAvailableIP :: "env \<Rightarrow> string \<Rightarrow> string \<Rightarrow> string act" where
  "FloatingIPRepository_FindAvailableIP E networkCIDR organizationID =
     (case FindAvailableIP_check networkCIDR of
        Inl e \<Rightarrow> throw e
      | Inr _ \<Rightarrow>
          bindE (select_floating E networkCIDR organizationID) (\<lambda>used.
          case FindAvailableIP_scan networkCIDR used of Inl e \<Rightarrow> throw e | Inr a \<Rightarrow> ret a))"

subsection \<open>Service: \<^verbatim>\<open>services/network/service.go\<close>\<close>

definition network_of_request :: "CreateNetworkRequest \<Rightarrow> string \<Rightarrow> PrivateNetwork" where
  "network_of_request req i = \<lparr>pn_ID = i, pn_Name = cnr_Name req,
     pn_OrganizationID = (if cnr_OrganizationID req = '''' then nil_uuid else cnr_OrganizationID req),
     pn_VpcID = None, pn_Type = ''private'', pn_CIDR = cnr_CIDR req,
     pn_IPv6CIDR = (if cnr_IPv6CIDR req = '''' then None else Some (cnr_IPv6CIDR req)),
     pn_InternetGateway = cnr_InternetGateway req, pn_Labels = Some Map.empty, pn_Subnets = [], pn_FirewallRules = []\<rparr>"

definition default_subnet :: "CreateNetworkRequest \<Rightarrow> string \<Rightarrow> string \<Rightarrow> Subnet" where
  "default_subnet req networkID i = \<lparr>sub_ID = i, sub_Name = cnr_Name req @ ''-default'', sub_NetworkID = networkID,
     sub_CIDR = cnr_CIDR req, sub_IPv6CIDR = None, sub_DHCPEnabled = True, sub_GatewayIP = None\<rparr>"

definition parse_or :: "string \<Rightarrow> string \<Rightarrow> IPNet act" where
  "parse_or p s = (case ParseCIDR s of Inl e \<Rightarrow> throw (Wrap p e) | Inr (_, net) \<Rightarrow> ret net)"

definition CreateNetwork :: "env \<Rightarrow> CreateNetworkRequest \<Rightarrow> PrivateNetwork act" where
  "CreateNetwork E req =
     (if cnr_Name req = '''' then throw (Msg ''name is required'')
      else if cnr_CIDR req = '''' then throw (Msg ''cidr is required'')
      else
        bindE (parse_or ''invalid CIDR'' (cnr_CIDR req)) (\<lambda>_.
        bindE (new_uuid E) (\<lambda>i.
        let network = network_of_request req i in
        bindE (if cnr_IPv6CIDR req = '''' then ret ()
               else bindE (parse_or ''invalid IPv6 CIDR'' (cnr_IPv6CIDR req)) (\<lambda>_. ret ())) (\<lambda>_.
        bindE (wrapE ''create network'' (NetworkRepository_Create E network)) (\<lambda>_.
        bindE (new_uuid E) (\<lambda>j.
        let defaultSubnet = default_subnet req i j in
        bindE (wrapE ''create default subnet'' (SubnetRepository_Create E defaultSubnet)) (\<lambda>_.
        ret (network\<lparr>pn_Subnets := [defaultSubnet]\<rparr>))))))))"

text \<open>\<^verbatim>\<open>GetByID\<close> with a nil result turned into an error, as every method does it.\<close>

definition must_find :: "string \<Rightarrow> string \<Rightarrow> 'r option act \<Rightarrow> 'r act" where
  "must_find p msg m = bindE (wrapE p m) (\<lambda>r. case r of None \<Rightarrow> throw (Msg msg) | Some x \<Rightarrow> ret x)"

definition GetNetwork :: "env \<Rightarrow> string \<Rightarrow> PrivateNetwork act" where
  "GetNetwork E ident = must_find ''get network'' ''network not found'' (NetworkRepository_GetByID E ident)"

definition ListNetworks :: "env \<Rightarrow> NetworkFilter \<Rightarrow> (PrivateNetwork list \<times> int) act" where
  "ListNetworks E f = NetworkRepository_List E
     (f\<lparr>pf_Page := (if pf_Page f \<le> 0 then 1 else pf_Page f), pf_PerPage := (if pf_PerPage f \<le> 0 then 20 else pf_PerPage f)\<rparr>)"

primrec delete_subnets :: "env \<Rightarrow> Subnet list \<Rightarrow> unit act" where
  "delete_subnets E [] = ret ()"
| "delete_subnets E (s # ss) =
     (if sub_ID s \<noteq> '''' then ignoreE (SubnetRepository_Delete E (sub_ID s)) (delete_subnets E ss) else delete_subnets E ss)"

definition DeleteNetwork :: "env \<Rightarrow> string \<Rightarrow> unit act" where
  "DeleteNetwork E ident =
     bindE (must_find ''get network'' ''network not found'' (NetworkRepository_GetByID E ident)) (\<lambda>_.
     bindE (wrapE ''list subnets'' (SubnetRepository_ListByNetwork E ident)) (\<lambda>ss.
     bindE (delete_subnets E ss) (\<lambda>_.
     NetworkRepository_Delete E ident)))"

definition CreateSubnet :: "env \<Rightarrow> string \<Rightarrow> string \<Rightarrow> string \<Rightarrow> bool \<Rightarrow> Subnet act" where
  "CreateSubnet E networkID name cidr dhcp =
     (if networkID = '''' then throw (Msg ''network_id is required'')
      else if name = '''' then throw (Msg ''name is required'')
      else if cidr = '''' then throw (Msg ''cidr is required'')
      else
        bindE (must_find ''get network'' ''network not found'' (NetworkRepository_GetByID E networkID)) (\<lambda>parentNet.
        bindE (parse_or ''invalid CIDR'' cidr) (\<lambda>subnetNet.
        bindE (parse_or ''invalid parent CIDR'' (pn_CIDR parentNet)) (\<lambda>parentIPNet.
        if \<not> IPNet_Contains parentIPNet (net_IP subnetNet) then throw (Msg ''subnet CIDR must be within network CIDR'')
        else
          bindE (new_uuid E) (\<lambda>i.
          let subnet = \<lparr>sub_ID = i, sub_Name = name, sub_NetworkID = networkID, sub_CIDR = cidr, sub_IPv6CIDR = None,
            sub_DHCPEnabled = dhcp, sub_GatewayIP = None\<rparr> in
          bindE (wrapE ''create subnet'' (SubnetRepository_Create E subnet)) (\<lambda>_. ret subnet))))))"

definition DeleteSubnet :: "env \<Rightarrow> string \<Rightarrow> unit act" where
  "DeleteSubnet E ident =
     bindE (must_find ''get subnet'' ''subnet not found'' (SubnetRepository_GetByID E ident)) (\<lambda>_.
     SubnetRepository_Delete E ident)"

definition or_default :: "string \<Rightarrow> string \<Rightarrow> string" where
  "or_default s d = (if s = '''' then d else s)"

definition rule_of_request :: "CreateFirewallRuleRequest \<Rightarrow> string \<Rightarrow> FirewallRule" where
  "rule_of_request req i = \<lparr>fw_ID = i, fw_Name = cfr_Name req, fw_NetworkID = cfr_NetworkID req,
     fw_Priority = (if cfr_Priority req = 0 then 100 else cfr_Priority req),
     fw_Action = or_default (cfr_Action req) ''allow'', fw_Direction = or_default (cfr_Direction req) ''ingress'',
     fw_SourceCIDRs = cfr_SourceCIDRs req, fw_DestinationCIDRs = cfr_DestinationCIDRs req,
     fw_Protocol = or_default (cfr_Protocol req) ''any'', fw_PortMin = cfr_PortMin req, fw_PortMax = cfr_PortMax req,
     fw_Enabled = True\<rparr>"

definition port_error :: "int option \<Rightarrow> int option \<Rightarrow> string option" where
  "port_error pmin pmax = (case (pmin, pmax) of
       (Some a, Some b) \<Rightarrow>
         if a < 1 \<or> b > 65535 then Some ''port range must be 1-65535''
         else if a > b then Some ''port_min must be <= port_max'' else None
     | _ \<Rightarrow> None)"

definition CreateFirewallRule :: "env \<Rightarrow> CreateFirewallRuleRequest \<Rightarrow> FirewallRule act" where
  "CreateFirewallRule E req =
     (if cfr_NetworkID req = '''' then throw (Msg ''network_id is required'')
      else if cfr_Name req = '''' then throw (Msg ''name is required'')
      else case port_error (cfr_PortMin req) (cfr_PortMax req) of
        Some msg \<Rightarrow> throw (Msg msg)
      | None \<Rightarrow>
          bindE (new_uuid E) (\<lambda>i.
          bindE (wrapE ''create firewall rule'' (FirewallRepository_Create E (rule_of_request req i))) (\<lambda>_.
          ret (rule_of_request req i))))"

definition DeleteFirewallRule :: "env \<Rightarrow> string \<Rightarrow> unit act" where
  "DeleteFirewallRule E ident =
     bindE (must_find ''get firewall rule'' ''firewall rule not found'' (FirewallRepository_GetByID E ident)) (\<lambda>_.
     FirewallRepository_Delete E ident)"

definition AllocateFloatingIP :: "env \<Rightarrow> string \<Rightarrow> string \<Rightarrow> FloatingIP act" where
  "AllocateFloatingIP E networkID vmID =
     (if networkID = '''' then throw (Msg ''network_id is required'')
      else
        bindE (must_find ''get network'' ''network not found'' (NetworkRepository_GetByID E networkID)) (\<lambda>network.
        bindE (wrapE ''find available IP'' (FloatingIPRepository_FindAvailableIP E (pn_CIDR network) (pn_OrganizationID network))) (\<lambda>ipAddr.
        bindE (new_uuid E) (\<lambda>i.
        let fip = \<lparr>fip_ID = i, fip_IPAddress = ipAddr, fip_NetworkID = Some networkID, fip_VMID = Some vmID,
          fip_OrganizationID = pn_OrganizationID network\<rparr> in
        bindE (wrapE ''allocate floating IP'' (FloatingIPRepository_Allocate E fip)) (\<lambda>_. ret fip)))))"

definition ReleaseFloatingIP :: "env \<Rightarrow> string \<Rightarrow> unit act" where
  "ReleaseFloatingIP E ident = FloatingIPRepository_Release E ident"

definition ListFloatingIPs :: "env \<Rightarrow> FloatingIP list act" where
  "ListFloatingIPs E = FloatingIPRepository_List E ''''"

subsection \<open>Every method keeps the constraints\<close>

lemma preserves_get_nil [pres]: "preserves I m \<Longrightarrow> preserves I (get_nil m)"
  unfolding get_nil_def by (intro pres)

lemma preserves_must_find [pres]: "preserves I m \<Longrightarrow> preserves I (must_find p msg m)"
  unfolding must_find_def by (intro pres)

lemma preserves_parse_or [pres]: "preserves I (parse_or p s)"
  unfolding parse_or_def by (intro pres)

lemma preserves_raw_list [pres]: "preserves I rows \<Longrightarrow> preserves I (raw_list rows pg pp)"
  unfolding raw_list_def by (intro pres)

lemma preserves_network_reads [pres]:
  "counter_blind I \<Longrightarrow> preserves I (listSubnets E n)"
  "counter_blind I \<Longrightarrow> preserves I (listFirewallRules E n)"
  "counter_blind I \<Longrightarrow> preserves I (network_rows E f)"
  "counter_blind I \<Longrightarrow> preserves I (SubnetRepository_GetByID E n)"
  "counter_blind I \<Longrightarrow> preserves I (FirewallRepository_GetByID E n)"
  "counter_blind I \<Longrightarrow> preserves I (FloatingIPRepository_List E n)"
  "counter_blind I \<Longrightarrow> preserves I (select_floating E n m)"
  unfolding listSubnets_def listFirewallRules_def network_rows_def SubnetRepository_GetByID_def
    FirewallRepository_GetByID_def FloatingIPRepository_List_def select_floating_def
  by (intro pres; assumption)+

lemma preserves_network_reads_2 [pres]:
  "counter_blind I \<Longrightarrow> preserves I (NetworkRepository_GetByID E n)"
  "counter_blind I \<Longrightarrow> preserves I (NetworkRepository_List E f)"
  "counter_blind I \<Longrightarrow> preserves I (SubnetRepository_ListByNetwork E n)"
  "counter_blind I \<Longrightarrow> preserves I (FirewallRepository_ListByNetwork E n)"
  "counter_blind I \<Longrightarrow> preserves I (FloatingIPRepository_FindAvailableIP E n m)"
  unfolding NetworkRepository_GetByID_def NetworkRepository_List_def SubnetRepository_ListByNetwork_def
    FirewallRepository_ListByNetwork_def FloatingIPRepository_FindAvailableIP_def
  by (intro pres; assumption)+

lemma preserves_uuid_nullif_opt [pres]: "(\<And>c. preserves I (k c)) \<Longrightarrow> preserves I (uuid_nullif_opt E p k)"
  unfolding uuid_nullif_opt_def by (intro pres)

lemma db_network_inserts [pres]:
  "preserves db_ok (NetworkRepository_Create E net)"
  "preserves db_ok (SubnetRepository_Create E s)"
  "preserves db_ok (FirewallRepository_Create E f)"
  "preserves db_ok (FloatingIPRepository_Allocate E fip)"
  unfolding NetworkRepository_Create_def SubnetRepository_Create_def insert_subnet_def
    FirewallRepository_Create_def insert_rule_def FloatingIPRepository_Allocate_def
  by (intro pres; (rule preservesI)?, (auto simp: require_def db_defs split: option.splits intro!: pres)[1])+

lemma image_filterI: "n \<in> key ` A \<Longrightarrow> n \<noteq> c \<Longrightarrow> n \<in> key ` {x \<in> A. key x \<noteq> c}"
  by auto

lemma db_network_deletes [pres]:
  "preserves db_ok (NetworkRepository_Delete E i)"
  "preserves db_ok (SubnetRepository_Delete E i)"
  "preserves db_ok (FirewallRepository_Delete E i)"
  "preserves db_ok (FloatingIPRepository_Release E i)"
  unfolding NetworkRepository_Delete_def SubnetRepository_Delete_def FirewallRepository_Delete_def
    FloatingIPRepository_Release_def
  by (intro pres; rule preservesI, (auto simp: db_defs distinct_map_filterI intro: image_filterI)[1])+

lemma db_delete_subnets [pres]: "preserves db_ok (delete_subnets E ss)"
  by (induction ss) (simp_all only: delete_subnets.simps, (intro pres; assumption)+)

lemma db_network_service [pres]:
  "preserves db_ok (CreateNetwork E req)" "preserves db_ok (GetNetwork E i)" "preserves db_ok (ListNetworks E nf)"
  "preserves db_ok (DeleteNetwork E i)" "preserves db_ok (CreateSubnet E i n c d)" "preserves db_ok (DeleteSubnet E i)"
  "preserves db_ok (CreateFirewallRule E freq)" "preserves db_ok (DeleteFirewallRule E i)"
  "preserves db_ok (AllocateFloatingIP E i v)" "preserves db_ok (ReleaseFloatingIP E i)" "preserves db_ok (ListFloatingIPs E)"
  unfolding CreateNetwork_def GetNetwork_def ListNetworks_def DeleteNetwork_def CreateSubnet_def DeleteSubnet_def
    CreateFirewallRule_def DeleteFirewallRule_def AllocateFloatingIP_def ReleaseFloatingIP_def ListFloatingIPs_def Let_def
  by (intro pres)+

subsection \<open>Networks: what a create stores and a get returns\<close>

definition stored_network :: "env \<Rightarrow> PrivateNetwork \<Rightarrow> PrivateNetwork" where
  "stored_network E net = net\<lparr>pn_ID := canon E (pn_ID net),
     pn_OrganizationID := (if pn_OrganizationID net = '''' then '''' else canon E (pn_OrganizationID net)),
     pn_VpcID := map_option (canon E) (pn_VpcID net), pn_CIDR := canon_inet E (pn_CIDR net),
     pn_IPv6CIDR := map_option (canon_inet E) (pn_IPv6CIDR net), pn_Subnets := [], pn_FirewallRules := []\<rparr>"

definition stored_subnet :: "env \<Rightarrow> Subnet \<Rightarrow> Subnet" where
  "stored_subnet E s = s\<lparr>sub_ID := canon E (sub_ID s), sub_NetworkID := canon E (sub_NetworkID s),
     sub_CIDR := canon_inet E (sub_CIDR s), sub_IPv6CIDR := map_option (canon_inet E) (sub_IPv6CIDR s),
     sub_GatewayIP := map_option (canon_inet E) (sub_GatewayIP s)\<rparr>"

definition stored_rule :: "env \<Rightarrow> FirewallRule \<Rightarrow> FirewallRule" where
  "stored_rule E f = f\<lparr>fw_ID := canon E (fw_ID f), fw_NetworkID := canon E (fw_NetworkID f),
     fw_SourceCIDRs := map (canon_inet E) (fw_SourceCIDRs f), fw_DestinationCIDRs := map (canon_inet E) (fw_DestinationCIDRs f)\<rparr>"

text \<open>The network with canonical id \<open>c\<close>, with its subnets and rules.\<close>

definition network_view :: "world \<Rightarrow> string \<Rightarrow> PrivateNetwork option" where
  "network_view w c = map_option (\<lambda>n. n\<lparr>pn_Subnets := filter (\<lambda>s. sub_NetworkID s = c) (subnets w),
     pn_FirewallRules := filter (\<lambda>f. fw_NetworkID f = c) (firewall_rules w)\<rparr>) (by_id pn_ID (private_networks w) c)"

lemma inet_arg_Inr_iff: "inet_arg E s k w = (Inr x, w') \<longleftrightarrow> inet_text E s \<noteq> None \<and> k (canon_inet E s) w = (Inr x, w')"
  by (auto simp: inet_arg_def canon_inet_def split: option.split)

lemma inet_opt_Inr_iff:
  "inet_opt E s k w = (Inr x, w') \<longleftrightarrow> (\<forall>y. s = Some y \<longrightarrow> inet_text E y \<noteq> None) \<and> k (map_option (canon_inet E) s) w = (Inr x, w')"
  by (cases s) (auto simp: inet_opt_def inet_arg_Inr_iff)

lemma uuid_arg_canon_iff: "uuid_arg E s k w = (Inr x, w') \<longleftrightarrow> uuid_parse E s \<noteq> None \<and> k (canon E s) w = (Inr x, w')"
  by (auto simp: uuid_arg_Inr_iff canon_def)

lemma uuid_nullif_canon_iff:
  "uuid_nullif E s k w = (Inr x, w') \<longleftrightarrow>
     (s \<noteq> '''' \<longrightarrow> uuid_parse E s \<noteq> None) \<and> k (if s = '''' then '''' else canon E s) w = (Inr x, w')"
  by (simp add: uuid_nullif_def uuid_arg_canon_iff)

lemma uuid_opt_canon_iff:
  "uuid_opt E s k w = (Inr x, w') \<longleftrightarrow> (\<forall>y. s = Some y \<longrightarrow> uuid_parse E y \<noteq> None) \<and> k (map_option (canon E) s) w = (Inr x, w')"
  by (cases s) (auto simp: uuid_opt_def uuid_arg_canon_iff)

lemma canon_New [simp]: "uuid_ok E \<Longrightarrow> canon E (uuid_New E n) = uuid_New E n"
  by (simp add: canon_eq uuid_ok_New)

lemmas canon_iffs = sql_Inr_iff uuid_arg_canon_iff uuid_nullif_canon_iff uuid_opt_canon_iff inet_arg_Inr_iff
  inet_opt_Inr_iff inet_args_Inr_iff require_Inr_iff

lemma NetworkRepository_Create_ok:
  assumes "NetworkRepository_Create E net w = (Inr (), w')"
  shows "w' = w\<lparr>stmt_no := Suc (stmt_no w), private_networks := private_networks w @ [stored_network E net]\<rparr> \<and>
    canon E (pn_ID net) \<notin> pn_ID ` set (private_networks w)"
  using assms unfolding NetworkRepository_Create_def canon_iffs
  by (auto simp: stored_network_def require_Inr_iff split: if_splits)

lemma SubnetRepository_Create_ok:
  assumes "SubnetRepository_Create E s w = (Inr (), w')"
  shows "w' = w\<lparr>stmt_no := Suc (stmt_no w), subnets := subnets w @ [stored_subnet E s]\<rparr> \<and>
    canon E (sub_ID s) \<notin> sub_ID ` set (subnets w)"
  using assms unfolding SubnetRepository_Create_def insert_subnet_def canon_iffs
  by (auto simp: stored_subnet_def)

lemma FirewallRepository_Create_ok:
  assumes "FirewallRepository_Create E f w = (Inr (), w')"
  shows "w' = w\<lparr>stmt_no := Suc (stmt_no w), firewall_rules := firewall_rules w @ [stored_rule E f]\<rparr> \<and>
    canon E (fw_ID f) \<notin> fw_ID ` set (firewall_rules w) \<and> canon E (fw_NetworkID f) \<in> pn_ID ` set (private_networks w) \<and>
    fw_Action f \<in> {''allow'', ''deny''} \<and> fw_Direction f \<in> {''ingress'', ''egress''}"
  using assms unfolding FirewallRepository_Create_def insert_rule_def canon_iffs
  by (auto simp: stored_rule_def require_Inr_iff split: if_splits)

lemma NetworkRepository_GetByID_ok:
  assumes "healthy E" "uuid_parse E i = Some c"
  shows "\<exists>n. NetworkRepository_GetByID E i w = (Inr (network_view w c), w\<lparr>stmt_no := n\<rparr>)"
  using assms
  by (cases "by_id pn_ID (private_networks w) c")
    (auto simp: NetworkRepository_GetByID_def get_nil_def op_apply sql_healthy uuid_arg_ok select_one_def by_id_def
      listSubnets_def listFirewallRules_def network_view_def)

lemma new_uuid_iff: "new_uuid E w = (r, w') \<longleftrightarrow> r = Inr (uuid_New E (uuid_no w)) \<and> w' = w\<lparr>uuid_no := Suc (uuid_no w)\<rparr>"
  by (auto simp: new_uuid_def)

lemma parse_or_iff: "parse_or p s w = (Inr net, w') \<longleftrightarrow> w' = w \<and> (\<exists>ip. ParseCIDR s = Inr (ip, net))"
  by (auto simp: parse_or_def split: sum.splits)

lemma CreateNetwork_ok:
  assumes "CreateNetwork E req w = (Inr net, w')"
  defines "i \<equiv> uuid_New E (uuid_no w)" and "j \<equiv> uuid_New E (Suc (uuid_no w))"
  shows "w' = w\<lparr>stmt_no := Suc (Suc (stmt_no w)), uuid_no := Suc (Suc (uuid_no w)),
      private_networks := private_networks w @ [stored_network E (network_of_request req i)],
      subnets := subnets w @ [stored_subnet E (default_subnet req i j)]\<rparr>"
    and "net = (network_of_request req i)\<lparr>pn_Subnets := [default_subnet req i j]\<rparr>"
    and "canon E i \<notin> pn_ID ` set (private_networks w)"
    and "cnr_Name req \<noteq> ''''" and "\<exists>ip n. ParseCIDR (cnr_CIDR req) = Inr (ip, n)"
proof -
  obtain w1 where c: "NetworkRepository_Create E (network_of_request req i) (w\<lparr>uuid_no := Suc (uuid_no w)\<rparr>) = (Inr (), w1)"
    and d: "SubnetRepository_Create E (default_subnet req i (uuid_New E (uuid_no w1))) (w1\<lparr>uuid_no := Suc (uuid_no w1)\<rparr>) = (Inr (), w')"
    and net: "net = (network_of_request req i)\<lparr>pn_Subnets := [default_subnet req i (uuid_New E (uuid_no w1))]\<rparr>"
    and "cnr_Name req \<noteq> ''''" "\<exists>ip n. ParseCIDR (cnr_CIDR req) = Inr (ip, n)"
    using assms(1) unfolding CreateNetwork_def Let_def i_def
    by (auto simp: op_Inr_iff new_uuid_iff parse_or_iff split: if_splits)
  then show "cnr_Name req \<noteq> ''''" "\<exists>ip n. ParseCIDR (cnr_CIDR req) = Inr (ip, n)"
    by blast+
  have w1: "w1 = w\<lparr>uuid_no := Suc (uuid_no w), stmt_no := Suc (stmt_no w),
      private_networks := private_networks w @ [stored_network E (network_of_request req i)]\<rparr>"
    and fresh: "canon E i \<notin> pn_ID ` set (private_networks w)"
    using NetworkRepository_Create_ok [OF c] by (simp_all add: network_of_request_def)
  then show "canon E i \<notin> pn_ID ` set (private_networks w)"
      "net = (network_of_request req i)\<lparr>pn_Subnets := [default_subnet req i j]\<rparr>"
    using net by (simp_all add: j_def)
  show "w' = w\<lparr>stmt_no := Suc (Suc (stmt_no w)), uuid_no := Suc (Suc (uuid_no w)),
      private_networks := private_networks w @ [stored_network E (network_of_request req i)],
      subnets := subnets w @ [stored_subnet E (default_subnet req i j)]\<rparr>"
    using SubnetRepository_Create_ok [OF d] w1 by (simp add: j_def)
qed

lemma GetNetwork_ok:
  assumes "healthy E" "uuid_parse E i = Some c"
  shows "\<exists>n. GetNetwork E i w = (case network_view w c of None \<Rightarrow> Inl (Msg ''network not found'') | Some net \<Rightarrow> Inr net,
    w\<lparr>stmt_no := n\<rparr>)"
  using NetworkRepository_GetByID_ok [OF assms, of w]
  by (auto simp: GetNetwork_def must_find_def op_apply split: option.split)

lemma foreign_rows:
  assumes "db_ok w" "c \<notin> pn_ID ` set (private_networks w)"
  shows "filter (\<lambda>s. sub_NetworkID s = c) (subnets w) = []" "filter (\<lambda>f. fw_NetworkID f = c) (firewall_rules w) = []"
  using assms by (auto simp: db_ok_def refs_ok_def filter_empty_conv)

text \<open>
  C9. A network that \<^verbatim>\<open>CreateNetwork\<close> returns has a name, a CIDR that parses and one subnet that
  covers it with DHCP; a get by its id returns it, in the server's spelling of ids and addresses;
  every other network, with its subnets and rules, is as before.
\<close>

theorem CreateNetwork_stored:
  assumes "healthy E" "uuid_ok E" "db_ok w" "CreateNetwork E req w = (Inr net, w1)"
  shows "pn_Name net \<noteq> '''' \<and> (\<exists>ip n. ParseCIDR (pn_CIDR net) = Inr (ip, n)) \<and>
    (\<exists>s. pn_Subnets net = [s] \<and> sub_CIDR s = pn_CIDR net \<and> sub_NetworkID s = pn_ID net \<and> sub_DHCPEnabled s \<and>
      (\<exists>w2. GetNetwork E (pn_ID net) w1 = (Inr ((stored_network E net)\<lparr>pn_Subnets := [stored_subnet E s]\<rparr>), w2))) \<and>
    network_view w (pn_ID net) = None \<and> (\<forall>j. j \<noteq> pn_ID net \<longrightarrow> network_view w1 j = network_view w j)"
proof -
  let ?i = "uuid_New E (uuid_no w)" and ?j = "uuid_New E (Suc (uuid_no w))"
  let ?net = "network_of_request req ?i" and ?s = "default_subnet req ?i ?j"
  note ok = CreateNetwork_ok [OF assms(4)]
  have i: "canon E ?i = ?i" "uuid_parse E ?i = Some ?i"
    using assms(2) by (simp_all add: uuid_ok_New)
  have net: "pn_ID net = ?i" "pn_Subnets net = [?s]" "pn_CIDR net = cnr_CIDR req" "pn_Name net = cnr_Name req"
      "stored_network E net = stored_network E ?net"
    using ok(2) by (simp_all add: network_of_request_def stored_network_def)
  have keys: "pn_ID (stored_network E ?net) = ?i" "sub_NetworkID (stored_subnet E ?s) = ?i"
    using i by (simp_all add: stored_network_def network_of_request_def stored_subnet_def default_subnet_def)
  have view: "network_view w1 j = (if j = ?i then Some ((stored_network E ?net)\<lparr>pn_Subnets := [stored_subnet E ?s]\<rparr>)
      else network_view w j)" for j
    using ok(1,3) i keys foreign_rows [OF assms(3), of ?i]
    by (simp add: network_view_def by_id_add stored_network_def)
  have "network_view w ?i = None"
    using ok(3) i by (simp add: network_view_def by_id_None)
  moreover have "\<exists>w2. GetNetwork E ?i w1 = (Inr ((stored_network E ?net)\<lparr>pn_Subnets := [stored_subnet E ?s]\<rparr>), w2)"
    using GetNetwork_ok [OF assms(1) i(2), of w1] view [of ?i] by auto
  ultimately show ?thesis
    using ok(4,5) net view by (auto simp: default_subnet_def)
qed

definition sample_network_request :: CreateNetworkRequest where
  "sample_network_request = \<lparr>cnr_Name = ''web'', cnr_OrganizationID = ''acme'', cnr_CIDR = ''10.0.0.0/16'',
     cnr_IPv6CIDR = '''', cnr_InternetGateway = False\<rparr>"

definition sample_network :: PrivateNetwork where
  "sample_network = (network_of_request sample_network_request (unary_uuid 0))\<lparr>pn_Subnets :=
     [default_subnet sample_network_request (unary_uuid 0) (unary_uuid 1)]\<rparr>"

definition sample_network_world :: world where
  "sample_network_world = empty_world\<lparr>stmt_no := 2, uuid_no := 2,
     private_networks := [sample_network\<lparr>pn_Subnets := []\<rparr>], subnets := pn_Subnets sample_network\<rparr>"

lemma ParseCIDR_sample: "ParseCIDR ''10.0.0.0/16'' = Inr ([0,0,0,0,0,0,0,0,0,0,255,255,10,0,0,0],
  \<lparr>net_IP = [10,0,0,0], net_Mask = [255,255,0,0]\<rparr>)"
  by code_simp

lemma unary_uuid_inj [simp]: "unary_uuid m = unary_uuid n \<longleftrightarrow> m = n" "unary_uuid n \<noteq> ''''"
  by (auto simp: unary_uuid_def)

lemma sample_network_created:
  "CreateNetwork sample_env sample_network_request empty_world = (Inr sample_network, sample_network_world)"
  by (simp add: CreateNetwork_def Let_def sample_network_request_def op_apply parse_or_def ParseCIDR_sample new_uuid_def
      network_of_request_def default_subnet_def NetworkRepository_Create_def SubnetRepository_Create_def insert_subnet_def
      sql_healthy uuid_arg_def uuid_nullif_def uuid_opt_def inet_arg_def inet_opt_def require_def empty_world_def
      sample_network_def sample_network_world_def eval_nat_numeral)

theorem CreateNetwork_stored_witness:
  "\<exists>w2. GetNetwork sample_env (unary_uuid 0) sample_network_world = (Inr sample_network, w2)"
  using CreateNetwork_stored [OF healthy_sample uuid_ok_sample db_ok_empty sample_network_created]
  by (auto simp: sample_network_def network_of_request_def default_subnet_def sample_network_request_def
      stored_network_def stored_subnet_def canon_def canon_inet_def)

subsection \<open>Deleting a network\<close>

text \<open>
  Deleting the subnets of a network one by one, whichever of the statements fail, removes rows of that network
  only: \<open>trimmed w0 c w\<close> says that \<open>w\<close> is \<open>w0\<close> but for subnets of \<open>c\<close>.
\<close>

definition trimmed :: "world \<Rightarrow> string \<Rightarrow> world \<Rightarrow> bool" where
  "trimmed w0 c w \<longleftrightarrow> w\<lparr>stmt_no := 0, subnets := []\<rparr> = w0\<lparr>stmt_no := 0, subnets := []\<rparr> \<and>
     set (subnets w) \<subseteq> set (subnets w0) \<and>
     filter (\<lambda>s. sub_NetworkID s \<noteq> c) (subnets w) = filter (\<lambda>s. sub_NetworkID s \<noteq> c) (subnets w0)"

definition only_in :: "world \<Rightarrow> string \<Rightarrow> env \<Rightarrow> Subnet \<Rightarrow> bool" where
  "only_in w0 c E s \<longleftrightarrow> (\<forall>r\<in>set (subnets w0). uuid_parse E (sub_ID s) = Some (sub_ID r) \<longrightarrow> sub_NetworkID r = c)"

lemma trimmed_stmt [simp]: "trimmed w0 c (w\<lparr>stmt_no := n\<rparr>) = trimmed w0 c w"
  by (simp add: trimmed_def)

lemma trimmed_delete: "only_in w0 c E s \<Longrightarrow> preserves (trimmed w0 c) (SubnetRepository_Delete E (sub_ID s))"
proof (rule preservesI)
  fix w assume s: "only_in w0 c E s" and w: "trimmed w0 c w"
  have same: "filter (\<lambda>s. sub_NetworkID s \<noteq> c) (filter (\<lambda>s. sub_ID s \<noteq> k) (subnets w)) = filter (\<lambda>s. sub_NetworkID s \<noteq> c) (subnets w)"
    if "uuid_parse E (sub_ID s) = Some k" for k
    unfolding filter_filter by (rule filter_cong [OF refl]) (use s w that in \<open>auto simp: trimmed_def only_in_def\<close>)
  show "trimmed w0 c (snd (SubnetRepository_Delete E (sub_ID s) w))"
  proof (cases "db_fault E (stmt_no w) = None \<and> uuid_parse E (sub_ID s) \<noteq> None")
    case True
    then obtain k where k: "uuid_parse E (sub_ID s) = Some k" "db_fault E (stmt_no w) = None" by blast
    then have "snd (SubnetRepository_Delete E (sub_ID s) w) =
        w\<lparr>stmt_no := Suc (stmt_no w), subnets := filter (\<lambda>s. sub_ID s \<noteq> k) (subnets w)\<rparr>"
      by (simp add: SubnetRepository_Delete_def sql_def uuid_arg_def)
    then show ?thesis
      using w same [OF k(1)] by (auto simp: trimmed_def)
  next
    case False
    then have "snd (SubnetRepository_Delete E (sub_ID s) w) = w\<lparr>stmt_no := Suc (stmt_no w)\<rparr>"
      by (cases "db_fault E (stmt_no w)") (simp_all add: SubnetRepository_Delete_def sql_def uuid_arg_def)
    then show ?thesis using w by simp
  qed
qed

lemma trimmed_delete_subnets: "\<forall>s\<in>set ss. only_in w0 c E s \<Longrightarrow> preserves (trimmed w0 c) (delete_subnets E ss)"
  by (induction ss) (simp_all only: delete_subnets.simps list.set ball_simps,
    (intro pres trimmed_delete; simp)+)

lemma delete_subnets_Inr: "fst (delete_subnets E ss w) = Inr ()"
  by (induction ss arbitrary: w) (auto simp: ignoreE_apply)

text \<open>The tables after the deletion of network \<open>c\<close>.\<close>

definition network_removed :: "world \<Rightarrow> string \<Rightarrow> world \<Rightarrow> bool" where
  "network_removed w c w1 \<longleftrightarrow>
     w1\<lparr>stmt_no := 0, private_networks := [], subnets := [], firewall_rules := [], floating_ips := []\<rparr> =
       w\<lparr>stmt_no := 0, private_networks := [], subnets := [], firewall_rules := [], floating_ips := []\<rparr> \<and>
     private_networks w1 = filter (\<lambda>n. pn_ID n \<noteq> c) (private_networks w) \<and>
     subnets w1 = filter (\<lambda>s. sub_NetworkID s \<noteq> c) (subnets w) \<and>
     firewall_rules w1 = filter (\<lambda>f. fw_NetworkID f \<noteq> c) (firewall_rules w) \<and>
     floating_ips w1 = update_where (\<lambda>f. fip_NetworkID f = Some c) (\<lambda>f. f\<lparr>fip_NetworkID := None\<rparr>) (floating_ips w)"

lemma NetworkRepository_Delete_effect:
  assumes "healthy E" "uuid_parse E i = Some c" "trimmed w c w'"
  shows "\<exists>w1. NetworkRepository_Delete E i w' = (Inr (), w1) \<and> network_removed w c w1"
proof -
  have w': "w' = w\<lparr>stmt_no := stmt_no w', subnets := subnets w'\<rparr>"
    using assms(3) by (cases w', cases w) (simp add: trimmed_def)
  have "filter (\<lambda>s. sub_NetworkID s \<noteq> c) (subnets w') = filter (\<lambda>s. sub_NetworkID s \<noteq> c) (subnets w)"
    using assms(3) by (simp add: trimmed_def)
  then show ?thesis
    by (subst w') (simp add: NetworkRepository_Delete_def sql_healthy [OF assms(1)] uuid_arg_ok [OF assms(2)] network_removed_def)
qed

lemma listed_only_in:
  assumes "db_ok w" "\<forall>s\<in>set (subnets w). uuid_parse E (sub_ID s) = Some (sub_ID s)"
    and "s \<in> set (filter (\<lambda>s. sub_NetworkID s = c) (subnets w))"
  shows "only_in w c E s"
  using assms by (auto simp: only_in_def db_ok_def ids_ok_def distinct_map inj_on_def)

lemma DeleteNetwork_effect:
  assumes "healthy E" "uuid_parse E i = Some c" "db_ok w" "network_view w c \<noteq> None"
    and "\<forall>s\<in>set (subnets w). uuid_parse E (sub_ID s) = Some (sub_ID s)"
  shows "\<exists>w1. DeleteNetwork E i w = (Inr (), w1) \<and> network_removed w c w1"
proof -
  obtain n net where get: "NetworkRepository_GetByID E i w = (Inr (Some net), w\<lparr>stmt_no := n\<rparr>)"
    using NetworkRepository_GetByID_ok [OF assms(1,2), of w] assms(4) by auto
  let ?ss = "filter (\<lambda>s. sub_NetworkID s = c) (subnets w)"
  obtain w' where w': "delete_subnets E ?ss (w\<lparr>stmt_no := Suc n\<rparr>) = (Inr (), w')"
    using delete_subnets_Inr [of E ?ss] by (metis prod.collapse)
  have start: "trimmed w c (w\<lparr>stmt_no := Suc n\<rparr>)"
    by (simp add: trimmed_def)
  have keeps: "preserves (trimmed w c) (delete_subnets E ?ss)"
    using listed_only_in [OF assms(3,5)] by (intro trimmed_delete_subnets ballI)
  have "trimmed w c w'"
    by (rule preserves_result [OF keeps start w'])
  then show ?thesis
    using NetworkRepository_Delete_effect [OF assms(1,2)] w' get
    by (simp add: DeleteNetwork_def must_find_def op_apply SubnetRepository_ListByNetwork_def listSubnets_def
        sql_healthy [OF assms(1)] uuid_arg_ok [OF assms(2)])
qed



subsection \<open>Subnets and firewall rules\<close>

text \<open>Rows that reference a network are part of its view.\<close>

lemma network_view_add_subnet:
  "network_view (w\<lparr>stmt_no := n, uuid_no := m, subnets := subnets w @ [s]\<rparr>) j =
     map_option (\<lambda>x. if sub_NetworkID s = j then x\<lparr>pn_Subnets := pn_Subnets x @ [s]\<rparr> else x) (network_view w j)"
  by (auto simp: network_view_def option.map_comp comp_def intro!: option.map_cong0)

lemma network_view_add_rule:
  "network_view (w\<lparr>stmt_no := n, uuid_no := m, firewall_rules := firewall_rules w @ [f]\<rparr>) j =
     map_option (\<lambda>x. if fw_NetworkID f = j then x\<lparr>pn_FirewallRules := pn_FirewallRules x @ [f]\<rparr> else x) (network_view w j)"
  by (auto simp: network_view_def option.map_comp comp_def intro!: option.map_cong0)

lemma network_view_stmt [simp]: "network_view (w\<lparr>stmt_no := n\<rparr>) = network_view w"
  by (simp add: network_view_def fun_eq_iff)

lemma network_found:
  assumes "must_find p msg (NetworkRepository_GetByID E i) w = (Inr net, w')"
  shows "network_view w (canon E i) = Some net \<and> (\<exists>n. w' = w\<lparr>stmt_no := n\<rparr>)"
proof -
  obtain net0 where q: "get_nil (sql E (uuid_arg E i (\<lambda>i. select_one private_networks (\<lambda>n. pn_ID n = i)))) w = (Inr (Some net0), w\<lparr>stmt_no := Suc (stmt_no w)\<rparr>)"
    and c: "by_id pn_ID (private_networks w) (canon E i) = Some net0"
    and rest: "bindE (listSubnets E i) (\<lambda>ss. bindE (listFirewallRules E i) (\<lambda>fs.
        ret (Some (net0\<lparr>pn_Subnets := ss, pn_FirewallRules := fs\<rparr>)))) (w\<lparr>stmt_no := Suc (stmt_no w)\<rparr>) = (Inr (Some net), w')"
    using assms unfolding must_find_def NetworkRepository_GetByID_def
    by (auto simp: op_Inr_iff get_nil_def tryM_iff sql_def uuid_arg_def select_one_def by_id_def canon_def Let_def
        split: option.splits sum.splits if_splits)
  from rest c show ?thesis
    by (auto simp: op_Inr_iff listSubnets_def listFirewallRules_def sql_Inr_iff uuid_arg_canon_iff network_view_def)
qed

text \<open>
  A subnet that \<^verbatim>\<open>CreateSubnet\<close> returns belongs to an existing network whose address range contains the
  subnet's base address; it is appended to the subnets of that network and nothing else changes in any network.
\<close>

theorem CreateSubnet_within:
  assumes "CreateSubnet E networkID name cidr dhcp w = (Inr s, w1)"
  shows "name \<noteq> '''' \<and> sub_Name s = name \<and> sub_CIDR s = cidr \<and> sub_DHCPEnabled s = dhcp \<and>
    (\<exists>net ip sn ip' pnet. network_view w (canon E networkID) = Some net \<and>
      ParseCIDR cidr = Inr (ip, sn) \<and> ParseCIDR (pn_CIDR net) = Inr (ip', pnet) \<and> IPNet_Contains pnet (net_IP sn) \<and>
      network_view w1 (canon E networkID) = Some (net\<lparr>pn_Subnets := pn_Subnets net @ [stored_subnet E s]\<rparr>)) \<and>
    (\<forall>j. j \<noteq> canon E networkID \<longrightarrow> network_view w1 j = network_view w j)"
proof -
  obtain net w2 ip sn ip' pnet where found: "must_find ''get network'' ''network not found'' (NetworkRepository_GetByID E networkID) w = (Inr net, w2)"
    and s: "s = \<lparr>sub_ID = uuid_New E (uuid_no w2), sub_Name = name, sub_NetworkID = networkID, sub_CIDR = cidr, sub_IPv6CIDR = None,
            sub_DHCPEnabled = dhcp, sub_GatewayIP = None\<rparr>"
    and ins: "SubnetRepository_Create E s (w2\<lparr>uuid_no := Suc (uuid_no w2)\<rparr>) = (Inr (), w1)"
    and facts: "name \<noteq> ''''" "ParseCIDR cidr = Inr (ip, sn)" "ParseCIDR (pn_CIDR net) = Inr (ip', pnet)" "IPNet_Contains pnet (net_IP sn)"
    using assms unfolding CreateSubnet_def Let_def
    by (auto simp: op_Inr_iff new_uuid_iff parse_or_iff split: if_splits)
  obtain n where w2: "w2 = w\<lparr>stmt_no := n\<rparr>" and view: "network_view w (canon E networkID) = Some net"
    using network_found [OF found] by blast
  have "w1 = w\<lparr>stmt_no := Suc n, uuid_no := Suc (uuid_no w), subnets := subnets w @ [stored_subnet E s]\<rparr>"
    using SubnetRepository_Create_ok [OF ins] w2 by simp
  moreover have "sub_NetworkID (stored_subnet E s) = canon E networkID"
    using s by (simp add: stored_subnet_def)
  ultimately show ?thesis
    using facts view s by (simp add: network_view_add_subnet option.map_ident)
qed

lemma inet_args_cases: "inet_args E ss k = k (map (canon_inet E) ss) \<or> (\<exists>e. inet_args E ss k = throw e)"
proof (induction E ss k rule: inet_args.induct)
  case (2 E s ss k)
  then show ?case by (cases "inet_text E s") (auto simp: inet_arg_def canon_inet_def fun_eq_iff)
qed simp

lemma FirewallRepository_Create_fails:
  assumes "FirewallRepository_Create E f w = (Inl e, w')"
  shows "firewall_rules w' = firewall_rules w"
proof -
  have args: "inet_args E ss k w = (Inl e, w') \<Longrightarrow> (k (map (canon_inet E) ss) w = (Inl e, w') \<Longrightarrow> w' = w) \<Longrightarrow> w' = w" for ss w and k :: "string list \<Rightarrow> unit act"
    using inet_args_cases [of E ss k] by auto
  have "insert_rule E f w = (Inl e, w') \<Longrightarrow> w' = w" for w
    unfolding insert_rule_def
    by (auto simp: uuid_arg_def require_def split: option.splits if_splits elim!: args)
  then show ?thesis
    using assms by (fastforce simp: FirewallRepository_Create_def sql_def Let_def split: option.splits)
qed


definition sample_rule_request :: CreateFirewallRuleRequest where
  "sample_rule_request = \<lparr>cfr_NetworkID = unary_uuid 0, cfr_Name = ''ssh'', cfr_Priority = 0, cfr_Action = '''',
     cfr_Direction = '''', cfr_SourceCIDRs = [], cfr_DestinationCIDRs = [], cfr_Protocol = ''tcp'',
     cfr_PortMin = Some 22, cfr_PortMax = Some 22\<rparr>"

theorem CreateSubnet_within_witness:
  "\<exists>s w1. CreateSubnet sample_env (unary_uuid 0) ''db'' ''10.0.0.0/16'' True sample_network_world = (Inr s, w1) \<and> sub_Name s = ''db''"
proof -
  have inside: "IPNet_Contains \<lparr>net_IP = [10,0,0,0], net_Mask = [255,255,0,0]\<rparr> [10,0,0,0]"
    by code_simp
  obtain s w1 where run: "CreateSubnet sample_env (unary_uuid 0) ''db'' ''10.0.0.0/16'' True sample_network_world = (Inr s, w1)"
    by (simp add: CreateSubnet_def must_find_def NetworkRepository_GetByID_def get_nil_def op_apply sql_healthy uuid_arg_def
        select_one_def listSubnets_def listFirewallRules_def sample_network_world_def sample_network_def network_of_request_def
        default_subnet_def sample_network_request_def parse_or_def ParseCIDR_sample inside new_uuid_def Let_def
        SubnetRepository_Create_def insert_subnet_def inet_arg_def inet_opt_def require_def empty_world_def)
  then show ?thesis
    using CreateSubnet_within [OF run] by blast
qed


subsection \<open>Floating addresses\<close>

text \<open>The addresses that \<open>FindAvailableIP\<close> takes into account: those of the network and of the organization.\<close>

definition org_addresses :: "env \<Rightarrow> world \<Rightarrow> PrivateNetwork \<Rightarrow> string list" where
  "org_addresses E w net = map fip_IPAddress (filter (\<lambda>f. inet_within E (fip_IPAddress f) (pn_CIDR net) = Some True \<and>
     (pn_OrganizationID net = '''' \<or> canon E (pn_OrganizationID net) = fip_OrganizationID f)) (floating_ips w))"

lemma select_floating_org:
  assumes "select_floating E (pn_CIDR net) (pn_OrganizationID net) w = (Inr used, w')"
  shows "used = org_addresses E w net \<and> w' = w\<lparr>stmt_no := Suc (stmt_no w)\<rparr>"
  using assms unfolding select_floating_def sql_Inr_iff
  by (auto simp: uuid_cond_def uuid_arg_canon_iff cond_eq_def org_addresses_def split: if_splits)

definition stored_floating :: "env \<Rightarrow> FloatingIP \<Rightarrow> FloatingIP" where
  "stored_floating E f = \<lparr>fip_ID = canon E (fip_ID f), fip_IPAddress = canon_inet E (fip_IPAddress f),
     fip_NetworkID = (if ptr_set (fip_NetworkID f) then Some (canon E (the (fip_NetworkID f))) else None),
     fip_VMID = (if ptr_set (fip_VMID f) then Some (canon E (the (fip_VMID f))) else None),
     fip_OrganizationID = (if fip_OrganizationID f = '''' then '''' else canon E (fip_OrganizationID f))\<rparr>"

lemma uuid_nullif_opt_iff:
  "uuid_nullif_opt E p k w = (Inr x, w') \<longleftrightarrow> (ptr_set p \<longrightarrow> uuid_parse E (the p) \<noteq> None) \<and>
     k (if ptr_set p then Some (canon E (the p)) else None) w = (Inr x, w')"
  by (simp add: uuid_nullif_opt_def uuid_arg_canon_iff)

lemma Allocate_ok:
  assumes "FloatingIPRepository_Allocate E f w = (Inr (), w')"
  shows "w' = w\<lparr>stmt_no := Suc (stmt_no w), floating_ips := floating_ips w @ [stored_floating E f]\<rparr> \<and>
    canon_inet E (fip_IPAddress f) \<notin> fip_IPAddress ` set (floating_ips w)"
  using assms unfolding FloatingIPRepository_Allocate_def canon_iffs uuid_nullif_opt_iff
  by (cases "fip_OrganizationID f = ''''") (simp_all add: stored_floating_def require_Inr_iff split: if_splits)

lemma return_sum_iff: "(case x of Inl e \<Rightarrow> throw e | Inr a \<Rightarrow> ret a) w = (Inr v, w') \<longleftrightarrow> x = Inr v \<and> w' = w"
  by (auto split: sum.splits)

lemma AllocateFloatingIP_ok:
  assumes "AllocateFloatingIP E networkID vmID w = (Inr f, w1)"
  obtains net where "network_view w (canon E networkID) = Some net"
    "FindAvailableIP_scan (pn_CIDR net) (org_addresses E w net) = Inr (fip_IPAddress f)"
    "fip_VMID f = Some vmID" "fip_NetworkID f = Some networkID" "networkID \<noteq> ''''"
    "floating_ips w1 = floating_ips w @ [stored_floating E f]"
    "canon_inet E (fip_IPAddress f) \<notin> fip_IPAddress ` set (floating_ips w)"
proof -
  obtain net w2 w3 where ne: "networkID \<noteq> ''''"
    and found: "must_find ''get network'' ''network not found'' (NetworkRepository_GetByID E networkID) w = (Inr net, w2)"
    and ip: "FloatingIPRepository_FindAvailableIP E (pn_CIDR net) (pn_OrganizationID net) w2 = (Inr (fip_IPAddress f), w3)"
    and f: "fip_NetworkID f = Some networkID" "fip_VMID f = Some vmID"
    and ins: "FloatingIPRepository_Allocate E f (w3\<lparr>uuid_no := Suc (uuid_no w3)\<rparr>) = (Inr (), w1)"
    using assms unfolding AllocateFloatingIP_def Let_def
    by (auto simp: op_Inr_iff new_uuid_iff split: if_splits)
  obtain n where w2: "w2 = w\<lparr>stmt_no := n\<rparr>" and view: "network_view w (canon E networkID) = Some net"
    using network_found [OF found] by blast
  obtain used where sel: "select_floating E (pn_CIDR net) (pn_OrganizationID net) w2 = (Inr used, w3)"
    and scan: "FindAvailableIP_scan (pn_CIDR net) used = Inr (fip_IPAddress f)"
    using ip unfolding FloatingIPRepository_FindAvailableIP_def
    by (auto simp: op_Inr_iff return_sum_iff split: sum.split_asm)
  have "used = org_addresses E w net" and w3: "w3 = w\<lparr>stmt_no := Suc n\<rparr>"
    using select_floating_org [OF sel] by (simp_all add: w2 org_addresses_def)
  then show thesis
    using that [of net] view scan f ne Allocate_ok [OF ins] by simp
qed

text \<open>
  C11. A floating address that \<^verbatim>\<open>AllocateFloatingIP\<close> hands out for an IPv4 network is a host address of that
  network, differs from every floating address of the network and organization, is the text of no stored
  floating address at all, and is stored for the network and machine asked for.
\<close>

theorem AllocateFloatingIP_fresh:
  assumes "AllocateFloatingIP E networkID vmID w = (Inr f, w1)"
    and "network_view w (canon E networkID) = Some net" "v4_cidr (pn_CIDR net)"
  shows "\<exists>x\<in>host_pool (pn_CIDR net). used_float_word (fip_IPAddress f) = Some x \<and>
      (\<forall>u\<in>set (org_addresses E w net). used_float_word u \<noteq> Some x) \<and>
      canon_inet E (fip_IPAddress f) \<notin> fip_IPAddress ` set (floating_ips w) \<and>
      floating_ips w1 = floating_ips w @ [stored_floating E f] \<and>
      fip_NetworkID (stored_floating E f) = Some (canon E networkID) \<and>
      fip_VMID (stored_floating E f) = (if vmID = '''' then None else Some (canon E vmID))"
proof -
  obtain net' where n: "network_view w (canon E networkID) = Some net'"
    "FindAvailableIP_scan (pn_CIDR net') (org_addresses E w net') = Inr (fip_IPAddress f)"
    "fip_VMID f = Some vmID" "fip_NetworkID f = Some networkID" "networkID \<noteq> ''''"
    "floating_ips w1 = floating_ips w @ [stored_floating E f]"
    "canon_inet E (fip_IPAddress f) \<notin> fip_IPAddress ` set (floating_ips w)"
    using AllocateFloatingIP_ok [OF assms(1)] .
  have "next_floating_ip (pn_CIDR net) (org_addresses E w net) = Some (fip_IPAddress f)"
    using n(1,2) assms(2) by (simp add: next_floating_ip_def)
  from floating_ip.alloc_Some [OF assms(3) this] n(3-) show ?thesis
    by (auto simp: stored_floating_def)
qed

lemma FindAvailableIP_ok:
  assumes "healthy E" "FindAvailableIP_scan (pn_CIDR net) (org_addresses E w net) = Inr a"
    and "inet_within E (pn_CIDR net) (pn_CIDR net) \<noteq> None" "uuid_parse E (pn_OrganizationID net) = Some org"
  shows "FloatingIPRepository_FindAvailableIP E (pn_CIDR net) (pn_OrganizationID net) w = (Inr a, w\<lparr>stmt_no := Suc (stmt_no w)\<rparr>)"
proof -
  have "select_floating E (pn_CIDR net) (pn_OrganizationID net) w = (Inr (org_addresses E w net), w\<lparr>stmt_no := Suc (stmt_no w)\<rparr>)"
    using assms(3,4) by (auto simp: select_floating_def sql_healthy [OF assms(1)] uuid_cond_def uuid_arg_def cond_eq_def org_addresses_def canon_def)
  moreover have "\<exists>x. FindAvailableIP_check (pn_CIDR net) = Inr x"
    using assms(2) by (auto simp: FindAvailableIP_scan_def split: sum.splits)
  ultimately show ?thesis
    using assms(2) by (auto simp: FloatingIPRepository_FindAvailableIP_def bindE_apply)
qed

text \<open>
  C19. The scan only skips addresses of the same organization, while the table demands that an address is unique
  across organizations: when the first address that the scan finds free is held by another organization, the
  allocation fails with a unique violation, every time, although other addresses of the network are free.
\<close>

theorem AllocateFloatingIP_conflict:
  assumes "healthy E" "uuid_ok E" "uuid_parse E networkID = Some c" "network_view w c = Some net"
    and "FindAvailableIP_scan (pn_CIDR net) (org_addresses E w net) = Inr a" "inet_text E a = Some t"
    and "t \<in> fip_IPAddress ` set (floating_ips w)" "\<forall>n\<ge>uuid_no w. uuid_New E n \<notin> fip_ID ` set (floating_ips w)"
    and "inet_within E (pn_CIDR net) (pn_CIDR net) \<noteq> None" "uuid_parse E (pn_OrganizationID net) = Some org"
    and "vmID = '''' \<or> uuid_parse E vmID \<noteq> None"
  shows "\<exists>n. AllocateFloatingIP E networkID vmID w =
    (Inl (Wrap ''allocate floating IP'' (unique_violation ''floating_ips_ip_address_key'')),
     w\<lparr>stmt_no := n, uuid_no := Suc (uuid_no w)\<rparr>)"
proof -
  let ?i = "uuid_New E (uuid_no w)"
  obtain n where get: "NetworkRepository_GetByID E networkID w = (Inr (Some net), w\<lparr>stmt_no := n\<rparr>)"
    using NetworkRepository_GetByID_ok [OF assms(1,3), of w] assms(4) by auto
  have "org_addresses E (w\<lparr>stmt_no := n\<rparr>) net = org_addresses E w net"
    by (simp add: org_addresses_def)
  then have ip: "FloatingIPRepository_FindAvailableIP E (pn_CIDR net) (pn_OrganizationID net) (w\<lparr>stmt_no := n\<rparr>) =
      (Inr a, w\<lparr>stmt_no := Suc n\<rparr>)"
    using FindAvailableIP_ok [OF assms(1) _ assms(9,10), of "w\<lparr>stmt_no := n\<rparr>" a] assms(5) by simp
  have ne: "networkID \<noteq> ''''" "pn_OrganizationID net \<noteq> ''''" "org \<noteq> ''''"
    using assms(2,3,10) by (auto simp: uuid_ok_def)
  have "?i \<notin> fip_ID ` set (floating_ips w)"
    using assms(8) by blast
  then have "FloatingIPRepository_Allocate E \<lparr>fip_ID = ?i, fip_IPAddress = a, fip_NetworkID = Some networkID, fip_VMID = Some vmID,
      fip_OrganizationID = pn_OrganizationID net\<rparr> (w\<lparr>stmt_no := Suc n, uuid_no := Suc (uuid_no w)\<rparr>) =
      (Inl (unique_violation ''floating_ips_ip_address_key''), w\<lparr>stmt_no := Suc (Suc n), uuid_no := Suc (uuid_no w)\<rparr>)"
    using assms(2,3,6,7,10,11) ne
    by (auto simp: FloatingIPRepository_Allocate_def sql_healthy [OF assms(1)] uuid_arg_def uuid_ok_New inet_arg_def
        uuid_nullif_opt_def uuid_nullif_def require_def)
  then show ?thesis
    using ne get ip by (intro exI [of _ "Suc (Suc n)"]) (simp add: AllocateFloatingIP_def must_find_def op_apply new_uuid_def Let_def)
qed

text \<open>Two organizations with networks of the same range, and an environment in which every address is within it.\<close>

definition float_env :: env where
  "float_env = sample_env\<lparr>inet_within := (\<lambda>_ _. Some True)\<rparr>"

definition float_world :: world where
  "float_world = sample_network_world\<lparr>
     private_networks := [sample_network\<lparr>pn_Subnets := []\<rparr>, sample_network\<lparr>pn_ID := ''n2'', pn_OrganizationID := ''other'', pn_Subnets := []\<rparr>]\<rparr>"

definition held_world :: world where
  "held_world = float_world\<lparr>floating_ips := [\<lparr>fip_ID = ''f1'', fip_IPAddress = ''10.0.0.2'', fip_NetworkID = Some (unary_uuid 0),
     fip_VMID = None, fip_OrganizationID = ''acme''\<rparr>]\<rparr>"

lemma float_env_ok [simp]: "healthy float_env" "uuid_ok float_env"
  using healthy_sample uuid_ok_sample by (simp_all add: float_env_def healthy_def uuid_ok_def)

lemma float_scan: "FindAvailableIP_scan ''10.0.0.0/16'' [] = Inr ''10.0.0.2''"
  by code_simp

lemma float_view:
  "network_view float_world ''n2'' = Some (sample_network\<lparr>pn_ID := ''n2'', pn_OrganizationID := ''other'', pn_Subnets := []\<rparr>)"
  "network_view held_world ''n2'' = Some (sample_network\<lparr>pn_ID := ''n2'', pn_OrganizationID := ''other'', pn_Subnets := []\<rparr>)"
  by (simp_all add: network_view_def by_id_def held_world_def float_world_def sample_network_world_def sample_network_def
      network_of_request_def default_subnet_def unary_uuid_def empty_world_def)

lemma sample_network_cidr: "pn_CIDR sample_network = ''10.0.0.0/16''"
  by (simp add: sample_network_def network_of_request_def sample_network_request_def)

theorem AllocateFloatingIP_conflict_witness:
  "\<exists>n. AllocateFloatingIP float_env ''n2'' '''' held_world =
    (Inl (Wrap ''allocate floating IP'' (unique_violation ''floating_ips_ip_address_key'')),
     held_world\<lparr>stmt_no := n, uuid_no := Suc (uuid_no held_world)\<rparr>)"
proof (rule AllocateFloatingIP_conflict [where c = "''n2''" and a = "''10.0.0.2''" and t = "''10.0.0.2''" and org = "''other''", OF float_env_ok _ float_view(2)])
  show "FindAvailableIP_scan (pn_CIDR (sample_network\<lparr>pn_ID := ''n2'', pn_OrganizationID := ''other'', pn_Subnets := []\<rparr>))
     (org_addresses float_env held_world (sample_network\<lparr>pn_ID := ''n2'', pn_OrganizationID := ''other'', pn_Subnets := []\<rparr>)) = Inr ''10.0.0.2''"
    by (simp add: org_addresses_def held_world_def canon_def float_env_def sample_network_cidr float_scan)
qed (auto simp: float_env_def held_world_def unary_uuid_def)

theorem AllocateFloatingIP_fresh_witness:
  "\<exists>f w1. AllocateFloatingIP float_env ''n2'' '''' float_world = (Inr f, w1) \<and> fip_VMID (stored_floating float_env f) = None"
proof -
  let ?net = "sample_network\<lparr>pn_ID := ''n2'', pn_OrganizationID := ''other'', pn_Subnets := []\<rparr>"
  have parse: "uuid_parse float_env ''n2'' = Some ''n2''" "canon float_env ''n2'' = ''n2''"
    by (simp_all add: float_env_def canon_def)
  obtain n where get: "NetworkRepository_GetByID float_env ''n2'' float_world = (Inr (Some ?net), float_world\<lparr>stmt_no := n\<rparr>)"
    using NetworkRepository_GetByID_ok [OF float_env_ok(1) parse(1), of float_world] float_view(1) by auto
  have "floating_ips float_world = []"
    by (simp add: float_world_def sample_network_world_def empty_world_def)
  then have ip: "FloatingIPRepository_FindAvailableIP float_env (pn_CIDR ?net) (pn_OrganizationID ?net) (float_world\<lparr>stmt_no := n\<rparr>) =
      (Inr ''10.0.0.2'', float_world\<lparr>stmt_no := Suc n\<rparr>)"
    using FindAvailableIP_ok [OF float_env_ok(1), of ?net "float_world\<lparr>stmt_no := n\<rparr>" "''10.0.0.2''" "''other''"] float_scan
    by (simp add: org_addresses_def float_env_def sample_network_cidr)
  obtain f w1 where run: "AllocateFloatingIP float_env ''n2'' '''' float_world = (Inr f, w1)"
    using get ip \<open>floating_ips float_world = []\<close>
    by (simp add: AllocateFloatingIP_def must_find_def op_apply new_uuid_def Let_def FloatingIPRepository_Allocate_def
        sql_def uuid_arg_def inet_arg_def uuid_nullif_opt_def uuid_nullif_def require_def float_env_def
        float_world_def sample_network_world_def)
  have v4: "v4_cidr (pn_CIDR ?net)"
    unfolding sample_network_cidr by (simp add: sample_network_cidr) code_simp
  from AllocateFloatingIP_fresh [OF run _ v4] float_view(1) parse(2) run show ?thesis
    by auto
qed

end
