(* ===== verification/Qcow2.thy ===== *)
theory Qcow2
  imports World GoPath
begin

section \<open>Disk images: \<^verbatim>\<open>internal/qcow2\<close>\<close>

text \<open>
  The package runs \<^verbatim>\<open>qemu-img\<close>. The program itself is a parameter: \<open>X n argv fs\<close> is what the \<open>n\<close>-th command
  of the run, with arguments \<open>argv\<close> and the files \<open>fs\<close>, answers: an error of \<^verbatim>\<open>exec\<close> (or none), its
  output and the files afterwards. As for messages and responses, a JSON output is the value it encodes.
  The lemmas say which commands run, and with which arguments.
\<close>

record Info =
  inf_Format :: string
  inf_VirtualSize :: int
  inf_DiskSize :: int
  inf_ClusterSize :: int
  inf_BackingFile :: string
  inf_BackingFmt :: string

datatype cmd_output = Text string | InfoJSON Info

type_synonym exec = "nat \<Rightarrow> string list \<Rightarrow> (string \<Rightarrow> byte list option) \<Rightarrow>
  error option \<times> cmd_output \<times> (string \<Rightarrow> byte list option)"

definition exec_command :: "exec \<Rightarrow> string list \<Rightarrow> (error option \<times> cmd_output) act" where
  "exec_command X argv = (\<lambda>w. case X (cmd_no w) argv (files w) of (err, out, fs) \<Rightarrow>
     (Inr (err, out), w\<lparr>cmd_no := Suc (cmd_no w), files := fs\<rparr>))"

text \<open>The text of an output in an error message; the program does not print JSON when it fails.\<close>

definition output_text :: "cmd_output \<Rightarrow> string" where
  "output_text out = (case out of Text s \<Rightarrow> s | InfoJSON _ \<Rightarrow> ''{}'')"

text \<open>Run a command; an error is \<^verbatim>\<open>fmt.Errorf("p: %w: %s", err, out)\<close>.\<close>

definition run_or :: "exec \<Rightarrow> string \<Rightarrow> string list \<Rightarrow> cmd_output act" where
  "run_or X p argv = bindE (exec_command X argv) (\<lambda>(err, out).
     case err of Some e \<Rightarrow> throw (Msg (p @ '': '' @ Error e @ '': '' @ output_text out)) | None \<Rightarrow> ret out)"

definition formatSize :: "int \<Rightarrow> string" where
  "formatSize sizeBytes =
     (if sizeBytes \<le> 0 then ''1G''
      else if sizeBytes mod 1073741824 = 0 then Itoa (sizeBytes div 1073741824) @ ''G''
      else Itoa sizeBytes)"

definition qcow2_Stat :: "exec \<Rightarrow> string \<Rightarrow> Info act" where
  "qcow2_Stat X path =
     bindE (run_or X (''qemu-img info '' @ path) [''qemu-img'', ''info'', ''--output=json'', path]) (\<lambda>out.
     case out of InfoJSON info \<Rightarrow> ret info
     | Text s \<Rightarrow> throw (Wrap ''parse qemu-img info'' (Msg ''invalid character'')))"

definition qcow2_Create :: "exec \<Rightarrow> string \<Rightarrow> int \<Rightarrow> unit act" where
  "qcow2_Create X path sizeBytes =
     bindE (run_or X ''qemu-img create'' [''qemu-img'', ''create'', ''-f'', ''qcow2'', path, formatSize sizeBytes]) (\<lambda>_. ret ())"

definition qcow2_Resize :: "exec \<Rightarrow> string \<Rightarrow> int \<Rightarrow> unit act" where
  "qcow2_Resize X path sizeBytes =
     bindE (run_or X ''qemu-img resize'' [''qemu-img'', ''resize'', path, formatSize sizeBytes]) (\<lambda>_. ret ())"

definition qcow2_CreateWithBacking :: "exec \<Rightarrow> string \<Rightarrow> string \<Rightarrow> int \<Rightarrow> unit act" where
  "qcow2_CreateWithBacking X path backingPath sizeBytes =
     tryM (qcow2_Stat X backingPath) (\<lambda>r.
     let backingFmt = (case r of
         Inr info \<Rightarrow> if inf_Format info \<noteq> '''' then inf_Format info
                     else if filepath_Ext backingPath = ''.img'' then ''raw'' else ''qcow2''
       | Inl _ \<Rightarrow> if filepath_Ext backingPath = ''.img'' then ''raw'' else ''qcow2'') in
     bindE (run_or X (''qemu-img create with backing '' @ backingPath)
       [''qemu-img'', ''create'', ''-f'', ''qcow2'', ''-b'', backingPath, ''-F'', backingFmt, path]) (\<lambda>_.
     if sizeBytes > 0 then ignoreE (qcow2_Resize X path sizeBytes) (ret ()) else ret ()))"

definition qcow2_SnapshotCreate :: "exec \<Rightarrow> string \<Rightarrow> string \<Rightarrow> unit act" where
  "qcow2_SnapshotCreate X diskPath snap =
     bindE (run_or X ''qemu-img snapshot create'' [''qemu-img'', ''snapshot'', ''-c'', snap, diskPath]) (\<lambda>_. ret ())"

definition qcow2_SnapshotDelete :: "exec \<Rightarrow> string \<Rightarrow> string \<Rightarrow> unit act" where
  "qcow2_SnapshotDelete X diskPath snap =
     bindE (run_or X ''qemu-img snapshot delete'' [''qemu-img'', ''snapshot'', ''-d'', snap, diskPath]) (\<lambda>_. ret ())"

definition qcow2_SnapshotApply :: "exec \<Rightarrow> string \<Rightarrow> string \<Rightarrow> unit act" where
  "qcow2_SnapshotApply X diskPath snap =
     bindE (run_or X ''qemu-img snapshot apply'' [''qemu-img'', ''snapshot'', ''-a'', snap, diskPath]) (\<lambda>_. ret ())"

definition qcow2_Convert :: "exec \<Rightarrow> string \<Rightarrow> string \<Rightarrow> string \<Rightarrow> string \<Rightarrow> unit act" where
  "qcow2_Convert X src dst srcFmt dstFmt =
     bindE (run_or X ''qemu-img convert'' [''qemu-img'', ''convert'', ''-f'', srcFmt, ''-O'', dstFmt, src, dst]) (\<lambda>_. ret ())"

definition qcow2_Clone :: "exec \<Rightarrow> string \<Rightarrow> string \<Rightarrow> unit act" where
  "qcow2_Clone X srcPath dstPath = qcow2_CreateWithBacking X dstPath srcPath 0"

subsection \<open>The tables are not touched\<close>

lemma preserves_exec_command [pres]: "counter_blind I \<Longrightarrow> preserves I (exec_command X argv)"
  unfolding exec_command_def preserves_def counter_blind_def by (auto split: prod.split)

lemma preserves_run_or [pres]: "counter_blind I \<Longrightarrow> preserves I (run_or X p argv)"
  unfolding run_or_def by (intro pres)

lemma preserves_case_output [pres]:
  "(\<And>s. out = Text s \<Longrightarrow> preserves I (f s)) \<Longrightarrow> (\<And>i. out = InfoJSON i \<Longrightarrow> preserves I (g i)) \<Longrightarrow>
   preserves I (case out of Text s \<Rightarrow> f s | InfoJSON i \<Rightarrow> g i)"
  by (cases out) auto

lemma preserves_qcow2_Stat [pres]: "counter_blind I \<Longrightarrow> preserves I (qcow2_Stat X p)"
  unfolding qcow2_Stat_def by (intro pres)

lemma preserves_qcow2 [pres]:
  "counter_blind I \<Longrightarrow> preserves I (qcow2_Create X p n)"
  "counter_blind I \<Longrightarrow> preserves I (qcow2_Resize X p n)"
  "counter_blind I \<Longrightarrow> preserves I (qcow2_SnapshotCreate X p s)"
  "counter_blind I \<Longrightarrow> preserves I (qcow2_SnapshotDelete X p s)"
  "counter_blind I \<Longrightarrow> preserves I (qcow2_SnapshotApply X p s)"
  "counter_blind I \<Longrightarrow> preserves I (qcow2_Convert X p q s t)"
  unfolding qcow2_Create_def qcow2_Resize_def qcow2_SnapshotCreate_def qcow2_SnapshotDelete_def qcow2_SnapshotApply_def
    qcow2_Convert_def
  by (intro pres; assumption)+

lemma preserves_qcow2_CreateWithBacking [pres]:
  assumes "counter_blind I"
  shows "preserves I (qcow2_CreateWithBacking X p q n)" "preserves I (qcow2_Clone X p q)"
  unfolding qcow2_Clone_def qcow2_CreateWithBacking_def Let_def using assms by (intro pres; assumption)+

end
