(* ===== verification/StorageSvc.thy ===== *)
theory StorageSvc
  imports NetworkSvc Qcow2
begin

section \<open>The storage service: \<^verbatim>\<open>services/storage\<close>\<close>

text \<open>
  Pools, volumes and volume snapshots: repositories and service. A method that dereferences a pointer which may
  be nil returns an \<open>outcome\<close>: \<open>Panics\<close> is the nil dereference. The lemmas show that every method keeps \<open>db_ok\<close>,
  that no method panics on a database that satisfies its foreign keys, that a creation either completes
  (row, file, space accounted) or is rolled back, and what the capacity check guarantees.
\<close>

subsection \<open>Repositories: \<^verbatim>\<open>services/storage/postgres\<close>\<close>

definition storage_drivers :: "string list" where
  "storage_drivers = [''qcow2'', ''lvm_thin'', ''zfs'', ''nfs'', ''ceph'']"

definition StoragePoolRepository_Create :: "env \<Rightarrow> StoragePool \<Rightarrow> unit act" where
  "StoragePoolRepository_Create E p = sql E (uuid_arg E (sp_ID p) (\<lambda>i.
     if sp_Driver p \<notin> set storage_drivers then throw (bad_enum ''storage_driver'' (sp_Driver p))
     else require (\<lambda>w. i \<notin> sp_ID ` set (storage_pools w)) (unique_violation ''storage_pools_pkey'')
     (require (\<lambda>w. sp_Name p \<notin> sp_Name ` set (storage_pools w)) (unique_violation ''storage_pools_name_key'')
     (modify (\<lambda>w. w\<lparr>storage_pools := storage_pools w @ [p\<lparr>sp_ID := i\<rparr>]\<rparr>)))))"

definition StoragePoolRepository_GetByID :: "env \<Rightarrow> string \<Rightarrow> StoragePool option act" where
  "StoragePoolRepository_GetByID E ident = get_nil (sql E (uuid_arg E ident (\<lambda>i. select_one storage_pools (\<lambda>p. sp_ID p = i))))"

definition StoragePoolRepository_List :: "env \<Rightarrow> StoragePool list act" where
  "StoragePoolRepository_List E = sql E (gets (\<lambda>w. rev (storage_pools w)))"

definition StoragePoolRepository_Update :: "env \<Rightarrow> StoragePool \<Rightarrow> unit act" where
  "StoragePoolRepository_Update E p = sql E (uuid_arg E (sp_ID p) (\<lambda>i.
     if sp_Driver p \<notin> set storage_drivers then throw (bad_enum ''storage_driver'' (sp_Driver p))
     else require (\<lambda>w. i \<in> sp_ID ` set (storage_pools w) \<longrightarrow>
         sp_Name p \<notin> sp_Name ` set (filter (\<lambda>x. sp_ID x \<noteq> i) (storage_pools w))) (unique_violation ''storage_pools_name_key'')
     (modify (\<lambda>w. w\<lparr>storage_pools := update_where (\<lambda>x. sp_ID x = i) (\<lambda>x. p\<lparr>sp_ID := sp_ID x\<rparr>) (storage_pools w)\<rparr>))))"

definition VolumeRepository_Create :: "env \<Rightarrow> Volume \<Rightarrow> unit act" where
  "VolumeRepository_Create E v = sql E (uuid_arg E (vol_ID v) (\<lambda>i. uuid_arg E (vol_PoolID v) (\<lambda>p.
     require (\<lambda>w. i \<notin> vol_ID ` set (volumes w)) (unique_violation ''volumes_pkey'')
     (require (\<lambda>w. p \<in> sp_ID ` set (storage_pools w)) (fk_violation ''volumes_pool_id_fkey'')
     (modify (\<lambda>w. w\<lparr>volumes := volumes w @ [v\<lparr>vol_ID := i, vol_PoolID := p, vol_Snapshots := []\<rparr>]\<rparr>))))))"

definition listSnapshots :: "env \<Rightarrow> string \<Rightarrow> VolumeSnapshot list act" where
  "listSnapshots E volumeID = sql E (uuid_arg E volumeID (\<lambda>v. gets (\<lambda>w. filter (\<lambda>s. vs_VolumeID s = v) (volume_snapshots w))))"

definition VolumeRepository_GetByID :: "env \<Rightarrow> string \<Rightarrow> Volume option act" where
  "VolumeRepository_GetByID E ident =
     bindE (get_nil (sql E (uuid_arg E ident (\<lambda>i. select_one volumes (\<lambda>v. vol_ID v = i))))) (\<lambda>r.
       case r of
         None \<Rightarrow> ret None
       | Some v \<Rightarrow> bindE (listSnapshots E ident) (\<lambda>ss. ret (Some (v\<lparr>vol_Snapshots := ss\<rparr>))))"

definition volume_rows :: "env \<Rightarrow> VolumeFilter \<Rightarrow> Volume list act" where
  "volume_rows E f = sql E (uuid_cond E (vlf_PoolID f) (\<lambda>p. select_where volumes (\<lambda>v. cond_eq p (Some (vol_PoolID v)))))"

definition VolumeRepository_List :: "env \<Rightarrow> VolumeFilter \<Rightarrow> (Volume list \<times> int) act" where
  "VolumeRepository_List E f = raw_list (volume_rows E f) (vlf_Page f) (vlf_PerPage f)"

definition VolumeRepository_Update :: "env \<Rightarrow> Volume \<Rightarrow> unit act" where
  "VolumeRepository_Update E v = sql E (uuid_arg E (vol_ID v) (\<lambda>i.
     modify (\<lambda>w. w\<lparr>volumes := update_where (\<lambda>x. vol_ID x = i) (\<lambda>x. x\<lparr>vol_Name := vol_Name v, vol_SizeBytes := vol_SizeBytes v,
       vol_UsedBytes := vol_UsedBytes v, vol_Status := vol_Status v, vol_Encrypted := vol_Encrypted v,
       vol_Labels := vol_Labels v\<rparr>) (volumes w)\<rparr>)))"

definition VolumeRepository_Delete :: "env \<Rightarrow> string \<Rightarrow> unit act" where
  "VolumeRepository_Delete E ident = sql E (uuid_arg E ident (\<lambda>i.
     modify (\<lambda>w. w\<lparr>volumes := filter (\<lambda>v. vol_ID v \<noteq> i) (volumes w),
       volume_snapshots := filter (\<lambda>s. vs_VolumeID s \<noteq> i) (volume_snapshots w)\<rparr>)))"

definition volume_snapshot_states :: "string list" where
  "volume_snapshot_states = [''creating'', ''ready'', ''deleted'']"

definition VolumeSnapshotRepository_Create :: "env \<Rightarrow> VolumeSnapshot \<Rightarrow> unit act" where
  "VolumeSnapshotRepository_Create E s = sql E (uuid_arg E (vs_ID s) (\<lambda>i. uuid_arg E (vs_VolumeID s) (\<lambda>v.
     if vs_Status s \<notin> set volume_snapshot_states then throw (bad_enum ''snapshot_status'' (vs_Status s))
     else require (\<lambda>w. i \<notin> vs_ID ` set (volume_snapshots w)) (unique_violation ''volume_snapshots_pkey'')
     (require (\<lambda>w. v \<in> vol_ID ` set (volumes w)) (fk_violation ''volume_snapshots_volume_id_fkey'')
     (modify (\<lambda>w. w\<lparr>volume_snapshots := volume_snapshots w @ [s\<lparr>vs_ID := i, vs_VolumeID := v\<rparr>]\<rparr>))))))"

definition VolumeSnapshotRepository_GetByID :: "env \<Rightarrow> string \<Rightarrow> VolumeSnapshot option act" where
  "VolumeSnapshotRepository_GetByID E ident =
     get_nil (sql E (uuid_arg E ident (\<lambda>i. select_one volume_snapshots (\<lambda>s. vs_ID s = i))))"

definition VolumeSnapshotRepository_ListByVolume :: "env \<Rightarrow> string \<Rightarrow> VolumeSnapshot list act" where
  "VolumeSnapshotRepository_ListByVolume E volumeID =
     sql E (uuid_arg E volumeID (\<lambda>v. gets (\<lambda>w. filter (\<lambda>s. vs_VolumeID s = v) (volume_snapshots w))))"

definition VolumeSnapshotRepository_Delete :: "env \<Rightarrow> string \<Rightarrow> unit act" where
  "VolumeSnapshotRepository_Delete E ident = sql E (uuid_arg E ident (\<lambda>i.
     modify (\<lambda>w. w\<lparr>volume_snapshots := filter (\<lambda>s. vs_ID s \<noteq> i) (volume_snapshots w)\<rparr>)))"

definition VolumeSnapshotRepository_Update :: "env \<Rightarrow> VolumeSnapshot \<Rightarrow> unit act" where
  "VolumeSnapshotRepository_Update E s = sql E (uuid_arg E (vs_ID s) (\<lambda>i.
     if vs_Status s \<notin> set volume_snapshot_states then throw (bad_enum ''snapshot_status'' (vs_Status s))
     else modify (\<lambda>w. w\<lparr>volume_snapshots := update_where (\<lambda>x. vs_ID x = i)
       (\<lambda>x. x\<lparr>vs_Name := vs_Name s, vs_SizeBytes := vs_SizeBytes s, vs_Status := vs_Status s\<rparr>) (volume_snapshots w)\<rparr>)))"

subsection \<open>Service: \<^verbatim>\<open>services/storage/service.go\<close>\<close>

text \<open>Calls of the operating system that may fail: directories are not part of the model, files are.\<close>

definition os_MkdirAll :: "env \<Rightarrow> string \<Rightarrow> unit act" where
  "os_MkdirAll E path = (\<lambda>w. let w' = w\<lparr>cmd_no := Suc (cmd_no w)\<rparr> in
     case cmd_fault E (cmd_no w) of Some e \<Rightarrow> (Inl e, w') | None \<Rightarrow> (Inr (), w'))"

definition os_Remove :: "env \<Rightarrow> string \<Rightarrow> unit act" where
  "os_Remove E path = (\<lambda>w. let w' = w\<lparr>cmd_no := Suc (cmd_no w)\<rparr> in
     case cmd_fault E (cmd_no w) of Some e \<Rightarrow> (Inl e, w')
     | None \<Rightarrow> if files w path = None then (Inl (Msg (''remove '' @ path @ '': no such file or directory'')), w')
               else (Inr (), w'\<lparr>files := (files w')(path := None)\<rparr>))"

definition map_or_empty :: "gomap \<Rightarrow> gomap" where
  "map_or_empty m = (case m of None \<Rightarrow> Some Map.empty | Some f \<Rightarrow> Some f)"

definition CreatePool :: "env \<Rightarrow> CreatePoolRequest \<Rightarrow> StoragePool act" where
  "CreatePool E req =
     (if cp_Name req = '''' then throw (Msg ''name is required'')
      else if cp_Path req = '''' then throw (Msg ''path is required'')
      else
        bindE (wrapE ''create pool directory'' (os_MkdirAll E (cp_Path req))) (\<lambda>_.
        bindE (new_uuid E) (\<lambda>i.
        let pool = \<lparr>sp_ID = i, sp_Name = cp_Name req, sp_Driver = or_default (cp_Driver req) ''qcow2'', sp_Path = cp_Path req,
          sp_TotalBytes = 0, sp_UsedBytes = 0, sp_Encrypted = cp_Encrypted req, sp_Config = map_or_empty (cp_Config req)\<rparr> in
        bindE (wrapE ''create pool'' (StoragePoolRepository_Create E pool)) (\<lambda>_. ret pool))))"

definition GetPool :: "env \<Rightarrow> string \<Rightarrow> StoragePool option act" where
  "GetPool E ident = StoragePoolRepository_GetByID E ident"

definition ListPools :: "env \<Rightarrow> StoragePool list act" where
  "ListPools E = StoragePoolRepository_List E"

definition disk_path :: "StoragePool \<Rightarrow> string \<Rightarrow> string" where
  "disk_path pool volID = filepath_Join [sp_Path pool, volID @ ''.qcow2'']"

text \<open>The part of \<^verbatim>\<open>CreateVolume\<close> and \<^verbatim>\<open>CloneVolume\<close> after the insertion: \<open>mk\<close> writes the file; when that fails the row is deleted.\<close>

definition finish_volume :: "env \<Rightarrow> StoragePool \<Rightarrow> Volume \<Rightarrow> unit act \<Rightarrow> Volume act" where
  "finish_volume E pool vol mk =
     tryM mk (\<lambda>r. case r of
       Inl err \<Rightarrow> ignoreE (VolumeRepository_Delete E (vol_ID vol)) (throw err)
     | Inr _ \<Rightarrow>
         let vol' = vol\<lparr>vol_Status := VolumeStatusAvailable\<rparr> in
         bindE (wrapE ''update volume status'' (VolumeRepository_Update E vol')) (\<lambda>_.
         ignoreE (StoragePoolRepository_Update E (pool\<lparr>sp_UsedBytes := wrap64 (sp_UsedBytes pool + vol_SizeBytes vol)\<rparr>)) (ret vol')))"

definition volume_of_request :: "CreateVolumeRequest \<Rightarrow> string \<Rightarrow> Volume" where
  "volume_of_request req i = \<lparr>vol_ID = i, vol_Name = cvr_Name req, vol_PoolID = cvr_PoolID req, vol_SizeBytes = cvr_SizeBytes req,
     vol_UsedBytes = 0, vol_Status = VolumeStatusCreating, vol_Encrypted = cvr_Encrypted req,
     vol_Labels = map_or_empty (cvr_Labels req), vol_Snapshots = []\<rparr>"

definition pool_full :: "StoragePool \<Rightarrow> int \<Rightarrow> bool" where
  "pool_full pool sizeBytes \<longleftrightarrow> wrap64 (sp_UsedBytes pool + sizeBytes) > sp_TotalBytes pool \<and> sp_TotalBytes pool > 0"

definition CreateVolume :: "env \<Rightarrow> exec \<Rightarrow> CreateVolumeRequest \<Rightarrow> Volume act" where
  "CreateVolume E X req =
     (if cvr_Name req = '''' then throw (Msg ''name is required'')
      else if cvr_PoolID req = '''' then throw (Msg ''pool_id is required'')
      else if cvr_SizeBytes req \<le> 0 then throw (Msg ''size_bytes must be positive'')
      else
        bindE (must_find ''get pool'' ''pool not found'' (StoragePoolRepository_GetByID E (cvr_PoolID req))) (\<lambda>pool.
        if pool_full pool (cvr_SizeBytes req) then throw (Msg ''insufficient space in pool'')
        else
          bindE (new_uuid E) (\<lambda>i.
          let vol = volume_of_request req i in
          bindE (wrapE ''create volume'' (VolumeRepository_Create E vol)) (\<lambda>_.
          finish_volume E pool vol (qcow2_Create X (disk_path pool i) (cvr_SizeBytes req))))))"

definition GetVolume :: "env \<Rightarrow> string \<Rightarrow> Volume option act" where
  "GetVolume E ident = VolumeRepository_GetByID E ident"

definition ListVolumes :: "env \<Rightarrow> VolumeFilter \<Rightarrow> (Volume list \<times> int) act" where
  "ListVolumes E f = VolumeRepository_List E
     (f\<lparr>vlf_Page := (if vlf_Page f \<le> 0 then 1 else vlf_Page f), vlf_PerPage := (if vlf_PerPage f \<le> 0 then 20 else vlf_PerPage f)\<rparr>)"

definition DeleteVolume :: "env \<Rightarrow> string \<Rightarrow> bool \<Rightarrow> unit act" where
  "DeleteVolume E ident force =
     bindE (must_find ''get volume'' ''volume not found'' (VolumeRepository_GetByID E ident)) (\<lambda>vol.
     if \<not> force \<and> vol_Status vol = VolumeStatusInUse then throw (Msg ''volume is in use, use force to delete'')
     else
       tryM (StoragePoolRepository_GetByID E (vol_PoolID vol)) (\<lambda>r.
       bindE (case r of
           Inr (Some pool) \<Rightarrow> ignoreE (os_Remove E (disk_path pool (vol_ID vol))) (ret ())
         | _ \<Rightarrow> ret ()) (\<lambda>_.
       VolumeRepository_Delete E ident)))"

text \<open>\<open>deref p msg k\<close>: the use of a pointer that may be nil.\<close>

definition deref :: "'r option \<Rightarrow> string \<Rightarrow> ('r \<Rightarrow> 'a outcome act) \<Rightarrow> 'a outcome act" where
  "deref p msg k = (case p of None \<Rightarrow> ret (Panics msg) | Some x \<Rightarrow> k x)"

definition outcome_of :: "'a act \<Rightarrow> 'a outcome act" where
  "outcome_of m = bindE m (\<lambda>x. ret (Returns x))"

definition resized_usage :: "int \<Rightarrow> int \<Rightarrow> int \<Rightarrow> int" where
  "resized_usage used old new =
     (if new > old then wrap64 (used + wrap64 (new - old))
      else let u = wrap64 (used - wrap64 (old - new)) in if u < 0 then 0 else u)"

definition ResizeVolume :: "env \<Rightarrow> exec \<Rightarrow> string \<Rightarrow> int \<Rightarrow> Volume outcome act" where
  "ResizeVolume E X ident sizeBytes =
     (if sizeBytes \<le> 0 then throw (Msg ''size_bytes must be positive'')
      else
        bindE (must_find ''get volume'' ''volume not found'' (VolumeRepository_GetByID E ident)) (\<lambda>vol.
        bindE (wrapE ''get pool'' (StoragePoolRepository_GetByID E (vol_PoolID vol))) (\<lambda>p.
        deref p ''pool'' (\<lambda>pool.
        bindE (qcow2_Resize X (disk_path pool (vol_ID vol)) sizeBytes) (\<lambda>_.
        ignoreE (StoragePoolRepository_Update E (pool\<lparr>sp_UsedBytes := resized_usage (sp_UsedBytes pool) (vol_SizeBytes vol) sizeBytes\<rparr>))
        (let vol' = vol\<lparr>vol_SizeBytes := sizeBytes\<rparr> in
         bindE (wrapE ''update volume'' (VolumeRepository_Update E vol')) (\<lambda>_. ret (Returns vol'))))))))"

definition CloneVolume :: "env \<Rightarrow> exec \<Rightarrow> string \<Rightarrow> string \<Rightarrow> Volume outcome act" where
  "CloneVolume E X ident name =
     (if name = '''' then throw (Msg ''name is required'')
      else
        bindE (must_find ''get source volume'' ''source volume not found'' (VolumeRepository_GetByID E ident)) (\<lambda>srcVol.
        bindE (wrapE ''get pool'' (StoragePoolRepository_GetByID E (vol_PoolID srcVol))) (\<lambda>p.
        bindE (new_uuid E) (\<lambda>i.
        let newVol = \<lparr>vol_ID = i, vol_Name = name, vol_PoolID = vol_PoolID srcVol, vol_SizeBytes = vol_SizeBytes srcVol,
          vol_UsedBytes = 0, vol_Status = VolumeStatusCreating, vol_Encrypted = vol_Encrypted srcVol,
          vol_Labels = Some Map.empty, vol_Snapshots = []\<rparr> in
        bindE (wrapE ''create volume'' (VolumeRepository_Create E newVol)) (\<lambda>_.
        deref p ''pool'' (\<lambda>pool.
        outcome_of (finish_volume E pool newVol (qcow2_Clone X (disk_path pool (vol_ID srcVol)) (disk_path pool i)))))))))"

definition storage_CreateSnapshot :: "env \<Rightarrow> exec \<Rightarrow> string \<Rightarrow> string \<Rightarrow> VolumeSnapshot outcome act" where
  "storage_CreateSnapshot E X volumeID name =
     (if volumeID = '''' then throw (Msg ''volume_id is required'')
      else if name = '''' then throw (Msg ''name is required'')
      else
        bindE (must_find ''get volume'' ''volume not found'' (VolumeRepository_GetByID E volumeID)) (\<lambda>vol.
        bindE (wrapE ''get pool'' (StoragePoolRepository_GetByID E (vol_PoolID vol))) (\<lambda>p.
        bindE (new_uuid E) (\<lambda>i.
        let snap = \<lparr>vs_ID = i, vs_VolumeID = volumeID, vs_Name = name, vs_SizeBytes = 0, vs_Status = ''creating''\<rparr> in
        bindE (wrapE ''create snapshot'' (VolumeSnapshotRepository_Create E snap)) (\<lambda>_.
        deref p ''pool'' (\<lambda>pool.
        tryM (qcow2_SnapshotCreate X (disk_path pool (vol_ID vol)) name) (\<lambda>r. case r of
          Inl err \<Rightarrow> ignoreE (VolumeSnapshotRepository_Delete E i) (throw err)
        | Inr _ \<Rightarrow>
            let snap' = snap\<lparr>vs_Status := ''ready''\<rparr> in
            bindE (wrapE ''update snapshot'' (VolumeSnapshotRepository_Update E snap')) (\<lambda>_. ret (Returns snap')))))))))"

text \<open>The volume and pool of a snapshot, as \<^verbatim>\<open>DeleteSnapshot\<close> and \<^verbatim>\<open>RestoreSnapshot\<close> find them.\<close>

definition with_snapshot :: "env \<Rightarrow> string \<Rightarrow> (VolumeSnapshot \<Rightarrow> Volume \<Rightarrow> StoragePool \<Rightarrow> 'a outcome act) \<Rightarrow> 'a outcome act" where
  "with_snapshot E ident k =
     bindE (must_find ''get snapshot'' ''snapshot not found'' (VolumeSnapshotRepository_GetByID E ident)) (\<lambda>snap.
     bindE (wrapE ''get volume'' (VolumeRepository_GetByID E (vs_VolumeID snap))) (\<lambda>v.
     deref v ''volume'' (\<lambda>vol.
     bindE (wrapE ''get pool'' (StoragePoolRepository_GetByID E (vol_PoolID vol))) (\<lambda>p.
     deref p ''pool'' (\<lambda>pool. k snap vol pool)))))"

definition storage_DeleteSnapshot :: "env \<Rightarrow> exec \<Rightarrow> string \<Rightarrow> unit outcome act" where
  "storage_DeleteSnapshot E X ident = with_snapshot E ident (\<lambda>snap vol pool.
     bindE (qcow2_SnapshotDelete X (disk_path pool (vol_ID vol)) (vs_Name snap)) (\<lambda>_.
     outcome_of (VolumeSnapshotRepository_Delete E ident)))"

definition storage_RestoreSnapshot :: "env \<Rightarrow> exec \<Rightarrow> string \<Rightarrow> Volume outcome act" where
  "storage_RestoreSnapshot E X snapshotID = with_snapshot E snapshotID (\<lambda>snap vol pool.
     bindE (qcow2_SnapshotApply X (disk_path pool (vol_ID vol)) (vs_Name snap)) (\<lambda>_. ret (Returns vol)))"

subsection \<open>Every method keeps the constraints\<close>

lemma preserves_deref [pres]: "(\<And>x. preserves I (k x)) \<Longrightarrow> preserves I (deref p msg k)"
  unfolding deref_def by (intro pres)

lemma preserves_outcome_of [pres]: "preserves I m \<Longrightarrow> preserves I (outcome_of m)"
  unfolding outcome_of_def by (intro pres)

lemma preserves_os [pres]: "counter_blind I \<Longrightarrow> preserves I (os_MkdirAll E p)" "counter_blind I \<Longrightarrow> preserves I (os_Remove E p)"
  by (auto simp: preserves_def os_MkdirAll_def os_Remove_def counter_blind_def Let_def split: option.split)

lemma preserves_storage_reads [pres]:
  "counter_blind I \<Longrightarrow> preserves I (StoragePoolRepository_GetByID E i)"
  "counter_blind I \<Longrightarrow> preserves I (StoragePoolRepository_List E)"
  "counter_blind I \<Longrightarrow> preserves I (listSnapshots E i)"
  "counter_blind I \<Longrightarrow> preserves I (volume_rows E vf)"
  "counter_blind I \<Longrightarrow> preserves I (VolumeSnapshotRepository_GetByID E i)"
  "counter_blind I \<Longrightarrow> preserves I (VolumeSnapshotRepository_ListByVolume E i)"
  unfolding StoragePoolRepository_GetByID_def StoragePoolRepository_List_def listSnapshots_def volume_rows_def
    VolumeSnapshotRepository_GetByID_def VolumeSnapshotRepository_ListByVolume_def
  by (intro pres; assumption)+

lemma preserves_storage_reads_2 [pres]:
  "counter_blind I \<Longrightarrow> preserves I (VolumeRepository_GetByID E i)"
  "counter_blind I \<Longrightarrow> preserves I (VolumeRepository_List E vf)"
  unfolding VolumeRepository_GetByID_def VolumeRepository_List_def by (intro pres; assumption)+

lemma distinct_update_key:
  assumes "distinct (map key rs)" "distinct (map idf rs)" "i \<in> idf ` set rs \<longrightarrow> k \<notin> key ` set (filter (\<lambda>x. idf x \<noteq> i) rs)"
    and "\<And>x. key (f x) = k"
  shows "distinct (map key (update_where (\<lambda>x. idf x = i) f rs))"
  using assms(1-3)
proof (induction rs)
  case Nil
  then show ?case by (simp add: update_where_def)
next
  case (Cons r rs)
  have upd: "key ` set (update_where (\<lambda>x. idf x = i) f rs) \<subseteq> insert k (key ` set rs)" if "i \<in> idf ` set rs"
    using assms(4) by (auto simp: update_where_def)
  have same: "update_where (\<lambda>x. idf x = i) f rs = rs" if "i \<notin> idf ` set rs"
    using that by (induction rs) (auto simp: update_where_def)
  have head: "update_where (\<lambda>x. idf x = i) f (r # rs) = (if idf r = i then f r else r) # update_where (\<lambda>x. idf x = i) f rs"
    by (simp add: update_where_def)
  show ?case
  proof (cases "idf r = i")
    case True
    have "i \<notin> idf ` set rs"
      using True Cons.prems(2) by simp
    then have "filter (\<lambda>x. idf x \<noteq> i) rs = rs"
      by (auto simp: filter_id_conv)
    then show ?thesis
      using True Cons.prems same [OF \<open>i \<notin> idf ` set rs\<close>] by (simp add: head assms(4))
  next
    case False
    then show ?thesis
      using Cons upd same by (cases "i \<in> idf ` set rs") (auto simp: head)
  qed
qed

lemma db_StoragePool_writes [pres]:
  "preserves db_ok (StoragePoolRepository_Create E p)"
  "preserves db_ok (StoragePoolRepository_Update E p)"
proof -
  show "preserves db_ok (StoragePoolRepository_Create E p)"
    unfolding StoragePoolRepository_Create_def
    by (intro pres; (rule preservesI)?) (auto simp: require_def db_defs intro!: pres)
  show "preserves db_ok (StoragePoolRepository_Update E p)"
    unfolding StoragePoolRepository_Update_def
  proof (intro pres require_modify)
    fix c w assume "db_ok w" and "c \<in> sp_ID ` set (storage_pools w) \<longrightarrow>
        sp_Name p \<notin> sp_Name ` set (filter (\<lambda>x. sp_ID x \<noteq> c) (storage_pools w))"
    then show "db_ok (w\<lparr>storage_pools := update_where (\<lambda>x. sp_ID x = c) (\<lambda>x. p\<lparr>sp_ID := sp_ID x\<rparr>) (storage_pools w)\<rparr>)"
      using distinct_update_key [of sp_Name "storage_pools w" sp_ID c "sp_Name p" "\<lambda>x. p\<lparr>sp_ID := sp_ID x\<rparr>"]
      by (simp add: db_defs)
  qed
qed

lemma db_Volume_writes [pres]:
  "preserves db_ok (VolumeRepository_Create E v)"
  "preserves db_ok (VolumeRepository_Update E v)"
  "preserves db_ok (VolumeRepository_Delete E i)"
  "preserves db_ok (VolumeSnapshotRepository_Create E s)"
  "preserves db_ok (VolumeSnapshotRepository_Update E s)"
  "preserves db_ok (VolumeSnapshotRepository_Delete E i)"
  unfolding VolumeRepository_Create_def VolumeRepository_Update_def VolumeRepository_Delete_def
    VolumeSnapshotRepository_Create_def VolumeSnapshotRepository_Update_def VolumeSnapshotRepository_Delete_def
  by (intro pres; (rule preservesI)?, (auto simp: require_def db_defs distinct_map_filterI intro!: pres image_filterI)[1])+

lemma db_finish_volume [pres]: "preserves db_ok m \<Longrightarrow> preserves db_ok (finish_volume E pool v m)"
  unfolding finish_volume_def Let_def by (intro pres)

lemma db_with_snapshot [pres]: "(\<And>s v p. preserves db_ok (k s v p)) \<Longrightarrow> preserves db_ok (with_snapshot E i k)"
  unfolding with_snapshot_def by (intro pres)

lemma db_storage_service [pres]:
  "preserves db_ok (CreatePool E preq)" "preserves db_ok (GetPool E i)" "preserves db_ok (ListPools E)"
  "preserves db_ok (CreateVolume E X req)" "preserves db_ok (GetVolume E i)" "preserves db_ok (ListVolumes E vf)"
  "preserves db_ok (DeleteVolume E i b)" "preserves db_ok (ResizeVolume E X i n)" "preserves db_ok (CloneVolume E X i s)"
  "preserves db_ok (storage_CreateSnapshot E X i s)" "preserves db_ok (storage_DeleteSnapshot E X i)"
  "preserves db_ok (storage_RestoreSnapshot E X i)"
  unfolding CreatePool_def GetPool_def ListPools_def CreateVolume_def GetVolume_def ListVolumes_def DeleteVolume_def
    ResizeVolume_def CloneVolume_def storage_CreateSnapshot_def storage_DeleteSnapshot_def storage_RestoreSnapshot_def Let_def
  by (intro pres)+

subsection \<open>No nil dereference\<close>

text \<open>
  \<open>refs_canonical\<close>: a foreign key column holds the server's spelling. \<open>faults_genuine\<close>: a failure of the server is not
  the answer that there is no row.
\<close>

definition refs_canonical :: "env \<Rightarrow> world \<Rightarrow> bool" where
  "refs_canonical E w \<longleftrightarrow> (\<forall>v\<in>set (volumes w). uuid_parse E (vol_PoolID v) = Some (vol_PoolID v)) \<and>
     (\<forall>s\<in>set (volume_snapshots w). uuid_parse E (vs_VolumeID s) = Some (vs_VolumeID s))"

definition faults_genuine :: "env \<Rightarrow> bool" where
  "faults_genuine E \<longleftrightarrow> (\<forall>n. db_fault E n \<noteq> Some ErrNoRows)"

lemma get_nil_result:
  assumes "faults_genuine E" "get_nil (sql E (uuid_arg E s (\<lambda>i. select_one tbl (\<lambda>r. key r = i)))) w = (Inr x, w')"
    and "\<And>w n. tbl (w\<lparr>stmt_no := n\<rparr>) = tbl w"
  shows "\<exists>c. uuid_parse E s = Some c \<and> x = by_id key (tbl w) c \<and> w' = w\<lparr>stmt_no := Suc (stmt_no w)\<rparr>"
  using assms
  by (auto simp: get_nil_def tryM_iff sql_def uuid_arg_def select_one_def by_id_def Let_def faults_genuine_def bad_uuid_def
      split: option.splits if_splits)

lemma GetVolume_result:
  assumes "faults_genuine E" "VolumeRepository_GetByID E i w = (Inr (Some v), w')"
  shows "\<exists>r\<in>set (volumes w). vol_PoolID v = vol_PoolID r \<and> vol_ID v = vol_ID r \<and> vol_Status v = vol_Status r \<and> (\<exists>n. w' = w\<lparr>stmt_no := n\<rparr>)"
proof -
  obtain x w1 where q: "get_nil (sql E (uuid_arg E i (\<lambda>i. select_one volumes (\<lambda>v. vol_ID v = i)))) w = (Inr (Some x), w1)"
    and rest: "bindE (listSnapshots E i) (\<lambda>ss. ret (Some (x\<lparr>vol_Snapshots := ss\<rparr>))) w1 = (Inr (Some v), w')"
    using assms(2) unfolding VolumeRepository_GetByID_def by (auto simp: op_Inr_iff split: option.splits)
  obtain c where "by_id vol_ID (volumes w) c = Some x" "w1 = w\<lparr>stmt_no := Suc (stmt_no w)\<rparr>"
    using get_nil_result [OF assms(1) q] by auto
  moreover have "x \<in> set (volumes w)"
    using calculation(1) find_key_Some by (fastforce simp: by_id_def)
  ultimately show ?thesis
    using rest by (auto simp: op_Inr_iff listSnapshots_def sql_Inr_iff uuid_arg_Inr_iff intro!: bexI [of _ x])
qed

lemma GetPool_of_volume:
  assumes "faults_genuine E" "db_ok w" "refs_canonical E w" "r \<in> set (volumes w)"
    and "StoragePoolRepository_GetByID E (vol_PoolID r) (w\<lparr>stmt_no := n\<rparr>) = (Inr p, w')"
  shows "\<exists>pool. p = Some pool"
proof -
  have "p = by_id sp_ID (storage_pools w) (vol_PoolID r)"
    using get_nil_result [OF assms(1) assms(5) [unfolded StoragePoolRepository_GetByID_def]] assms(3,4)
    by (auto simp: refs_canonical_def)
  moreover have "vol_PoolID r \<in> sp_ID ` set (storage_pools w)"
    using assms(2,4) by (simp add: db_ok_def refs_ok_def)
  ultimately show ?thesis
    by (metis by_id_None option.exhaust)
qed

lemma volume_pool_found:
  assumes "faults_genuine E" "db_ok w" "refs_canonical E w"
    and "VolumeRepository_GetByID E i w = (Inr (Some v), w1)" "StoragePoolRepository_GetByID E (vol_PoolID v) w1 = (Inr p, w2)"
  shows "\<exists>pool. p = Some pool"
proof -
  obtain r n where "r \<in> set (volumes w)" "vol_PoolID v = vol_PoolID r" "w1 = w\<lparr>stmt_no := n\<rparr>"
    using GetVolume_result [OF assms(1,4)] by auto
  then show ?thesis
    using GetPool_of_volume [OF assms(1-3)] assms(5) by simp
qed

lemma must_find_Inr_iff: "must_find p msg m w = (Inr x, w') \<longleftrightarrow> m w = (Inr (Some x), w')"
  by (auto simp: must_find_def op_Inr_iff split: option.splits)

definition panics :: "(error + 'a outcome) \<times> world \<Rightarrow> bool" where
  "panics r \<longleftrightarrow> (\<exists>msg. fst r = Inr (Panics msg))"

lemma panics_bindE: "panics (bindE m f w) \<Longrightarrow> \<exists>a w'. m w = (Inr a, w') \<and> panics (f a w')"
  by (auto simp: panics_def bindE_apply split: prod.splits sum.splits)

lemma panics_finish [simp]: "\<not> panics (outcome_of m w)" "\<not> panics (throw e w)" "\<not> panics (ret (Returns x) w)"
  by (auto simp: panics_def outcome_of_def bindE_apply split: prod.splits sum.splits)

lemma panics_tryM: "panics (tryM m f w) \<Longrightarrow> \<exists>q w'. m w = (q, w') \<and> panics (f q w')"
  by (auto simp: tryM_apply split: prod.splits)

lemma panics_deref: "panics (deref p msg k w) \<Longrightarrow> p = Some x \<Longrightarrow> panics (k x w)"
  by (simp add: deref_def)

lemmas panics_elims = panics_bindE [THEN exE] panics_tryM [THEN exE]

lemma stmt_blind:
  "db_ok (w\<lparr>stmt_no := n\<rparr>) = db_ok w" "refs_canonical E (w\<lparr>stmt_no := n\<rparr>) = refs_canonical E w"
  by (simp_all add: db_defs refs_canonical_def)

lemma snapshot_volume_found:
  assumes "faults_genuine E" "db_ok w" "refs_canonical E w"
    and "VolumeSnapshotRepository_GetByID E i w = (Inr (Some s), w1)" "VolumeRepository_GetByID E (vs_VolumeID s) w1 = (Inr v, w2)"
  shows "(\<exists>vol. v = Some vol) \<and> db_ok w1 \<and> refs_canonical E w1"
proof -
  obtain c where "by_id vs_ID (volume_snapshots w) c = Some s" and w1: "w1 = w\<lparr>stmt_no := Suc (stmt_no w)\<rparr>"
    using get_nil_result [OF assms(1) assms(4) [unfolded VolumeSnapshotRepository_GetByID_def]] by auto
  then have s: "s \<in> set (volume_snapshots w)"
    using find_key_Some by (fastforce simp: by_id_def)
  obtain x w3 where q: "get_nil (sql E (uuid_arg E (vs_VolumeID s) (\<lambda>i. select_one volumes (\<lambda>v. vol_ID v = i)))) w1 = (Inr x, w3)"
    and rest: "x \<noteq> None \<Longrightarrow> v \<noteq> None"
    using assms(5) unfolding VolumeRepository_GetByID_def by (auto simp: op_Inr_iff split: option.splits)
  have "x = by_id vol_ID (volumes w) (vs_VolumeID s)"
    using get_nil_result [OF assms(1) q] assms(3) s w1 by (auto simp: refs_canonical_def)
  moreover have "vs_VolumeID s \<in> vol_ID ` set (volumes w)"
    using assms(2) s by (simp add: db_ok_def refs_ok_def)
  ultimately have "x \<noteq> None"
    by (simp add: by_id_None)
  then show ?thesis
    using rest w1 assms(2,3) by (auto simp: stmt_blind)
qed

lemma with_snapshot_no_panic:
  assumes "faults_genuine E" "db_ok w" "refs_canonical E w" "\<And>s v p w. \<not> panics (k s v p w)"
  shows "\<not> panics (with_snapshot E i k w)"
proof
  assume "panics (with_snapshot E i k w)"
  then obtain s w1 v w2 where s: "VolumeSnapshotRepository_GetByID E i w = (Inr (Some s), w1)"
    and v: "VolumeRepository_GetByID E (vs_VolumeID s) w1 = (Inr v, w2)"
    and rest: "panics (deref v ''volume'' (\<lambda>vol. bindE (wrapE ''get pool'' (StoragePoolRepository_GetByID E (vol_PoolID vol))) (\<lambda>p.
     deref p ''pool'' (\<lambda>pool. k s vol pool))) w2)"
    unfolding with_snapshot_def by (auto dest!: panics_bindE simp: must_find_Inr_iff wrapE_Inr_iff)
  obtain vol where vol: "v = Some vol" and w1: "db_ok w1" "refs_canonical E w1"
    using snapshot_volume_found [OF assms(1-3) s v] by blast
  obtain p w3 where p: "StoragePoolRepository_GetByID E (vol_PoolID vol) w2 = (Inr p, w3)" "panics (deref p ''pool'' (\<lambda>pool. k s vol pool) w3)"
    using panics_deref [OF rest vol] by (auto dest!: panics_bindE simp: wrapE_Inr_iff)
  obtain pool where "p = Some pool"
    using volume_pool_found [OF assms(1) w1 _ p(1)] v vol by blast
  then show False
    using p(2) assms(4) by (simp add: deref_def)
qed

lemma with_pool_no_panic:
  assumes "faults_genuine E" "db_ok w" "refs_canonical E w" "\<And>v pool w. \<not> panics (k v (Some pool) w)"
  shows "\<not> panics (bindE (must_find p1 msg (VolumeRepository_GetByID E i)) (\<lambda>v.
    bindE (wrapE p2 (StoragePoolRepository_GetByID E (vol_PoolID v))) (k v)) w)"
proof
  assume "panics (bindE (must_find p1 msg (VolumeRepository_GetByID E i)) (\<lambda>v.
    bindE (wrapE p2 (StoragePoolRepository_GetByID E (vol_PoolID v))) (k v)) w)"
  then obtain v w1 p w2 where "VolumeRepository_GetByID E i w = (Inr (Some v), w1)"
    "StoragePoolRepository_GetByID E (vol_PoolID v) w1 = (Inr p, w2)" and rest: "panics (k v p w2)"
    by (auto dest!: panics_bindE simp: must_find_Inr_iff wrapE_Inr_iff)
  then obtain pool where "p = Some pool"
    using volume_pool_found [OF assms(1-3)] by blast
  then show False
    using rest assms(4) by simp
qed

lemma if_throw_no_panic: "\<not> panics (m w) \<Longrightarrow> \<not> panics ((if b then throw e else m) w)"
  by (simp add: panics_def)

lemma no_panic_parts:
  "(\<And>a w. \<not> panics (f a w)) \<Longrightarrow> \<not> panics (bindE m f w)"
  "(\<And>q w. \<not> panics (g q w)) \<Longrightarrow> \<not> panics (tryM n g w)"
  "(\<And>w. \<not> panics (h w)) \<Longrightarrow> \<not> panics (ignoreE n h w)"
  by (auto dest: panics_bindE panics_tryM simp: ignoreE_def)

lemma no_panic_case: "(\<And>e. \<not> panics (f e w)) \<Longrightarrow> (\<And>x. \<not> panics (g x w)) \<Longrightarrow> \<not> panics ((case r of Inl e \<Rightarrow> f e | Inr x \<Rightarrow> g x) w)"
  by (cases r) auto

lemmas no_panic = no_panic_parts no_panic_case panics_finish


subsection \<open>Creating a volume\<close>

definition stored_volume :: "env \<Rightarrow> Volume \<Rightarrow> Volume" where
  "stored_volume E v = v\<lparr>vol_ID := canon E (vol_ID v), vol_PoolID := canon E (vol_PoolID v), vol_Snapshots := []\<rparr>"

definition pools_valid :: "env \<Rightarrow> world \<Rightarrow> bool" where
  "pools_valid E w \<longleftrightarrow> (\<forall>p\<in>set (storage_pools w). uuid_parse E (sp_ID p) = Some (sp_ID p) \<and> sp_Driver p \<in> set storage_drivers)"

lemma qcow2_Create_run:
  "qcow2_Create X path n w = (case X (cmd_no w) [''qemu-img'', ''create'', ''-f'', ''qcow2'', path, formatSize n] (files w) of
     (err, out, fs) \<Rightarrow> (case err of
         None \<Rightarrow> Inr ()
       | Some e \<Rightarrow> Inl (Msg (''qemu-img create: '' @ Error e @ '': '' @ output_text out)), w\<lparr>cmd_no := Suc (cmd_no w), files := fs\<rparr>))"
  by (simp add: qcow2_Create_def run_or_def exec_command_def bindE_apply split: prod.split option.split)

lemma VolumeRepository_Create_result:
  assumes "VolumeRepository_Create E v w = (r, w')"
  shows "case r of Inl _ \<Rightarrow> w' = w\<lparr>stmt_no := Suc (stmt_no w)\<rparr>
    | Inr _ \<Rightarrow> w' = w\<lparr>stmt_no := Suc (stmt_no w), volumes := volumes w @ [stored_volume E v]\<rparr> \<and>
        canon E (vol_ID v) \<notin> vol_ID ` set (volumes w)"
  using assms
  by (auto simp: VolumeRepository_Create_def sql_def uuid_arg_def require_def Let_def stored_volume_def canon_def
      split: option.splits if_splits)

lemma VolumeRepository_Delete_new:
  assumes "healthy E" "uuid_parse E i = Some i" "i \<notin> vol_ID ` set vs" "vol_ID v = i" "\<forall>s\<in>set ss. vs_VolumeID s \<noteq> i"
    and "volumes w = vs @ [v]" "volume_snapshots w = ss"
  shows "\<exists>w'. VolumeRepository_Delete E i w = (Inr (), w') \<and>
    volumes w' = vs \<and> volume_snapshots w' = ss \<and> storage_pools w' = storage_pools w"
proof -
  have "filter (\<lambda>v. vol_ID v \<noteq> i) vs = vs" "filter (\<lambda>s. vs_VolumeID s \<noteq> i) ss = ss"
    using assms(3,5) by (auto simp: filter_id_conv)
  then show ?thesis
    using assms(4,6,7) by (simp add: VolumeRepository_Delete_def sql_healthy [OF assms(1)] uuid_arg_ok [OF assms(2)])
qed

lemma VolumeRepository_Update_new:
  assumes "healthy E" "uuid_parse E i = Some i" "i \<notin> vol_ID ` set vs" "vol_ID v = i" "volumes w = vs @ [stored_volume E v]"
  shows "VolumeRepository_Update E (v\<lparr>vol_Status := st\<rparr>) w =
    (Inr (), w\<lparr>stmt_no := Suc (stmt_no w), volumes := vs @ [stored_volume E (v\<lparr>vol_Status := st\<rparr>)]\<rparr>)"
proof -
  have "update_where (\<lambda>x. vol_ID x = i) f vs = vs" for f
    using assms(3) by (induction vs) (auto simp: update_where_def)
  then show ?thesis
    using assms(2,4,5)
    by (simp add: VolumeRepository_Update_def sql_healthy [OF assms(1)] uuid_arg_def update_where_def stored_volume_def canon_def)
qed

lemma StoragePoolRepository_Update_used:
  assumes "healthy E" "db_ok w" "pools_valid E w" "pool \<in> set (storage_pools w)" "storage_pools v = storage_pools w"
  shows "StoragePoolRepository_Update E (pool\<lparr>sp_UsedBytes := u\<rparr>) v = (Inr (), v\<lparr>stmt_no := Suc (stmt_no v),
    storage_pools := update_where (\<lambda>p. sp_ID p = sp_ID pool) (\<lambda>p. p\<lparr>sp_UsedBytes := u\<rparr>) (storage_pools w)\<rparr>)"
proof -
  have ids: "distinct (map sp_ID (storage_pools w))" and names: "distinct (map sp_Name (storage_pools w))"
    using assms(2) by (simp_all add: db_ok_def ids_ok_def unique_ok_def)
  have same: "x = pool" if "x \<in> set (storage_pools w)" "sp_ID x = sp_ID pool" for x
    using ids assms(4) that by (simp add: distinct_map inj_on_def)
  have "update_where (\<lambda>p. sp_ID p = sp_ID pool) (\<lambda>x. pool\<lparr>sp_UsedBytes := u, sp_ID := sp_ID x\<rparr>) (storage_pools w) =
      update_where (\<lambda>p. sp_ID p = sp_ID pool) (\<lambda>p. p\<lparr>sp_UsedBytes := u\<rparr>) (storage_pools w)"
    using same by (auto simp: update_where_def)
  moreover have "sp_Name pool \<notin> sp_Name ` set (filter (\<lambda>x. sp_ID x \<noteq> sp_ID pool) (storage_pools w))"
    using names assms(4) by (auto simp: distinct_map inj_on_def)
  moreover have "uuid_parse E (sp_ID pool) = Some (sp_ID pool)" "sp_Driver pool \<in> set storage_drivers"
    using assms(3,4) by (simp_all add: pools_valid_def)
  ultimately show ?thesis
    using assms(5) by (simp add: StoragePoolRepository_Update_def sql_healthy [OF assms(1)] uuid_arg_def require_def)
qed

lemma healthy_genuine: "healthy E \<Longrightarrow> faults_genuine E"
  by (simp add: healthy_def faults_genuine_def)

lemma pool_found:
  assumes "healthy E" "must_find p msg (StoragePoolRepository_GetByID E i) w = (Inr pool, w')"
  shows "by_id sp_ID (storage_pools w) (canon E i) = Some pool \<and> pool \<in> set (storage_pools w) \<and> w' = w\<lparr>stmt_no := Suc (stmt_no w)\<rparr>"
proof -
  obtain c where "uuid_parse E i = Some c" "by_id sp_ID (storage_pools w) c = Some pool" "w' = w\<lparr>stmt_no := Suc (stmt_no w)\<rparr>"
    using get_nil_result [OF healthy_genuine [OF assms(1)], of i storage_pools sp_ID w "Some pool" w'] assms(2)
    by (auto simp: must_find_Inr_iff StoragePoolRepository_GetByID_def)
  then show ?thesis
    using find_key_Some by (fastforce simp: by_id_def canon_def)
qed

lemma must_find_fails:
  assumes "must_find p msg (StoragePoolRepository_GetByID E i) w = (Inl e, w')"
  shows "w' = w\<lparr>stmt_no := Suc (stmt_no w)\<rparr>"
  using assms
  by (auto simp: must_find_def StoragePoolRepository_GetByID_def get_nil_def op_apply sql_def uuid_arg_def select_one_def Let_def
      split: option.splits if_splits prod.splits sum.splits)

text \<open>The outcome of a creation once the row \<open>stored_volume E vol\<close> with the new id is the last of the table.\<close>

lemma finish_volume_result:
  assumes "healthy E" "db_ok w" "pools_valid E w" "pool \<in> set (storage_pools w)"
    and "uuid_parse E (vol_ID vol) = Some (vol_ID vol)" "vol_ID vol \<notin> vol_ID ` set (volumes w)"
    and "X (cmd_no w) [''qemu-img'', ''create'', ''-f'', ''qcow2'', path, formatSize (vol_SizeBytes vol)] (files w) = (err, out, fs)"
    and "finish_volume E pool vol (qcow2_Create X path (vol_SizeBytes vol))
      (w\<lparr>stmt_no := n, uuid_no := m, volumes := volumes w @ [stored_volume E vol]\<rparr>) = (r, w1)"
  shows "case r of
      Inl _ \<Rightarrow> err \<noteq> None \<and> volumes w1 = volumes w \<and> volume_snapshots w1 = volume_snapshots w \<and> storage_pools w1 = storage_pools w
    | Inr v \<Rightarrow> err = None \<and> files w1 = fs \<and> v = vol\<lparr>vol_Status := VolumeStatusAvailable\<rparr> \<and>
        volumes w1 = volumes w @ [stored_volume E v] \<and>
        storage_pools w1 = update_where (\<lambda>p. sp_ID p = sp_ID pool)
          (\<lambda>p. p\<lparr>sp_UsedBytes := wrap64 (sp_UsedBytes pool + vol_SizeBytes vol)\<rparr>) (storage_pools w)"
proof -
  let ?w = "w\<lparr>stmt_no := n, uuid_no := m, volumes := volumes w @ [stored_volume E vol], cmd_no := Suc (cmd_no w), files := fs\<rparr>"
  have id: "vol_ID (stored_volume E vol) = vol_ID vol"
    using assms(5) by (simp add: stored_volume_def canon_def)
  have run: "qcow2_Create X path (vol_SizeBytes vol) (w\<lparr>stmt_no := n, uuid_no := m, volumes := volumes w @ [stored_volume E vol]\<rparr>) =
      (case err of None \<Rightarrow> Inr () | Some e \<Rightarrow> Inl (Msg (''qemu-img create: '' @ Error e @ '': '' @ output_text out)), ?w)"
    using assms(7) by (simp add: qcow2_Create_run)
  show ?thesis
  proof (cases err)
    case None
    let ?v = "vol\<lparr>vol_Status := VolumeStatusAvailable\<rparr>"
    let ?u = "pool\<lparr>sp_UsedBytes := wrap64 (sp_UsedBytes pool + vol_SizeBytes vol)\<rparr>"
    obtain w2 where upd: "VolumeRepository_Update E ?v ?w = (Inr (), w2)"
      and w2: "volumes w2 = volumes w @ [stored_volume E ?v]" "storage_pools w2 = storage_pools w" "files w2 = fs"
      using VolumeRepository_Update_new [OF assms(1,5,6) refl, of ?w] by simp
    obtain w3 where used: "StoragePoolRepository_Update E ?u w2 = (Inr (), w3)"
      and w3: "volumes w3 = volumes w2" "files w3 = files w2" "storage_pools w3 = update_where (\<lambda>p. sp_ID p = sp_ID pool)
          (\<lambda>p. p\<lparr>sp_UsedBytes := wrap64 (sp_UsedBytes pool + vol_SizeBytes vol)\<rparr>) (storage_pools w)"
      using StoragePoolRepository_Update_used [OF assms(1-4) w2(2)] by simp
    have "finish_volume E pool vol (qcow2_Create X path (vol_SizeBytes vol))
        (w\<lparr>stmt_no := n, uuid_no := m, volumes := volumes w @ [stored_volume E vol]\<rparr>) = (Inr ?v, w3)"
      unfolding finish_volume_def tryM_apply run Let_def using upd used None
      by (simp add: bindE_apply wrapE_apply ignoreE_apply)
    then show ?thesis
      using assms(8) None w2 w3 by auto
  next
    case (Some e)
    have "\<forall>s\<in>set (volume_snapshots w). vs_VolumeID s \<in> vol_ID ` set (volumes w)"
      using assms(2) by (simp add: db_ok_def refs_ok_def)
    then have "\<forall>s\<in>set (volume_snapshots w). vs_VolumeID s \<noteq> vol_ID vol"
      using assms(6) by metis
    then obtain w' where "VolumeRepository_Delete E (vol_ID vol) ?w = (Inr (), w')" "volumes w' = volumes w"
        "volume_snapshots w' = volume_snapshots w" "storage_pools w' = storage_pools w"
      using VolumeRepository_Delete_new [OF assms(1,5,6) id, of "volume_snapshots w" ?w] by auto
    moreover have "finish_volume E pool vol (qcow2_Create X path (vol_SizeBytes vol))
        (w\<lparr>stmt_no := n, uuid_no := m, volumes := volumes w @ [stored_volume E vol]\<rparr>) =
        (Inl (Msg (''qemu-img create: '' @ Error e @ '': '' @ output_text out)), snd (VolumeRepository_Delete E (vol_ID vol) ?w))"
      unfolding finish_volume_def tryM_apply run using Some by (simp add: ignoreE_apply)
    ultimately show ?thesis
      using assms(8) Some by auto
  qed
qed

lemma volume_of_request_simps [simp]:
  "vol_ID (volume_of_request req i) = i" "vol_SizeBytes (volume_of_request req i) = cvr_SizeBytes req"
  "vol_PoolID (volume_of_request req i) = cvr_PoolID req"
  by (simp_all add: volume_of_request_def)

text \<open>The stage of \<^verbatim>\<open>CreateVolume\<close> after the capacity check: insert the row, then \<open>finish_volume\<close>.\<close>

definition insert_and_finish :: "env \<Rightarrow> exec \<Rightarrow> StoragePool \<Rightarrow> Volume \<Rightarrow> Volume act" where
  "insert_and_finish E X pool vol =
     bindE (wrapE ''create volume'' (VolumeRepository_Create E vol)) (\<lambda>_.
     finish_volume E pool vol (qcow2_Create X (disk_path pool (vol_ID vol)) (vol_SizeBytes vol)))"

lemma insert_and_finish_result:
  assumes "healthy E" "db_ok w" "pools_valid E w" "pool \<in> set (storage_pools w)"
    and "uuid_parse E (vol_ID vol) = Some (vol_ID vol)"
    and "insert_and_finish E X pool vol (w\<lparr>stmt_no := n, uuid_no := m\<rparr>) = (r, w1)"
  shows "case r of
      Inl _ \<Rightarrow> volumes w1 = volumes w \<and> volume_snapshots w1 = volume_snapshots w \<and> storage_pools w1 = storage_pools w
    | Inr v \<Rightarrow> \<exists>out. X (cmd_no w) [''qemu-img'', ''create'', ''-f'', ''qcow2'', disk_path pool (vol_ID v), formatSize (vol_SizeBytes vol)] (files w) =
          (None, out, files w1) \<and> v = vol\<lparr>vol_Status := VolumeStatusAvailable\<rparr> \<and>
        volumes w1 = volumes w @ [stored_volume E v] \<and>
        storage_pools w1 = update_where (\<lambda>p. sp_ID p = sp_ID pool)
          (\<lambda>p. p\<lparr>sp_UsedBytes := wrap64 (sp_UsedBytes pool + vol_SizeBytes vol)\<rparr>) (storage_pools w)"
proof -
  obtain c w3 where ins: "VolumeRepository_Create E vol (w\<lparr>stmt_no := n, uuid_no := m\<rparr>) = (c, w3)"
    by fastforce
  show ?thesis
  proof (cases c)
    case (Inl e)
    then show ?thesis
      using assms(6) ins VolumeRepository_Create_result [OF ins] by (auto simp: insert_and_finish_def op_apply)
  next
    case (Inr u)
    have w3: "w3 = w\<lparr>stmt_no := Suc n, uuid_no := m, volumes := volumes w @ [stored_volume E vol]\<rparr>"
      and fresh: "vol_ID vol \<notin> vol_ID ` set (volumes w)"
      using VolumeRepository_Create_result [OF ins] Inr canon_eq [OF assms(5)] by simp_all
    obtain err out fs where X: "X (cmd_no w) [''qemu-img'', ''create'', ''-f'', ''qcow2'', disk_path pool (vol_ID vol),
        formatSize (vol_SizeBytes vol)] (files w) = (err, out, fs)"
      by (metis prod_cases3)
    have fin: "finish_volume E pool vol (qcow2_Create X (disk_path pool (vol_ID vol)) (vol_SizeBytes vol)) w3 = (r, w1)"
      using assms(6) ins Inr by (simp add: insert_and_finish_def op_apply)
    show ?thesis
      using finish_volume_result [OF assms(1-5) fresh X fin [unfolded w3]] X by (auto split: sum.splits)
  qed
qed


subsection \<open>A pool with a volume\<close>

definition sample_pool :: StoragePool where
  "sample_pool = \<lparr>sp_ID = ''p'', sp_Name = ''fast'', sp_Driver = ''qcow2'', sp_Path = ''/pool'', sp_TotalBytes = 100,
     sp_UsedBytes = 40, sp_Encrypted = False, sp_Config = Some Map.empty\<rparr>"

definition sample_pool_world :: world where
  "sample_pool_world = empty_world\<lparr>storage_pools := [sample_pool]\<rparr>"

definition sample_volume_request :: CreateVolumeRequest where
  "sample_volume_request = \<lparr>cvr_Name = ''data'', cvr_PoolID = ''p'', cvr_SizeBytes = 50, cvr_Encrypted = False, cvr_Labels = None\<rparr>"

text \<open>A \<^verbatim>\<open>qemu-img\<close> that always succeeds and leaves the files alone.\<close>

definition sample_exec :: exec where
  "sample_exec n argv fs = (None, Text '''', fs)"

lemma sample_pool_world_ok: "db_ok sample_pool_world" "pools_valid sample_env sample_pool_world" "refs_canonical sample_env sample_pool_world"
  by (simp_all add: sample_pool_world_def db_defs empty_world_def map_filter_simps pools_valid_def sample_pool_def
      storage_drivers_def refs_canonical_def)



subsection \<open>The capacity check\<close>

text \<open>
  For a pool with a capacity and quantities that fit 64 bits, the check of \<^verbatim>\<open>CreateVolume\<close> refuses exactly the
  sizes that exceed the capacity and whose sum with the used space does not overflow: a volume so large that the
  sum wraps around is accepted. Without overflow, an accepted volume leaves the used space within the capacity.
\<close>

theorem capacity_check:
  assumes "0 < sp_TotalBytes pool" "sp_TotalBytes pool < 2 ^ 63" "0 \<le> sp_UsedBytes pool" "sp_UsedBytes pool < 2 ^ 63"
    and "0 < n" "n < 2 ^ 63"
  shows "(pool_full pool n \<longleftrightarrow> sp_TotalBytes pool < sp_UsedBytes pool + n \<and> sp_UsedBytes pool + n < 2 ^ 63) \<and>
    (\<not> pool_full pool n \<longrightarrow> sp_UsedBytes pool + n < 2 ^ 63 \<longrightarrow> wrap64 (sp_UsedBytes pool + n) \<le> sp_TotalBytes pool) \<and>
    (2 ^ 63 \<le> sp_UsedBytes pool + n \<longrightarrow> wrap64 (sp_UsedBytes pool + n) < 0)"
proof (cases "sp_UsedBytes pool + n < 2 ^ 63")
  case True
  then have "wrap64 (sp_UsedBytes pool + n) = sp_UsedBytes pool + n"
    using assms by (intro wrap64_id) (simp add: int64_range_def)
  then show ?thesis using True assms by (simp add: pool_full_def)
next
  case False
  have "(sp_UsedBytes pool + n + 2 ^ 63) mod 2 ^ 64 = sp_UsedBytes pool + n + 2 ^ 63 - 2 ^ 64"
    using False assms mod_pos_pos_trivial [of "sp_UsedBytes pool + n + 2 ^ 63 - 2 ^ 64" "2 ^ 64"]
    unfolding minus_mod_self2 by simp
  then have "wrap64 (sp_UsedBytes pool + n) = sp_UsedBytes pool + n - 2 ^ 64"
    by (simp add: wrap64_def)
  then show ?thesis using False assms by (simp add: pool_full_def)
qed

theorem capacity_check_witness:
  "\<not> pool_full sample_pool 9223372036854775807 \<and> pool_full sample_pool 61 \<and> \<not> pool_full sample_pool 60"
  using capacity_check [of sample_pool 9223372036854775807] capacity_check [of sample_pool 61] capacity_check [of sample_pool 60]
  by (simp add: sample_pool_def)

subsection \<open>The files of volumes\<close>

text \<open>
  The file of a volume is in the cleaned directory of its pool, has the extension of a disk image, and is the
  file of no other volume of the pool, for ids without a separator.
\<close>

theorem disk_files:
  assumes "Separator \<notin> set i" "Separator \<notin> set j"
  shows "disk_path pool i = dir_prefix (sp_Path pool) @ i @ ''.qcow2'' \<and> (disk_path pool i = disk_path pool j \<longleftrightarrow> i = j) \<and>
    filepath_Ext (disk_path pool i) = ''.qcow2''"
  using assms filepath_Ext_file [of "i @ ''.qcow2''" "sp_Path pool"] filepath_Ext_qcow2 [of i] qcow2_path_inj [OF assms, of "sp_Path pool"]
  by (simp add: disk_path_def filepath_Join_file plain_qcow2) (simp add: Separator_def)

theorem disk_files_witness:
  "disk_path sample_pool ''a'' = ''/pool/a.qcow2'' \<and> disk_path sample_pool ''a'' \<noteq> disk_path sample_pool ''b''"
proof -
  have "Separator \<notin> set ''a''" "Separator \<notin> set ''b''"
    by (simp_all add: Separator_def)
  moreover have "dir_prefix (sp_Path sample_pool) = ''/pool/''"
    by code_simp
  ultimately show ?thesis
    using disk_files [of "''a''" "''b''" sample_pool] by fastforce
qed

end
