(* ===== verification/Handlers.thy ===== *)
theory Handlers
  imports ControlPlane StorageSvc
begin

section \<open>HTTP handlers of the services\<close>

text \<open>
  The handlers of the control plane, of the network service and of the storage service
  (\<^verbatim>\<open>services/*/handler/handler.go\<close>). A handler gets the URL parameter, the query values and the decoded body
  (\<open>None\<close> when \<^verbatim>\<open>Decode\<close> fails) and answers with a status and the value encoded as the response's body. \<open>api\<close> is
  the datatype of all requests and \<open>serve\<close> dispatches them; a nil dereference in a storage method is the
  outcome \<open>Panics\<close>.

  The lemmas show that no \<^verbatim>\<open>GET\<close> request changes a table, that a body that does not decode is refused before
  anything happens, and that every request keeps the constraints of the database.
\<close>

datatype val =
    V_VM VirtualMachine | V_VMs "VirtualMachine list" int
  | V_Snapshot Snapshot
  | V_Node Node | V_Nodes "Node list" int
  | V_Image Image | V_Images "Image list" int | V_Official "OfficialImage list" int
  | V_Flavor Flavor | V_Flavors "Flavor list" int
  | V_Keypair Keypair | V_Keypairs "Keypair list" int
  | V_Backup Backup | V_Backups "Backup list" int
  | V_Network PrivateNetwork | V_Networks "PrivateNetwork list" int int int
  | V_Subnet Subnet | V_Rule FirewallRule
  | V_FloatingIP FloatingIP | V_FloatingIPs "FloatingIP list" int
  | V_Pool StoragePool | V_Pools "StoragePool list"
  | V_Volume Volume | V_Volumes "Volume list" int int int
  | V_VolumeSnapshot VolumeSnapshot
  | V_Message string

type_synonym handler = "world \<Rightarrow> val response \<times> world"
type_synonym query = "string \<Rightarrow> string"

subsection \<open>Answers\<close>

text \<open>An error becomes an error response with status \<open>bad\<close>, a result a response with status \<open>good\<close>.\<close>

definition answer :: "nat \<Rightarrow> nat \<Rightarrow> ('a \<Rightarrow> val) \<Rightarrow> 'a act \<Rightarrow> handler" where
  "answer bad good f m = (\<lambda>w. case m w of (r, w') \<Rightarrow>
     (case r of Inl e \<Rightarrow> WriteError bad (Error e) | Inr a \<Rightarrow> WriteJSON good (f a), w'))"

definition answer_status :: "nat \<Rightarrow> nat \<Rightarrow> unit act \<Rightarrow> handler" where
  "answer_status bad good m = (\<lambda>w. case m w of (r, w') \<Rightarrow>
     (case r of Inl e \<Rightarrow> WriteError bad (Error e) | Inr _ \<Rightarrow> Response good NoBody, w'))"

text \<open>A lookup: an error is \<open>bad\<close>, a nil result is status 404 with its own message.\<close>

definition answer_found :: "nat \<Rightarrow> string \<Rightarrow> ('a \<Rightarrow> val) \<Rightarrow> 'a option act \<Rightarrow> handler" where
  "answer_found bad msg f m = (\<lambda>w. case m w of (r, w') \<Rightarrow>
     (case r of
        Inl e \<Rightarrow> WriteError bad (Error e)
      | Inr None \<Rightarrow> WriteError 404 msg
      | Inr (Some a) \<Rightarrow> WriteJSON 200 (f a), w'))"

definition with_body :: "'b option \<Rightarrow> ('b \<Rightarrow> handler) \<Rightarrow> handler" where
  "with_body b k = (case b of None \<Rightarrow> (\<lambda>w. (WriteError 400 ''invalid request body'', w)) | Some x \<Rightarrow> k x)"

definition query_int :: "query \<Rightarrow> string \<Rightarrow> int" where
  "query_int q k = fst (Atoi (q k))"

subsection \<open>Control plane: \<^verbatim>\<open>services/controlplane/handler/handler.go\<close>\<close>

definition cp_CreateVM :: "Service \<Rightarrow> env \<Rightarrow> CreateVMRequest option \<Rightarrow> handler" where
  "cp_CreateVM S E b = with_body b (\<lambda>req. answer 400 201 V_VM (CreateVM S E req))"

definition cp_GetVM :: "env \<Rightarrow> string \<Rightarrow> handler" where
  "cp_GetVM E ident = answer_found 500 ''vm not found'' V_VM (GetVM E ident)"

definition cp_ListVMs :: "env \<Rightarrow> query \<Rightarrow> handler" where
  "cp_ListVMs E q = answer 500 200 (\<lambda>(vms, total). V_VMs vms total) (ListVMs E
     \<lparr>vf_OrganizationID = q ''organization_id'', vf_ProjectID = q ''project_id'', vf_NodeID = q ''node_id'',
      vf_Status = q ''status'', vf_Search = q ''search'', vf_Page = query_int q ''page'', vf_PerPage = query_int q ''per_page''\<rparr>)"

definition cp_UpdateVM :: "env \<Rightarrow> string \<Rightarrow> UpdateVMRequest option \<Rightarrow> handler" where
  "cp_UpdateVM E ident b = with_body b (\<lambda>req. answer 400 200 V_VM (UpdateVM E ident req))"

definition cp_DeleteVM :: "env \<Rightarrow> string \<Rightarrow> query \<Rightarrow> handler" where
  "cp_DeleteVM E ident q = answer_status 400 204 (DeleteVM E ident (q ''force'' = ''true''))"

definition cp_PowerOnVM :: "Service \<Rightarrow> env \<Rightarrow> string \<Rightarrow> handler" where
  "cp_PowerOnVM S E ident = answer 400 200 V_VM (PowerOn S E ident)"

definition cp_PowerOffVM :: "Service \<Rightarrow> env \<Rightarrow> string \<Rightarrow> query \<Rightarrow> handler" where
  "cp_PowerOffVM S E ident q = answer 400 200 V_VM (PowerOff S E ident (q ''force'' = ''true''))"

definition cp_RebootVM :: "Service \<Rightarrow> env \<Rightarrow> string \<Rightarrow> query \<Rightarrow> handler" where
  "cp_RebootVM S E ident q = answer 400 200 V_VM (Reboot S E ident (q ''force'' = ''true''))"

definition cp_ResizeVM :: "Service \<Rightarrow> env \<Rightarrow> string \<Rightarrow> (int \<times> int) option \<Rightarrow> handler" where
  "cp_ResizeVM S E ident b = with_body b (\<lambda>(vcpus, memoryMB). answer 400 200 V_VM (Resize S E ident vcpus memoryMB))"

definition cp_SnapshotVM :: "Service \<Rightarrow> env \<Rightarrow> string \<Rightarrow> (string \<times> string) option \<Rightarrow> handler" where
  "cp_SnapshotVM S E ident b = with_body b (\<lambda>(name, description). answer 400 201 V_Snapshot (Service_Snapshot S E ident name description))"

definition cp_CloneVM :: "Service \<Rightarrow> env \<Rightarrow> string \<Rightarrow> (string \<times> string \<times> bool) option \<Rightarrow> handler" where
  "cp_CloneVM S E ident b = with_body b (\<lambda>(name, nodeID, linked). answer 400 201 V_VM (Clone S E ident name nodeID linked))"

definition cp_RestoreSnapshot :: "Service \<Rightarrow> env \<Rightarrow> string option \<Rightarrow> handler" where
  "cp_RestoreSnapshot S E b = with_body b (\<lambda>snapshotID. answer 400 200 V_VM (RestoreSnapshot S E snapshotID))"

definition cp_RegisterNode :: "Service \<Rightarrow> env \<Rightarrow> RegisterNodeRequest option \<Rightarrow> handler" where
  "cp_RegisterNode S E b = with_body b (\<lambda>req. answer 400 201 V_Node (NodeService_Register S E req))"

definition cp_GetNode :: "env \<Rightarrow> string \<Rightarrow> handler" where
  "cp_GetNode E ident = answer_found 500 ''node not found'' V_Node (NodeService_GetNode E ident)"

definition cp_ListNodes :: "env \<Rightarrow> query \<Rightarrow> handler" where
  "cp_ListNodes E q = answer 500 200 (\<lambda>(ns, total). V_Nodes ns total) (NodeService_ListNodes E
     \<lparr>nf_Status = q ''status'', nf_Search = q ''search'', nf_Page = query_int q ''page'', nf_PerPage = query_int q ''per_page''\<rparr>)"

definition cp_UpdateNode :: "env \<Rightarrow> string \<Rightarrow> gomap option \<Rightarrow> handler" where
  "cp_UpdateNode E ident b = with_body b (\<lambda>labels. answer 400 200 V_Node (NodeService_UpdateNode E ident labels))"

definition cp_DrainNode :: "env \<Rightarrow> string \<Rightarrow> int option \<Rightarrow> handler" where
  "cp_DrainNode E ident b = answer_status 400 202 (NodeService_Drain E ident (case b of None \<Rightarrow> 60 | Some t \<Rightarrow> t))"

definition cp_Heartbeat :: "env \<Rightarrow> string \<Rightarrow> NodeResources option \<Rightarrow> handler" where
  "cp_Heartbeat E ident b = with_body b (\<lambda>req. answer_status 400 204 (NodeService_Heartbeat E ident req))"

record CreateImageBody =
  ib_Name :: string
  ib_Description :: string
  ib_OS :: string
  ib_OSVersion :: string
  ib_Architecture :: string
  ib_Type :: string
  ib_SizeBytes :: int
  ib_Checksum :: string
  ib_Tags :: "string list"

text \<open>The service sets the id and the status, whose values here are placeholders for Go's empty strings.\<close>

definition image_of_body :: "CreateImageBody \<Rightarrow> Image" where
  "image_of_body b = \<lparr>img_ID = '''', img_Name = ib_Name b, img_Description = ib_Description b, img_OS = ib_OS b,
     img_OSVersion = ib_OSVersion b, img_Architecture = ib_Architecture b, img_Type = ib_Type b, img_SizeBytes = ib_SizeBytes b,
     img_Status = ImageStatusDownloading, img_Checksum = ib_Checksum b, img_SourceURL = '''', img_Tags = ib_Tags b\<rparr>"

definition cp_CreateImage :: "env \<Rightarrow> CreateImageBody option \<Rightarrow> handler" where
  "cp_CreateImage E b = with_body b (\<lambda>req. answer 400 201 V_Image (CreateImage E (image_of_body req)))"

definition cp_GetImage :: "env \<Rightarrow> string \<Rightarrow> handler" where
  "cp_GetImage E ident = answer_found 500 ''image not found'' V_Image (GetImage E ident)"

definition cp_ListImages :: "env \<Rightarrow> query \<Rightarrow> handler" where
  "cp_ListImages E q = answer 500 200 (\<lambda>(ms, total). V_Images ms total) (ListImages E
     \<lparr>if_OS = q ''os'', if_Architecture = q ''architecture'', if_Type = q ''type'', if_Search = q ''search'',
      if_Page = query_int q ''page'', if_PerPage = query_int q ''per_page''\<rparr>)"

definition cp_DeleteImage :: "env \<Rightarrow> string \<Rightarrow> handler" where
  "cp_DeleteImage E ident = answer_status 400 204 (DeleteImage E ident)"

definition cp_ListOfficialImages :: handler where
  "cp_ListOfficialImages = (\<lambda>w. (WriteJSON 200 (V_Official ListOfficialImages (int (length ListOfficialImages))), w))"

definition cp_PullOfficialImage :: "Service \<Rightarrow> env \<Rightarrow> (string \<times> string \<times> string) option \<Rightarrow> handler" where
  "cp_PullOfficialImage S E b = with_body b (\<lambda>(osName, version, arch).
     answer 400 201 V_Image (Service_PullOfficialImage S E osName version arch))"

definition cp_ImportImage :: "Service \<Rightarrow> env \<Rightarrow> ImportImageRequest option \<Rightarrow> handler" where
  "cp_ImportImage S E b = with_body b (\<lambda>req. answer 400 201 V_Image (Service_ImportFromURL S E req))"

definition cp_CreateFlavor :: "Service \<Rightarrow> env \<Rightarrow> CreateFlavorRequest option \<Rightarrow> handler" where
  "cp_CreateFlavor S E b = with_body b (\<lambda>req. answer 400 201 V_Flavor (CreateFlavor S E req))"

definition cp_ListFlavors :: "Service \<Rightarrow> env \<Rightarrow> handler" where
  "cp_ListFlavors S E = answer 500 200 (\<lambda>fs. V_Flavors fs (int (length fs))) (ListFlavors S E)"

definition cp_GetFlavor :: "Service \<Rightarrow> env \<Rightarrow> string \<Rightarrow> handler" where
  "cp_GetFlavor S E ident = answer_found 500 ''flavor not found'' V_Flavor (GetFlavor S E ident)"

definition cp_DeleteFlavor :: "Service \<Rightarrow> env \<Rightarrow> string \<Rightarrow> handler" where
  "cp_DeleteFlavor S E ident = answer_status 400 204 (DeleteFlavor S E ident)"

definition cp_CreateKeypair :: "Service \<Rightarrow> env \<Rightarrow> CreateKeypairRequest option \<Rightarrow> handler" where
  "cp_CreateKeypair S E b = with_body b (\<lambda>req. answer 400 201 V_Keypair (CreateKeypair S E req))"

definition cp_ListKeypairs :: "Service \<Rightarrow> env \<Rightarrow> query \<Rightarrow> handler" where
  "cp_ListKeypairs S E q = answer 500 200 (\<lambda>ks. V_Keypairs ks (int (length ks))) (ListKeypairs S E (q ''organization_id''))"

definition cp_GetKeypair :: "Service \<Rightarrow> env \<Rightarrow> string \<Rightarrow> handler" where
  "cp_GetKeypair S E ident = answer_found 500 ''keypair not found'' V_Keypair (GetKeypair S E ident)"

definition cp_DeleteKeypair :: "Service \<Rightarrow> env \<Rightarrow> string \<Rightarrow> handler" where
  "cp_DeleteKeypair S E ident = answer_status 400 204 (DeleteKeypair S E ident)"

record CreateBackupBody =
  bb_VMID :: string
  bb_Name :: string
  bb_Type :: string
  bb_StoragePool :: string

definition backup_of_body :: "CreateBackupBody \<Rightarrow> Backup" where
  "backup_of_body b = \<lparr>bak_ID = '''', bak_Name = bb_Name b, bak_VMID = bb_VMID b, bak_OrganizationID = '''',
     bak_Status = BackupStatusCreating, bak_SizeBytes = 0, bak_Type = bb_Type b, bak_StoragePool = bb_StoragePool b,
     bak_Completed = False\<rparr>"

definition cp_CreateBackup :: "env \<Rightarrow> CreateBackupBody option \<Rightarrow> handler" where
  "cp_CreateBackup E b = with_body b (\<lambda>req. answer 400 201 V_Backup (CreateBackup E (backup_of_body req)))"

definition cp_GetBackup :: "env \<Rightarrow> string \<Rightarrow> handler" where
  "cp_GetBackup E ident = answer_found 500 ''backup not found'' V_Backup (GetBackup E ident)"

definition cp_ListBackups :: "env \<Rightarrow> query \<Rightarrow> handler" where
  "cp_ListBackups E q = answer 500 200 (\<lambda>(bs, total). V_Backups bs total) (ListBackups E
     \<lparr>bf_VMID = q ''vm_id'', bf_OrganizationID = q ''organization_id'', bf_Page = query_int q ''page'',
      bf_PerPage = query_int q ''per_page''\<rparr>)"

definition cp_DeleteBackup :: "env \<Rightarrow> string \<Rightarrow> handler" where
  "cp_DeleteBackup E ident = answer_status 400 204 (DeleteBackup E ident)"

definition cp_RestoreBackup :: "Service \<Rightarrow> env \<Rightarrow> string \<Rightarrow> string option \<Rightarrow> handler" where
  "cp_RestoreBackup S E ident b = with_body b (\<lambda>vmID. answer_status 400 202 (RestoreBackup S E ident vmID))"

subsection \<open>Network service: \<^verbatim>\<open>services/network/handler/handler.go\<close>\<close>

definition net_CreateNetwork :: "env \<Rightarrow> CreateNetworkRequest option \<Rightarrow> handler" where
  "net_CreateNetwork E b = with_body b (\<lambda>req. answer 400 201 V_Network (CreateNetwork E req))"

definition net_GetNetwork :: "env \<Rightarrow> string \<Rightarrow> handler" where
  "net_GetNetwork E ident = answer 404 200 V_Network (GetNetwork E ident)"

definition or_page :: "int \<Rightarrow> int \<Rightarrow> int" where
  "or_page n d = (if n \<le> 0 then d else n)"

definition net_ListNetworks :: "env \<Rightarrow> query \<Rightarrow> handler" where
  "net_ListNetworks E q =
     (let page = or_page (query_int q ''page'') 1; perPage = or_page (query_int q ''per_page'') 20 in
      answer 500 200 (\<lambda>(ns, total). V_Networks ns total page perPage)
        (ListNetworks E \<lparr>pf_OrganizationID = q ''organization_id'', pf_Page = page, pf_PerPage = perPage\<rparr>))"

definition net_DeleteNetwork :: "env \<Rightarrow> string \<Rightarrow> handler" where
  "net_DeleteNetwork E ident = answer 400 200 (\<lambda>_. V_Message ''network deleted'') (DeleteNetwork E ident)"

definition net_CreateSubnet :: "env \<Rightarrow> string \<Rightarrow> (string \<times> string \<times> bool) option \<Rightarrow> handler" where
  "net_CreateSubnet E networkID b = with_body b (\<lambda>(name, cidr, dhcp). answer 400 201 V_Subnet (CreateSubnet E networkID name cidr dhcp))"

definition net_DeleteSubnet :: "env \<Rightarrow> string \<Rightarrow> handler" where
  "net_DeleteSubnet E ident = answer 400 200 (\<lambda>_. V_Message ''subnet deleted'') (DeleteSubnet E ident)"

definition net_CreateFirewallRule :: "env \<Rightarrow> string \<Rightarrow> CreateFirewallRuleRequest option \<Rightarrow> handler" where
  "net_CreateFirewallRule E networkID b = with_body b (\<lambda>req.
     answer 400 201 V_Rule (CreateFirewallRule E (req\<lparr>cfr_NetworkID := networkID\<rparr>)))"

definition net_DeleteFirewallRule :: "env \<Rightarrow> string \<Rightarrow> handler" where
  "net_DeleteFirewallRule E ident = answer 400 200 (\<lambda>_. V_Message ''firewall rule deleted'') (DeleteFirewallRule E ident)"

definition net_AllocateFloatingIP :: "env \<Rightarrow> (string \<times> string) option \<Rightarrow> handler" where
  "net_AllocateFloatingIP E b = with_body b (\<lambda>(networkID, vmID). answer 400 201 V_FloatingIP (AllocateFloatingIP E networkID vmID))"

definition net_ReleaseFloatingIP :: "env \<Rightarrow> string \<Rightarrow> handler" where
  "net_ReleaseFloatingIP E ident = answer 400 200 (\<lambda>_. V_Message ''floating IP released'') (ReleaseFloatingIP E ident)"

definition net_ListFloatingIPs :: "env \<Rightarrow> handler" where
  "net_ListFloatingIPs E = answer 500 200 (\<lambda>ips. V_FloatingIPs ips (int (length ips))) (ListFloatingIPs E)"

subsection \<open>Storage service: \<^verbatim>\<open>services/storage/handler/handler.go\<close>\<close>

definition answer_outcome :: "nat \<Rightarrow> nat \<Rightarrow> ('a \<Rightarrow> val) \<Rightarrow> 'a outcome act \<Rightarrow> world \<Rightarrow> val response outcome \<times> world" where
  "answer_outcome bad good f m = (\<lambda>w. case m w of (r, w') \<Rightarrow>
     (case r of
        Inl e \<Rightarrow> Returns (WriteError bad (Error e))
      | Inr (Returns a) \<Rightarrow> Returns (WriteJSON good (f a))
      | Inr (Panics msg) \<Rightarrow> Panics msg, w'))"

definition st_CreatePool :: "env \<Rightarrow> CreatePoolRequest option \<Rightarrow> handler" where
  "st_CreatePool E b = with_body b (\<lambda>req. answer 400 201 V_Pool (CreatePool E req))"

definition st_GetPool :: "env \<Rightarrow> string \<Rightarrow> handler" where
  "st_GetPool E ident = answer_found 404 ''pool not found'' V_Pool (GetPool E ident)"

definition st_ListPools :: "env \<Rightarrow> handler" where
  "st_ListPools E = answer 500 200 V_Pools (ListPools E)"

definition st_CreateVolume :: "env \<Rightarrow> exec \<Rightarrow> CreateVolumeRequest option \<Rightarrow> handler" where
  "st_CreateVolume E X b = with_body b (\<lambda>req. answer 400 201 V_Volume (CreateVolume E X req))"

definition st_GetVolume :: "env \<Rightarrow> string \<Rightarrow> handler" where
  "st_GetVolume E ident = answer_found 404 ''volume not found'' V_Volume (GetVolume E ident)"

definition st_ListVolumes :: "env \<Rightarrow> query \<Rightarrow> handler" where
  "st_ListVolumes E q =
     (let page = or_page (query_int q ''page'') 1; perPage = or_page (query_int q ''per_page'') 20 in
      answer 500 200 (\<lambda>(vs, total). V_Volumes vs total page perPage)
        (ListVolumes E \<lparr>vlf_PoolID = q ''pool_id'', vlf_Page = page, vlf_PerPage = perPage\<rparr>))"

definition st_DeleteVolume :: "env \<Rightarrow> string \<Rightarrow> query \<Rightarrow> handler" where
  "st_DeleteVolume E ident q = answer 400 200 (\<lambda>_. V_Message ''volume deleted'') (DeleteVolume E ident (fst (ParseBool (q ''force''))))"

text \<open>The handlers of methods that may panic; a body that does not decode is refused as before.\<close>

definition with_body_outcome :: "'b option \<Rightarrow> ('b \<Rightarrow> world \<Rightarrow> val response outcome \<times> world) \<Rightarrow> world \<Rightarrow> val response outcome \<times> world" where
  "with_body_outcome b k = (case b of None \<Rightarrow> (\<lambda>w. (Returns (WriteError 400 ''invalid request body''), w)) | Some x \<Rightarrow> k x)"

definition st_ResizeVolume :: "env \<Rightarrow> exec \<Rightarrow> string \<Rightarrow> int option \<Rightarrow> world \<Rightarrow> val response outcome \<times> world" where
  "st_ResizeVolume E X ident b = with_body_outcome b (\<lambda>sizeBytes. answer_outcome 400 200 V_Volume (ResizeVolume E X ident sizeBytes))"

definition st_CloneVolume :: "env \<Rightarrow> exec \<Rightarrow> string \<Rightarrow> string option \<Rightarrow> world \<Rightarrow> val response outcome \<times> world" where
  "st_CloneVolume E X ident b = with_body_outcome b (\<lambda>name. answer_outcome 400 201 V_Volume (CloneVolume E X ident name))"

definition st_CreateSnapshot :: "env \<Rightarrow> exec \<Rightarrow> string \<Rightarrow> string option \<Rightarrow> world \<Rightarrow> val response outcome \<times> world" where
  "st_CreateSnapshot E X volumeID b = with_body_outcome b (\<lambda>name.
     answer_outcome 400 201 V_VolumeSnapshot (storage_CreateSnapshot E X volumeID name))"

definition st_DeleteSnapshot :: "env \<Rightarrow> exec \<Rightarrow> string \<Rightarrow> world \<Rightarrow> val response outcome \<times> world" where
  "st_DeleteSnapshot E X ident = answer_outcome 400 200 (\<lambda>_. V_Message ''snapshot deleted'') (storage_DeleteSnapshot E X ident)"

definition st_RestoreSnapshot :: "env \<Rightarrow> exec \<Rightarrow> string \<Rightarrow> world \<Rightarrow> val response outcome \<times> world" where
  "st_RestoreSnapshot E X ident = answer_outcome 400 200 V_Volume (storage_RestoreSnapshot E X ident)"

subsection \<open>All requests\<close>

text \<open>
  The requests of the three services with their decoded arguments; \<open>serve\<close> calls the handler that the route names.
  \<open>api_method\<close> is the HTTP method of a request; \<open>bad_body\<close> says that the handler needs a body and it does not decode.
\<close>

datatype cp_api =
    CreateVMCall "CreateVMRequest option"
  | GetVMCall string
  | ListVMsCall "query"
  | UpdateVMCall string "UpdateVMRequest option"
  | DeleteVMCall string "query"
  | PowerOnVMCall string
  | PowerOffVMCall string "query"
  | RebootVMCall string "query"
  | ResizeVMCall string "(int \<times> int) option"
  | SnapshotVMCall string "(string \<times> string) option"
  | CloneVMCall string "(string \<times> string \<times> bool) option"
  | RestoreSnapshotCall "string option"
  | RegisterNodeCall "RegisterNodeRequest option"
  | GetNodeCall string
  | ListNodesCall "query"
  | UpdateNodeCall string "gomap option"
  | DrainNodeCall string "int option"
  | HeartbeatCall string "NodeResources option"
  | CreateImageCall "CreateImageBody option"
  | GetImageCall string
  | ListImagesCall "query"
  | DeleteImageCall string
  | ListOfficialImagesCall 
  | PullOfficialImageCall "(string \<times> string \<times> string) option"
  | ImportImageCall "ImportImageRequest option"
  | CreateFlavorCall "CreateFlavorRequest option"
  | ListFlavorsCall 
  | GetFlavorCall string
  | DeleteFlavorCall string
  | CreateKeypairCall "CreateKeypairRequest option"
  | ListKeypairsCall "query"
  | GetKeypairCall string
  | DeleteKeypairCall string
  | CreateBackupCall "CreateBackupBody option"
  | GetBackupCall string
  | ListBackupsCall "query"
  | DeleteBackupCall string
  | RestoreBackupCall string "string option"

datatype net_api =
    CreateNetworkCall "CreateNetworkRequest option"
  | GetNetworkCall string
  | ListNetworksCall "query"
  | DeleteNetworkCall string
  | CreateSubnetCall string "(string \<times> string \<times> bool) option"
  | DeleteSubnetCall string
  | CreateFirewallRuleCall string "CreateFirewallRuleRequest option"
  | DeleteFirewallRuleCall string
  | AllocateFloatingIPCall "(string \<times> string) option"
  | ReleaseFloatingIPCall string
  | ListFloatingIPsCall 

datatype st_api =
    CreatePoolCall "CreatePoolRequest option"
  | GetPoolCall string
  | ListPoolsCall 
  | CreateVolumeCall "CreateVolumeRequest option"
  | GetVolumeCall string
  | ListVolumesCall "query"
  | DeleteVolumeCall string "query"
  | ResizeVolumeCall string "int option"
  | CloneVolumeCall string "string option"
  | CreateVolumeSnapshotCall string "string option"
  | DeleteVolumeSnapshotCall string
  | RestoreVolumeSnapshotCall string

datatype api = ControlPlaneCall cp_api | NetworkCall net_api | StorageCall st_api

definition returning :: "handler \<Rightarrow> world \<Rightarrow> val response outcome \<times> world" where
  "returning h w = (case h w of (r, w') \<Rightarrow> (Returns r, w'))"

primrec serve_cp :: "Service \<Rightarrow> env \<Rightarrow> cp_api \<Rightarrow> handler" where
  "serve_cp S E (CreateVMCall b) = cp_CreateVM S E b"
| "serve_cp S E (GetVMCall i) = cp_GetVM E i"
| "serve_cp S E (ListVMsCall q) = cp_ListVMs E q"
| "serve_cp S E (UpdateVMCall i b) = cp_UpdateVM E i b"
| "serve_cp S E (DeleteVMCall i q) = cp_DeleteVM E i q"
| "serve_cp S E (PowerOnVMCall i) = cp_PowerOnVM S E i"
| "serve_cp S E (PowerOffVMCall i q) = cp_PowerOffVM S E i q"
| "serve_cp S E (RebootVMCall i q) = cp_RebootVM S E i q"
| "serve_cp S E (ResizeVMCall i b) = cp_ResizeVM S E i b"
| "serve_cp S E (SnapshotVMCall i b) = cp_SnapshotVM S E i b"
| "serve_cp S E (CloneVMCall i b) = cp_CloneVM S E i b"
| "serve_cp S E (RestoreSnapshotCall b) = cp_RestoreSnapshot S E b"
| "serve_cp S E (RegisterNodeCall b) = cp_RegisterNode S E b"
| "serve_cp S E (GetNodeCall i) = cp_GetNode E i"
| "serve_cp S E (ListNodesCall q) = cp_ListNodes E q"
| "serve_cp S E (UpdateNodeCall i b) = cp_UpdateNode E i b"
| "serve_cp S E (DrainNodeCall i b) = cp_DrainNode E i b"
| "serve_cp S E (HeartbeatCall i b) = cp_Heartbeat E i b"
| "serve_cp S E (CreateImageCall b) = cp_CreateImage E b"
| "serve_cp S E (GetImageCall i) = cp_GetImage E i"
| "serve_cp S E (ListImagesCall q) = cp_ListImages E q"
| "serve_cp S E (DeleteImageCall i) = cp_DeleteImage E i"
| "serve_cp S E ListOfficialImagesCall = cp_ListOfficialImages"
| "serve_cp S E (PullOfficialImageCall b) = cp_PullOfficialImage S E b"
| "serve_cp S E (ImportImageCall b) = cp_ImportImage S E b"
| "serve_cp S E (CreateFlavorCall b) = cp_CreateFlavor S E b"
| "serve_cp S E ListFlavorsCall = cp_ListFlavors S E"
| "serve_cp S E (GetFlavorCall i) = cp_GetFlavor S E i"
| "serve_cp S E (DeleteFlavorCall i) = cp_DeleteFlavor S E i"
| "serve_cp S E (CreateKeypairCall b) = cp_CreateKeypair S E b"
| "serve_cp S E (ListKeypairsCall q) = cp_ListKeypairs S E q"
| "serve_cp S E (GetKeypairCall i) = cp_GetKeypair S E i"
| "serve_cp S E (DeleteKeypairCall i) = cp_DeleteKeypair S E i"
| "serve_cp S E (CreateBackupCall b) = cp_CreateBackup E b"
| "serve_cp S E (GetBackupCall i) = cp_GetBackup E i"
| "serve_cp S E (ListBackupsCall q) = cp_ListBackups E q"
| "serve_cp S E (DeleteBackupCall i) = cp_DeleteBackup E i"
| "serve_cp S E (RestoreBackupCall i b) = cp_RestoreBackup S E i b"

primrec serve_net :: "env \<Rightarrow> net_api \<Rightarrow> handler" where
  "serve_net E (CreateNetworkCall b) = net_CreateNetwork E b"
| "serve_net E (GetNetworkCall i) = net_GetNetwork E i"
| "serve_net E (ListNetworksCall q) = net_ListNetworks E q"
| "serve_net E (DeleteNetworkCall i) = net_DeleteNetwork E i"
| "serve_net E (CreateSubnetCall i b) = net_CreateSubnet E i b"
| "serve_net E (DeleteSubnetCall i) = net_DeleteSubnet E i"
| "serve_net E (CreateFirewallRuleCall i b) = net_CreateFirewallRule E i b"
| "serve_net E (DeleteFirewallRuleCall i) = net_DeleteFirewallRule E i"
| "serve_net E (AllocateFloatingIPCall b) = net_AllocateFloatingIP E b"
| "serve_net E (ReleaseFloatingIPCall i) = net_ReleaseFloatingIP E i"
| "serve_net E ListFloatingIPsCall = net_ListFloatingIPs E"

primrec serve_st :: "env \<Rightarrow> exec \<Rightarrow> st_api \<Rightarrow> world \<Rightarrow> val response outcome \<times> world" where
  "serve_st E X (CreatePoolCall b) = returning (st_CreatePool E b)"
| "serve_st E X (GetPoolCall i) = returning (st_GetPool E i)"
| "serve_st E X ListPoolsCall = returning (st_ListPools E)"
| "serve_st E X (CreateVolumeCall b) = returning (st_CreateVolume E X b)"
| "serve_st E X (GetVolumeCall i) = returning (st_GetVolume E i)"
| "serve_st E X (ListVolumesCall q) = returning (st_ListVolumes E q)"
| "serve_st E X (DeleteVolumeCall i q) = returning (st_DeleteVolume E i q)"
| "serve_st E X (ResizeVolumeCall i b) = st_ResizeVolume E X i b"
| "serve_st E X (CloneVolumeCall i b) = st_CloneVolume E X i b"
| "serve_st E X (CreateVolumeSnapshotCall i b) = st_CreateSnapshot E X i b"
| "serve_st E X (DeleteVolumeSnapshotCall i) = st_DeleteSnapshot E X i"
| "serve_st E X (RestoreVolumeSnapshotCall i) = st_RestoreSnapshot E X i"

primrec serve :: "Service \<Rightarrow> env \<Rightarrow> exec \<Rightarrow> api \<Rightarrow> world \<Rightarrow> val response outcome \<times> world" where
  "serve S E X (ControlPlaneCall c) = returning (serve_cp S E c)"
| "serve S E X (NetworkCall c) = returning (serve_net E c)"
| "serve S E X (StorageCall c) = serve_st E X c"

primrec cp_method :: "cp_api \<Rightarrow> string" where
  "cp_method (CreateVMCall b) = ''POST''"
| "cp_method (GetVMCall i) = ''GET''"
| "cp_method (ListVMsCall q) = ''GET''"
| "cp_method (UpdateVMCall i b) = ''PUT''"
| "cp_method (DeleteVMCall i q) = ''DELETE''"
| "cp_method (PowerOnVMCall i) = ''POST''"
| "cp_method (PowerOffVMCall i q) = ''POST''"
| "cp_method (RebootVMCall i q) = ''POST''"
| "cp_method (ResizeVMCall i b) = ''POST''"
| "cp_method (SnapshotVMCall i b) = ''POST''"
| "cp_method (CloneVMCall i b) = ''POST''"
| "cp_method (RestoreSnapshotCall b) = ''POST''"
| "cp_method (RegisterNodeCall b) = ''POST''"
| "cp_method (GetNodeCall i) = ''GET''"
| "cp_method (ListNodesCall q) = ''GET''"
| "cp_method (UpdateNodeCall i b) = ''PUT''"
| "cp_method (DrainNodeCall i b) = ''POST''"
| "cp_method (HeartbeatCall i b) = ''POST''"
| "cp_method (CreateImageCall b) = ''POST''"
| "cp_method (GetImageCall i) = ''GET''"
| "cp_method (ListImagesCall q) = ''GET''"
| "cp_method (DeleteImageCall i) = ''DELETE''"
| "cp_method ListOfficialImagesCall = ''GET''"
| "cp_method (PullOfficialImageCall b) = ''POST''"
| "cp_method (ImportImageCall b) = ''POST''"
| "cp_method (CreateFlavorCall b) = ''POST''"
| "cp_method ListFlavorsCall = ''GET''"
| "cp_method (GetFlavorCall i) = ''GET''"
| "cp_method (DeleteFlavorCall i) = ''DELETE''"
| "cp_method (CreateKeypairCall b) = ''POST''"
| "cp_method (ListKeypairsCall q) = ''GET''"
| "cp_method (GetKeypairCall i) = ''GET''"
| "cp_method (DeleteKeypairCall i) = ''DELETE''"
| "cp_method (CreateBackupCall b) = ''POST''"
| "cp_method (GetBackupCall i) = ''GET''"
| "cp_method (ListBackupsCall q) = ''GET''"
| "cp_method (DeleteBackupCall i) = ''DELETE''"
| "cp_method (RestoreBackupCall i b) = ''POST''"

primrec net_method :: "net_api \<Rightarrow> string" where
  "net_method (CreateNetworkCall b) = ''POST''"
| "net_method (GetNetworkCall i) = ''GET''"
| "net_method (ListNetworksCall q) = ''GET''"
| "net_method (DeleteNetworkCall i) = ''DELETE''"
| "net_method (CreateSubnetCall i b) = ''POST''"
| "net_method (DeleteSubnetCall i) = ''DELETE''"
| "net_method (CreateFirewallRuleCall i b) = ''POST''"
| "net_method (DeleteFirewallRuleCall i) = ''DELETE''"
| "net_method (AllocateFloatingIPCall b) = ''POST''"
| "net_method (ReleaseFloatingIPCall i) = ''DELETE''"
| "net_method ListFloatingIPsCall = ''GET''"

primrec st_method :: "st_api \<Rightarrow> string" where
  "st_method (CreatePoolCall b) = ''POST''"
| "st_method (GetPoolCall i) = ''GET''"
| "st_method ListPoolsCall = ''GET''"
| "st_method (CreateVolumeCall b) = ''POST''"
| "st_method (GetVolumeCall i) = ''GET''"
| "st_method (ListVolumesCall q) = ''GET''"
| "st_method (DeleteVolumeCall i q) = ''DELETE''"
| "st_method (ResizeVolumeCall i b) = ''PUT''"
| "st_method (CloneVolumeCall i b) = ''POST''"
| "st_method (CreateVolumeSnapshotCall i b) = ''POST''"
| "st_method (DeleteVolumeSnapshotCall i) = ''DELETE''"
| "st_method (RestoreVolumeSnapshotCall i) = ''POST''"

primrec api_method :: "api \<Rightarrow> string" where
  "api_method (ControlPlaneCall c) = cp_method c"
| "api_method (NetworkCall c) = net_method c"
| "api_method (StorageCall c) = st_method c"

primrec cp_bad_body :: "cp_api \<Rightarrow> bool" where
  "cp_bad_body (CreateVMCall b) = (b = None)"
| "cp_bad_body (GetVMCall i) = False"
| "cp_bad_body (ListVMsCall q) = False"
| "cp_bad_body (UpdateVMCall i b) = (b = None)"
| "cp_bad_body (DeleteVMCall i q) = False"
| "cp_bad_body (PowerOnVMCall i) = False"
| "cp_bad_body (PowerOffVMCall i q) = False"
| "cp_bad_body (RebootVMCall i q) = False"
| "cp_bad_body (ResizeVMCall i b) = (b = None)"
| "cp_bad_body (SnapshotVMCall i b) = (b = None)"
| "cp_bad_body (CloneVMCall i b) = (b = None)"
| "cp_bad_body (RestoreSnapshotCall b) = (b = None)"
| "cp_bad_body (RegisterNodeCall b) = (b = None)"
| "cp_bad_body (GetNodeCall i) = False"
| "cp_bad_body (ListNodesCall q) = False"
| "cp_bad_body (UpdateNodeCall i b) = (b = None)"
| "cp_bad_body (DrainNodeCall i b) = False"
| "cp_bad_body (HeartbeatCall i b) = (b = None)"
| "cp_bad_body (CreateImageCall b) = (b = None)"
| "cp_bad_body (GetImageCall i) = False"
| "cp_bad_body (ListImagesCall q) = False"
| "cp_bad_body (DeleteImageCall i) = False"
| "cp_bad_body ListOfficialImagesCall = False"
| "cp_bad_body (PullOfficialImageCall b) = (b = None)"
| "cp_bad_body (ImportImageCall b) = (b = None)"
| "cp_bad_body (CreateFlavorCall b) = (b = None)"
| "cp_bad_body ListFlavorsCall = False"
| "cp_bad_body (GetFlavorCall i) = False"
| "cp_bad_body (DeleteFlavorCall i) = False"
| "cp_bad_body (CreateKeypairCall b) = (b = None)"
| "cp_bad_body (ListKeypairsCall q) = False"
| "cp_bad_body (GetKeypairCall i) = False"
| "cp_bad_body (DeleteKeypairCall i) = False"
| "cp_bad_body (CreateBackupCall b) = (b = None)"
| "cp_bad_body (GetBackupCall i) = False"
| "cp_bad_body (ListBackupsCall q) = False"
| "cp_bad_body (DeleteBackupCall i) = False"
| "cp_bad_body (RestoreBackupCall i b) = (b = None)"

primrec net_bad_body :: "net_api \<Rightarrow> bool" where
  "net_bad_body (CreateNetworkCall b) = (b = None)"
| "net_bad_body (GetNetworkCall i) = False"
| "net_bad_body (ListNetworksCall q) = False"
| "net_bad_body (DeleteNetworkCall i) = False"
| "net_bad_body (CreateSubnetCall i b) = (b = None)"
| "net_bad_body (DeleteSubnetCall i) = False"
| "net_bad_body (CreateFirewallRuleCall i b) = (b = None)"
| "net_bad_body (DeleteFirewallRuleCall i) = False"
| "net_bad_body (AllocateFloatingIPCall b) = (b = None)"
| "net_bad_body (ReleaseFloatingIPCall i) = False"
| "net_bad_body ListFloatingIPsCall = False"

primrec st_bad_body :: "st_api \<Rightarrow> bool" where
  "st_bad_body (CreatePoolCall b) = (b = None)"
| "st_bad_body (GetPoolCall i) = False"
| "st_bad_body ListPoolsCall = False"
| "st_bad_body (CreateVolumeCall b) = (b = None)"
| "st_bad_body (GetVolumeCall i) = False"
| "st_bad_body (ListVolumesCall q) = False"
| "st_bad_body (DeleteVolumeCall i q) = False"
| "st_bad_body (ResizeVolumeCall i b) = (b = None)"
| "st_bad_body (CloneVolumeCall i b) = (b = None)"
| "st_bad_body (CreateVolumeSnapshotCall i b) = (b = None)"
| "st_bad_body (DeleteVolumeSnapshotCall i) = False"
| "st_bad_body (RestoreVolumeSnapshotCall i) = False"

primrec bad_body :: "api \<Rightarrow> bool" where
  "bad_body (ControlPlaneCall c) = cp_bad_body c"
| "bad_body (NetworkCall c) = net_bad_body c"
| "bad_body (StorageCall c) = st_bad_body c"

subsection \<open>Handlers keep what the service methods keep\<close>

definition keeps :: "(world \<Rightarrow> bool) \<Rightarrow> (world \<Rightarrow> 'r \<times> world) \<Rightarrow> bool" where
  "keeps I h \<longleftrightarrow> (\<forall>w. I w \<longrightarrow> I (snd (h w)))"

lemma keeps_answers [pres]:
  "preserves I m \<Longrightarrow> keeps I (answer bad good f m)"
  "preserves I mu \<Longrightarrow> keeps I (answer_status bad good mu)"
  "preserves I mo \<Longrightarrow> keeps I (answer_found bad msg f mo)"
  "preserves I mp \<Longrightarrow> keeps I (answer_outcome bad good f mp)"
  by (fastforce simp: keeps_def preserves_def answer_def answer_status_def answer_found_def answer_outcome_def split: prod.splits)+

lemma keeps_with_body [pres]:
  "(\<And>x. b = Some x \<Longrightarrow> keeps I (k x)) \<Longrightarrow> keeps I (with_body b k)"
  "(\<And>x. b = Some x \<Longrightarrow> keeps I (k' x)) \<Longrightarrow> keeps I (with_body_outcome b k')"
  by (auto simp: keeps_def with_body_def with_body_outcome_def split: option.split)

lemma keeps_case_prod [pres]: "(\<And>a b. x = (a, b) \<Longrightarrow> keeps I (f a b)) \<Longrightarrow> keeps I (case x of (a, b) \<Rightarrow> f a b)"
  by (cases x) simp

lemma keeps_returning [pres]: "keeps I h \<Longrightarrow> keeps I (returning h)"
  by (fastforce simp: keeps_def returning_def split: prod.splits)

lemma keeps_official [pres]: "keeps I cp_ListOfficialImages"
  by (simp add: keeps_def cp_ListOfficialImages_def)

lemmas cp_defs = cp_CreateVM_def cp_GetVM_def cp_ListVMs_def cp_UpdateVM_def cp_DeleteVM_def cp_PowerOnVM_def cp_PowerOffVM_def
  cp_RebootVM_def cp_ResizeVM_def cp_SnapshotVM_def cp_CloneVM_def cp_RestoreSnapshot_def cp_RegisterNode_def cp_GetNode_def
  cp_ListNodes_def cp_UpdateNode_def cp_DrainNode_def cp_Heartbeat_def cp_CreateImage_def cp_GetImage_def cp_ListImages_def
  cp_DeleteImage_def cp_PullOfficialImage_def cp_ImportImage_def cp_CreateFlavor_def cp_ListFlavors_def cp_GetFlavor_def
  cp_DeleteFlavor_def cp_CreateKeypair_def cp_ListKeypairs_def cp_GetKeypair_def cp_DeleteKeypair_def cp_CreateBackup_def
  cp_GetBackup_def cp_ListBackups_def cp_DeleteBackup_def cp_RestoreBackup_def

lemmas net_defs = net_CreateNetwork_def net_GetNetwork_def net_ListNetworks_def net_DeleteNetwork_def net_CreateSubnet_def
  net_DeleteSubnet_def net_CreateFirewallRule_def net_DeleteFirewallRule_def net_AllocateFloatingIP_def
  net_ReleaseFloatingIP_def net_ListFloatingIPs_def

lemmas st_defs = st_CreatePool_def st_GetPool_def st_ListPools_def st_CreateVolume_def st_GetVolume_def st_ListVolumes_def
  st_DeleteVolume_def st_ResizeVolume_def st_CloneVolume_def st_CreateSnapshot_def st_DeleteSnapshot_def
  st_RestoreSnapshot_def

lemma db_serve_cp [pres]: "keeps db_ok (serve_cp S E c)"
  by (cases c; simp only: serve_cp.simps) ((intro pres | unfold cp_defs)+)

lemma db_serve_net [pres]: "keeps db_ok (serve_net E c)"
  by (cases c; simp only: serve_net.simps) ((intro pres | unfold net_defs Let_def)+)

lemma db_serve_st [pres]: "keeps db_ok (serve_st E X c)"
  by (cases c; simp only: serve_st.simps) ((intro pres | unfold st_defs Let_def)+)

lemma db_serve [pres]: "keeps db_ok (serve S E X c)"
  by (cases c; simp only: serve.simps) (intro pres)+

subsection \<open>Safe methods\<close>

text \<open>\<open>tables w\<close>: the contents of the database, without the counters, the files and the messages.\<close>

definition tables :: "world \<Rightarrow> world" where
  "tables w = w\<lparr>files := Map.empty, downloads := [], outbox := [], stmt_no := 0, uuid_no := 0, pub_no := 0, cmd_no := 0\<rparr>"

lemma counter_blind_tables [pres]: "counter_blind (\<lambda>w. tables w = t)"
  by (simp add: counter_blind_def tables_def)

lemma preserves_gets_of_services [pres]:
  "counter_blind I \<Longrightarrow> preserves I (GetNetwork E i)" "counter_blind I \<Longrightarrow> preserves I (ListNetworks E nf)"
  "counter_blind I \<Longrightarrow> preserves I (ListFloatingIPs E)" "counter_blind I \<Longrightarrow> preserves I (GetPool E i)"
  "counter_blind I \<Longrightarrow> preserves I (ListPools E)" "counter_blind I \<Longrightarrow> preserves I (GetVolume E i)"
  "counter_blind I \<Longrightarrow> preserves I (ListVolumes E vf)"
  unfolding GetNetwork_def ListNetworks_def ListFloatingIPs_def GetPool_def ListPools_def GetVolume_def ListVolumes_def
  by (intro pres; assumption)+

lemma GET_keeps_cp:
  assumes "counter_blind I" "cp_method c = ''GET''"
  shows "keeps I (serve_cp S E c)"
  using assms(2) by (cases c; simp only: serve_cp.simps cp_method.simps; simp?) ((intro pres assms | unfold cp_defs)+)

lemma GET_keeps_net:
  assumes "counter_blind I" "net_method c = ''GET''"
  shows "keeps I (serve_net E c)"
  using assms(2) by (cases c; simp only: serve_net.simps net_method.simps; simp?) ((intro pres assms | unfold net_defs Let_def)+)

lemma GET_keeps_st:
  assumes "counter_blind I" "st_method c = ''GET''"
  shows "keeps I (serve_st E X c)"
  using assms(2) by (cases c; simp only: serve_st.simps st_method.simps; simp?) ((intro pres assms | unfold st_defs Let_def)+)

lemma GET_keeps:
  assumes "counter_blind I" "api_method c = ''GET''"
  shows "keeps I (serve S E X c)"
  using assms GET_keeps_cp GET_keeps_net GET_keeps_st
  by (cases c) (auto intro: keeps_returning)

end
