(* ===== verification/StorageInv.thy ===== *)
theory StorageInv
  imports StorageSvc
begin

section \<open>Invariants of the storage service\<close>

text \<open>
  The locale \<open>storage_invariant\<close> states what a predicate of the state needs for every method of the service to keep
  it: the writes of the repositories keep it, where the rows written to the pool table satisfy \<open>okp\<close> if those read
  from it do. It is interpreted on the constraints of the database, on the server's spelling of ids
  and on the capacities of the pools. \<open>storage_reachable\<close> is the transition system of the service.
\<close>

lemma preserves_bindE_value:
  assumes "preserves I m" "\<And>w a w'. I w \<Longrightarrow> m w = (Inr a, w') \<Longrightarrow> Q a" "\<And>a. Q a \<Longrightarrow> preserves I (f a)"
  shows "preserves I (bindE m f)"
proof (rule preservesI)
  fix w assume I: "I w"
  obtain r w' where m: "m w = (r, w')" by fastforce
  have w': "I w'"
    by (rule preserves_result [OF assms(1) I m])
  show "I (snd (bindE m f w))"
  proof (cases r)
    case (Inl e)
    then show ?thesis using m w' by (simp add: bindE_apply)
  next
    case (Inr a)
    then have "preserves I (f a)"
      using assms(2,3) I m by blast
    then show ?thesis
      using m w' Inr by (simp add: bindE_apply preserves_def)
  qed
qed

lemma read_pool_row:
  assumes "StoragePoolRepository_GetByID E i w = (Inr (Some p), w')"
  shows "p \<in> set (storage_pools w)"
  using assms
  by (auto simp: StoragePoolRepository_GetByID_def get_nil_def tryM_iff sql_def uuid_arg_def select_one_def Let_def
      find_Some_iff split: option.splits if_splits)

locale storage_invariant =
  fixes E :: env and I :: "world \<Rightarrow> bool" and okp :: "StoragePool \<Rightarrow> bool"
  assumes blind: "counter_blind I"
    and okp_new: "sp_TotalBytes p = 0 \<Longrightarrow> okp p"
    and okp_used: "okp p \<Longrightarrow> okp (p\<lparr>sp_UsedBytes := u\<rparr>)"
    and okp_row: "I w \<Longrightarrow> p \<in> set (storage_pools w) \<Longrightarrow> okp p"
    and pool_create: "okp p \<Longrightarrow> preserves I (StoragePoolRepository_Create E p)"
    and pool_update: "okp p \<Longrightarrow> preserves I (StoragePoolRepository_Update E p)"
    and vol_create: "preserves I (VolumeRepository_Create E v)"
    and vol_update: "preserves I (VolumeRepository_Update E v)"
    and vol_delete: "preserves I (VolumeRepository_Delete E i)"
    and snap_create: "preserves I (VolumeSnapshotRepository_Create E s)"
    and snap_update: "preserves I (VolumeSnapshotRepository_Update E s)"
    and snap_delete: "preserves I (VolumeSnapshotRepository_Delete E i)"
begin

lemmas rules = pres blind vol_create vol_update vol_delete snap_create snap_update snap_delete

lemma keeps_finish_volume: "okp pool \<Longrightarrow> preserves I m \<Longrightarrow> preserves I (finish_volume E pool v m)"
  unfolding finish_volume_def Let_def by (intro rules pool_update okp_used)

text \<open>A method that looks a pool up and goes on with it.\<close>

lemma keeps_with_pool:
  assumes "\<And>p. (\<And>x. p = Some x \<Longrightarrow> okp x) \<Longrightarrow> preserves I (k p)"
  shows "preserves I (bindE (wrapE s (StoragePoolRepository_GetByID E i)) k)"
  using blind read_pool_row okp_row
  by (intro preserves_bindE_value [where Q = "\<lambda>p. \<forall>x. p = Some x \<longrightarrow> okp x"] assms rules)
    (auto simp: wrapE_Inr_iff)

lemma keeps_with_found_pool:
  assumes "\<And>x. okp x \<Longrightarrow> preserves I (k x)"
  shows "preserves I (bindE (must_find s msg (StoragePoolRepository_GetByID E i)) k)"
  using blind read_pool_row okp_row
  by (intro preserves_bindE_value [where Q = okp] assms rules)
    (auto simp: must_find_Inr_iff)

lemma keeps_deref: "(\<And>x. p = Some x \<Longrightarrow> preserves I (k x)) \<Longrightarrow> preserves I (deref p msg k)"
  unfolding deref_def by (intro rules)

lemma keeps_CreatePool: "preserves I (CreatePool E preq)"
  unfolding CreatePool_def Let_def by (intro rules pool_create okp_new) simp

lemma keeps_CreateVolume: "preserves I (CreateVolume E X req)"
  unfolding CreateVolume_def Let_def
  by (intro preserves_if preserves_throw keeps_with_found_pool) (intro rules keeps_finish_volume; assumption)+

lemma keeps_DeleteVolume: "preserves I (DeleteVolume E i b)"
  unfolding DeleteVolume_def by (intro rules)

lemma keeps_ResizeVolume: "preserves I (ResizeVolume E X i n)"
  unfolding ResizeVolume_def Let_def
  by (intro preserves_if preserves_throw preserves_bindE preserves_must_find preserves_storage_reads_2 blind keeps_with_pool keeps_deref)
    (intro rules pool_update okp_used; simp)+

lemma keeps_CloneVolume: "preserves I (CloneVolume E X i nm)"
  unfolding CloneVolume_def Let_def
  by (intro preserves_if preserves_throw preserves_bindE preserves_must_find preserves_storage_reads_2 blind keeps_with_pool
      preserves_new_uuid preserves_wrapE vol_create keeps_deref) (intro rules keeps_finish_volume; simp)+

lemma keeps_CreateSnapshot: "preserves I (storage_CreateSnapshot E X i nm)"
  unfolding storage_CreateSnapshot_def Let_def by (intro rules)

lemma keeps_with_snapshot: "(\<And>s v p. preserves I (k s v p)) \<Longrightarrow> preserves I (with_snapshot E i k)"
  unfolding with_snapshot_def by (intro rules)

lemma keeps_snapshot_methods: "preserves I (storage_DeleteSnapshot E X i)" "preserves I (storage_RestoreSnapshot E X i)"
  unfolding storage_DeleteSnapshot_def storage_RestoreSnapshot_def by (intro rules keeps_with_snapshot)+

lemma keeps_reads: "preserves I (GetPool E i)" "preserves I (ListPools E)" "preserves I (GetVolume E i)" "preserves I (ListVolumes E vf)"
  unfolding GetPool_def ListPools_def GetVolume_def ListVolumes_def by (intro rules)+

end

subsection \<open>The invariants\<close>

interpretation constraints: storage_invariant E db_ok "\<lambda>_. True"
  by unfold_locales (intro pres TrueI)+

definition no_capacity :: "world \<Rightarrow> bool" where
  "no_capacity w \<longleftrightarrow> (\<forall>p\<in>set (storage_pools w). sp_TotalBytes p = 0)"

lemma counter_blind_storage [pres]:
  "counter_blind (pools_valid E)" "counter_blind (refs_canonical E)" "counter_blind no_capacity"
  by (simp_all add: counter_blind_def pools_valid_def refs_canonical_def no_capacity_def)

lemmas storage_writes = StoragePoolRepository_Create_def StoragePoolRepository_Update_def VolumeRepository_Create_def
  VolumeRepository_Update_def VolumeRepository_Delete_def VolumeSnapshotRepository_Create_def
  VolumeSnapshotRepository_Update_def VolumeSnapshotRepository_Delete_def

lemma preserves_uuid_arg_parsed:
  "(\<And>c. uuid_parse E s = Some c \<Longrightarrow> preserves I (k c)) \<Longrightarrow> preserves I (uuid_arg E s k)"
  by (cases "uuid_parse E s") (auto simp: uuid_arg_def intro: pres)

lemma capacity_writes:
  "sp_TotalBytes p = 0 \<Longrightarrow> preserves no_capacity (StoragePoolRepository_Create E p)"
  "sp_TotalBytes p = 0 \<Longrightarrow> preserves no_capacity (StoragePoolRepository_Update E p)"
  "preserves no_capacity (VolumeRepository_Create E v)" "preserves no_capacity (VolumeRepository_Update E v)"
  "preserves no_capacity (VolumeRepository_Delete E i)" "preserves no_capacity (VolumeSnapshotRepository_Create E s)"
  "preserves no_capacity (VolumeSnapshotRepository_Update E s)" "preserves no_capacity (VolumeSnapshotRepository_Delete E i)"
  unfolding storage_writes
  by (intro pres; (rule preservesI)?, (auto simp: require_def no_capacity_def intro!: pres)[1])+

interpretation capacity: storage_invariant E no_capacity "\<lambda>p. sp_TotalBytes p = 0"
  by unfold_locales (auto simp: no_capacity_def intro: capacity_writes pres)

lemma valid_writes:
  assumes "uuid_ok E"
  shows "preserves (pools_valid E) (StoragePoolRepository_Create E p)"
    "preserves (pools_valid E) (StoragePoolRepository_Update E p)"
    "preserves (pools_valid E) (VolumeRepository_Create E v)" "preserves (pools_valid E) (VolumeRepository_Update E v)"
    "preserves (pools_valid E) (VolumeRepository_Delete E i)" "preserves (pools_valid E) (VolumeSnapshotRepository_Create E s)"
    "preserves (pools_valid E) (VolumeSnapshotRepository_Update E s)" "preserves (pools_valid E) (VolumeSnapshotRepository_Delete E i)"
  unfolding storage_writes
  by (intro preserves_uuid_arg_parsed preserves_sql preserves_if pres; (rule preservesI)?,
    (auto simp: require_def pools_valid_def intro!: pres intro: uuid_ok_canon [OF assms])[1])+

lemma canonical_writes:
  assumes "uuid_ok E"
  shows "preserves (refs_canonical E) (StoragePoolRepository_Create E p)"
    "preserves (refs_canonical E) (StoragePoolRepository_Update E p)"
    "preserves (refs_canonical E) (VolumeRepository_Create E v)" "preserves (refs_canonical E) (VolumeRepository_Update E v)"
    "preserves (refs_canonical E) (VolumeRepository_Delete E i)" "preserves (refs_canonical E) (VolumeSnapshotRepository_Create E s)"
    "preserves (refs_canonical E) (VolumeSnapshotRepository_Update E s)" "preserves (refs_canonical E) (VolumeSnapshotRepository_Delete E i)"
  unfolding storage_writes
  by (intro preserves_uuid_arg_parsed preserves_sql preserves_if pres; (rule preservesI)?,
    (auto simp: require_def refs_canonical_def intro!: pres intro: uuid_ok_canon [OF assms])[1])+

text \<open>For environments with the properties of \<open>uuid_ok\<close>; \<open>sample_env\<close> is one.\<close>

lemma storage_invariant_valid: "uuid_ok E \<Longrightarrow> storage_invariant E (pools_valid E) (\<lambda>_. True)"
  by unfold_locales (auto intro: valid_writes pres)

lemma storage_invariant_canonical: "uuid_ok E \<Longrightarrow> storage_invariant E (refs_canonical E) (\<lambda>_. True)"
  by unfold_locales (auto intro: canonical_writes pres)

subsection \<open>Reachable states\<close>

datatype storage_call =
    PoolCreate CreatePoolRequest
  | VolumeCreate CreateVolumeRequest
  | VolumeDelete string bool
  | VolumeResize string int
  | VolumeClone string string
  | SnapshotCreate string string
  | SnapshotDelete string
  | SnapshotRestore string

fun storage_run :: "env \<Rightarrow> exec \<Rightarrow> storage_call \<Rightarrow> world \<Rightarrow> world" where
  "storage_run E X (PoolCreate req) w = snd (CreatePool E req w)"
| "storage_run E X (VolumeCreate req) w = snd (CreateVolume E X req w)"
| "storage_run E X (VolumeDelete i b) w = snd (DeleteVolume E i b w)"
| "storage_run E X (VolumeResize i n) w = snd (ResizeVolume E X i n w)"
| "storage_run E X (VolumeClone i n) w = snd (CloneVolume E X i n w)"
| "storage_run E X (SnapshotCreate i n) w = snd (storage_CreateSnapshot E X i n w)"
| "storage_run E X (SnapshotDelete i) w = snd (storage_DeleteSnapshot E X i w)"
| "storage_run E X (SnapshotRestore i) w = snd (storage_RestoreSnapshot E X i w)"

text \<open>
  The states of the storage service: calls in any order, failing at any statement or command, between steps of
  other services, which leave the storage tables alone and respect the constraints.
\<close>

inductive storage_reachable :: "env \<Rightarrow> exec \<Rightarrow> world \<Rightarrow> bool" for E X where
  start: "storage_reachable E X empty_world"
| call: "storage_reachable E X w \<Longrightarrow> storage_reachable E X (storage_run E X c w)"
| elsewhere: "storage_reachable E X w \<Longrightarrow> db_ok w' \<Longrightarrow> storage_pools w' = storage_pools w \<Longrightarrow> volumes w' = volumes w \<Longrightarrow>
    volume_snapshots w' = volume_snapshots w \<Longrightarrow> storage_reachable E X w'"

lemma storage_run_keeps:
  assumes "storage_invariant E I okp" "I w"
  shows "I (storage_run E X c w)"
  using assms(2) storage_invariant.keeps_CreatePool [OF assms(1)] storage_invariant.keeps_CreateVolume [OF assms(1)]
    storage_invariant.keeps_DeleteVolume [OF assms(1)] storage_invariant.keeps_ResizeVolume [OF assms(1)]
    storage_invariant.keeps_CloneVolume [OF assms(1)] storage_invariant.keeps_CreateSnapshot [OF assms(1)]
    storage_invariant.keeps_snapshot_methods [OF assms(1)]
  by (cases c) (simp_all add: preserves_def)

lemma storage_reachable_no_capacity:
  assumes "storage_reachable E X w"
  shows "no_capacity w"
  using assms
proof induction
  case start
  then show ?case by (simp add: no_capacity_def empty_world_def)
next
  case (call w c)
  then show ?case
    using storage_run_keeps [OF capacity.storage_invariant_axioms] by blast
qed (simp add: no_capacity_def)

text \<open>
  C7. In every state the storage service can reach, the database satisfies its constraints, pools have a valid driver
  and canonical ids, every reference is spelled as the server spells it (so no method panics), and no pool
  has a capacity: nothing ever sets one.
\<close>

theorem storage_reachable_invariant:
  assumes "uuid_ok E" "storage_reachable E X w"
  shows "db_ok w \<and> pools_valid E w \<and> refs_canonical E w \<and> no_capacity w"
  using assms(2)
proof induction
  case start
  then show ?case
    by (simp add: pools_valid_def refs_canonical_def no_capacity_def) (simp add: empty_world_def)
next
  case (call w c)
  note keeps = storage_run_keeps [OF constraints.storage_invariant_axioms] storage_run_keeps [OF capacity.storage_invariant_axioms]
      storage_run_keeps [OF storage_invariant_valid [OF assms(1)]] storage_run_keeps [OF storage_invariant_canonical [OF assms(1)]]
  show ?case
    using call.IH keeps by blast
next
  case (elsewhere w w')
  then show ?case
    by (simp add: pools_valid_def refs_canonical_def no_capacity_def)
qed

lemma pool_found_row: "must_find p msg (StoragePoolRepository_GetByID E i) w = (Inr pool, w') \<Longrightarrow> pool \<in> set (storage_pools w)"
  using read_pool_row by (auto simp: must_find_Inr_iff)

lemma finish_volume_error:
  "fst (finish_volume E pool vol (qcow2_Create X path n) w) \<noteq> Inl (Msg ''insufficient space in pool'')"
  by (auto simp: finish_volume_def op_apply qcow2_Create_run Let_def split: prod.splits sum.splits option.splits)

text \<open>
  Since nothing sets the capacity of a pool, the capacity check of \<^verbatim>\<open>CreateVolume\<close> never refuses a volume in a
  state that the service can reach.
\<close>

theorem capacity_never_enforced:
  assumes "storage_reachable E X w"
  shows "fst (CreateVolume E X req w) \<noteq> Inl (Msg ''insufficient space in pool'')"
proof -
  have total: "\<not> pool_full pool n" if "pool \<in> set (storage_pools w)" for pool n
    using storage_reachable_no_capacity [OF assms] that by (simp add: no_capacity_def pool_full_def)
  obtain q w2 where get: "must_find ''get pool'' ''pool not found'' (StoragePoolRepository_GetByID E (cvr_PoolID req)) w = (q, w2)"
    by fastforce
  have err: "q \<noteq> Inl (Msg ''insufficient space in pool'')"
    using get by (auto simp: must_find_def op_apply split: prod.splits sum.splits option.splits)
  show ?thesis
  proof (cases q)
    case (Inr pool)
    then show ?thesis
      using get total pool_found_row [of _ _ E _ w pool w2] finish_volume_error
      by (auto simp: CreateVolume_def op_apply new_uuid_def Let_def split: prod.splits sum.splits)
  qed (use get err in \<open>auto simp: CreateVolume_def bindE_apply\<close>)
qed

theorem storage_reachable_invariant_witness:
  "db_ok (storage_run sample_env sample_exec (PoolCreate \<lparr>cp_Name = ''a'', cp_Driver = '''', cp_Path = ''/a'', cp_Encrypted = False, cp_Config = None\<rparr>) empty_world)"
  using storage_reachable_invariant [OF uuid_ok_sample storage_reachable.call [OF storage_reachable.start]] by blast

theorem capacity_never_enforced_witness:
  "fst (CreateVolume sample_env sample_exec sample_volume_request empty_world) \<noteq> Inl (Msg ''insufficient space in pool'')"
  using capacity_never_enforced [OF storage_reachable.start] .

end
