(* ===== verification/System.thy ===== *)
theory System
  imports Handlers VMLifecycle StorageInv
begin

section \<open>The system: requests, recovery and downloads in any order\<close>

text \<open>
  A step of the system is a request that one of the three services serves, a recovery of the control plane, or a
  download that the image puller started, each with any configuration, any failures of the database, the message
  bus, the commands and the network. \<open>reachable\<close> holds the states after any sequence of steps from an empty
  database.

  The properties: every reachable database satisfies the constraints of the migrations and holds only machines with at least
  one CPU and 256 MB; a \<^verbatim>\<open>GET\<close> request changes no table; a body that does not decode is refused before
  anything happens.
\<close>

definition sized :: "VirtualMachine \<Rightarrow> bool" where
  "sized v \<longleftrightarrow> 1 \<le> vm_VCpus v \<and> 256 \<le> vm_MemoryMB v"

definition all_sized :: "world \<Rightarrow> bool" where
  "all_sized w \<longleftrightarrow> (\<forall>v\<in>set (virtual_machines w). sized v)"

lemma counter_blind_sized [pres]: "counter_blind all_sized"
  by (simp add: counter_blind_def all_sized_def)

lemma sized_updates [simp]:
  "sized (v\<lparr>vm_Status := s\<rparr>) = sized v" "sized (v\<lparr>vm_NodeID := n\<rparr>) = sized v" "sized (v\<lparr>vm_NetworkInterfaces := ns\<rparr>) = sized v"
  "sized (v\<lparr>vm_Disks := ds\<rparr>) = sized v" "sized (v\<lparr>vm_ID := i\<rparr>) = sized v" "sized (v\<lparr>vm_Name := nm\<rparr>) = sized v"
  "sized (v\<lparr>vm_Metadata := m\<rparr>) = sized v" "sized (v\<lparr>vm_Labels := m\<rparr>) = sized v" "sized (v\<lparr>vm_Tags := ts\<rparr>) = sized v"
  "sized (v\<lparr>vm_OrganizationID := i\<rparr>) = sized v" "sized (v\<lparr>vm_ProjectID := p\<rparr>) = sized v" "sized (v\<lparr>vm_SSHKeyID := p\<rparr>) = sized v"
  by (simp_all add: sized_def)

subsection \<open>Writes of other tables\<close>

lemmas cp_other_writes = NodeRepository_Create_def NodeRepository_Update_def NodeRepository_Delete_def
  NodeRepository_UpdateStatus_def NodeRepository_UpdateHeartbeat_def ImageRepository_Create_def ImageRepository_Update_def
  ImageRepository_UpdateStatus_def ImageRepository_Delete_def SnapshotRepository_Create_def SnapshotRepository_Delete_def
  BackupRepository_Create_def BackupRepository_Update_def BackupRepository_Delete_def FlavorRepository_Create_def
  FlavorRepository_Delete_def KeypairRepository_Create_def KeypairRepository_Delete_def insert_disk_def insert_nic_def
  insert_default_network_def insert_default_subnet_def

lemma sized_cp_other_writes [pres]:
  "preserves all_sized (NodeRepository_Create E n)" "preserves all_sized (NodeRepository_Update E n)"
  "preserves all_sized (NodeRepository_UpdateStatus E i nst)" "preserves all_sized (NodeRepository_UpdateHeartbeat E i res)"
  "preserves all_sized (ImageRepository_Create E m)" "preserves all_sized (ImageRepository_Update E m)"
  "preserves all_sized (ImageRepository_UpdateStatus E i ist sz ck)" "preserves all_sized (ImageRepository_Delete E i)"
  "preserves all_sized (SnapshotRepository_Create E s)" "preserves all_sized (SnapshotRepository_Delete E i)"
  "preserves all_sized (BackupRepository_Create E b)" "preserves all_sized (BackupRepository_Update E b)"
  "preserves all_sized (BackupRepository_Delete E i)" "preserves all_sized (FlavorRepository_Create E f)"
  "preserves all_sized (FlavorRepository_Delete E i)" "preserves all_sized (KeypairRepository_Create E k)"
  "preserves all_sized (KeypairRepository_Delete E i)" "preserves all_sized (insert_disk E i d)"
  "preserves all_sized (insert_nic E i c)" "preserves all_sized (insert_default_network E i)"
  "preserves all_sized (insert_default_subnet E i j)"
  unfolding cp_other_writes
  by (intro pres; (rule preservesI)?, (auto simp: require_def bindE_apply all_sized_def intro!: pres split: option.splits)[1])+

lemmas network_writes = NetworkRepository_Create_def SubnetRepository_Create_def FirewallRepository_Create_def
  FloatingIPRepository_Allocate_def NetworkRepository_Delete_def SubnetRepository_Delete_def FirewallRepository_Delete_def
  FloatingIPRepository_Release_def insert_subnet_def insert_rule_def

lemma sized_network_writes [pres]:
  "preserves all_sized (NetworkRepository_Create E net)" "preserves all_sized (SubnetRepository_Create E sn)"
  "preserves all_sized (FirewallRepository_Create E fr)" "preserves all_sized (FloatingIPRepository_Allocate E fip)"
  "preserves all_sized (NetworkRepository_Delete E i)" "preserves all_sized (SubnetRepository_Delete E i)"
  "preserves all_sized (FirewallRepository_Delete E i)" "preserves all_sized (FloatingIPRepository_Release E i)"
  unfolding network_writes
  by (intro pres; (rule preservesI)?, (auto simp: require_def all_sized_def intro!: pres split: option.splits)[1])+

lemma sized_storage_writes [pres]:
  "preserves all_sized (StoragePoolRepository_Create E p)" "preserves all_sized (StoragePoolRepository_Update E p)"
  "preserves all_sized (VolumeRepository_Create E v)" "preserves all_sized (VolumeRepository_Update E v)"
  "preserves all_sized (VolumeRepository_Delete E i)" "preserves all_sized (VolumeSnapshotRepository_Create E vs)"
  "preserves all_sized (VolumeSnapshotRepository_Update E vs)" "preserves all_sized (VolumeSnapshotRepository_Delete E i)"
  unfolding storage_writes
  by (intro pres; (rule preservesI)?, (auto simp: require_def all_sized_def intro!: pres split: option.splits)[1])+

interpretation machines: storage_invariant E all_sized "\<lambda>_. True"
  by unfold_locales (simp_all add: pres)

lemma sized_delete_subnets [pres]: "preserves all_sized (delete_subnets E ss)"
  by (induction ss) (simp_all only: delete_subnets.simps, (intro pres; assumption)+)

lemma sized_network_service [pres]:
  "preserves all_sized (CreateNetwork E req)" "preserves all_sized (DeleteNetwork E i)"
  "preserves all_sized (CreateSubnet E i n c d)" "preserves all_sized (DeleteSubnet E i)"
  "preserves all_sized (CreateFirewallRule E freq)" "preserves all_sized (DeleteFirewallRule E i)"
  "preserves all_sized (AllocateFloatingIP E i v)" "preserves all_sized (ReleaseFloatingIP E i)"
  unfolding CreateNetwork_def DeleteNetwork_def CreateSubnet_def DeleteSubnet_def CreateFirewallRule_def
    DeleteFirewallRule_def AllocateFloatingIP_def ReleaseFloatingIP_def Let_def
  by (intro pres)+

lemma sized_serve_net [pres]: "keeps all_sized (serve_net E c)"
  by (cases c; simp only: serve_net.simps) ((intro pres | unfold net_defs Let_def)+)

lemmas machines_rules = machines.keeps_CreatePool machines.keeps_CreateVolume machines.keeps_DeleteVolume
  machines.keeps_ResizeVolume machines.keeps_CloneVolume machines.keeps_CreateSnapshot machines.keeps_snapshot_methods
  machines.keeps_reads

lemma sized_serve_st [pres]: "keeps all_sized (serve_st E X c)"
  by (cases c; simp only: serve_st.simps) ((intro pres machines_rules | unfold st_defs Let_def)+)

subsection \<open>Machines\<close>

lemma sized_VM_writes [pres]:
  "sized vm \<Longrightarrow> preserves all_sized (insert_vm E vm)"
  "sized vm \<Longrightarrow> preserves all_sized (VMRepository_Update E vm)"
  "preserves all_sized (VMRepository_Delete E i)" "preserves all_sized (VMRepository_UpdateStatus E i st)"
  "preserves all_sized (VMRepository_AssignNode E i n)"
  unfolding insert_vm_def VMRepository_Update_def VMRepository_Delete_def VMRepository_UpdateStatus_def VMRepository_AssignNode_def
  by (intro pres; rule preservesI, (auto simp: require_def all_sized_def sized_def update_where_def split: option.splits)[1])+

lemma sized_VM_Create [pres]: "sized vm \<Longrightarrow> preserves all_sized (VMRepository_Create E vm)"
  unfolding VMRepository_Create_def by (intro pres)

lemma sized_read:
  assumes "all_sized w" "VMRepository_GetByID E i w = (Inr (Some vm), w')"
  shows "sized vm"
  using assms
  by (auto simp: VMRepository_GetByID_def scanVM_def loadRelated_def get_opt_def op_Inr_iff tryM_iff sql_def uuid_arg_def
      select_one_def Let_def find_Some_iff all_sized_def split: option.splits if_splits)

lemma sized_get_vm [pres]:
  assumes "\<And>vm. sized vm \<Longrightarrow> preserves all_sized (f vm)"
  shows "preserves all_sized (get_vm E i f)"
  unfolding get_vm_def
proof (rule preserves_bindE_value [where Q = "\<lambda>r. \<forall>vm. r = Some vm \<longrightarrow> sized vm"])
  show "preserves all_sized (wrapE ''get vm'' (VMRepository_GetByID E i))"
    by (intro pres)
qed (use assms sized_read in \<open>auto simp: wrapE_Inr_iff or_fail_def intro!: pres split: option.split\<close>)

lemma sized_images [pres]:
  "preserves all_sized (set_status E img ist)"
  "preserves all_sized (restart_download E b img url)" "preserves all_sized (PullFromOfficial E d oi)"
  "preserves all_sized (Puller_PullOfficialImage E d os v a)" "preserves all_sized (Puller_ImportFromURL E req)"
  "preserves all_sized (ResolveAndEnsureImage E d r)" "preserves all_sized (ResumeDownloads E)"
  "preserves all_sized (store_image E f d img url c)" "preserves all_sized (download E f d img url)"
  "preserves all_sized (EnsureDefaultNetwork E org)"
  unfolding set_status_def restart_download_def PullFromOfficial_def Puller_PullOfficialImage_def Puller_ImportFromURL_def
    ResolveAndEnsureImage_def ResumeDownloads_def resume_one_def store_image_def finish_download_def download_def
    EnsureDefaultNetwork_def Let_def
  by (intro pres)+

lemma prepares_sized [pres]: "prepares all_sized"
  unfolding prepares_def by (intro conjI allI pres)

lemma sized_create_loop [pres]: "sized vm \<Longrightarrow> preserves all_sized (create_loop S E r vm)"
  by (induction r arbitrary: vm) (simp_all only: create_loop.simps, (intro pres; simp)+)

lemma sized_new_vm: "\<not> cv_VCpus req < 1 \<Longrightarrow> \<not> cv_MemoryMB req < 256 \<Longrightarrow> sized (new_vm req i)"
  by (simp add: sized_def new_vm_def)

lemma sized_CreateVM [pres]: "preserves all_sized (CreateVM S E req)"
  unfolding CreateVM_def Let_def
  by (intro pres preserves_create_disks preserves_create_nics) (simp_all add: sized_new_vm)

lemma sized_clone_store [pres]: "sized vm \<Longrightarrow> preserves all_sized (clone_store S E vm)"
  unfolding clone_store_def Let_def by (intro pres) simp_all

lemma sized_Clone [pres]: "preserves all_sized (Clone S E i n nd l)"
  unfolding Clone_def
proof (rule preserves_bindE_value [where Q = "\<lambda>r. \<forall>vm. r = Some vm \<longrightarrow> sized vm"])
  show "preserves all_sized (wrapE ''get source vm'' (VMRepository_GetByID E i))"
    by (intro pres)
next
  fix r :: "VirtualMachine option" assume r: "\<forall>vm. r = Some vm \<longrightarrow> sized vm"
  have "sized source \<Longrightarrow> sized (cloned_vm source j n nd)" for source j
    by (simp add: cloned_vm_def sized_def)
  then show "preserves all_sized (or_fail ''source vm not found'' r (\<lambda>source. bindE (new_uuid E) (\<lambda>j.
     let vm = cloned_vm source j n nd in
     bindE (mapE (clone_disk E) (vm_Disks source)) (\<lambda>disks.
     bindE (mapE (clone_nic S E j) (List.enumerate 0 (vm_NetworkInterfaces source))) (\<lambda>nics0.
     bindE (if nics0 = [] \<and> ipam S then bindE (clone_default_nic E vm) (\<lambda>n. ret [n]) else ret nics0) (\<lambda>nics.
     bindE (clone_store S E (vm\<lparr>vm_Disks := disks, vm_NetworkInterfaces := nics\<rparr>)) (\<lambda>cloned.
     publish_event S E ''cloned'' (vm_ID cloned) [(''source_vm_id'', i), (''cloned_vm_id'', vm_ID cloned)] (ret cloned))))))))"
    using r unfolding or_fail_def Let_def
    by (cases r) (simp_all only: option.case, (intro pres preserves_clone_default_nic; simp)+)
qed (use sized_read in \<open>auto simp: wrapE_Inr_iff\<close>)

lemma sized_auto_schedule [pres]: "preserves all_sized (auto_schedule E i vm)"
  unfolding auto_schedule_def assign_def by (intro pres)

lemma sized_service [pres]:
  "preserves all_sized (UpdateVM E i ureq)" "preserves all_sized (DeleteVM E i force)" "preserves all_sized (PowerOn S E i)"
  "preserves all_sized (PowerOff S E i force)" "preserves all_sized (Reboot S E i force)" "preserves all_sized (Resize S E i n m)"
  "preserves all_sized (Service_Snapshot S E i nm d)" "preserves all_sized (RestoreSnapshot S E i)"
  "preserves all_sized (CreateBackup E b)" "preserves all_sized (DeleteBackup E i)" "preserves all_sized (RestoreBackup S E i j)"
  unfolding UpdateVM_def DeleteVM_def PowerOn_def PowerOff_def Reboot_def Resize_def Service_Snapshot_def RestoreSnapshot_def
    CreateBackup_def DeleteBackup_def RestoreBackup_def Let_def
  by ((intro pres; simp add: sized_def)+)

lemma sized_service_2 [pres]:
  "preserves all_sized (NodeService_Register S E nreq)" "preserves all_sized (NodeService_UpdateNode E i ls)"
  "preserves all_sized (NodeService_Drain E i t)" "preserves all_sized (NodeService_Heartbeat E i res)"
  "preserves all_sized (CreateImage E img)" "preserves all_sized (DeleteImage E i)"
  "preserves all_sized (Service_PullOfficialImage S E os v a)" "preserves all_sized (Service_ImportFromURL S E ireq)"
  "preserves all_sized (CreateFlavor S E freq)" "preserves all_sized (DeleteFlavor S E i)"
  "preserves all_sized (CreateKeypair S E kreq)" "preserves all_sized (DeleteKeypair S E i)"
  unfolding NodeService_Register_def NodeService_UpdateNode_def NodeService_Drain_def NodeService_Heartbeat_def CreateImage_def
    DeleteImage_def Service_PullOfficialImage_def Service_ImportFromURL_def CreateFlavor_def DeleteFlavor_def CreateKeypair_def
    DeleteKeypair_def Let_def
  by (intro pres)+

lemma sized_serve_cp [pres]: "keeps all_sized (serve_cp S E c)"
  by (cases c; simp only: serve_cp.simps) ((intro pres | unfold cp_defs)+)

lemma sized_serve [pres]: "keeps all_sized (serve S E X c)"
  by (cases c; simp only: serve.simps) (intro pres)+

lemma sized_Recover [pres]: "preserves all_sized (Recover S E)"
  unfolding Recover_def reconcileVMs_def reconcile_vm_def reconcile_running_def reconcile_disk_def fail_vm_def
  by (intro pres | split VMStatus.split, intro conjI impI)+

subsection \<open>Reachable states\<close>

inductive reachable :: "world \<Rightarrow> bool" where
  start: "reachable empty_world"
| request: "reachable w \<Longrightarrow> serve S E X c w = (r, w') \<Longrightarrow> reachable w'"
| recovery: "reachable w \<Longrightarrow> Recover S E w = (r, w') \<Longrightarrow> reachable w'"
| fetched: "reachable w \<Longrightarrow> (img, url, b) \<in> set (downloads w) \<Longrightarrow> download E f dir img url w = (r, w') \<Longrightarrow> reachable w'"

lemma keeps_result: "keeps I h \<Longrightarrow> I w \<Longrightarrow> h w = (r, w') \<Longrightarrow> I w'"
  unfolding keeps_def by (metis snd_conv)

lemma reachable_keeps:
  assumes "reachable w" "I empty_world" "\<And>S E X c. keeps I (serve S E X c)" "\<And>S E. preserves I (Recover S E)"
    and "\<And>E f dir img url. preserves I (download E f dir img url)"
  shows "I w"
  using assms(1)
proof induction
  case (request w S E X c r w')
  show ?case by (rule keeps_result [OF assms(3) request(3,2)])
next
  case (recovery w S E r w')
  show ?case by (rule preserves_result [OF assms(4) recovery(3,2)])
next
  case (fetched w img url b E f dir r w')
  show ?case by (rule preserves_result [OF assms(5) fetched(4,3)])
qed (rule assms(2))

text \<open>
  C1. In every state the system can reach, by requests to the three services, recoveries and downloads in any
  order and with any failures, the database satisfies its constraints (primary keys, unique columns, foreign keys) and
  every machine has at least one CPU and 256 MB of memory.
\<close>

theorem reachable_invariant:
  assumes "reachable w"
  shows "db_ok w \<and> all_sized w"
  using reachable_keeps [OF assms db_ok_empty db_serve db_Recover db_download]
    reachable_keeps [OF assms _ sized_serve sized_Recover sized_images(9)]
  by (simp add: all_sized_def empty_world_def)

theorem reachable_invariant_witness:
  "db_ok (snd (CreateVM bare_service sample_env (sample_request '''') empty_world)) \<and>
   all_sized (snd (CreateVM bare_service sample_env (sample_request '''') empty_world))"
proof -
  let ?c = "ControlPlaneCall (CreateVMCall (Some (sample_request '''')))"
  obtain r where "serve bare_service sample_env sample_exec ?c empty_world =
      (r, snd (CreateVM bare_service sample_env (sample_request '''') empty_world))"
    by (cases "CreateVM bare_service sample_env (sample_request '''') empty_world")
      (simp add: returning_def cp_CreateVM_def with_body_def answer_def)
  then show ?thesis
    using reachable_invariant [OF reachable.request [OF reachable.start]] by blast
qed

text \<open>
  C23. A request with method \<^verbatim>\<open>GET\<close> changes no table of the database, whatever it asks for and whatever fails.
\<close>

theorem GET_changes_nothing:
  assumes "api_method c = ''GET''" "serve S E X c w = (r, w')"
  shows "tables w' = tables w"
  using keeps_result [OF GET_keeps [OF counter_blind_tables assms(1)] refl assms(2)] .

theorem GET_changes_nothing_witness:
  "\<exists>r w'. serve bare_service sample_env sample_exec (NetworkCall ListFloatingIPsCall) empty_world = (r, w') \<and>
     tables w' = tables empty_world"
  using GET_changes_nothing [of "NetworkCall ListFloatingIPsCall" bare_service sample_env sample_exec empty_world]
  by (cases "serve bare_service sample_env sample_exec (NetworkCall ListFloatingIPsCall) empty_world") simp

subsection \<open>Refused requests and error answers\<close>



text \<open>\<open>clear_error r\<close>: the status says error exactly when the body is an error message.\<close>

definition clear_error :: "'v response \<Rightarrow> bool" where
  "clear_error r \<longleftrightarrow> (400 \<le> status r \<longleftrightarrow> (\<exists>msg. body r = ErrorBody msg))"

definition clear :: "('v response outcome) \<Rightarrow> bool" where
  "clear r = (case r of Returns x \<Rightarrow> clear_error x | Panics _ \<Rightarrow> True)"

lemma clear_answers:
  "400 \<le> bad \<Longrightarrow> good < 400 \<Longrightarrow> clear_error (fst (answer bad good f m w))"
  "400 \<le> bad \<Longrightarrow> good < 400 \<Longrightarrow> clear_error (fst (answer_status bad good mu w))"
  "400 \<le> bad \<Longrightarrow> clear_error (fst (answer_found bad msg f mo w))"
  "400 \<le> bad \<Longrightarrow> good < 400 \<Longrightarrow> clear (fst (answer_outcome bad good f mp w))"
  "(\<And>x. clear_error (fst (k x w))) \<Longrightarrow> clear_error (fst (with_body b k w))"
  "(\<And>x. clear (fst (k' x w))) \<Longrightarrow> clear (fst (with_body_outcome b k' w))"
  "clear_error (fst (h w)) \<Longrightarrow> clear (fst (returning h w))"
  by (auto simp: clear_error_def clear_def answer_def answer_status_def answer_found_def answer_outcome_def with_body_def
      with_body_outcome_def returning_def split: prod.splits sum.splits option.splits outcome.splits)

lemma clear_case_prod: "(\<And>a b. clear_error (fst (f a b w))) \<Longrightarrow> clear_error (fst ((case x of (a, b) \<Rightarrow> f a b) w))"
  by (cases x) simp

lemma clear_serve: "clear (fst (serve S E X c w))"
proof (cases c)
  case (ControlPlaneCall d)
  have "clear_error (fst (serve_cp S E d w))"
    by (cases d; simp only: serve_cp.simps cp_defs) (intro clear_answers clear_case_prod | simp add: clear_error_def cp_ListOfficialImages_def)+
  then show ?thesis by (simp add: ControlPlaneCall clear_answers)
next
  case (NetworkCall d)
  have "clear_error (fst (serve_net E d w))"
    by (cases d; simp only: serve_net.simps net_defs Let_def) (intro clear_answers clear_case_prod | simp)+
  then show ?thesis by (simp add: NetworkCall clear_answers)
next
  case (StorageCall d)
  have "clear (fst (serve_st E X d w))"
    by (cases d; simp only: serve_st.simps st_defs Let_def) (intro clear_answers clear_case_prod | simp)+
  then show ?thesis by (simp add: StorageCall)
qed

text \<open>
  C25. A response of any handler has a status of 400 or more exactly when its body is an error message, so that a client
  can tell failures by the status alone.
\<close>

theorem errors_have_error_status:
  assumes "serve S E X c w = (Returns resp, w')"
  shows "400 \<le> status resp \<longleftrightarrow> (\<exists>msg. body resp = ErrorBody msg)"
  using clear_serve [of S E X c w] by (simp add: assms clear_def clear_error_def)

theorem errors_have_error_status_witness:
  "\<exists>resp w'. serve bare_service sample_env sample_exec (ControlPlaneCall ListFlavorsCall) empty_world = (Returns resp, w') \<and>
     (400 \<le> status resp \<longleftrightarrow> (\<exists>msg. body resp = ErrorBody msg))"
proof -
  obtain resp w' where "serve bare_service sample_env sample_exec (ControlPlaneCall ListFlavorsCall) empty_world = (Returns resp, w')"
    by (cases "cp_ListFlavors bare_service sample_env empty_world") (simp add: returning_def)
  then show ?thesis
    using errors_have_error_status by blast
qed

end
