(* ===== verification/GoFloat.thy ===== *)
theory GoFloat
  imports GoStrings Complex_Main "HOL-Library.Log_Nat"
begin

section \<open>Go's \<^verbatim>\<open>float64\<close>, \<^verbatim>\<open>strconv.ParseFloat\<close> and \<^verbatim>\<open>time.ParseDuration\<close>\<close>

text \<open>
  A \<^verbatim>\<open>float64\<close> is the rational number it represents, and every operation rounds its exact result to 53 significant bits,
  ties to even (\<open>f64\<close>; the values here are far from the limits of the exponent). The lemmas bound what
  rounding can do: it does not cross a multiple of one half below \<open>2^52\<close>.
\<close>

subsection \<open>float64\<close>

definition round_even :: "rat \<Rightarrow> int" where
  "round_even x = (let f = \<lfloor>x\<rfloor>; r = x - of_int f in
     if r < 1 / 2 then f else if r > 1 / 2 then f + 1 else if even f then f else f + 1)"

definition f64 :: "rat \<Rightarrow> rat" where
  "f64 q = (if q = 0 then 0
     else case quotient_of q of (n, d) \<Rightarrow>
       (let e0 = bitlen \<bar>n\<bar> - bitlen d - 53;
            e = (if \<bar>q\<bar> * 2 powi (- e0) \<ge> 2 ^ 53 then e0 + 1 else e0)
        in of_int (round_even (q * 2 powi (- e))) * 2 powi e))"

text \<open>Conversion to an integer truncates.\<close>

definition trunc :: "rat \<Rightarrow> int" where
  "trunc q = (if q < 0 then - \<lfloor>- q\<rfloor> else \<lfloor>q\<rfloor>)"

text \<open>Integer division truncates, too.\<close>

definition quot :: "int \<Rightarrow> int \<Rightarrow> int" where
  "quot a b = sgn a * sgn b * (\<bar>a\<bar> div \<bar>b\<bar>)"

subsection \<open>Rounding\<close>

lemma round_even_ge: "of_int m \<le> x \<Longrightarrow> m \<le> round_even x"
proof -
  assume "of_int m \<le> x"
  then have "m \<le> \<lfloor>x\<rfloor>" by (simp add: le_floor_iff)
  then show ?thesis by (simp add: round_even_def Let_def)
qed

lemma round_even_le: "x \<le> of_int m \<Longrightarrow> round_even x \<le> m"
proof -
  assume x: "x \<le> of_int m"
  then have "\<lfloor>x\<rfloor> \<le> m" by linarith
  then consider "\<lfloor>x\<rfloor> = m" | "\<lfloor>x\<rfloor> + 1 \<le> m" by linarith
  then show ?thesis
  proof cases
    case 1
    then have "x = of_int m" using x by linarith
    then show ?thesis by (simp add: round_even_def)
  qed (simp add: round_even_def Let_def)
qed

lemma bitlen_powi:
  assumes "0 < (x::int)"
  shows "2 powi (bitlen x - 1) \<le> (of_int x :: rat)" "(of_int x :: rat) < 2 powi bitlen x"
proof -
  have pos: "0 < bitlen x" using assms by (subst compute_bitlen) (simp add: bitlen_nonneg)
  have powi: "0 \<le> k \<Longrightarrow> (2::rat) powi k = of_int (2 ^ nat k)" for k :: int
    by (simp add: power_int_def)
  show "2 powi (bitlen x - 1) \<le> (of_int x :: rat)" "(of_int x :: rat) < 2 powi bitlen x"
    using bitlen_bounds [OF assms] pos powi [of "bitlen x - 1"] powi [of "bitlen x"]
    by (simp_all only: of_int_le_iff of_int_less_iff)
qed

text \<open>The exponent that \<open>f64\<close> chooses puts the significand between \<open>2^52\<close> and \<open>2^53\<close>.\<close>

lemma f64_form:
  assumes "0 < q"
  obtains e where "f64 q = of_int (round_even (q * 2 powi (- e))) * 2 powi e" "2 ^ 52 \<le> q * 2 powi (- e)"
proof -
  obtain n d where nd: "quotient_of q = (n, d)" by fastforce
  then have d: "0 < d" and q: "q = of_int n / of_int d"
    by (simp_all add: quotient_of_denom_pos quotient_of_div)
  then have n: "0 < n" using assms by (simp add: zero_less_divide_iff)
  define e0 where "e0 = bitlen n - bitlen d - 53"
  have "2 powi (bitlen n - 1) / 2 powi bitlen d \<le> q"
    unfolding q using bitlen_powi [OF n] bitlen_powi [OF d] n d by (intro frac_le) auto
  moreover have "(2::rat) powi (bitlen n - 1) / 2 powi bitlen d = 2 powi (bitlen n - 1 - bitlen d)"
    by (simp add: power_int_diff)
  moreover have "(2::rat) ^ 52 = 2 powi (bitlen n - 1 - bitlen d) * 2 powi (- e0)"
    by (simp add: e0_def flip: power_int_add)
  ultimately have low: "2 ^ 52 \<le> q * 2 powi (- e0)"
    by (metis mult_right_mono zero_le_numeral zero_le_power_int)
  have half: "q * 2 powi (- (e0 + 1)) = q * 2 powi (- e0) / 2"
    by (simp add: power_int_diff)
  have "f64 q = (let e = (if q * 2 powi (- e0) \<ge> 2 ^ 53 then e0 + 1 else e0) in of_int (round_even (q * 2 powi (- e))) * 2 powi e)"
    using assms n by (simp add: f64_def nd e0_def Let_def)
  then show thesis
  proof (cases "q * 2 powi (- e0) \<ge> 2 ^ 53")
    case True
    then have "2 ^ 52 \<le> q * 2 powi (- (e0 + 1))"
      unfolding half by simp
    then show thesis
      using that [of "e0 + 1"] \<open>f64 q = _\<close> True by (simp only: Let_def if_True)
  next
    case False
    then show thesis
      using that [of e0] \<open>f64 q = _\<close> low by (simp only: Let_def if_False)
  qed
qed

lemma half_integer_scaled:
  assumes "e \<le> - 1"
  obtains m where "of_int k / 2 * 2 powi (- e) = (of_int m :: rat)"
proof -
  have "of_int k / 2 * 2 powi (- e) = (of_int k :: rat) * 2 powi (- e - 1)"
    by (simp add: power_int_diff)
  also have "\<dots> = of_int (k * 2 ^ nat (- e - 1))"
    using assms by (simp add: power_int_def)
  finally show thesis by (rule that)
qed

lemma powi_neg_cancel: "x * 2 powi (- e) * 2 powi e = (x :: rat)"
  by (simp add: power_int_minus)

text \<open>Rounding does not cross a multiple of one half below \<open>2^52\<close>.\<close>

lemma f64_le_half:
  assumes "0 \<le> q" "q \<le> of_int k / 2" "k < 2 ^ 53"
  shows "f64 q \<le> of_int k / 2"
proof (cases "q = 0")
  case False
  then obtain e where e: "f64 q = of_int (round_even (q * 2 powi (- e))) * 2 powi e" "2 ^ 52 \<le> q * 2 powi (- e)"
    using f64_form [of q] assms(1) by force
  have "e \<le> - 1"
  proof (rule ccontr)
    assume "\<not> e \<le> - 1"
    then have "2 powi (- e) \<le> (2 :: rat) powi 0" by (intro power_int_increasing) simp_all
    then have "2 powi (- e) \<le> (1 :: rat)" by simp
    then have "q * 2 powi (- e) \<le> q" using assms(1) by (simp add: mult_left_le)
    then have "2 ^ 52 \<le> of_int k / (2 :: rat)" using e(2) assms(2) by linarith
    then show False using assms(3) by (simp add: field_simps)
  qed
  then obtain m where m: "of_int k / 2 * 2 powi (- e) = (of_int m :: rat)"
    by (rule half_integer_scaled)
  have "q * 2 powi (- e) \<le> of_int m"
    unfolding m [symmetric] using assms(2) by (rule mult_right_mono) simp
  then have "of_int (round_even (q * 2 powi (- e))) * 2 powi e \<le> of_int m * (2 :: rat) powi e"
    using round_even_le by (intro mult_right_mono) simp_all
  then show ?thesis
    unfolding e(1) m [symmetric] powi_neg_cancel .
qed (use assms in \<open>simp add: f64_def\<close>)

lemma f64_ge_half:
  assumes "0 \<le> k" "of_int k / 2 \<le> q" "k < 2 ^ 53"
  shows "of_int k / 2 \<le> f64 q"
proof (cases "q = 0")
  case False
  then have "0 < q" using assms(1,2) by (metis divide_nonneg_pos leD linorder_cases of_int_0_le_iff order_trans zero_less_numeral)
  then obtain e where e: "f64 q = of_int (round_even (q * 2 powi (- e))) * 2 powi e" "2 ^ 52 \<le> q * 2 powi (- e)"
    using f64_form by blast
  show ?thesis
  proof (cases "e \<le> - 1")
    case True
    then obtain m where m: "of_int k / 2 * 2 powi (- e) = (of_int m :: rat)"
      by (rule half_integer_scaled)
    have "of_int m \<le> q * 2 powi (- e)"
      unfolding m [symmetric] using assms(2) by (rule mult_right_mono) simp
    then have "of_int m * (2 :: rat) powi e \<le> of_int (round_even (q * 2 powi (- e))) * 2 powi e"
      using round_even_ge by (intro mult_right_mono) simp_all
    then show ?thesis
      unfolding e(1) m [symmetric] powi_neg_cancel .
  next
    case False
    then have "(1 :: rat) \<le> 2 powi e" using power_int_increasing [of 0 e "2 :: rat"] by simp
    moreover have "2 ^ 52 \<le> round_even (q * 2 powi (- e))"
      using e(2) by (intro round_even_ge) simp
    then have "(2 :: rat) ^ 52 \<le> of_int (round_even (q * 2 powi (- e)))"
      by (metis of_int_le_iff of_int_numeral of_int_power)
    ultimately have "(2 :: rat) ^ 52 * 1 \<le> f64 q"
      unfolding e(1) by (intro mult_mono) auto
    moreover have "of_int k / 2 \<le> (2 :: rat) ^ 52"
      using assms(3) by (simp add: field_simps)
    ultimately show ?thesis by linarith
  qed
qed (use assms in \<open>simp add: f64_def\<close>)

lemma f64_int: "0 \<le> k \<Longrightarrow> k < 2 ^ 52 \<Longrightarrow> f64 (of_int k) = of_int k"
  using f64_le_half [of "of_int k" "2 * k"] f64_ge_half [of "2 * k" "of_int k"] by simp

subsection \<open>\<^verbatim>\<open>strconv.ParseFloat\<close>\<close>

text \<open>
  The decimal forms: a sign, digits with at most one point, an exponent. The value is rounded once. The result is 0 after a syntax error.
  (Hexadecimal numbers and the names of the infinities, which no caller meets, count as syntax errors here.)
\<close>

definition leading_digits :: "string \<Rightarrow> string \<times> string" where
  "leading_digits s = (takeWhile is_digit s, dropWhile is_digit s)"

definition parse_exponent :: "string \<Rightarrow> int option" where
  "parse_exponent s =
     (if s = '''' then Some 0
      else if hd s \<in> {CHR ''e'', CHR ''E''} then
        (let neg = (tl s \<noteq> [] \<and> hd (tl s) = CHR ''-'');
             ds = (if tl s \<noteq> [] \<and> hd (tl s) \<in> {CHR ''-'', CHR ''+''} then tl (tl s) else tl s)
         in if ds = [] \<or> \<not> list_all is_digit ds then None
            else Some (if neg then - int (dec_val ds) else int (dec_val ds)))
      else None)"

definition ParseFloat :: "string \<Rightarrow> rat" where
  "ParseFloat s =
     (let neg = (s \<noteq> [] \<and> hd s = CHR ''-'');
          s1 = (if s \<noteq> [] \<and> hd s \<in> {CHR ''-'', CHR ''+''} then tl s else s);
          (whole, s2) = leading_digits s1;
          (fraction, s3) = (if s2 \<noteq> [] \<and> hd s2 = CHR ''.'' then leading_digits (tl s2) else ('''', s2))
      in if whole = '''' \<and> fraction = '''' then 0
         else case parse_exponent s3 of
           None \<Rightarrow> 0
         | Some e \<Rightarrow>
             (let v = f64 (of_nat (dec_val (whole @ fraction)) * 10 powi (e - int (length fraction)))
              in if neg then - v else v))"

subsection \<open>\<^verbatim>\<open>time.ParseDuration\<close>\<close>

definition duration_unit :: "string \<Rightarrow> int option" where
  "duration_unit u = map_of
     [(''ns'', 1), (''us'', 10 ^ 3), ([chr 194, chr 181, CHR ''s''], 10 ^ 3), ([chr 206, chr 188, CHR ''s''], 10 ^ 3),
      (''ms'', 10 ^ 6), (''s'', 10 ^ 9), (''m'', 60 * 10 ^ 9), (''h'', 3600 * 10 ^ 9)] u"

text \<open>\<^verbatim>\<open>leadingFraction\<close>: the digits that fit into 63 bits, and the power of ten to divide by.\<close>

fun leading_fraction :: "string \<Rightarrow> int \<Rightarrow> int \<Rightarrow> int \<times> int" where
  "leading_fraction [] x scale = (x, scale)"
| "leading_fraction (c # cs) x scale =
     (if x > (2 ^ 63 - 1) div 10 \<or> x * 10 + int (digit_val c) > 2 ^ 63 then (x, scale)
      else leading_fraction cs (x * 10 + int (digit_val c)) (scale * 10))"

text \<open>
  One number with its unit: the duration in nanoseconds and the rest of the string.
\<close>

definition duration_item :: "string \<Rightarrow> (int \<times> string) option" where
  "duration_item s =
     (let (whole, s1) = leading_digits s; point = (s1 \<noteq> [] \<and> hd s1 = CHR ''.'');
          (fraction, s2) = (if point then leading_digits (tl s1) else ('''', s1));
          in_unit = (\<lambda>c. c \<noteq> CHR ''.'' \<and> \<not> is_digit c);
          u = takeWhile in_unit s2; rest = dropWhile in_unit s2; v = int (dec_val whole)
      in if v > 2 ^ 63 \<or> (whole = '''' \<and> fraction = '''') \<or> u = '''' then None
         else case duration_unit u of
           None \<Rightarrow> None
         | Some unit \<Rightarrow>
             (case leading_fraction fraction 0 1 of (f, scale) \<Rightarrow>
                let w = v * unit + (if f > 0 then trunc (f64 (f64 (of_int f) * f64 (of_int unit / of_int scale))) else 0)
                in if v > 2 ^ 63 div unit \<or> w > 2 ^ 63 then None else Some (w, rest)))"

lemma duration_item_shorter: "duration_item s = Some (w, rest) \<Longrightarrow> length rest < length s"
proof -
  assume item: "duration_item s = Some (w, rest)"
  define s1 where "s1 = dropWhile is_digit s"
  define s2 where "s2 = (if s1 \<noteq> [] \<and> hd s1 = CHR ''.'' then dropWhile is_digit (tl s1) else s1)"
  let ?unit = "\<lambda>c. c \<noteq> CHR ''.'' \<and> \<not> is_digit c"
  have "takeWhile ?unit s2 \<noteq> []" "rest = dropWhile ?unit s2"
    using item by (auto simp: duration_item_def leading_digits_def s1_def s2_def Let_def split: if_splits option.splits prod.splits)
  moreover have "length s2 \<le> length s1" "length s1 \<le> length s"
    by (auto simp: s1_def s2_def intro: order_trans [OF length_dropWhile_le])
  moreover have "length (takeWhile ?unit s2) + length (dropWhile ?unit s2) = length s2"
    by (metis length_append takeWhile_dropWhile_id)
  moreover have "0 < length (takeWhile ?unit s2)"
    using calculation(1) by blast
  moreover have "length rest = length (dropWhile ?unit s2)"
    using calculation(2) by (rule arg_cong)
  ultimately show "length rest < length s"
    by linarith
qed

function duration_loop :: "string \<Rightarrow> int \<Rightarrow> int option" where
  "duration_loop s d =
     (if s = '''' then Some d
      else if \<not> (hd s = CHR ''.'' \<or> is_digit (hd s)) then None
      else case duration_item s of
        None \<Rightarrow> None
      | Some (v, rest) \<Rightarrow> (let d' = (d + v) mod 2 ^ 64 in if d' > 2 ^ 63 then None else duration_loop rest d'))"
  by pat_completeness auto
termination
  by (relation "measure (length \<circ> fst)") (auto simp: duration_item_shorter)

declare duration_loop.simps [simp del]

definition ParseDuration :: "string \<Rightarrow> int option" where
  "ParseDuration s =
     (let neg = (s \<noteq> [] \<and> hd s = CHR ''-'');
          s1 = (if s \<noteq> [] \<and> hd s \<in> {CHR ''-'', CHR ''+''} then tl s else s)
      in if s1 = ''0'' then Some 0
         else if s1 = '''' then None
         else case duration_loop s1 0 of
           None \<Rightarrow> None
         | Some d \<Rightarrow> if neg then Some (- d) else if d > 2 ^ 63 - 1 then None else Some d)"

end
