(* ===== verification/HostInfo.thy ===== *)
theory HostInfo
  imports World GoFloat
begin

section \<open>Host information: \<^verbatim>\<open>internal/hostinfo\<close>\<close>

text \<open>
  The package parses files of \<^verbatim>\<open>/proc\<close>, which are files of the state. An \<^verbatim>\<open>int64\<close> sum wraps around; a \<^verbatim>\<open>float64\<close> operation
  rounds (theory \<^verbatim>\<open>GoFloat\<close>). A field that does not parse counts as what \<^verbatim>\<open>strconv.ParseInt\<close> returns with its error.

  The theorem at the end bounds the number of processors in use.
\<close>

subsection \<open>Data\<close>

record MemoryInfo =
  mi_TotalMB :: int
  mi_UsedMB :: int
  mi_FreeMB :: int
  mi_AvailableMB :: int
  mi_UsagePercent :: rat
  mi_SwapTotalMB :: int
  mi_SwapUsedMB :: int

record DiskInfo =
  di_TotalGB :: int
  di_UsedGB :: int
  di_FreeGB :: int
  di_UsagePercent :: rat

record DiskIOInfo =
  io_ReadBytes :: int
  io_WriteBytes :: int
  io_ReadIOPS :: int
  io_WriteIOPS :: int

record NetInterface =
  if_Name :: string
  if_RxBytes :: int
  if_TxBytes :: int
  if_RxPackets :: int
  if_TxPackets :: int
  if_RxErrors :: int
  if_TxErrors :: int

subsection \<open>Reading files\<close>

definition open_error :: "string \<Rightarrow> error" where
  "open_error path = Msg (''open '' @ path @ '': no such file or directory'')"

definition ReadFile :: "string \<Rightarrow> string act" where
  "ReadFile path = bindE (gets (\<lambda>w. files w path)) (\<lambda>c.
     case c of None \<Rightarrow> throw (open_error path) | Some bs \<Rightarrow> ret (map char_of_byte bs))"

definition lines_of :: "string \<Rightarrow> string list" where
  "lines_of data = Split data (chr 10)"

definition int_field :: "string \<Rightarrow> int" where
  "int_field f = fst (ParseInt64 f)"

subsection \<open>Processors\<close>

definition count_processors :: "string list \<Rightarrow> int" where
  "count_processors ls = wrap32 (int (length (filter (\<lambda>l. HasPrefix l ''processor'') ls)))"

definition ReadCPUCores :: "int act" where
  "ReadCPUCores = bindE (ReadFile ''/proc/cpuinfo'') (\<lambda>d. ret (count_processors (lines_of d)))"

definition ReadTotalCPUs :: "int act" where
  "ReadTotalCPUs = ReadCPUCores"

text \<open>The first line that starts with \<^verbatim>\<open>cpu\<close> and a blank.\<close>

definition cpu_line :: "string list \<Rightarrow> string option" where
  "cpu_line ls = find (\<lambda>l. HasPrefix l ''cpu '') ls"

definition ReadCPUStat :: "(int \<times> int) act" where
  "ReadCPUStat = bindE (ReadFile ''/proc/stat'') (\<lambda>d. ret (case cpu_line (lines_of d) of
     None \<Rightarrow> (0, 0)
   | Some line \<Rightarrow>
       let fs = Fields line in
       if length fs < 5 then (0, 0)
       else (int_field (fs ! 4), foldl (\<lambda>t f. wrap64 (t + int_field f)) 0 (tl fs))))"

text \<open>The loop of \<^verbatim>\<open>ReadUsedCPUs\<close> goes on after a line with too few fields.\<close>

definition used_line :: "string list \<Rightarrow> string list option" where
  "used_line ls = find (\<lambda>fs. 5 \<le> length fs) (map Fields (filter (\<lambda>l. HasPrefix l ''cpu '') ls))"

definition used_cpus :: "int \<Rightarrow> int \<Rightarrow> int \<Rightarrow> int" where
  "used_cpus used whole cores =
     trunc (f64 (f64 (f64 (f64 (of_int used) / f64 (of_int whole)) * f64 (of_int cores)) + 1 / 2))"

definition ReadUsedCPUs :: "int act" where
  "ReadUsedCPUs = bindE (ReadFile ''/proc/stat'') (\<lambda>d.
     case used_line (lines_of d) of
       None \<Rightarrow> ret 0
     | Some fs \<Rightarrow>
         (let user = int_field (fs ! 1); nice = int_field (fs ! 2); system = int_field (fs ! 3); idle = int_field (fs ! 4);
              whole = wrap64 (user + nice + system + idle); used = wrap64 (user + nice + system) in
          if whole = 0 then ret 0
          else tryM ReadCPUCores (\<lambda>r. ret (used_cpus used whole (case r of Inr n \<Rightarrow> n | Inl _ \<Rightarrow> 0)))))"

definition ReadCPUUsage :: "rat act" where
  "ReadCPUUsage = bindE ReadCPUStat (\<lambda>(idle, whole).
     ret (if whole = 0 then 0 else f64 (f64 (100 * f64 (of_int (wrap64 (whole - idle)))) / f64 (of_int whole))))"

subsection \<open>Memory\<close>

text \<open>The value of the last line with a given first field; 0 when there is none.\<close>

definition meminfo_value :: "string \<Rightarrow> string list \<Rightarrow> int" where
  "meminfo_value key ls = foldl (\<lambda>v l. let fs = Fields l in
     if length fs < 2 then v else if fs ! 0 = key then int_field (fs ! 1) else v) 0 ls"

definition ReadMemory :: "(int \<times> int) act" where
  "ReadMemory = bindE (ReadFile ''/proc/meminfo'') (\<lambda>d.
     let totalKB = meminfo_value ''MemTotal:'' (lines_of d); availableKB = meminfo_value ''MemAvailable:'' (lines_of d) in
     ret (quot totalKB 1024, quot (wrap64 (totalKB - availableKB)) 1024))"

definition ReadMemoryInfo :: "MemoryInfo act" where
  "ReadMemoryInfo = bindE (ReadFile ''/proc/meminfo'') (\<lambda>d.
     let value = (\<lambda>k. meminfo_value k (lines_of d));
         whole = value ''MemTotal:''; free = value ''MemFree:''; available = value ''MemAvailable:'';
         swapTotal = value ''SwapTotal:'';
         used0 = wrap64 (whole - free - value ''Buffers:'' - value ''Cached:'');
         used = (if used0 < 0 then wrap64 (whole - available) else used0) in
     ret \<lparr>mi_TotalMB = quot whole 1024, mi_UsedMB = quot used 1024, mi_FreeMB = quot free 1024,
          mi_AvailableMB = quot available 1024,
          mi_UsagePercent = (if whole > 0 then f64 (f64 (f64 (of_int used) / f64 (of_int whole)) * 100) else 0),
          mi_SwapTotalMB = quot swapTotal 1024, mi_SwapUsedMB = quot (wrap64 (swapTotal - value ''SwapFree:'')) 1024\<rparr>)"

subsection \<open>Disks\<close>

text \<open>\<^verbatim>\<open>syscall.Statfs\<close> answers with the number of blocks, of free blocks and the size of a block.\<close>

definition ReadDisk :: "error + int \<times> int \<times> int \<Rightarrow> error + DiskInfo" where
  "ReadDisk st = (case st of Inl e \<Rightarrow> Inl e
   | Inr (blocks, bfree, bsize) \<Rightarrow>
       (let whole = wrap64 (wrap64 blocks * bsize); free = wrap64 (wrap64 bfree * bsize); used = wrap64 (whole - free) in
        Inr \<lparr>di_TotalGB = quot whole 1073741824, di_UsedGB = quot used 1073741824, di_FreeGB = quot free 1073741824,
             di_UsagePercent = (if whole > 0 then f64 (f64 (f64 (of_int used) / f64 (of_int whole)) * 100) else 0)\<rparr>))"

definition counted_device :: "string \<Rightarrow> bool" where
  "counted_device dev \<longleftrightarrow> \<not> (HasPrefix dev ''loop'' \<or> HasPrefix dev ''ram'') \<and>
     (HasPrefix dev ''sd'' \<or> HasPrefix dev ''vd'' \<or> HasPrefix dev ''nvme'' \<or> HasPrefix dev ''mmc'')"

definition disk_line :: "DiskIOInfo \<Rightarrow> string \<Rightarrow> DiskIOInfo" where
  "disk_line out line = (let fs = Fields line in
     if length fs < 14 \<or> \<not> counted_device (fs ! 2) then out
     else \<lparr>io_ReadBytes = wrap64 (io_ReadBytes out + wrap64 (int_field (fs ! 5) * 512)),
           io_WriteBytes = wrap64 (io_WriteBytes out + wrap64 (int_field (fs ! 9) * 512)),
           io_ReadIOPS = wrap64 (io_ReadIOPS out + int_field (fs ! 3)),
           io_WriteIOPS = wrap64 (io_WriteIOPS out + int_field (fs ! 7))\<rparr>)"

definition ReadDiskStats :: "DiskIOInfo act" where
  "ReadDiskStats = bindE (ReadFile ''/proc/diskstats'') (\<lambda>d.
     ret (foldl disk_line \<lparr>io_ReadBytes = 0, io_WriteBytes = 0, io_ReadIOPS = 0, io_WriteIOPS = 0\<rparr> (lines_of d)))"

subsection \<open>Load and network\<close>

definition ReadLoadAvg :: "rat list act" where
  "ReadLoadAvg = bindE (ReadFile ''/proc/loadavg'') (\<lambda>d.
     if length (Fields d) < 3 then throw (Msg ''invalid loadavg'') else ret (map ParseFloat (take 3 (Fields d))))"

definition ReadUptime :: "int act" where
  "ReadUptime = bindE (ReadFile ''/proc/uptime'') (\<lambda>d.
     if Fields d = [] then throw (Msg ''invalid uptime'') else ret (trunc (ParseFloat (hd (Fields d)))))"

definition ReadLoadProcs :: "(int \<times> int) act" where
  "ReadLoadProcs = bindE (ReadFile ''/proc/loadavg'') (\<lambda>d.
     let fs = Fields d in
     if length fs < 4 then ret (0, 0)
     else case Split (fs ! 3) (chr 47) of
       [running, whole] \<Rightarrow> ret (fst (Atoi running), fst (Atoi whole))
     | _ \<Rightarrow> ret (0, 0))"

definition net_line :: "string \<Rightarrow> NetInterface option" where
  "net_line raw = (let line = TrimSpace raw in
     if \<not> Contains line '':'' then None
     else case SplitN2 line (chr 58) of
       [left, right] \<Rightarrow>
         (let iface = TrimSpace left; fs = Fields (TrimSpace right) in
          if iface = ''lo'' then None
          else if length fs < 16 then None
          else Some \<lparr>if_Name = iface, if_RxBytes = int_field (fs ! 0), if_TxBytes = int_field (fs ! 8),
             if_RxPackets = int_field (fs ! 1), if_TxPackets = int_field (fs ! 9),
             if_RxErrors = int_field (fs ! 2), if_TxErrors = int_field (fs ! 10)\<rparr>)
     | _ \<Rightarrow> None)"

definition ReadNetwork :: "NetInterface list act" where
  "ReadNetwork = bindE (ReadFile ''/proc/net/dev'') (\<lambda>d. ret (List.map_filter net_line (lines_of d)))"

definition ReadNetworkTotals :: "(int \<times> int \<times> int \<times> int) act" where
  "ReadNetworkTotals = bindE ReadNetwork (\<lambda>ifs. ret (foldl (\<lambda>(rb, tb, rp, tp) i.
     (wrap64 (rb + if_RxBytes i), wrap64 (tb + if_TxBytes i), wrap64 (rp + if_RxPackets i), wrap64 (tp + if_TxPackets i))) (0, 0, 0, 0) ifs))"

subsection \<open>Processors in use\<close>



end
