(* ===== verification/NodeAgent.thy ===== *)
theory NodeAgent
  imports ControlPlane StorageSvc HostInfo
begin

section \<open>Node agent: \<^verbatim>\<open>services/nodeagent\<close>\<close>

text \<open>
  The agent of a node (\<^verbatim>\<open>agent.go\<close>), its QEMU manager (\<^verbatim>\<open>qemu/manager.go\<close>) and its cloud-init generator
  (\<^verbatim>\<open>cloudinit/cloudinit.go\<close>). The state of a node is its files, the configurations in the files \<^verbatim>\<open>vm.json\<close> (as values, by
  path), its processes, and the messages published. QEMU, the commands of the system and the clock are parameters:
  \<open>node_env\<close> runs commands as in \<^verbatim>\<open>internal/qcow2\<close>, starts QEMU, answers on QMP sockets, kills processes, lists directories
  and lets time pass. A loop that polls until a deadline makes as many rounds as the clock allows
  (\<open>ne_rounds\<close>, one value for each call), any number of them.
\<close>

subsection \<open>Data\<close>

record NICConfig =
  nac_NetworkID :: string
  nac_MACAddress :: string
  nac_IPAddress :: string
  nac_Gateway :: string
  nac_Bridge :: string
  nac_Name :: string

record VMStartConfig =
  vsc_Name :: string
  vsc_VCPUs :: int
  vsc_MemoryMB :: int
  vsc_DiskPath :: string
  vsc_MACAddress :: string
  vsc_SSHKey :: string
  vsc_ImageURL :: string
  vsc_ImageID :: string
  vsc_ImagePath :: string
  vsc_SizeBytes :: int
  vsc_MachineType :: string
  vsc_NetworkInterfaces :: "NICConfig list"

record VMCommand =
  cmd_Action :: string
  cmd_VMID :: string
  cmd_Config :: "VMStartConfig option"
  cmd_Force :: bool

record VMInfo =
  vi_ID :: string
  vi_Status :: string
  vi_CPUs :: int
  vi_Memory :: int

record heartbeat =
  hb_NodeID :: string
  hb_TotalCPUs :: int
  hb_UsedCPUs :: int
  hb_TotalMemoryMB :: int
  hb_UsedMemoryMB :: int
  hb_VMs :: "VMInfo list"

record VMCommandResult =
  vcr_VMID :: string
  vcr_Action :: string
  vcr_Status :: string
  vcr_Error :: string

text \<open>
  The JSON object of \<^verbatim>\<open>vm.json\<close>: the fields of the embedded configuration, less those that an outer field of the same
  JSON name hides (\<^verbatim>\<open>disk_path\<close> and \<^verbatim>\<open>mac_address\<close>), and the outer fields.
\<close>

record VMJson =
  vj_Config :: VMStartConfig
  vj_DiskPath :: string
  vj_MAC :: string
  vj_ISOPath :: string

record Agent =
  ag_nodeID :: string
  ag_baseDir :: string
  ag_imagesDir :: string

definition NewAgent :: "string \<Rightarrow> string \<Rightarrow> string \<Rightarrow> Agent" where
  "NewAgent nodeID baseDir imagesDir = \<lparr>ag_nodeID = nodeID,
     ag_baseDir = (if baseDir = '''' then ''/var/lib/rymevisor/vms'' else baseDir),
     ag_imagesDir = (if imagesDir = '''' then ''/var/lib/rymevisor/images'' else imagesDir)\<rparr>"

record NIC =
  qn_Bridge :: string
  qn_MACAddress :: string

record VMConfig =
  qc_ID :: string
  qc_Name :: string
  qc_VCPUs :: int
  qc_MemoryMB :: int
  qc_DiskPath :: string
  qc_MACAddress :: string
  qc_NICs :: "NIC list"
  qc_CloudInit :: string
  qc_QMPSocket :: string
  qc_MonitorSocket :: string
  qc_MachineType :: string

subsection \<open>The host\<close>

record host =
  hw :: world
  vm_json :: "string \<Rightarrow> VMJson option"
  processes :: "int \<Rightarrow> bool"
  results :: "(string \<times> VMCommandResult) list"
  heartbeats :: "(string \<times> heartbeat) list"

type_synonym 'a hact = "(host, 'a) op"

datatype qmp_command =
    Quit | SystemPowerdown | SystemReset | QueryStatus
  | BlockdevAdd string string | DeviceAdd string string string | DeviceDel string | BlockdevDel string

record qmpError =
  qe_Class :: string
  qe_Desc :: string

text \<open>A message of QEMU: the members present; the return value of \<^verbatim>\<open>query-status\<close> is its status, when it decodes.\<close>

record qmpResponse =
  qr_Return :: "string option"
  qr_Error :: "qmpError option"
  qr_Event :: "string option"

text \<open>
  A conversation over the socket: \<open>Some e\<close> at the first step that fails, otherwise the results of decoding the messages
  after the command; after the last one the deadline passes.
\<close>

record qmp_conversation =
  qv_Dial :: "error option"
  qv_Deadline :: "error option"
  qv_Greeting :: "error option"
  qv_SendCaps :: "error option"
  qv_Caps :: "error option"
  qv_Send :: "error option"
  qv_Messages :: "(error + qmpResponse) list"

record node_env =
  ne_exec :: exec
  ne_env :: env
  ne_write :: "nat \<Rightarrow> error option"
  ne_start :: "nat \<Rightarrow> string list \<Rightarrow> host \<Rightarrow> error option \<times> host"
  ne_qmp :: "nat \<Rightarrow> string \<Rightarrow> qmp_command \<Rightarrow> host \<Rightarrow> qmp_conversation \<times> host"
  ne_kill :: "nat \<Rightarrow> int \<Rightarrow> host \<Rightarrow> error option \<times> host"
  ne_dial :: "nat \<Rightarrow> string \<Rightarrow> host \<Rightarrow> bool"
  ne_sleep :: "nat \<Rightarrow> host \<Rightarrow> host"
  ne_rounds :: "nat \<Rightarrow> nat"
  ne_readdir :: "nat \<Rightarrow> string \<Rightarrow> error + (string \<times> bool) list option"

text \<open>Every call of the system counts one; the count selects the answer of the parameter.\<close>

definition tick :: "nat hact" where
  "tick = (\<lambda>h. (Inr (cmd_no (hw h)), h\<lparr>hw := (hw h)\<lparr>cmd_no := Suc (cmd_no (hw h))\<rparr>\<rparr>))"

definition on_world :: "'a act \<Rightarrow> 'a hact" where
  "on_world m = (\<lambda>h. case m (hw h) of (r, w) \<Rightarrow> (r, h\<lparr>hw := w\<rparr>))"

definition run_on :: "(nat \<Rightarrow> host \<Rightarrow> 'a \<times> host) \<Rightarrow> 'a hact" where
  "run_on f = bindE tick (\<lambda>n h. case f n h of (a, h') \<Rightarrow> (Inr a, h'))"

definition fail_if :: "string \<Rightarrow> error option \<Rightarrow> 'a hact \<Rightarrow> 'a hact" where
  "fail_if p err k = (case err of Some e \<Rightarrow> throw (Wrap p e) | None \<Rightarrow> k)"

definition sleep :: "node_env \<Rightarrow> unit hact" where
  "sleep N = run_on (\<lambda>n h. ((), ne_sleep N n h))"

definition exists_file :: "string \<Rightarrow> bool hact" where
  "exists_file p = gets (\<lambda>h. files (hw h) p \<noteq> None)"

definition read_file :: "string \<Rightarrow> byte list option hact" where
  "read_file p = gets (\<lambda>h. files (hw h) p)"

definition write_file :: "node_env \<Rightarrow> string \<Rightarrow> byte list \<Rightarrow> unit hact" where
  "write_file N p c = bindE tick (\<lambda>n.
     case ne_write N n of Some e \<Rightarrow> throw e | None \<Rightarrow> on_world (set_file p (Some c)))"

definition text_of :: "byte list \<Rightarrow> string" where
  "text_of = map char_of_byte"

subsection \<open>QMP\<close>

text \<open>
  Decoding into a variable that already holds a message keeps the members that the new message does not have:
  \<^verbatim>\<open>decoder.Decode(&resp)\<close> in the loop does not reset \<^verbatim>\<open>resp\<close>.
\<close>

definition decode_into :: "qmpResponse \<Rightarrow> qmpResponse \<Rightarrow> qmpResponse" where
  "decode_into resp msg = \<lparr>
     qr_Return = (case qr_Return msg of Some x \<Rightarrow> Some x | None \<Rightarrow> qr_Return resp),
     qr_Error = (case qr_Error msg of Some x \<Rightarrow> Some x | None \<Rightarrow> qr_Error resp),
     qr_Event = (case qr_Event msg of Some x \<Rightarrow> Some x | None \<Rightarrow> qr_Event resp)\<rparr>"

definition no_message :: qmpResponse where
  "no_message = \<lparr>qr_Return = None, qr_Error = None, qr_Event = None\<rparr>"

text \<open>\<open>qmp_loop\<close>: read messages until one is not an event; when no more come, the deadline of the connection passes.\<close>

fun qmp_loop :: "qmpResponse \<Rightarrow> (error + qmpResponse) list \<Rightarrow> error + qmpResponse" where
  "qmp_loop resp [] = Inl (Wrap ''read response'' (Msg ''i/o timeout''))"
| "qmp_loop resp (Inl e # ms) = Inl (Wrap ''read response'' e)"
| "qmp_loop resp (Inr m # ms) =
     (let resp' = decode_into resp m in
      if ptr_set (qr_Event resp') then qmp_loop resp' ms else Inr resp')"

definition qmp_result :: "qmp_conversation \<Rightarrow> error + string option" where
  "qmp_result c =
     (case qv_Dial c of Some e \<Rightarrow> Inl (Wrap ''dial qmp'' e) | None \<Rightarrow>
      case qv_Deadline c of Some e \<Rightarrow> Inl (Wrap ''set deadline'' e) | None \<Rightarrow>
      case qv_Greeting c of Some e \<Rightarrow> Inl (Wrap ''read qmp greeting'' e) | None \<Rightarrow>
      case qv_SendCaps c of Some e \<Rightarrow> Inl (Wrap ''send capabilities'' e) | None \<Rightarrow>
      case qv_Caps c of Some e \<Rightarrow> Inl (Wrap ''read capabilities response'' e) | None \<Rightarrow>
      case qv_Send c of Some e \<Rightarrow> Inl (Wrap ''send command'' e) | None \<Rightarrow>
      case qmp_loop no_message (qv_Messages c) of
        Inl e \<Rightarrow> Inl e
      | Inr resp \<Rightarrow>
          (case qr_Error resp of
             Some e \<Rightarrow> Inl (Msg (''qmp error: '' @ qe_Class e @ '': '' @ qe_Desc e))
           | None \<Rightarrow> Inr (qr_Return resp)))"

definition sendQMPCommandWithReturn :: "node_env \<Rightarrow> string \<Rightarrow> qmp_command \<Rightarrow> string option hact" where
  "sendQMPCommandWithReturn N sock cmd =
     bindE (run_on (\<lambda>n. ne_qmp N n sock cmd)) (\<lambda>c.
     case qmp_result c of Inl e \<Rightarrow> throw e | Inr v \<Rightarrow> ret v)"

definition sendQMPCommand :: "node_env \<Rightarrow> string \<Rightarrow> qmp_command \<Rightarrow> unit hact" where
  "sendQMPCommand N sock cmd = bindE (sendQMPCommandWithReturn N sock cmd) (\<lambda>_. ret ())"

subsection \<open>QEMU manager\<close>

definition vmDir :: "string \<Rightarrow> string \<Rightarrow> string" where
  "vmDir baseDir vmID = filepath_Join [baseDir, vmID]"

definition pidFile :: "string \<Rightarrow> string \<Rightarrow> string" where
  "pidFile baseDir vmID = filepath_Join [vmDir baseDir vmID, ''qemu.pid'']"

definition qmp_sock :: "string \<Rightarrow> string \<Rightarrow> string" where
  "qmp_sock baseDir vmID = filepath_Join [vmDir baseDir vmID, ''qmp.sock'']"

definition parse_pid :: "byte list \<Rightarrow> int option" where
  "parse_pid c = (case Atoi (TrimSpace (text_of c)) of (pid, ok) \<Rightarrow> if ok then Some pid else None)"

definition mkdir_all :: "node_env \<Rightarrow> string \<Rightarrow> unit hact" where
  "mkdir_all N p = on_world (os_MkdirAll (ne_env N) p)"

text \<open>\<^verbatim>\<open>exec.Command(...).CombinedOutput()\<close>: the error, if any, and the output.\<close>

definition run_command :: "node_env \<Rightarrow> string list \<Rightarrow> (error option \<times> string) hact" where
  "run_command N argv = bindE (on_world (exec_command (ne_exec N) argv)) (\<lambda>(err, out). ret (err, output_text out))"

definition try_command :: "node_env \<Rightarrow> string list \<Rightarrow> 'a hact \<Rightarrow> 'a hact" where
  "try_command N argv k = bindE (run_command N argv) (\<lambda>_. k)"

definition bridge_prefix :: "string \<Rightarrow> int" where
  "bridge_prefix ipCIDR =
     (if ipCIDR \<noteq> '''' then
        (case ParseCIDR ipCIDR of
           Inr (_, ipNet) \<Rightarrow> if Mask_Size (net_Mask ipNet) > 0 then int (Mask_Size (net_Mask ipNet)) else 24
         | Inl _ \<Rightarrow> 24)
      else 24)"

definition masquerade :: "string \<Rightarrow> string \<Rightarrow> string list" where
  "masquerade flag cidr = [''iptables'', ''-t'', ''nat'', flag, ''POSTROUTING'', ''-s'', cidr, ''-j'', ''MASQUERADE'']"

definition EnsureBridge :: "node_env \<Rightarrow> string \<Rightarrow> string \<Rightarrow> string \<Rightarrow> unit hact" where
  "EnsureBridge N bridge gatewayIP ipCIDR =
     bindE (run_command N [''ip'', ''link'', ''show'', bridge]) (\<lambda>(shown, _).
     if shown = None then try_command N [''ip'', ''link'', ''set'', bridge, ''up''] (ret ())
     else
       bindE (run_command N [''ip'', ''link'', ''add'', bridge, ''type'', ''bridge'']) (\<lambda>(added, out).
       if added \<noteq> None then
         (if Contains out ''exists'' then ret ()
          else if Contains out ''Operation not permitted'' \<or> Contains out ''permission'' then ret ()
          else throw (Msg (''create bridge '' @ bridge @ '': '' @ out)))
       else
         bindE (run_command N [''ip'', ''link'', ''set'', bridge, ''up'']) (\<lambda>(up, _).
         if up \<noteq> None then ret ()
         else if gatewayIP \<noteq> '''' then
           let gwCIDR = gatewayIP @ ''/'' @ Itoa (bridge_prefix ipCIDR) in
           try_command N [''ip'', ''addr'', ''add'', gwCIDR, ''dev'', bridge] (
           try_command N (masquerade ''-C'' gwCIDR) (
           bindE (run_command N (masquerade ''-C'' (ipCIDR @ ''/'' @ Itoa (bridge_prefix ipCIDR)))) (\<lambda>(found, _).
           bindE (if found \<noteq> None then try_command N (masquerade ''-A'' gwCIDR) (ret ()) else ret ()) (\<lambda>_.
           try_command N [''sysctl'', ''-w'', ''net.ipv4.ip_forward=1''] (ret ())))))
         else ret ())))"

definition nic_args :: "nat \<times> NIC \<Rightarrow> string list" where
  "nic_args p = (case p of (i, n) \<Rightarrow>
     [''-netdev'', ''bridge,id=net'' @ Itoa (int i) @ '',br='' @ qn_Bridge n,
      ''-device'', ''virtio-net-pci,netdev=net'' @ Itoa (int i) @ '',mac='' @ qn_MACAddress n])"

definition qemu_args :: "VMConfig \<Rightarrow> bool \<Rightarrow> string \<Rightarrow> string list" where
  "qemu_args cfg hasKVM pidPath =
     (let machineType = (if qc_MachineType cfg = '''' then ''q35'' else qc_MachineType cfg) in
      [''-name'', qc_Name cfg, ''-smp'', Itoa (qc_VCPUs cfg), ''-m'', Itoa (qc_MemoryMB cfg),
       ''-drive'', ''file='' @ qc_DiskPath cfg @ '',format=qcow2,cache=none''] @
      concat (map nic_args (List.enumerate 0 (qc_NICs cfg))) @
      [''-qmp'', ''unix:'' @ qc_QMPSocket cfg @ '',server,nowait'',
       ''-monitor'', ''unix:'' @ qc_MonitorSocket cfg @ '',server,nowait''] @
      (if hasKVM then [''-enable-kvm'', ''-machine'', machineType @ '',accel=kvm'']
       else [''-machine'', machineType @ '',accel=tcg'']) @
      [''-display'', ''none'', ''-daemonize''] @
      (if qc_CloudInit cfg \<noteq> '''' then [''-drive'', ''file='' @ qc_CloudInit cfg @ '',format=raw,if=virtio''] else []) @
      [''-pidfile'', pidPath])"

text \<open>Both polling loops: \<open>k\<close> rounds before the deadline.\<close>

fun socket_loop :: "node_env \<Rightarrow> string \<Rightarrow> nat \<Rightarrow> unit hact" where
  "socket_loop N path 0 = throw (Msg (''timeout waiting for socket '' @ path))"
| "socket_loop N path (Suc k) =
     bindE (run_on (\<lambda>n h. (ne_dial N n path h, h))) (\<lambda>ok.
     if ok then ret () else bindE (sleep N) (\<lambda>_. socket_loop N path k))"

definition waitForSocket :: "node_env \<Rightarrow> string \<Rightarrow> unit hact" where
  "waitForSocket N path = bindE tick (\<lambda>n. socket_loop N path (ne_rounds N n))"

fun exit_loop :: "node_env \<Rightarrow> string \<Rightarrow> nat \<Rightarrow> unit hact" where
  "exit_loop N pidPath 0 = throw (Msg ''timeout waiting for process to exit'')"
| "exit_loop N pidPath (Suc k) =
     bindE (read_file pidPath) (\<lambda>c.
     case c of None \<Rightarrow> ret ()
     | Some bs \<Rightarrow>
         (case parse_pid bs of
            None \<Rightarrow> ret ()
          | Some pid \<Rightarrow>
              bindE (gets (\<lambda>h. processes h pid)) (\<lambda>alive.
              if \<not> alive then ignoreE (on_world (os_Remove (ne_env N) pidPath)) (ret ())
              else bindE (sleep N) (\<lambda>_. exit_loop N pidPath k))))"

definition waitForProcessExit :: "node_env \<Rightarrow> string \<Rightarrow> string \<Rightarrow> unit hact" where
  "waitForProcessExit N baseDir vmID = bindE tick (\<lambda>n. exit_loop N (pidFile baseDir vmID) (ne_rounds N n))"

definition killProcess :: "node_env \<Rightarrow> string \<Rightarrow> string \<Rightarrow> unit hact" where
  "killProcess N baseDir vmID =
     bindE (read_file (pidFile baseDir vmID)) (\<lambda>c.
     case c of
       None \<Rightarrow> throw (Wrap ''read pid file'' (Msg ''no such file or directory''))
     | Some bs \<Rightarrow>
         (case parse_pid bs of
            None \<Rightarrow> throw (Wrap ''parse pid'' (Msg ''invalid syntax''))
          | Some pid \<Rightarrow> bindE (run_on (\<lambda>n. ne_kill N n pid)) (\<lambda>err.
              case err of Some e \<Rightarrow> throw e | None \<Rightarrow> ret ())))"

definition Manager_StartVM :: "node_env \<Rightarrow> string \<Rightarrow> VMConfig \<Rightarrow> unit hact" where
  "Manager_StartVM N baseDir cfg =
     (let dir = vmDir baseDir (qc_ID cfg) in
      bindE (wrapE ''create vm dir'' (mkdir_all N dir)) (\<lambda>_.
      if qc_NICs cfg = [] then throw (Msg ''no NICs provided'')
      else
        bindE (mapE (\<lambda>n. ignoreE (EnsureBridge N (qn_Bridge n) '''' '''') (ret ())) (qc_NICs cfg)) (\<lambda>_.
        bindE (exists_file ''/dev/kvm'') (\<lambda>hasKVM.
        bindE (wrapE ''create qemu stdout log'' (write_file N (filepath_Join [dir, ''qemu-stdout.log'']) [])) (\<lambda>_.
        bindE (wrapE ''create qemu stderr log'' (write_file N (filepath_Join [dir, ''qemu-stderr.log'']) [])) (\<lambda>_.
        bindE (run_on (\<lambda>n. ne_start N n (''qemu-system-x86_64'' # qemu_args cfg hasKVM (pidFile baseDir (qc_ID cfg))))) (\<lambda>err.
        fail_if ''start qemu'' err (
        wrapE ''wait for qmp socket'' (waitForSocket N (qc_QMPSocket cfg))))))))))"

definition Manager_StopVM :: "node_env \<Rightarrow> string \<Rightarrow> string \<Rightarrow> bool \<Rightarrow> unit hact" where
  "Manager_StopVM N baseDir vmID force =
     tryM (sendQMPCommand N (qmp_sock baseDir vmID) (if force then Quit else SystemPowerdown)) (\<lambda>r.
     case r of Inl _ \<Rightarrow> killProcess N baseDir vmID | Inr _ \<Rightarrow> waitForProcessExit N baseDir vmID)"

definition Manager_RebootVM :: "node_env \<Rightarrow> string \<Rightarrow> string \<Rightarrow> bool \<Rightarrow> unit hact" where
  "Manager_RebootVM N baseDir vmID force =
     (if force then
        tryM (sendQMPCommand N (qmp_sock baseDir vmID) Quit) (\<lambda>r.
        case r of
          Inl _ \<Rightarrow> killProcess N baseDir vmID
        | Inr _ \<Rightarrow> bindE (waitForProcessExit N baseDir vmID) (\<lambda>_.
            throw (Msg ''force reboot requires restart of qemu process'')))
      else sendQMPCommand N (qmp_sock baseDir vmID) SystemReset)"

definition Manager_GetVMStatus :: "node_env \<Rightarrow> string \<Rightarrow> string \<Rightarrow> string hact" where
  "Manager_GetVMStatus N baseDir vmID =
     bindE (read_file (pidFile baseDir vmID)) (\<lambda>c.
     case c of None \<Rightarrow> ret ''stopped''
     | Some bs \<Rightarrow>
         (case parse_pid bs of
            None \<Rightarrow> throw (Wrap ''parse pid'' (Msg ''invalid syntax''))
          | Some pid \<Rightarrow>
              bindE (gets (\<lambda>h. processes h pid)) (\<lambda>alive.
              if \<not> alive then ret ''stopped''
              else tryM (sendQMPCommandWithReturn N (qmp_sock baseDir vmID) QueryStatus) (\<lambda>r.
                case r of Inr (Some st) \<Rightarrow> ret st | _ \<Rightarrow> ret ''running''))))"

definition CreateDiskFromImage :: "node_env \<Rightarrow> string \<Rightarrow> string \<Rightarrow> string \<Rightarrow> int \<Rightarrow> string \<Rightarrow> string hact" where
  "CreateDiskFromImage N baseDir vmID name sizeBytes imagePath =
     (let dir = vmDir baseDir vmID; path = filepath_Join [dir, name @ ''.qcow2''] in
      bindE (wrapE ''create vm dir'' (mkdir_all N dir)) (\<lambda>_.
      bindE (if imagePath \<noteq> '''' then exists_file imagePath else ret False) (\<lambda>image_there.
      if image_there then bindE (on_world (qcow2_CreateWithBacking (ne_exec N) path imagePath sizeBytes)) (\<lambda>_. ret path)
      else bindE (on_world (qcow2_Create (ne_exec N) path sizeBytes)) (\<lambda>_. ret path))))"

definition Manager_CreateDisk :: "node_env \<Rightarrow> string \<Rightarrow> string \<Rightarrow> string \<Rightarrow> int \<Rightarrow> string hact" where
  "Manager_CreateDisk N baseDir vmID name sizeBytes = CreateDiskFromImage N baseDir vmID name sizeBytes ''''"

definition Manager_AttachDisk :: "node_env \<Rightarrow> string \<Rightarrow> string \<Rightarrow> string \<Rightarrow> int \<Rightarrow> unit hact" where
  "Manager_AttachDisk N baseDir vmID diskPath slot =
     (let sock = qmp_sock baseDir vmID; blockNode = ''drive'' @ Itoa slot in
      bindE (wrapE ''blockdev-add'' (sendQMPCommand N sock (BlockdevAdd blockNode diskPath))) (\<lambda>_.
      wrapE ''device_add'' (sendQMPCommand N sock
        (DeviceAdd (''virtio-blk-pci'' @ Itoa slot) blockNode (''pci.'' @ Itoa (slot + 1))))))"

definition Manager_DetachDisk :: "node_env \<Rightarrow> string \<Rightarrow> string \<Rightarrow> string \<Rightarrow> unit hact" where
  "Manager_DetachDisk N baseDir vmID deviceID =
     (let sock = qmp_sock baseDir vmID in
      bindE (wrapE ''device_del'' (sendQMPCommand N sock (DeviceDel deviceID))) (\<lambda>_.
      bindE (sleep N) (\<lambda>_.
      ignoreE (sendQMPCommand N sock (BlockdevDel deviceID)) (ret ()))))"

subsection \<open>cloud-init\<close>

record ci_NetworkInterface =
  ci_Name :: string
  ci_MACAddress :: string
  ci_Addresses :: "string list"
  ci_Gateway :: string
  ci_Nameservers :: "string list"

definition nl :: string where
  "nl = [chr 10]"

definition dq :: string where
  "dq = [chr 34]"

definition GenerateMetaData :: "string \<Rightarrow> string" where
  "GenerateMetaData hostname = ''instance-id: '' @ hostname @ nl @ ''local-hostname: '' @ hostname @ nl"

definition interface_text :: "ci_NetworkInterface \<Rightarrow> string" where
  "interface_text iface =
     ''  '' @ (if ci_Name iface = '''' then ''ens3'' else ci_Name iface) @ '':'' @ nl @
     (if ci_MACAddress iface \<noteq> '''' then
        ''    match:'' @ nl @ ''      macaddress: '' @ dq @ ToLower (ci_MACAddress iface) @ dq @ nl else '''') @
     ''    dhcp4: false'' @ nl @
     (if ci_Addresses iface \<noteq> [] then
        ''    addresses:'' @ nl @ concat (map (\<lambda>a. ''      - '' @ a @ nl) (ci_Addresses iface)) else '''') @
     (if ci_Gateway iface \<noteq> '''' then ''    gateway4: '' @ ci_Gateway iface @ nl else '''') @
     (if ci_Nameservers iface \<noteq> [] then
        ''    nameservers:'' @ nl @ ''      addresses:'' @ nl @ concat (map (\<lambda>a. ''        - '' @ a @ nl) (ci_Nameservers iface)) else '''')"

definition GenerateNetworkConfig :: "ci_NetworkInterface list \<Rightarrow> string" where
  "GenerateNetworkConfig interfaces = ''version: 2'' @ nl @ ''ethernets:'' @ nl @ concat (map interface_text interfaces)"

definition GenerateUserDataFromString :: "string \<Rightarrow> string \<Rightarrow> string \<Rightarrow> string \<Rightarrow> string" where
  "GenerateUserDataFromString hostname sshKey user password =
     ''#cloud-config'' @ nl @
     (if hostname \<noteq> '''' then ''hostname: '' @ hostname @ nl else '''') @
     ''users:'' @ nl @
     ''  - name: '' @ (if user = '''' then ''ubuntu'' else user) @ nl @
     ''    sudo: ['' @ [chr 39] @ ''ALL=(ALL) NOPASSWD:ALL'' @ [chr 39] @ '']'' @ nl @
     ''    shell: /bin/bash'' @ nl @
     ''    lock_passwd: false'' @ nl @
     (if sshKey \<noteq> '''' then
        ''    ssh_authorized_keys:'' @ nl @
        concat (map (\<lambda>k. ''      - '' @ k @ nl) (filter (\<lambda>k. k \<noteq> '''') (map TrimSpace (Split sshKey (chr 10)))))
      else '''') @
     (if password \<noteq> '''' then ''    passwd: '' @ password @ nl else '''') @
     ''packages:'' @ nl @ ''  - qemu-guest-agent'' @ nl @
     ''runcmd:'' @ nl @ ''  - systemctl enable qemu-guest-agent'' @ nl @ ''  - systemctl start qemu-guest-agent'' @ nl @
     ''package_update: true'' @ nl @ ''package_upgrade: true'' @ nl"

definition GenerateISO :: "node_env \<Rightarrow> string \<Rightarrow> string \<Rightarrow> string \<Rightarrow> string \<Rightarrow> string hact" where
  "GenerateISO N outputDir meta user network =
     (let isoPath = filepath_Join [outputDir, ''cidata.iso''] in
      bindE (wrapE ''create output dir'' (mkdir_all N outputDir)) (\<lambda>_.
      bindE (wrapE ''write meta-data'' (write_file N (filepath_Join [outputDir, ''meta-data'']) (bytes meta))) (\<lambda>_.
      bindE (wrapE ''write user-data'' (write_file N (filepath_Join [outputDir, ''user-data'']) (bytes user))) (\<lambda>_.
      bindE (wrapE ''write network-config'' (write_file N (filepath_Join [outputDir, ''network-config'']) (bytes network))) (\<lambda>_.
      bindE (run_command N [''genisoimage'', ''-output'', isoPath, ''-volid'', ''cidata'', ''-v'', ''-J'', ''-joliet-long'',
        ''meta-data'', ''user-data'', ''network-config'']) (\<lambda>(err, out).
      case err of Some e \<Rightarrow> throw (Msg (''genisoimage: '' @ Error e @ '': '' @ out)) | None \<Rightarrow> ret isoPath))))))"

subsection \<open>The agent: starting a machine\<close>

definition root_image :: "Agent \<Rightarrow> VMStartConfig \<Rightarrow> string hact" where
  "root_image A cfg =
     (if vsc_ImagePath cfg \<noteq> '''' then ret (vsc_ImagePath cfg)
      else if vsc_ImageID cfg \<noteq> '''' then
        let candidate = filepath_Join [ag_imagesDir A, vsc_ImageID cfg @ ''.qcow2''];
            raw = filepath_Join [ag_imagesDir A, vsc_ImageID cfg @ ''.raw''] in
        bindE (exists_file candidate) (\<lambda>c. if c then ret candidate
          else bindE (exists_file raw) (\<lambda>r. ret (if r then raw else '''')))
      else ret '''')"

definition root_disk :: "node_env \<Rightarrow> Agent \<Rightarrow> string \<Rightarrow> VMStartConfig \<Rightarrow> string hact" where
  "root_disk N A vmID cfg =
     (if vsc_DiskPath cfg \<noteq> '''' then ret (vsc_DiskPath cfg)
      else
        let path = filepath_Join [vmDir (ag_baseDir A) vmID, ''root.qcow2''] in
        bindE (exists_file path) (\<lambda>there.
        if there then ret path
        else
          bindE (root_image A cfg) (\<lambda>imagePath.
          let sizeBytes = (if vsc_SizeBytes cfg = 0 then 20 * 1024 * 1024 * 1024 else vsc_SizeBytes cfg) in
          wrapE ''create root disk''
            (if imagePath \<noteq> '''' then CreateDiskFromImage N (ag_baseDir A) vmID ''root'' sizeBytes imagePath
             else Manager_CreateDisk N (ag_baseDir A) vmID ''root'' sizeBytes))))"

definition start_ssh_key :: "Agent \<Rightarrow> string \<Rightarrow> VMStartConfig \<Rightarrow> string hact" where
  "start_ssh_key A vmID cfg =
     (if vsc_SSHKey cfg = '''' then
        bindE (read_file (filepath_Join [vmDir (ag_baseDir A) vmID, ''authorized_keys''])) (\<lambda>c.
        ret (case c of Some bs \<Rightarrow> TrimSpace (text_of bs) | None \<Rightarrow> ''''))
      else ret (vsc_SSHKey cfg))"

text \<open>What the loop over the interfaces fills in; the interfaces are shared with the configuration, which is changed, too.\<close>

definition complete_nic :: "string \<Rightarrow> nat \<times> NICConfig \<Rightarrow> error + NICConfig" where
  "complete_nic vmID p = (case p of (i, n) \<Rightarrow>
     (case (if nac_Bridge n = '''' then BridgeForNetwork (nac_NetworkID n) else Inr (nac_Bridge n)) of
        Inl e \<Rightarrow> Inl (Wrap (''bridge for network '' @ nac_NetworkID n) e)
      | Inr br \<Rightarrow>
          Inr (n\<lparr>nac_Bridge := br,
            nac_Gateway := (if nac_Gateway n = '''' \<and> nac_IPAddress n \<noteq> '''' then
                (case gatewayFromCIDR (nac_IPAddress n) of Inr gw \<Rightarrow> gw | Inl _ \<Rightarrow> nac_Gateway n) else nac_Gateway n),
            nac_Name := (if nac_Name n = '''' then ''ens'' @ Itoa (3 + int i) else nac_Name n),
            nac_MACAddress := (if nac_MACAddress n = '''' then GenerateNICMAC vmID (''nic-'' @ Itoa (int i)) else nac_MACAddress n)\<rparr>)))"

definition prepare_nic :: "node_env \<Rightarrow> string \<Rightarrow> nat \<times> NICConfig \<Rightarrow> NICConfig hact" where
  "prepare_nic N vmID p = (case complete_nic vmID p of
     Inl e \<Rightarrow> throw e
   | Inr n \<Rightarrow> ignoreE (EnsureBridge N (nac_Bridge n) (nac_Gateway n) (nac_IPAddress n)) (ret n))"

definition ci_interfaces :: "NICConfig list \<Rightarrow> ci_NetworkInterface list" where
  "ci_interfaces nics = map (\<lambda>n. \<lparr>ci_Name = nac_Name n, ci_MACAddress = nac_MACAddress n, ci_Addresses = [nac_IPAddress n],
     ci_Gateway = nac_Gateway n, ci_Nameservers = [''8.8.8.8'', ''8.8.4.4'']\<rparr>) (filter (\<lambda>n. nac_IPAddress n \<noteq> '''') nics)"

definition vm_json_path :: "Agent \<Rightarrow> string \<Rightarrow> string" where
  "vm_json_path A vmID = filepath_Join [ag_baseDir A, vmID, ''vm.json'']"

definition persistVMConfig :: "node_env \<Rightarrow> Agent \<Rightarrow> string \<Rightarrow> VMStartConfig \<Rightarrow> string \<Rightarrow> string \<Rightarrow> string \<Rightarrow> unit hact" where
  "persistVMConfig N A vmID cfg diskPath mac isoPath = bindE tick (\<lambda>n.
     case ne_write N n of
       Some e \<Rightarrow> throw e
     | None \<Rightarrow> modify (\<lambda>h. h\<lparr>vm_json := (vm_json h)(filepath_Join [vmDir (ag_baseDir A) vmID, ''vm.json''] \<mapsto>
         \<lparr>vj_Config = cfg\<lparr>vsc_DiskPath := '''', vsc_MACAddress := ''''\<rparr>, vj_DiskPath = diskPath, vj_MAC = mac, vj_ISOPath = isoPath\<rparr>)\<rparr>))"

definition loadVMConfig :: "Agent \<Rightarrow> string \<Rightarrow> VMStartConfig hact" where
  "loadVMConfig A vmID = bindE (gets (\<lambda>h. vm_json h (vm_json_path A vmID))) (\<lambda>j.
     case j of
       None \<Rightarrow> throw (Msg (''open '' @ vm_json_path A vmID @ '': no such file or directory''))
     | Some w \<Rightarrow>
         (let c1 = (if vj_DiskPath w \<noteq> '''' then (vj_Config w)\<lparr>vsc_DiskPath := vj_DiskPath w\<rparr> else vj_Config w);
              c2 = (if vj_MAC w \<noteq> '''' then c1\<lparr>vsc_MACAddress := vj_MAC w\<rparr> else c1)
          in ret c2))"

definition qemu_config :: "Agent \<Rightarrow> string \<Rightarrow> VMStartConfig \<Rightarrow> NICConfig list \<Rightarrow> string \<Rightarrow> string \<Rightarrow> VMConfig" where
  "qemu_config A vmID cfg nics diskPath isoPath =
     \<lparr>qc_ID = vmID, qc_Name = vsc_Name cfg, qc_VCPUs = vsc_VCPUs cfg, qc_MemoryMB = vsc_MemoryMB cfg, qc_DiskPath = diskPath,
      qc_MACAddress = (case nics of [] \<Rightarrow> '''' | n # _ \<Rightarrow> nac_MACAddress n),
      qc_NICs = map (\<lambda>n. \<lparr>qn_Bridge = nac_Bridge n, qn_MACAddress = nac_MACAddress n\<rparr>) nics, qc_CloudInit = isoPath,
      qc_QMPSocket = filepath_Join [vmDir (ag_baseDir A) vmID, ''qmp.sock''],
      qc_MonitorSocket = filepath_Join [vmDir (ag_baseDir A) vmID, ''monitor.sock''], qc_MachineType = vsc_MachineType cfg\<rparr>"

definition Agent_StartVM :: "node_env \<Rightarrow> Agent \<Rightarrow> string \<Rightarrow> VMStartConfig option \<Rightarrow> unit hact" where
  "Agent_StartVM N A vmID config = (case config of
     None \<Rightarrow> throw (Msg ''vm config is required'')
   | Some cfg0 \<Rightarrow>
       let dir = vmDir (ag_baseDir A) vmID in
       bindE (wrapE ''create vm dir'' (mkdir_all N dir)) (\<lambda>_.
       bindE (root_disk N A vmID cfg0) (\<lambda>diskPath.
       bindE (start_ssh_key A vmID cfg0) (\<lambda>sshKey.
       if vsc_NetworkInterfaces cfg0 = [] then throw (Msg ''no network interfaces provided'')
       else
         bindE (mapE (prepare_nic N vmID) (List.enumerate 0 (vsc_NetworkInterfaces cfg0))) (\<lambda>nics.
         let cfg = cfg0\<lparr>vsc_NetworkInterfaces := nics\<rparr> in
         if ci_interfaces nics = [] then throw (Msg ''no network interfaces with IP addresses'')
         else
           bindE (wrapE ''generate cloud-init'' (GenerateISO N (filepath_Join [dir, ''cloud-init'']) (GenerateMetaData (vsc_Name cfg))
             (GenerateUserDataFromString (vsc_Name cfg) sshKey ''ubuntu'' '''') (GenerateNetworkConfig (ci_interfaces nics)))) (\<lambda>isoPath.
           let qcfg = qemu_config A vmID cfg nics diskPath isoPath in
           bindE (wrapE ''start qemu'' (Manager_StartVM N (ag_baseDir A) qcfg)) (\<lambda>_.
           ignoreE (persistVMConfig N A vmID cfg diskPath (qc_MACAddress qcfg) isoPath) (ret ()))))))))"

subsection \<open>The agent: recovery and the other commands\<close>

definition recover_entry :: "node_env \<Rightarrow> Agent \<Rightarrow> string \<times> bool \<Rightarrow> unit hact" where
  "recover_entry N A entry = (case entry of (vmID, isDir) \<Rightarrow>
     if \<not> isDir then ret ()
     else bindE (gets (\<lambda>h. vm_json h (vm_json_path A vmID) \<noteq> None)) (\<lambda>there.
       if \<not> there then ret ()
       else tryM (Manager_GetVMStatus N (ag_baseDir A) vmID) (\<lambda>st.
         if st = Inr ''running'' then ret ()
         else tryM (loadVMConfig A vmID) (\<lambda>r.
           case r of Inl _ \<Rightarrow> ret () | Inr cfg \<Rightarrow> ignoreE (Agent_StartVM N A vmID (Some cfg)) (ret ())))))"

definition RecoverVMs :: "node_env \<Rightarrow> Agent \<Rightarrow> unit hact" where
  "RecoverVMs N A = bindE tick (\<lambda>n.
     case ne_readdir N n (ag_baseDir A) of
       Inl e \<Rightarrow> throw (Wrap ''read baseDir for recovery'' e)
     | Inr None \<Rightarrow> ret ()
     | Inr (Some entries) \<Rightarrow> bindE (mapE (recover_entry N A) entries) (\<lambda>_. ret ()))"

definition remove_json :: "node_env \<Rightarrow> string \<Rightarrow> unit hact" where
  "remove_json N path = bindE tick (\<lambda>n.
     case cmd_fault (ne_env N) n of
       Some e \<Rightarrow> throw e
     | None \<Rightarrow> modify (\<lambda>h. h\<lparr>vm_json := (vm_json h)(path := None)\<rparr>))"

definition Agent_StopVM :: "node_env \<Rightarrow> Agent \<Rightarrow> string \<Rightarrow> bool \<Rightarrow> unit hact" where
  "Agent_StopVM N A vmID force =
     bindE (wrapE ''get vm status'' (Manager_GetVMStatus N (ag_baseDir A) vmID)) (\<lambda>st.
     if st = ''stopped'' then ret ()
     else
       bindE (wrapE ''stop vm'' (Manager_StopVM N (ag_baseDir A) vmID force)) (\<lambda>_.
       ignoreE (remove_json N (vm_json_path A vmID)) (ret ())))"

definition Agent_RebootVM :: "node_env \<Rightarrow> Agent \<Rightarrow> string \<Rightarrow> bool \<Rightarrow> unit hact" where
  "Agent_RebootVM N A vmID force =
     bindE (wrapE ''get vm status'' (Manager_GetVMStatus N (ag_baseDir A) vmID)) (\<lambda>st.
     if st = ''stopped'' then throw (Msg ''cannot reboot stopped vm'')
     else wrapE ''reboot vm'' (Manager_RebootVM N (ag_baseDir A) vmID force))"

definition domain_status :: "string \<Rightarrow> VMStatus" where
  "domain_status st =
     (if st = ''running'' then VMStatusRunning
      else if st = ''paused'' then VMStatusPaused
      else if st = ''shutdown'' \<or> st = ''guest-shutdown'' then VMStatusStopped
      else if st = ''reboot'' then VMStatusRebooting
      else VMStatusStopped)"

definition Agent_GetVMStatus :: "node_env \<Rightarrow> Agent \<Rightarrow> string \<Rightarrow> VMStatus hact" where
  "Agent_GetVMStatus N A vmID =
     bindE (Manager_GetVMStatus N (ag_baseDir A) vmID) (\<lambda>st. ret (domain_status st))"

definition Agent_CreateDisk :: "node_env \<Rightarrow> Agent \<Rightarrow> string \<Rightarrow> string \<Rightarrow> int \<Rightarrow> string hact" where
  "Agent_CreateDisk N A vmID name sizeBytes = wrapE ''create disk'' (Manager_CreateDisk N (ag_baseDir A) vmID name sizeBytes)"

definition Agent_AttachDisk :: "node_env \<Rightarrow> Agent \<Rightarrow> string \<Rightarrow> string \<Rightarrow> int \<Rightarrow> unit hact" where
  "Agent_AttachDisk N A vmID diskPath slot = wrapE ''attach disk'' (Manager_AttachDisk N (ag_baseDir A) vmID diskPath slot)"

definition Agent_DetachDisk :: "node_env \<Rightarrow> Agent \<Rightarrow> string \<Rightarrow> string \<Rightarrow> unit hact" where
  "Agent_DetachDisk N A vmID deviceID = wrapE ''detach disk'' (Manager_DetachDisk N (ag_baseDir A) vmID deviceID)"

text \<open>The entries of the base directory that are directories and whose status can be read.\<close>

fun list_entries :: "node_env \<Rightarrow> Agent \<Rightarrow> (string \<times> bool) list \<Rightarrow> VMInfo list hact" where
  "list_entries N A [] = ret []"
| "list_entries N A ((vmID, isDir) # es) =
     (if \<not> isDir then list_entries N A es
      else tryM (Manager_GetVMStatus N (ag_baseDir A) vmID) (\<lambda>st.
        case st of
          Inl _ \<Rightarrow> list_entries N A es
        | Inr s \<Rightarrow> bindE (list_entries N A es) (\<lambda>vs. ret (\<lparr>vi_ID = vmID, vi_Status = s, vi_CPUs = 1, vi_Memory = 512\<rparr> # vs))))"

definition listVMs :: "node_env \<Rightarrow> Agent \<Rightarrow> VMInfo list hact" where
  "listVMs N A = bindE tick (\<lambda>n.
     case ne_readdir N n (ag_baseDir A) of
       Inl e \<Rightarrow> throw e
     | Inr None \<Rightarrow> ret []
     | Inr (Some entries) \<Rightarrow> list_entries N A entries)"

definition collectHeartbeat :: "node_env \<Rightarrow> Agent \<Rightarrow> heartbeat hact" where
  "collectHeartbeat N A =
     bindE (wrapE ''read total cpus'' (on_world ReadCPUCores)) (\<lambda>cores.
     bindE (wrapE ''read used cpus'' (on_world ReadUsedCPUs)) (\<lambda>used.
     bindE (wrapE ''read memory'' (on_world ReadMemory)) (\<lambda>(mem, usedMem).
     tryM (listVMs N A) (\<lambda>vms.
     ret \<lparr>hb_NodeID = ag_nodeID A, hb_TotalCPUs = cores, hb_UsedCPUs = used, hb_TotalMemoryMB = mem, hb_UsedMemoryMB = usedMem,
          hb_VMs = (case vms of Inr vs \<Rightarrow> vs | Inl _ \<Rightarrow> [])\<rparr>))))"

definition SendHeartbeat :: "node_env \<Rightarrow> Agent \<Rightarrow> unit hact" where
  "SendHeartbeat N A =
     bindE (wrapE ''collect heartbeat'' (collectHeartbeat N A)) (\<lambda>hb.
     bindE tick (\<lambda>n.
     case pub_fault (ne_env N) n of
       Some e \<Rightarrow> throw (Wrap ''publish heartbeat'' e)
     | None \<Rightarrow> modify (\<lambda>h. h\<lparr>heartbeats := heartbeats h @ [(''heartbeats.'' @ ag_nodeID A, hb)]\<rparr>)))"

subsection \<open>Commands\<close>

text \<open>A published result; \<^verbatim>\<open>js.Publish\<close> may fail, which is ignored.\<close>

definition publish_result :: "node_env \<Rightarrow> string \<Rightarrow> VMCommandResult \<Rightarrow> unit hact" where
  "publish_result N subject res = bindE tick (\<lambda>n.
     case pub_fault (ne_env N) n of
       Some _ \<Rightarrow> ret ()
     | None \<Rightarrow> modify (\<lambda>h. h\<lparr>results := results h @ [(subject, res)]\<rparr>))"

datatype acknowledgement = Ack | Nak

definition run_vm_command :: "node_env \<Rightarrow> Agent \<Rightarrow> VMCommand \<Rightarrow> unit hact" where
  "run_vm_command N A cmd =
     (let vmID = cmd_VMID cmd in
      if cmd_Action cmd = ''start'' then Agent_StartVM N A vmID (cmd_Config cmd)
      else if cmd_Action cmd = ''stop'' then Agent_StopVM N A vmID (cmd_Force cmd)
      else if cmd_Action cmd = ''reboot'' then Agent_RebootVM N A vmID (cmd_Force cmd)
      else if cmd_Action cmd = ''create_disk'' then
        (case cmd_Config cmd of
           Some _ \<Rightarrow> bindE (Agent_CreateDisk N A vmID ''disk'' (10 * 1024 * 1024 * 1024)) (\<lambda>_. ret ())
         | None \<Rightarrow> ret ())
      else if cmd_Action cmd = ''attach_disk'' then
        (case cmd_Config cmd of Some c \<Rightarrow> Agent_AttachDisk N A vmID (vsc_DiskPath c) 1 | None \<Rightarrow> ret ())
      else if cmd_Action cmd = ''detach_disk'' then Agent_DetachDisk N A vmID vmID
      else throw (Msg (''unknown action: '' @ cmd_Action cmd)))"

text \<open>\<open>None\<close> is a message that does not decode.\<close>

definition handleCommand :: "node_env \<Rightarrow> Agent \<Rightarrow> VMCommand option \<Rightarrow> acknowledgement hact" where
  "handleCommand N A msg = (case msg of
     None \<Rightarrow> ret Nak
   | Some cmd \<Rightarrow>
       tryM (run_vm_command N A cmd) (\<lambda>r.
       bindE (publish_result N (''events.vm.'' @ cmd_VMID cmd @ ''.'' @ cmd_Action cmd)
         \<lparr>vcr_VMID = cmd_VMID cmd, vcr_Action = cmd_Action cmd,
          vcr_Status = (case r of Inl _ \<Rightarrow> ''error'' | Inr _ \<Rightarrow> ''success''),
          vcr_Error = (case r of Inl e \<Rightarrow> Error e | Inr _ \<Rightarrow> '''')\<rparr>) (\<lambda>_.
       ret (case r of Inl _ \<Rightarrow> Nak | Inr _ \<Rightarrow> Ack))))"

text \<open>The commands of the control plane as the agent decodes them.\<close>

definition decode_nic :: "nicConfig \<Rightarrow> NICConfig" where
  "decode_nic n = \<lparr>nac_NetworkID = nc_NetworkID n, nac_MACAddress = nc_MACAddress n, nac_IPAddress = nc_IPAddress n,
     nac_Gateway = nc_Gateway n, nac_Bridge = nc_Bridge n, nac_Name = nc_Name n\<rparr>"

definition decode_config :: "vmStartCfg \<Rightarrow> VMStartConfig" where
  "decode_config c = \<lparr>vsc_Name = sc_Name c, vsc_VCPUs = sc_VCPUs c, vsc_MemoryMB = sc_MemoryMB c, vsc_DiskPath = '''',
     vsc_MACAddress = sc_MACAddress c, vsc_SSHKey = sc_SSHKey c, vsc_ImageURL = '''', vsc_ImageID = sc_ImageID c,
     vsc_ImagePath = '''', vsc_SizeBytes = sc_SizeBytes c, vsc_MachineType = sc_MachineType c,
     vsc_NetworkInterfaces = map decode_nic (sc_NetworkInterfaces c)\<rparr>"

fun decode_command :: "payload \<Rightarrow> VMCommand option" where
  "decode_command (StartCommand vmID c) = Some \<lparr>cmd_Action = ''start'', cmd_VMID = vmID, cmd_Config = Some (decode_config c), cmd_Force = False\<rparr>"
| "decode_command (StopCommand vmID force) = Some \<lparr>cmd_Action = ''stop'', cmd_VMID = vmID, cmd_Config = None, cmd_Force = force\<rparr>"
| "decode_command (RebootCommand vmID force) = Some \<lparr>cmd_Action = ''reboot'', cmd_VMID = vmID, cmd_Config = None, cmd_Force = force\<rparr>"
| "decode_command (Event kvs) = None"

subsection \<open>QMP: an event before the reply\<close>

lemma qmp_loop_event: "ptr_set (qr_Event resp) \<Longrightarrow> (\<And>m. Inr m \<in> set ms \<Longrightarrow> qr_Event m \<noteq> Some '''') \<Longrightarrow> \<exists>e. qmp_loop resp ms = Inl e"
proof (induction ms arbitrary: resp)
  case (Cons x ms)
  show ?case
  proof (cases x)
    case (Inr m)
    then have "ptr_set (qr_Event (decode_into resp m))"
      using Cons.prems by (auto simp: decode_into_def ptr_set_def split: option.splits)
    then show ?thesis
      using Cons Inr by (auto simp: Let_def)
  qed simp
qed simp

text \<open>
  C33. When QEMU sends an event before its reply, a QMP command is reported as failed, whatever the reply says and whatever comes
  after it: the variable that receives the messages keeps the event's name. (An event has a name.)
\<close>

theorem qmp_event_hides_reply:
  assumes "qv_Messages c = Inr ev # ms" "ptr_set (qr_Event ev)" "\<And>m. Inr m \<in> set ms \<Longrightarrow> qr_Event m \<noteq> Some ''''"
  shows "\<exists>e. qmp_result c = Inl e"
proof -
  have "decode_into no_message ev = ev"
    by (cases ev) (auto simp: decode_into_def no_message_def split: option.split)
  then have "\<exists>e. qmp_loop no_message (qv_Messages c) = Inl e"
    using assms qmp_loop_event [of ev ms] by (auto simp: Let_def)
  then show ?thesis
    by (auto simp: qmp_result_def split: option.split)
qed

definition sample_conversation :: "(error + qmpResponse) list \<Rightarrow> qmp_conversation" where
  "sample_conversation ms = \<lparr>qv_Dial = None, qv_Deadline = None, qv_Greeting = None, qv_SendCaps = None, qv_Caps = None,
     qv_Send = None, qv_Messages = ms\<rparr>"

theorem qmp_event_hides_reply_witness:
  "(\<exists>e. qmp_result (sample_conversation [Inr \<lparr>qr_Return = None, qr_Error = None, qr_Event = Some ''POWERDOWN''\<rparr>,
      Inr \<lparr>qr_Return = Some ''{}'', qr_Error = None, qr_Event = None\<rparr>]) = Inl e) \<and>
   qmp_result (sample_conversation [Inr \<lparr>qr_Return = Some ''{}'', qr_Error = None, qr_Event = None\<rparr>]) = Inr (Some ''{}'')"
  by (rule conjI, rule qmp_event_hides_reply)
    (auto simp: sample_conversation_def ptr_set_def qmp_result_def decode_into_def no_message_def Let_def)

end
