(* ===== verification/NodeRecovery.thy ===== *)
theory NodeRecovery
  imports NodeAgent
begin

section \<open>Stopping, recovering and restarting machines on a node\<close>

text \<open>
  What the agent of a node (theory \<^verbatim>\<open>NodeAgent\<close>) promises about the machines it runs: when a stop succeeds, what recovery
  restarts, and that a restart uses the same disk and interfaces as the first start.
\<close>

subsection \<open>A machine that is not running\<close>

lemma not_running_status: "files (hw h) (pidFile (ag_baseDir A) vmID) = None \<Longrightarrow> Manager_GetVMStatus N (ag_baseDir A) vmID h = (Inr ''stopped'', h)"
  by (simp add: Manager_GetVMStatus_def bindE_apply read_file_def gets_def ret_def)


subsection \<open>Restarting a machine\<close>

lemma complete_nic_Inr:
  "complete_nic vmID (i, n) = Inr n' \<longleftrightarrow>
   (\<exists>br. (if nac_Bridge n = '''' then BridgeForNetwork (nac_NetworkID n) else Inr (nac_Bridge n)) = Inr br \<and>
     n' = n\<lparr>nac_Bridge := br,
       nac_Gateway := (if nac_Gateway n = '''' \<and> nac_IPAddress n \<noteq> '''' then
           (case gatewayFromCIDR (nac_IPAddress n) of Inr gw \<Rightarrow> gw | Inl _ \<Rightarrow> nac_Gateway n) else nac_Gateway n),
       nac_Name := (if nac_Name n = '''' then ''ens'' @ Itoa (3 + int i) else nac_Name n),
       nac_MACAddress := (if nac_MACAddress n = '''' then GenerateNICMAC vmID (''nic-'' @ Itoa (int i)) else nac_MACAddress n)\<rparr>)"
  by (cases "if nac_Bridge n = '''' then BridgeForNetwork (nac_NetworkID n) else Inr (nac_Bridge n)") (auto simp: complete_nic_def)

lemma complete_nic_again:
  assumes "complete_nic vmID (i, n) = Inr n'"
  shows "complete_nic vmID (i, n') = Inr n'"
proof -
  obtain br where br: "(if nac_Bridge n = '''' then BridgeForNetwork (nac_NetworkID n) else Inr (nac_Bridge n)) = Inr br"
    and n': "nac_Bridge n' = br" "nac_NetworkID n' = nac_NetworkID n" "nac_IPAddress n' = nac_IPAddress n"
      "nac_Name n' = (if nac_Name n = '''' then ''ens'' @ Itoa (3 + int i) else nac_Name n)"
      "nac_MACAddress n' = (if nac_MACAddress n = '''' then GenerateNICMAC vmID (''nic-'' @ Itoa (int i)) else nac_MACAddress n)"
      "nac_Gateway n' = (if nac_Gateway n = '''' \<and> nac_IPAddress n \<noteq> '''' then
           (case gatewayFromCIDR (nac_IPAddress n) of Inr gw \<Rightarrow> gw | Inl _ \<Rightarrow> nac_Gateway n) else nac_Gateway n)"
    using assms unfolding complete_nic_Inr by auto
  have "(if nac_Bridge n' = '''' then BridgeForNetwork (nac_NetworkID n') else Inr (nac_Bridge n')) = Inr br"
    using br n'(1,2) by (cases "nac_Bridge n = ''''"; cases "br = ''''") simp_all
  moreover have "(if nac_Gateway n' = '''' \<and> nac_IPAddress n' \<noteq> '''' then
      (case gatewayFromCIDR (nac_IPAddress n') of Inr gw \<Rightarrow> gw | Inl _ \<Rightarrow> nac_Gateway n') else nac_Gateway n') = nac_Gateway n'"
    using n'(3,6) by (cases "gatewayFromCIDR (nac_IPAddress n)") auto
  moreover have "(if nac_Name n' = '''' then ''ens'' @ Itoa (3 + int i) else nac_Name n') = nac_Name n'"
    "(if nac_MACAddress n' = '''' then GenerateNICMAC vmID (''nic-'' @ Itoa (int i)) else nac_MACAddress n') = nac_MACAddress n'"
    using n'(4,5) by auto
  ultimately show ?thesis
    unfolding complete_nic_Inr using n'(1) by (intro exI [of _ br]) simp
qed

lemma prepare_nic_Inr: "prepare_nic N vmID p h = (Inr n, h') \<Longrightarrow> complete_nic vmID p = Inr n"
  by (auto simp: prepare_nic_def ignoreE_def tryM_iff split: sum.splits)

definition completed :: "string \<Rightarrow> NICConfig list \<Rightarrow> NICConfig list \<Rightarrow> bool" where
  "completed vmID ns ns' \<longleftrightarrow> list_all2 (\<lambda>p n'. complete_nic vmID p = Inr n') (List.enumerate 0 ns) ns'"

lemma prepare_nics_Inr:
  "mapE (prepare_nic N vmID) ps h = (Inr nics, h') \<Longrightarrow> list_all2 (\<lambda>p n. complete_nic vmID p = Inr n) ps nics"
proof (induction ps arbitrary: nics h h')
  case (Cons p ps)
  then obtain n h1 rest h2 where "prepare_nic N vmID p h = (Inr n, h1)" "mapE (prepare_nic N vmID) ps h1 = (Inr rest, h2)"
    and nics: "nics = n # rest"
    by (auto simp: op_Inr_iff)
  then have "complete_nic vmID p = Inr n" "list_all2 (\<lambda>p n. complete_nic vmID p = Inr n) ps rest"
    using prepare_nic_Inr Cons.IH by blast+
  then show ?case unfolding nics by simp
qed simp

lemma completed_again: "completed vmID ns ns' \<Longrightarrow> completed vmID ns' ns'"
  unfolding completed_def
proof -
  have "list_all2 (\<lambda>p n. complete_nic vmID p = Inr n) (List.enumerate k ns) ns' \<Longrightarrow>
    list_all2 (\<lambda>p n. complete_nic vmID p = Inr n) (List.enumerate k ns') ns'" for k
  proof (induction ns arbitrary: k ns')
    case (Cons n ns)
    then obtain n' rest where "ns' = n' # rest"
      by (auto simp: list_all2_Cons1)
    then show ?case
      using Cons complete_nic_again by auto
  qed simp
  then show "list_all2 (\<lambda>p n'. complete_nic vmID p = Inr n') (List.enumerate 0 ns) ns' \<Longrightarrow>
    list_all2 (\<lambda>p n'. complete_nic vmID p = Inr n') (List.enumerate 0 ns') ns'" .
qed

text \<open>The pieces of a successful start: the disk, the completed interfaces and the file written at the end.\<close>

lemma start_succeeds:
  assumes "Agent_StartVM N A vmID (Some cfg) h = (Inr (), h')"
  obtains disk cdPath nics h1 h2 h3 where
    "root_disk N A vmID cfg h1 = (Inr disk, h2)" "completed vmID (vsc_NetworkInterfaces cfg) nics" "nics \<noteq> []"
    "h' = snd (persistVMConfig N A vmID (cfg\<lparr>vsc_NetworkInterfaces := nics\<rparr>) disk (nac_MACAddress (hd nics)) cdPath h3)"
proof -
  obtain disk cdPath nics h1 h2 h3 h4 h5 where d: "root_disk N A vmID cfg h1 = (Inr disk, h2)"
    and n: "mapE (prepare_nic N vmID) (List.enumerate 0 (vsc_NetworkInterfaces cfg)) h3 = (Inr nics, h4)"
    and ne: "ci_interfaces nics \<noteq> []"
    and p: "ignoreE (persistVMConfig N A vmID (cfg\<lparr>vsc_NetworkInterfaces := nics\<rparr>) disk
      (qc_MACAddress (qemu_config A vmID (cfg\<lparr>vsc_NetworkInterfaces := nics\<rparr>) nics disk cdPath)) cdPath) (ret ()) h5 = (Inr (), h')"
    using assms unfolding Agent_StartVM_def by (auto simp: op_Inr_iff Let_def split: if_splits)
  have "nics \<noteq> []" using ne by (auto simp: ci_interfaces_def)
  moreover have "h' = snd (persistVMConfig N A vmID (cfg\<lparr>vsc_NetworkInterfaces := nics\<rparr>) disk (nac_MACAddress (hd nics)) cdPath h5)"
    using p \<open>nics \<noteq> []\<close> by (cases nics) (auto simp: ignoreE_def tryM_apply qemu_config_def split: prod.splits)
  ultimately show thesis
    using that [of h1 disk h2 nics cdPath h5] d prepare_nics_Inr [OF n] by (simp add: completed_def)
qed

definition writes_succeed :: "node_env \<Rightarrow> bool" where
  "writes_succeed N \<longleftrightarrow> (\<forall>n. ne_write N n = None)"

lemma plain_vm_json: "plain_name ''vm.json''"
  by (simp add: plain_name_def Separator_def)

lemma persisted_loads:
  assumes "writes_succeed N" "ag_baseDir A \<noteq> ''''"
  shows "loadVMConfig A vmID (snd (persistVMConfig N A vmID cfg disk mac cdPath h)) =
    (Inr (cfg\<lparr>vsc_DiskPath := disk, vsc_MACAddress := mac\<rparr>), snd (persistVMConfig N A vmID cfg disk mac cdPath h))"
  using assms
  by (simp add: persistVMConfig_def loadVMConfig_def vm_json_path_def vmDir_def filepath_Join_nested plain_vm_json tick_def
      bindE_apply gets_def modify_def ret_def writes_succeed_def Let_def)

lemma root_disk_given: "vsc_DiskPath cfg \<noteq> '''' \<Longrightarrow> root_disk N A vmID cfg h = (Inr (vsc_DiskPath cfg), h)"
  by (simp add: root_disk_def ret_def)

text \<open>
  C31. After a machine has been started, the configuration file that the agent reads when it recovers is that of the start, with the
  disk in use and the first interface's address filled in, so that a restart uses the same disk (whatever has
  happened to the host since then), the same interfaces, which need no completion, and the same CPUs and memory.
\<close>

theorem restart_same_machine:
  assumes "Agent_StartVM N A vmID (Some cfg) h = (Inr (), h')" "writes_succeed N" "ag_baseDir A \<noteq> ''''"
  shows "\<exists>disk nics h1 h2 cfg'. root_disk N A vmID cfg h1 = (Inr disk, h2) \<and> completed vmID (vsc_NetworkInterfaces cfg) nics \<and>
     loadVMConfig A vmID h' = (Inr cfg', h') \<and>
     cfg' = cfg\<lparr>vsc_NetworkInterfaces := nics, vsc_DiskPath := disk, vsc_MACAddress := nac_MACAddress (hd nics)\<rparr> \<and>
     completed vmID (vsc_NetworkInterfaces cfg') nics \<and>
     (disk \<noteq> '''' \<longrightarrow> (\<forall>N' h''. root_disk N' A vmID cfg' h'' = (Inr disk, h'')))"
proof -
  obtain disk cdPath nics h1 h2 h3 where *: "root_disk N A vmID cfg h1 = (Inr disk, h2)" "completed vmID (vsc_NetworkInterfaces cfg) nics"
    "h' = snd (persistVMConfig N A vmID (cfg\<lparr>vsc_NetworkInterfaces := nics\<rparr>) disk (nac_MACAddress (hd nics)) cdPath h3)"
    using start_succeeds [OF assms(1)] by metis
  show ?thesis
    using * persisted_loads [OF assms(2,3)] completed_again [OF *(2)]
    by (intro exI [of _ disk] exI [of _ nics] exI [of _ h1] exI [of _ h2]) (simp add: root_disk_given)
qed

subsection \<open>When a stop succeeds\<close>

text \<open>The state of the host after \<open>j\<close> sleeps, and what a poll of \<^verbatim>\<open>waitForProcessExit\<close> looks for.\<close>

fun sleeps :: "node_env \<Rightarrow> nat \<Rightarrow> host \<Rightarrow> host" where
  "sleeps N 0 h = h"
| "sleeps N (Suc j) h = sleeps N j (snd (sleep N h))"

definition exited :: "string \<Rightarrow> host \<Rightarrow> bool" where
  "exited p h = (case files (hw h) p of
     None \<Rightarrow> True
   | Some bs \<Rightarrow> (case parse_pid bs of None \<Rightarrow> True | Some pid \<Rightarrow> \<not> processes h pid))"

lemma sleep_total: "sleep N h = (Inr (), snd (sleep N h))"
  by (simp add: sleep_def run_on_def tick_def bindE_apply)

lemma exit_loop_step:
  "exit_loop N p (Suc k) h = (if exited p h then (Inr (), snd (exit_loop N p (Suc k) h)) else exit_loop N p k (snd (sleep N h)))"
proof (cases "exited p h")
  case True
  then show ?thesis
    by (auto simp: exited_def bindE_apply read_file_def gets_def ret_def ignoreE_def tryM_apply split: option.splits prod.split)
next
  case False
  then obtain bs pid where "files (hw h) p = Some bs" "parse_pid bs = Some pid" "processes h pid"
    by (auto simp: exited_def split: option.splits)
  then show ?thesis
    using False by (simp add: bindE_apply read_file_def gets_def ret_def) (subst sleep_total, simp)
qed

lemma exit_loop_iff: "(\<exists>h'. exit_loop N p k h = (Inr (), h')) \<longleftrightarrow> (\<exists>j<k. exited p (sleeps N j h))"
proof (induction k arbitrary: h)
  case 0
  show ?case by (simp add: throw_def)
next
  case (Suc k)
  show ?case
  proof (cases "exited p h")
    case True
    then have "\<exists>j<Suc k. exited p (sleeps N j h)"
      by (intro exI [of _ 0]) simp
    then show ?thesis
      using exit_loop_step [of N p k h] True by auto
  next
    case False
    then have "(\<exists>j<Suc k. exited p (sleeps N j h)) \<longleftrightarrow> (\<exists>j<k. exited p (sleeps N j (snd (sleep N h))))"
      by (auto simp: Ex_less_Suc2)
    then show ?thesis
      using exit_loop_step [of N p k h] False Suc.IH by simp
  qed
qed

text \<open>
  C32. A machine that is running and whose QEMU accepts the power-down (or quit) command is stopped successfully exactly if its process is
  seen to have ended in one of the polls before the deadline; and then it is not recovered later, unless the
  configuration file could not be removed.
\<close>

theorem stop_completes:
  assumes "Manager_GetVMStatus N (ag_baseDir A) vmID h = (Inr st, h1)" "st \<noteq> ''stopped''"
    and "sendQMPCommand N (qmp_sock (ag_baseDir A) vmID) (if force then Quit else SystemPowerdown) h1 = (Inr (), h2)"
  shows "((\<exists>h'. Agent_StopVM N A vmID force h = (Inr (), h')) \<longleftrightarrow>
      (\<exists>j<ne_rounds N (cmd_no (hw h2)). exited (pidFile (ag_baseDir A) vmID) (sleeps N j (snd (tick h2))))) \<and>
    (\<forall>h'. Agent_StopVM N A vmID force h = (Inr (), h') \<longrightarrow> (\<forall>n. cmd_fault (ne_env N) n = None) \<longrightarrow>
      recover_entry N A (vmID, True) h' = (Inr (), h'))"
proof -
  let ?wait = "exit_loop N (pidFile (ag_baseDir A) vmID) (ne_rounds N (cmd_no (hw h2))) (snd (tick h2))"
  let ?remove = "remove_json N (vm_json_path A vmID)"
  have run: "Agent_StopVM N A vmID force h =
      (case ?wait of (Inl e, h3) \<Rightarrow> (Inl (Wrap ''stop vm'' e), h3) | (Inr _, h3) \<Rightarrow> (Inr (), snd (?remove h3)))"
    using assms
    by (auto simp: Agent_StopVM_def Manager_StopVM_def waitForProcessExit_def bindE_apply wrapE_apply tryM_apply ignoreE_def
        tick_def ret_def split: prod.split sum.split)
  have removed: "recover_entry N A (vmID, True) (snd (?remove h3)) = (Inr (), snd (?remove h3))"
    if "\<forall>n. cmd_fault (ne_env N) n = None" for h3
    using that by (simp add: remove_json_def recover_entry_def bindE_apply tick_def modify_def gets_def ret_def)
  have "(\<exists>h'. Agent_StopVM N A vmID force h = (Inr (), h')) \<longleftrightarrow> (\<exists>h3. ?wait = (Inr (), h3))"
    unfolding run by (auto split: prod.split sum.split)
  then show ?thesis
    unfolding exit_loop_iff using run removed by (auto split: prod.splits sum.splits)
qed

subsection \<open>A sample node\<close>

definition sample_node :: node_env where
  "sample_node = \<lparr>ne_exec = (\<lambda>n argv fs. (None, Text '''', fs)), ne_env = sample_env, ne_write = (\<lambda>_. None),
     ne_start = (\<lambda>n argv h. (None, h)),
     ne_qmp = (\<lambda>n sock c h. (sample_conversation [Inr \<lparr>qr_Return = Some ''running'', qr_Error = None, qr_Event = None\<rparr>], h)),
     ne_kill = (\<lambda>n pid h. (None, h)), ne_dial = (\<lambda>n path h. True), ne_sleep = (\<lambda>n h. h\<lparr>processes := (\<lambda>_. False)\<rparr>),
     ne_rounds = (\<lambda>_. 2), ne_readdir = (\<lambda>n path. Inr None)\<rparr>"

definition sample_agent :: Agent where
  "sample_agent = NewAgent ''n1'' ''/vms'' ''/images''"

definition sample_host :: host where
  "sample_host = \<lparr>hw = empty_world, vm_json = (\<lambda>_. None), processes = (\<lambda>_. False), results = [], heartbeats = []\<rparr>"

definition sample_start :: VMStartConfig where
  "sample_start = \<lparr>vsc_Name = ''web'', vsc_VCPUs = 1, vsc_MemoryMB = 512, vsc_DiskPath = ''/d.qcow2'', vsc_MACAddress = '''',
     vsc_SSHKey = ''key'', vsc_ImageURL = '''', vsc_ImageID = '''', vsc_ImagePath = '''', vsc_SizeBytes = 0, vsc_MachineType = '''',
     vsc_NetworkInterfaces = [\<lparr>nac_NetworkID = ''net'', nac_MACAddress = ''52:54:00:00:00:01'', nac_IPAddress = ''10.0.0.2/24'',
       nac_Gateway = ''10.0.0.1'', nac_Bridge = ''br0'', nac_Name = ''ens3''\<rparr>]\<rparr>"

lemmas host_simps = bindE_apply wrapE_apply tryM_apply ignoreE_def ret_def throw_def gets_def modify_def tick_def run_on_def on_world_def

lemma sample_write: "write_file sample_node p c h =
   (Inr (), h\<lparr>hw := (hw h)\<lparr>cmd_no := Suc (cmd_no (hw h)), files := (files (hw h))(p \<mapsto> c)\<rparr>\<rparr>)"
  by (simp add: write_file_def sample_node_def host_simps set_file_def)

lemma sample_mkdir: "mkdir_all sample_node p h = (Inr (), h\<lparr>hw := (hw h)\<lparr>cmd_no := Suc (cmd_no (hw h))\<rparr>\<rparr>)"
  by (simp add: mkdir_all_def sample_node_def sample_env_def os_MkdirAll_def host_simps Let_def)

lemma sample_command: "run_command sample_node argv h = (Inr (None, ''''), h\<lparr>hw := (hw h)\<lparr>cmd_no := Suc (cmd_no (hw h))\<rparr>\<rparr>)"
  by (simp add: run_command_def sample_node_def exec_command_def output_text_def host_simps)

lemma sample_bridge: "fst (EnsureBridge sample_node br gw cidr h) = Inr ()"
  by (simp add: EnsureBridge_def try_command_def sample_command host_simps)

lemma sample_iso: "\<exists>h'. GenerateISO sample_node dir m u n h = (Inr (filepath_Join [dir, ''cidata.iso'']), h')"
  by (simp add: GenerateISO_def sample_write sample_mkdir sample_command host_simps Let_def)

lemma sample_nic: "complete_nic vmID p = Inr n \<Longrightarrow> \<exists>h'. prepare_nic sample_node vmID p h = (Inr n, h')"
  by (simp add: prepare_nic_def host_simps split: prod.split)

lemma sample_socket: "\<exists>h'. waitForSocket sample_node p h = (Inr (), h')"
  by (simp add: waitForSocket_def sample_node_def host_simps eval_nat_numeral)

lemma sample_qemu:
  assumes "qc_NICs cfg = [n]"
  shows "\<exists>h'. Manager_StartVM sample_node dir cfg h = (Inr (), h')"
proof -
  have start: "ne_start sample_node k argv g = (None, g)" for k argv g
    by (simp add: sample_node_def)
  have wait: "fst (waitForSocket sample_node p g) = Inr ()" for p g
    using sample_socket [of p g] by auto
  have "fst (Manager_StartVM sample_node dir cfg h) = Inr ()"
    using assms wait
    by (auto simp: Manager_StartVM_def sample_mkdir sample_write fail_if_def exists_file_def start host_simps Let_def
        split: prod.split sum.split) (metis fst_conv sum.distinct(1))
  then show ?thesis by (metis prod.collapse)
qed

lemma sample_root_disk:
  assumes "vsc_ImagePath cfg = ''''" "vsc_ImageID cfg = ''''"
  shows "\<exists>d h'. root_disk sample_node A vmID cfg h = (Inr d, h')"
proof -
  define up where "up g = g\<lparr>hw := (hw g)\<lparr>cmd_no := Suc (cmd_no (hw g))\<rparr>\<rparr>" for g :: host
  have ran: "run_or (ne_exec sample_node) p argv g = (Inr (Text ''''), g\<lparr>cmd_no := Suc (cmd_no g)\<rparr>)" for p argv g
    by (simp add: run_or_def exec_command_def sample_node_def bindE_apply ret_def)
  have "on_world (qcow2_Create (ne_exec sample_node) p n) g = (Inr (), up g)" for p n g
    by (simp add: qcow2_Create_def ran on_world_def bindE_apply ret_def up_def)
  moreover have "mkdir_all sample_node p g = (Inr (), up g)" for p g
    by (simp add: sample_mkdir up_def)
  ultimately have "CreateDiskFromImage sample_node dir vmID name n '''' g =
      (Inr (filepath_Join [vmDir dir vmID, name @ ''.qcow2'']), up (up g))" for dir name n g
    by (simp add: CreateDiskFromImage_def bindE_apply wrapE_apply ret_def Let_def)
  then show ?thesis
    using assms by (simp add: root_disk_def root_image_def Manager_CreateDisk_def exists_file_def bindE_apply wrapE_apply gets_def ret_def Let_def)
qed

lemma start_ssh_key_total: "\<exists>k. start_ssh_key A vmID cfg h = (Inr k, h)"
  by (simp add: start_ssh_key_def read_file_def bindE_apply gets_def ret_def)

lemma sample_agent_starts:
  assumes "vsc_NetworkInterfaces cfg = [n]" "complete_nic vmID (0, n) = Inr n'" "nac_IPAddress n' \<noteq> ''''"
    and "vsc_ImagePath cfg = ''''" "vsc_ImageID cfg = ''''"
  shows "\<exists>h'. Agent_StartVM sample_node A vmID (Some cfg) h = (Inr (), h')"
proof -
  obtain d h1 where h1: "root_disk sample_node A vmID cfg (h\<lparr>hw := (hw h)\<lparr>cmd_no := Suc (cmd_no (hw h))\<rparr>\<rparr>) = (Inr d, h1)"
    using sample_root_disk [OF assms(4,5)] by blast
  obtain k where k: "start_ssh_key A vmID cfg h1 = (Inr k, h1)"
    using start_ssh_key_total by blast
  obtain h2 where h2: "prepare_nic sample_node vmID (0, n) h1 = (Inr n', h2)"
    using sample_nic [OF assms(2)] by blast
  have some: "ci_interfaces [n'] \<noteq> []"
    using assms(3) by (simp add: ci_interfaces_def)
  obtain h3 where h3: "GenerateISO sample_node (filepath_Join [vmDir (ag_baseDir A) vmID, ''cloud-init'']) (GenerateMetaData (vsc_Name cfg))
      (GenerateUserDataFromString (vsc_Name cfg) k ''ubuntu'' '''') (GenerateNetworkConfig (ci_interfaces [n'])) h2 =
      (Inr (filepath_Join [filepath_Join [vmDir (ag_baseDir A) vmID, ''cloud-init''], ''cidata.iso'']), h3)"
    using sample_iso by blast
  have "qc_NICs (qemu_config A vmID c [n'] d i) = [\<lparr>qn_Bridge = nac_Bridge n', qn_MACAddress = nac_MACAddress n'\<rparr>]" for c i
    by (simp add: qemu_config_def)
  then obtain h4 where h4: "Manager_StartVM sample_node (ag_baseDir A) (qemu_config A vmID (cfg\<lparr>vsc_NetworkInterfaces := [n']\<rparr>) [n'] d
      (filepath_Join [filepath_Join [vmDir (ag_baseDir A) vmID, ''cloud-init''], ''cidata.iso''])) h3 = (Inr (), h4)"
    using sample_qemu by blast
  show ?thesis
    unfolding Agent_StartVM_def
    by (simp add: Let_def bindE_apply wrapE_apply sample_mkdir h1 k assms(1) ret_def h2 some h3 h4 ignoreE_def tryM_apply split: prod.split)
qed

lemma sample_start_runs: "\<exists>h'. Agent_StartVM sample_node sample_agent ''v'' (Some sample_start) sample_host = (Inr (), h')"
  by (rule sample_agent_starts [where n = "hd (vsc_NetworkInterfaces sample_start)" and n' = "hd (vsc_NetworkInterfaces sample_start)"])
    (simp_all add: sample_start_def complete_nic_def)

theorem restart_same_machine_witness:
  "\<exists>h' cfg'. Agent_StartVM sample_node sample_agent ''v'' (Some sample_start) sample_host = (Inr (), h') \<and>
     loadVMConfig sample_agent ''v'' h' = (Inr cfg', h') \<and> vsc_DiskPath cfg' = ''/d.qcow2''"
proof -
  obtain h' where run: "Agent_StartVM sample_node sample_agent ''v'' (Some sample_start) sample_host = (Inr (), h')"
    using sample_start_runs by blast
  have "writes_succeed sample_node" "ag_baseDir sample_agent \<noteq> ''''"
    by (simp_all add: writes_succeed_def sample_node_def sample_agent_def NewAgent_def)
  from restart_same_machine [OF run this]
  obtain disk h1 h2 cfg' where *: "root_disk sample_node sample_agent ''v'' sample_start h1 = (Inr disk, h2)"
    "loadVMConfig sample_agent ''v'' h' = (Inr cfg', h')" "vsc_DiskPath cfg' = disk"
    by (elim exE conjE) (rule that, simp_all)
  have "vsc_DiskPath cfg' = ''/d.qcow2''"
    using *(1,3) root_disk_given [of sample_start] by (simp add: sample_start_def)
  then show ?thesis using run *(2) by blast
qed

definition left_over :: host where
  "left_over = sample_host\<lparr>vm_json := [vm_json_path sample_agent ''v'' \<mapsto>
     \<lparr>vj_Config = sample_start\<lparr>vsc_DiskPath := ''''\<rparr>, vj_DiskPath = ''/d.qcow2'', vj_MAC = '''', vj_ISOPath = ''''\<rparr>]\<rparr>"


definition running_host :: host where
  "running_host = sample_host\<lparr>hw := empty_world\<lparr>files := [pidFile (ag_baseDir sample_agent) ''v'' \<mapsto> bytes ''42'']\<rparr>,
     processes := (\<lambda>p. p = 42)\<rparr>"

definition waiting_host :: "nat \<Rightarrow> host" where
  "waiting_host n = running_host\<lparr>hw := (hw running_host)\<lparr>cmd_no := n\<rparr>\<rparr>"

lemma sample_qmp: "sendQMPCommandWithReturn sample_node sock c h = (Inr (Some ''running''), snd (tick h))"
  by (simp add: sendQMPCommandWithReturn_def sample_node_def host_simps sample_conversation_def qmp_result_def decode_into_def
      no_message_def ptr_set_def Let_def)

lemma tick_waiting: "snd (tick (waiting_host n)) = waiting_host (Suc n)"
  by (simp add: tick_def waiting_host_def)

lemma pid_42: "parse_pid (bytes ''42'') = Some 42"
  by code_simp

lemma running_pid: "files (hw (waiting_host n)) (pidFile (ag_baseDir sample_agent) ''v'') = Some (bytes ''42'')"
  "processes (waiting_host n) 42"
  by (simp_all add: waiting_host_def running_host_def)

theorem stop_completes_witness:
  "\<exists>h'. Agent_StopVM sample_node sample_agent ''v'' False running_host = (Inr (), h') \<and>
     recover_entry sample_node sample_agent (''v'', True) h' = (Inr (), h')"
proof -
  let ?pid = "pidFile (ag_baseDir sample_agent) ''v''"
  have start: "running_host = waiting_host 0"
    by (simp add: waiting_host_def running_host_def empty_world_def)
  have status: "Manager_GetVMStatus sample_node (ag_baseDir sample_agent) ''v'' running_host = (Inr ''running'', waiting_host 1)"
    using running_pid [of 0] tick_waiting [of 0] unfolding start
    by (simp add: Manager_GetVMStatus_def read_file_def pid_42 sample_qmp bindE_apply tryM_apply gets_def ret_def)
  have sent: "sendQMPCommand sample_node (qmp_sock (ag_baseDir sample_agent) ''v'') (if False then Quit else SystemPowerdown) (waiting_host 1) =
      (Inr (), waiting_host 2)"
    using tick_waiting [of 1] by (simp add: sendQMPCommand_def sample_qmp bindE_apply ret_def numeral_2_eq_2)
  have "exited ?pid (sleeps sample_node 1 (snd (tick (waiting_host 2))))"
    using running_pid(1) by (simp add: tick_waiting exited_def sleep_def sample_node_def run_on_def bindE_apply tick_def pid_42)
  then have "\<exists>j<ne_rounds sample_node (cmd_no (hw (waiting_host 2))). exited ?pid (sleeps sample_node j (snd (tick (waiting_host 2))))"
    by (intro exI [of _ 1]) (simp add: sample_node_def)
  then show ?thesis
    using stop_completes [OF status _ sent] by (auto simp: sample_node_def sample_env_def)
qed

end
