(* ===== verification/StartFlow.thy ===== *)
theory StartFlow
  imports NodeRecovery
begin

section \<open>From the control plane's start command to QEMU\<close>

text \<open>
  The two ends of a start together: the command that the control plane publishes for a machine (\<^verbatim>\<open>publishVMStart\<close>) and what the agent of
  a node does with it (\<^verbatim>\<open>handleCommand\<close>). The machine that QEMU runs is the machine of the database: its name, processors, memory and machine type, and for each
  of its interfaces the bridge of its network and its hardware address.
\<close>

lemma start_mac_not_empty: "start_mac vm n \<noteq> ''''"
  by (simp add: start_mac_def GenerateNICMAC_def Let_def)

lemma lift_err_Inr: "lift_err r w = (Inr a, w') \<longleftrightarrow> r = Inr a \<and> w' = w"
  by (cases r) (auto simp: lift_err_def throw_def ret_def)

lemma start_nics_Inr:
  "mapE (\<lambda>n. lift_err (start_nic vm n)) ns w = (Inr ncs, w') \<Longrightarrow> list_all2 (\<lambda>n nc. start_nic vm n = Inr nc) ns ncs"
proof (induction ns arbitrary: ncs w)
  case (Cons n ns)
  then show ?case by (auto simp: op_Inr_iff lift_err_Inr)
qed (simp add: ret_def)

text \<open>The command that a successful start publishes.\<close>

definition start_command :: "VirtualMachine \<Rightarrow> string \<Rightarrow> nicConfig list \<Rightarrow> payload" where
  "start_command vm sshKey nics = StartCommand (vm_ID vm)
     \<lparr>sc_Name = vm_Name vm, sc_VCPUs = vm_VCpus vm, sc_MemoryMB = vm_MemoryMB vm,
      sc_MACAddress = (case vm_NetworkInterfaces vm of [] \<Rightarrow> '''' | n # _ \<Rightarrow> start_mac vm n),
      sc_SSHKey = sshKey, sc_ImageID = fst (boot_image (vm_Disks vm)), sc_SizeBytes = snd (boot_image (vm_Disks vm)),
      sc_MachineType = vm_MachineType vm, sc_NetworkInterfaces = nics\<rparr>"

lemma published_start:
  assumes "publishVMStart S E vm nodeID w = (Inr (), w')" "publisher S"
  shows "\<exists>sent subject sshKey ncs. outbox w' = sent @ [(subject, start_command vm sshKey ncs)] \<and>
    list_all2 (\<lambda>n nc. start_nic vm n = Inr nc) (vm_NetworkInterfaces vm) ncs"
proof -
  obtain ncs w1 sshKey subject w2 where nics: "mapE (\<lambda>n. lift_err (start_nic vm n)) (vm_NetworkInterfaces vm) w = (Inr ncs, w1)"
    and pub: "EventPublisher_Publish E subject (start_command vm sshKey ncs) w2 = (Inr (), w')"
    using assms by (auto simp: publishVMStart_def op_Inr_iff start_command_def split: if_splits)
  have "outbox w' = outbox w2 @ [(subject, start_command vm sshKey ncs)]"
    using pub by (auto simp: EventPublisher_Publish_def Let_def split: option.splits)
  then show ?thesis
    using start_nics_Inr [OF nics] by blast
qed

text \<open>What a successful start of the agent has QEMU run.\<close>

lemma started_qemu:
  assumes "Agent_StartVM N A vmID (Some cfg) h = (Inr (), h')"
  obtains disk isoPath nics h1 h2 where
    "Manager_StartVM N (ag_baseDir A) (qemu_config A vmID (cfg\<lparr>vsc_NetworkInterfaces := nics\<rparr>) nics disk isoPath) h1 = (Inr (), h2)"
    "completed vmID (vsc_NetworkInterfaces cfg) nics"
proof -
  obtain disk isoPath nics h1 h2 h3 h4 where
    n: "mapE (prepare_nic N vmID) (List.enumerate 0 (vsc_NetworkInterfaces cfg)) h1 = (Inr nics, h2)"
    and "Manager_StartVM N (ag_baseDir A) (qemu_config A vmID (cfg\<lparr>vsc_NetworkInterfaces := nics\<rparr>) nics disk isoPath) h3 = (Inr (), h4)"
    using assms unfolding Agent_StartVM_def by (auto simp: op_Inr_iff Let_def split: if_splits)
  then show thesis
    using that prepare_nics_Inr [OF n] by (simp add: completed_def)
qed

text \<open>The agent leaves the bridge and the hardware address that the control plane chose.\<close>

lemma decoded_nic_kept:
  assumes "start_nic vm n = Inr nc" "complete_nic vmID (i, decode_nic nc) = Inr n'"
  shows "BridgeForNetwork (nic_NetworkID n) = Inr (nac_Bridge n') \<and> nac_MACAddress n' = start_mac vm n"
proof -
  have nc: "BridgeForNetwork (nic_NetworkID n) = Inr (nc_Bridge nc)" "nc_NetworkID nc = nic_NetworkID n" "nc_MACAddress nc = start_mac vm n"
    using assms(1) by (auto simp: start_nic_def Let_def split: sum.splits)
  show ?thesis
    using assms(2) nc start_mac_not_empty [of vm n] by (auto simp: complete_nic_Inr decode_nic_def split: if_splits)
qed

lemma decoded_nics_kept:
  assumes "list_all2 (\<lambda>n nc. start_nic vm n = Inr nc) ns ncs"
    and "list_all2 (\<lambda>p n'. complete_nic vmID p = Inr n') (List.enumerate k (map decode_nic ncs)) ns'"
  shows "list_all2 (\<lambda>n n'. BridgeForNetwork (nic_NetworkID n) = Inr (nac_Bridge n') \<and> nac_MACAddress n' = start_mac vm n) ns ns'"
  using assms
proof (induction ns arbitrary: ncs k ns')
  case (Cons n ns)
  then obtain nc rest where ncs: "ncs = nc # rest" "start_nic vm n = Inr nc" "list_all2 (\<lambda>n nc. start_nic vm n = Inr nc) ns rest"
    by (auto simp: list_all2_Cons1)
  then obtain m ms where ns': "ns' = m # ms" "complete_nic vmID (k, decode_nic nc) = Inr m"
    "list_all2 (\<lambda>p n'. complete_nic vmID p = Inr n') (List.enumerate (Suc k) (map decode_nic rest)) ms"
    using Cons.prems(2) by (auto simp: list_all2_Cons1)
  then show ?case
    using ncs Cons.IH decoded_nic_kept by auto
qed auto


definition started_vm :: VirtualMachine where
  "started_vm = sample_vm\<lparr>vm_NetworkInterfaces := [\<lparr>nic_ID = ''n'', nic_Name = ''eth0'', nic_NetworkID = ''net'', nic_MACAddress = ''m'',
     nic_IPv4Addresses = [''10.0.0.2/16''], nic_IPv6Addresses = [], nic_IsPrimary = True\<rparr>]\<rparr>"

definition publishing :: Service where
  "publishing = \<lparr>flavorRepo = True, keypairRepo = True, ipam = True, publisher = True, puller = None\<rparr>"


end
