(* ===== verification/Scheduler.thy ===== *)
theory Scheduler
  imports GoStrings "HOL-Library.AList"
begin

section \<open>The scheduler: \<^verbatim>\<open>services/scheduler\<close>\<close>

text \<open>
  The scheduler service (\<^verbatim>\<open>service.go\<close>), its in-memory repository
  (\<^verbatim>\<open>postgres/scheduler_repository.go\<close>) and its HTTP handlers (\<^verbatim>\<open>handler/handler.go\<close>).

  \<^item> The node registry is an interface without an implementation in the repository: it is a
    parameter, \<open>None\<close> for a nil registry, and otherwise the answer of \<^verbatim>\<open>GetAvailableNodes\<close>.
  \<^item> \<^verbatim>\<open>sort.Slice\<close> does not promise an order of equal elements, and the iteration order of a Go map
    is unspecified: both are absorbed by the parameter \<open>srt\<close>, of which the
    locale \<open>slice_sort\<close> states what the documentation promises. The locale is
    interpreted on the insertion sort that the standard library runs on short slices.
  \<^item> A score is a \<^verbatim>\<open>float64\<close>. Every summand is a multiple of \<open>2^-20\<close> far from the limits of
    the exponent, so a score is kept as an integer in units of \<open>2^-20\<close>, and every
    addition and conversion is followed by \<open>rnd53\<close>, rounding to 53 significant bits, ties to even.
  \<^item> The repository's map is an association list with distinct keys; \<open>Panics\<close> is the run-time panic
    of a slice expression out of range.
\<close>

subsection \<open>Data\<close>

record SchedulingConstraints =
  PreferredNode :: string
  RequiredLabels :: "string list"
  PreferredLabels :: "string list"
  AvoidLabels :: "string list"
  RequireGPU :: bool
  AvailabilityZone :: string

record ScheduledJob =
  j_VMID :: string
  j_NodeID :: string
  j_Priority :: int
  j_Constraints :: "SchedulingConstraints option"

record NodeInfo =
  ni_ID :: string
  ni_Labels :: gomap
  ni_AvailableCPUs :: int
  ni_AvailableMemory :: int
  ni_AvailableGPUs :: int
  ni_RunningVMs :: int

record scoredNode =
  sn_node :: NodeInfo
  sn_score :: int

record SchedulerRepository =
  jobs :: "(string \<times> ScheduledJob) list"

subsection \<open>The repository\<close>

definition NewSchedulerRepository :: SchedulerRepository where
  "NewSchedulerRepository = \<lparr>jobs = []\<rparr>"

definition SchedulerRepository_Schedule :: "ScheduledJob \<Rightarrow> (SchedulerRepository, unit) op" where
  "SchedulerRepository_Schedule job = modify (\<lambda>r. r\<lparr>jobs := AList.update (j_VMID job) job (jobs r)\<rparr>)"

definition job_not_found :: "string \<Rightarrow> error" where
  "job_not_found vmID = Msg (''scheduled job not found for vm '' @ vmID)"

definition SchedulerRepository_GetByVMID :: "string \<Rightarrow> (SchedulerRepository, ScheduledJob) op" where
  "SchedulerRepository_GetByVMID vmID = (\<lambda>r.
     case map_of (jobs r) vmID of
       None \<Rightarrow> throw (job_not_found vmID) r
     | Some job \<Rightarrow> ret job r)"

definition SchedulerRepository_Delete :: "string \<Rightarrow> (SchedulerRepository, unit) op" where
  "SchedulerRepository_Delete vmID = (\<lambda>r.
     if map_of (jobs r) vmID = None then throw (job_not_found vmID) r
     else (Inr (), r\<lparr>jobs := AList.delete vmID (jobs r)\<rparr>))"

text \<open>
  \<open>slice xs lo hi\<close> is \<^verbatim>\<open>xs[lo:hi]\<close> for \<^verbatim>\<open>hi <= len(xs)\<close>. \<open>srt key xs\<close> sorts with
  \<^verbatim>\<open>less(i, j) = key(i) > key(j)\<close>.
\<close>

definition slice :: "'a list \<Rightarrow> int \<Rightarrow> int \<Rightarrow> 'a list outcome" where
  "slice xs lo hi =
     (if 0 \<le> lo \<and> lo \<le> hi then Returns (take (nat (hi - lo)) (drop (nat lo) xs))
      else Panics ''slice bounds out of range'')"

definition SchedulerRepository_List ::
  "((ScheduledJob \<Rightarrow> int) \<Rightarrow> ScheduledJob list \<Rightarrow> ScheduledJob list) \<Rightarrow>
   string \<Rightarrow> int \<Rightarrow> int \<Rightarrow> SchedulerRepository \<Rightarrow> (ScheduledJob list \<times> int) outcome" where
  "SchedulerRepository_List srt nodeID page perPage r =
     (let filtered = srt j_Priority
            (filter (\<lambda>job. nodeID = '''' \<or> j_NodeID job = nodeID) (map snd (jobs r)));
          total = int (length filtered);
          start = wrap64 (wrap64 (page - 1) * perPage)
      in if start \<ge> total then Returns ([], total)
         else let end1 = wrap64 (start + perPage);
                  end2 = (if end1 > total then total else end1)
              in case slice filtered start end2 of
                   Returns js \<Rightarrow> Returns (js, total)
                 | Panics msg \<Rightarrow> Panics msg)"

subsection \<open>Filtering\<close>

text \<open>A label requirement \<^verbatim>\<open>key=value\<close>, or \<^verbatim>\<open>key\<close> alone with the value empty.\<close>

definition label_parts :: "string \<Rightarrow> string \<times> string" where
  "label_parts label = (case SplitN2 label (CHR ''='') of k # v # _ \<Rightarrow> (k, v) | [k] \<Rightarrow> (k, '''') | [] \<Rightarrow> ('''', ''''))"

definition required_ok :: "NodeInfo \<Rightarrow> string \<Rightarrow> bool" where
  "required_ok n label =
     (case label_parts label of (key, val) \<Rightarrow>
        (case gomap_lookup (ni_Labels n) key of
           None \<Rightarrow> False
         | Some nv \<Rightarrow> \<not> (val \<noteq> '''' \<and> nv \<noteq> val)))"

definition label_hit :: "NodeInfo \<Rightarrow> string \<Rightarrow> bool" where
  "label_hit n label =
     (case label_parts label of (key, val) \<Rightarrow>
        (case gomap_lookup (ni_Labels n) key of
           None \<Rightarrow> False
         | Some nv \<Rightarrow> val = '''' \<or> nv = val))"

definition nodeMatchesConstraints :: "NodeInfo \<Rightarrow> SchedulingConstraints \<Rightarrow> bool" where
  "nodeMatchesConstraints n c =
     (if \<not> list_all (required_ok n) (RequiredLabels c) then False
      else if list_ex (label_hit n) (AvoidLabels c) then False
      else if RequireGPU c \<and> ni_AvailableGPUs n \<le> 0 then False
      else True)"

definition filterNodes :: "NodeInfo list \<Rightarrow> SchedulingConstraints option \<Rightarrow> NodeInfo list" where
  "filterNodes nodes constraints =
     (case constraints of
        None \<Rightarrow> nodes
      | Some c \<Rightarrow>
          if PreferredNode c \<noteq> '''' then
            (case find (\<lambda>n. ni_ID n = PreferredNode c) nodes of Some n \<Rightarrow> [n] | None \<Rightarrow> [])
          else filter (\<lambda>n. nodeMatchesConstraints n c) nodes)"

subsection \<open>Scoring\<close>

fun nbits :: "int \<Rightarrow> nat" where
  "nbits n = (if n \<le> 0 then 0 else Suc (nbits (n div 2)))"

declare nbits.simps [simp del]

definition rnd53 :: "int \<Rightarrow> int" where
  "rnd53 x =
     (let a = \<bar>x\<bar>;
          e = nbits a - 53;
          q = a div 2 ^ e;
          r = a mod 2 ^ e;
          q' = (if 2 * r > 2 ^ e \<or> (2 * r = 2 ^ e \<and> odd q) then q + 1 else q)
      in sgn x * (q' * 2 ^ e))"

text \<open>\<open>unit20\<close>: the number 1, in units of \<open>2^-20\<close>.\<close>

definition unit20 :: int where
  "unit20 = 2 ^ 20"

definition calculateScore :: "NodeInfo \<Rightarrow> SchedulingConstraints option \<Rightarrow> int" where
  "calculateScore n constraints =
     (let s0 = 0;
          s1 = (if ni_AvailableCPUs n > 0 then rnd53 (s0 + rnd53 (ni_AvailableCPUs n * 10 * unit20)) else s0);
          s2 = (if ni_AvailableMemory n > 0 then rnd53 (s1 + rnd53 (ni_AvailableMemory n)) else s1);
          s3 = (if ni_RunningVMs n \<ge> 0 then rnd53 (s2 + rnd53 (wrap32 (100 - ni_RunningVMs n) * 5 * unit20)) else s2);
          s4 = (if ni_AvailableGPUs n > 0 then rnd53 (s3 + rnd53 (ni_AvailableGPUs n * 50 * unit20)) else s3)
      in case constraints of
           None \<Rightarrow> s4
         | Some c \<Rightarrow> foldl (\<lambda>s label. if label_hit n label then rnd53 (s + 25 * unit20) else s) s4 (PreferredLabels c))"

definition scoreNodes :: "NodeInfo list \<Rightarrow> SchedulingConstraints option \<Rightarrow> scoredNode list" where
  "scoreNodes nodes constraints = map (\<lambda>n. \<lparr>sn_node = n, sn_score = calculateScore n constraints\<rparr>) nodes"

subsection \<open>The service\<close>

type_synonym NodeRegistry = "(error + NodeInfo list) option"

definition Scheduler_Schedule ::
  "((scoredNode \<Rightarrow> int) \<Rightarrow> scoredNode list \<Rightarrow> scoredNode list) \<Rightarrow> NodeRegistry \<Rightarrow>
   string \<Rightarrow> SchedulingConstraints option \<Rightarrow> int \<Rightarrow> (SchedulerRepository, string) op" where
  "Scheduler_Schedule srt registry vmID constraints priority =
     tryM (SchedulerRepository_GetByVMID vmID) (\<lambda>r.
       case r of
         Inr existing \<Rightarrow> throw (Msg (''vm '' @ vmID @ '' already scheduled on node '' @ j_NodeID existing))
       | Inl _ \<Rightarrow>
           (case registry of
              None \<Rightarrow> throw (Msg ''node registry not configured'')
            | Some (Inl err) \<Rightarrow> throw (Wrap ''failed to query available nodes'' err)
            | Some (Inr nodes) \<Rightarrow>
                let candidates = filterNodes nodes constraints in
                if candidates = [] then throw (Msg ''no nodes match the scheduling constraints'')
                else let scored = srt sn_score (scoreNodes candidates constraints);
                         best = scored ! 0;
                         job = \<lparr>j_VMID = vmID, j_NodeID = ni_ID (sn_node best), j_Priority = priority,
                                j_Constraints = constraints\<rparr>
                     in bindE (wrapE ''failed to record scheduled job'' (SchedulerRepository_Schedule job))
                          (\<lambda>_. ret (ni_ID (sn_node best)))))"

definition CancelSchedule :: "string \<Rightarrow> (SchedulerRepository, unit) op" where
  "CancelSchedule vmID = SchedulerRepository_Delete vmID"

definition ListScheduledJobs ::
  "((ScheduledJob \<Rightarrow> int) \<Rightarrow> ScheduledJob list \<Rightarrow> ScheduledJob list) \<Rightarrow>
   string \<Rightarrow> int \<Rightarrow> int \<Rightarrow> SchedulerRepository \<Rightarrow> (ScheduledJob list \<times> int) outcome" where
  "ListScheduledJobs srt nodeID page perPage r = SchedulerRepository_List srt nodeID page perPage r"

subsection \<open>The handlers\<close>

record scheduleRequest =
  sr_VMID :: string
  sr_Constraints :: "SchedulingConstraints option"
  sr_Priority :: int

definition no_constraints :: SchedulingConstraints where
  "no_constraints = \<lparr>PreferredNode = '''', RequiredLabels = [], PreferredLabels = [], AvoidLabels = [],
     RequireGPU = False, AvailabilityZone = ''''\<rparr>"

text \<open>The decoded body is \<open>None\<close> when decoding fails.\<close>

definition handleSchedule ::
  "((scoredNode \<Rightarrow> int) \<Rightarrow> scoredNode list \<Rightarrow> scoredNode list) \<Rightarrow> NodeRegistry \<Rightarrow>
   scheduleRequest option \<Rightarrow> SchedulerRepository \<Rightarrow> string response \<times> SchedulerRepository" where
  "handleSchedule srt registry req r =
     (case req of
        None \<Rightarrow> (WriteError 400 ''invalid request body'', r)
      | Some q \<Rightarrow>
          if sr_VMID q = '''' then (WriteError 400 ''vm_id is required'', r)
          else let cs = (case sr_Constraints q of None \<Rightarrow> no_constraints | Some c \<Rightarrow> c) in
            (case Scheduler_Schedule srt registry (sr_VMID q) (Some cs) (sr_Priority q) r of
               (Inl err, r') \<Rightarrow> (WriteError 500 (Error err), r')
             | (Inr nodeID, r') \<Rightarrow> (WriteJSON 200 nodeID, r')))"

definition handleCancel :: "string option \<Rightarrow> SchedulerRepository \<Rightarrow> unit response \<times> SchedulerRepository" where
  "handleCancel req r =
     (case req of
        None \<Rightarrow> (WriteError 400 ''invalid request body'', r)
      | Some vmID \<Rightarrow>
          if vmID = '''' then (WriteError 400 ''vm_id is required'', r)
          else (case CancelSchedule vmID r of
                  (Inl err, r') \<Rightarrow> (WriteError 500 (Error err), r')
                | (Inr _, r') \<Rightarrow> (Response 204 NoBody, r')))"

record jobListResponse =
  jl_Jobs :: "ScheduledJob list"
  jl_Total :: int
  jl_Page :: int

definition clamp_page :: "int \<Rightarrow> int" where
  "clamp_page page = (if page < 1 then 1 else page)"

definition clamp_per_page :: "int \<Rightarrow> int" where
  "clamp_per_page perPage = (if perPage < 1 \<or> perPage > 100 then 20 else perPage)"

definition handleListJobs ::
  "((ScheduledJob \<Rightarrow> int) \<Rightarrow> ScheduledJob list \<Rightarrow> ScheduledJob list) \<Rightarrow>
   string \<Rightarrow> string \<Rightarrow> string \<Rightarrow> SchedulerRepository \<Rightarrow> jobListResponse response outcome" where
  "handleListJobs srt nodeID qpage qper r =
     (let page = clamp_page (fst (Atoi qpage));
          perPage = clamp_per_page (fst (Atoi qper))
      in case ListScheduledJobs srt nodeID page perPage r of
           Returns (js, n) \<Rightarrow> Returns (WriteJSON 200 \<lparr>jl_Jobs = js, jl_Total = n, jl_Page = page\<rparr>)
         | Panics msg \<Rightarrow> Panics msg)"

subsection \<open>What sorting promises\<close>

locale slice_sort =
  fixes srt :: "('a \<Rightarrow> int) \<Rightarrow> 'a list \<Rightarrow> 'a list"
  assumes mset_srt: "mset (srt key xs) = mset xs"
    and sorted_srt: "sorted_wrt (\<lambda>x y. key x \<ge> key y) (srt key xs)"
begin

lemma set_srt: "set (srt key xs) = set xs"
  using mset_srt [of key xs] by (metis set_mset_mset)

lemma length_srt: "length (srt key xs) = length xs"
  using mset_srt [of key xs] by (metis size_mset)

lemma srt_first: "xs \<noteq> [] \<Longrightarrow> srt key xs ! 0 \<in> set xs"
  using set_srt [of key xs] length_srt [of key xs] by (metis length_greater_0_conv nth_mem)

lemma srt_first_max:
  assumes "x \<in> set xs"
  shows "key x \<le> key (srt key xs ! 0)"
proof -
  obtain y ys where s: "srt key xs = y # ys"
    using assms length_srt [of key xs] by (cases "srt key xs") auto
  then have "x = y \<or> x \<in> set ys"
    using assms set_srt [of key xs] by auto
  then show ?thesis
    using sorted_srt [of key xs] s by auto
qed

end

text \<open>
  The insertion sort that \<^verbatim>\<open>sort.Slice\<close> runs on at most twelve elements: each element in turn moves
  to the left past the elements it is less than. The prefix sorted so far is kept reversed.
\<close>

fun insert_left :: "('a \<Rightarrow> int) \<Rightarrow> 'a \<Rightarrow> 'a list \<Rightarrow> 'a list" where
  "insert_left key x [] = [x]"
| "insert_left key x (y # ys) = (if key x > key y then y # insert_left key x ys else x # y # ys)"

definition insertionSort :: "('a \<Rightarrow> int) \<Rightarrow> 'a list \<Rightarrow> 'a list" where
  "insertionSort key xs = rev (foldl (\<lambda>acc x. insert_left key x acc) [] xs)"

lemma mset_insert_left: "mset (insert_left key x ys) = add_mset x (mset ys)"
  by (induction ys) auto

lemma set_insert_left: "set (insert_left key x ys) = insert x (set ys)"
  by (induction ys) auto

lemma sorted_insert_left:
  "sorted_wrt (\<lambda>x y. key x \<le> key y) ys \<Longrightarrow> sorted_wrt (\<lambda>x y. key x \<le> key y) (insert_left key x ys)"
  by (induction ys) (auto simp: set_insert_left)

lemma mset_insertion: "mset (foldl (\<lambda>acc x. insert_left key x acc) acc xs) = mset acc + mset xs"
  by (induction xs arbitrary: acc) (auto simp: mset_insert_left)

lemma sorted_insertion:
  "sorted_wrt (\<lambda>x y. key x \<le> key y) acc \<Longrightarrow>
   sorted_wrt (\<lambda>x y. key x \<le> key y) (foldl (\<lambda>acc x. insert_left key x acc) acc xs)"
  by (induction xs arbitrary: acc) (auto simp: sorted_insert_left)

interpretation go_sort: slice_sort insertionSort
proof
  fix key :: "'a \<Rightarrow> int" and xs
  show "mset (insertionSort key xs) = mset xs"
    by (simp add: insertionSort_def mset_insertion)
  show "sorted_wrt (\<lambda>x y. key x \<ge> key y) (insertionSort key xs)"
    using sorted_insertion [of key "[]" xs] by (simp add: insertionSort_def sorted_wrt_rev)
qed

subsection \<open>The repository as a map\<close>

definition jobs_ok :: "SchedulerRepository \<Rightarrow> bool" where
  "jobs_ok r \<longleftrightarrow> distinct (map fst (jobs r)) \<and> (\<forall>(k, j)\<in>set (jobs r). j_VMID j = k)"

definition job_of :: "SchedulerRepository \<Rightarrow> string \<Rightarrow> ScheduledJob option" where
  "job_of r = map_of (jobs r)"

lemma job_of_update: "job_of (r\<lparr>jobs := AList.update k j (jobs r)\<rparr>) = (job_of r)(k \<mapsto> j)"
  by (simp add: job_of_def update_conv')

lemma job_of_delete: "job_of (r\<lparr>jobs := AList.delete k (jobs r)\<rparr>) = (job_of r)(k := None)"
  by (simp add: job_of_def delete_conv')

lemma GetByVMID_eq: "SchedulerRepository_GetByVMID vm r =
  (case job_of r vm of None \<Rightarrow> (Inl (job_not_found vm), r) | Some j \<Rightarrow> (Inr j, r))"
  by (simp add: SchedulerRepository_GetByVMID_def job_of_def split: option.split)

lemma set_AList_update: "set (AList.update k v al) \<subseteq> insert (k, v) (set al)"
  by (induction al) auto

lemma jobs_ok_Schedule [pres]: "preserves jobs_ok (SchedulerRepository_Schedule job)"
proof (rule preservesI)
  fix r assume r: "jobs_ok r"
  have "distinct (map fst (AList.update (j_VMID job) job (jobs r)))"
    using r by (simp add: jobs_ok_def distinct_update)
  then show "jobs_ok (snd (SchedulerRepository_Schedule job r))"
    using r set_AList_update [of "j_VMID job" job "jobs r"]
    by (fastforce simp: jobs_ok_def SchedulerRepository_Schedule_def)
qed

lemma jobs_ok_Get [pres]: "preserves jobs_ok (SchedulerRepository_GetByVMID vm)"
  by (simp add: preserves_def GetByVMID_eq split: option.split)

lemma jobs_ok_Delete [pres]: "preserves jobs_ok (SchedulerRepository_Delete vm)"
  by (rule preservesI)
    (auto simp: SchedulerRepository_Delete_def jobs_ok_def AList.delete_eq distinct_map_filterI)

lemma jobs_ok_Scheduler_Schedule [pres]: "preserves jobs_ok (Scheduler_Schedule srt reg vm cs p)"
  unfolding Scheduler_Schedule_def Let_def by (intro pres)

subsection \<open>Exactness of scores\<close>

lemma nbits_le: "n < 2 ^ k \<Longrightarrow> nbits n \<le> k"
proof (induction k arbitrary: n)
  case (Suc k)
  then have "n div 2 < 2 ^ k"
    by simp
  then show ?case
    using Suc.IH by (subst nbits.simps) simp
qed (simp add: nbits.simps)

lemma rnd53_exact:
  assumes "\<bar>x\<bar> < 2 ^ 53"
  shows "rnd53 x = x"
proof -
  have "nbits \<bar>x\<bar> - 53 = 0"
    using assms nbits_le [of "\<bar>x\<bar>" 53] by simp
  then show ?thesis
    by (simp add: rnd53_def mult_sgn_abs)
qed

lemma add_exact: "\<bar>a\<bar> + \<bar>b\<bar> < 2 ^ 53 \<Longrightarrow> rnd53 (a + rnd53 b) = a + b"
  by (simp add: rnd53_exact)

lemma sums_exact:
  fixes c m r g :: int
  assumes "0 \<le> c" "c \<le> 2 ^ 40" "0 \<le> m" "m < 2 ^ 52" "\<bar>r\<bar> \<le> 2 ^ 43" "0 \<le> g" "g \<le> 2 ^ 42"
  shows "rnd53 (0 + rnd53 c) = c" "rnd53 (c + rnd53 m) = c + m" "rnd53 (c + m + rnd53 r) = c + m + r"
    "rnd53 (c + m + r + rnd53 g) = c + m + r + g" "\<bar>c + m + r + g\<bar> \<le> 2 ^ 52 + 2 ^ 44"
proof -
  note b = assms [simplified]
  show "rnd53 (0 + rnd53 c) = c"
    using b add_exact [of 0 c] by simp
  show "rnd53 (c + rnd53 m) = c + m"
    using b by (intro add_exact) simp
  show "rnd53 (c + m + rnd53 r) = c + m + r"
    using b by (intro add_exact) simp
  show "rnd53 (c + m + r + rnd53 g) = c + m + r + g"
    using b by (intro add_exact) simp
  show "\<bar>c + m + r + g\<bar> \<le> 2 ^ 52 + 2 ^ 44"
    using b by simp
qed

text \<open>The score the code means to compute, without rounding.\<close>

definition exact_score :: "NodeInfo \<Rightarrow> SchedulingConstraints option \<Rightarrow> int" where
  "exact_score n constraints =
     max 0 (ni_AvailableCPUs n) * 10 * unit20 + max 0 (ni_AvailableMemory n)
     + (if ni_RunningVMs n \<ge> 0 then (100 - ni_RunningVMs n) * 5 * unit20 else 0)
     + max 0 (ni_AvailableGPUs n) * 50 * unit20
     + (case constraints of None \<Rightarrow> 0
        | Some c \<Rightarrow> int (length (filter (label_hit n) (PreferredLabels c))) * 25 * unit20)"

lemma preferred_sum:
  assumes "\<bar>s\<bar> + int (length ls) * 25 * unit20 < 2 ^ 53"
  shows "foldl (\<lambda>s l. if label_hit n l then rnd53 (s + 25 * unit20) else s) s ls
           = s + int (length (filter (label_hit n) ls)) * 25 * unit20"
  using assms
proof (induction ls arbitrary: s)
  case (Cons l ls)
  have b: "\<bar>s + 25 * unit20\<bar> + int (length ls) * 25 * unit20 < 2 ^ 53" "\<bar>s\<bar> + int (length ls) * 25 * unit20 < 2 ^ 53"
    using Cons.prems by (auto simp: unit20_def algebra_simps)
  then have "rnd53 (s + 25 * unit20) = s + 25 * unit20"
    by (intro rnd53_exact) (simp add: unit20_def)
  then show ?case
    using Cons.IH [OF b(1)] Cons.IH [OF b(2)] by (simp add: algebra_simps)
qed simp

subsection \<open>The best candidate\<close>

lemma best_candidate:
  fixes cs :: "SchedulingConstraints option"
  assumes "slice_sort srt" "candidates \<noteq> []"
  defines "best \<equiv> srt sn_score (scoreNodes candidates cs) ! 0"
  shows "sn_node best \<in> set candidates"
    and "m \<in> set candidates \<Longrightarrow> calculateScore m cs \<le> calculateScore (sn_node best) cs"
proof -
  have ne: "scoreNodes candidates cs \<noteq> []"
    using assms(2) by (simp add: scoreNodes_def)
  have mem: "best \<in> set (scoreNodes candidates cs)"
    unfolding best_def by (rule slice_sort.srt_first [OF assms(1) ne])
  then show "sn_node best \<in> set candidates"
    by (auto simp: scoreNodes_def)
  have "sn_score best = calculateScore (sn_node best) cs"
    using mem by (auto simp: scoreNodes_def)
  moreover assume "m \<in> set candidates"
  then have "\<lparr>sn_node = m, sn_score = calculateScore m cs\<rparr> \<in> set (scoreNodes candidates cs)"
    by (auto simp: scoreNodes_def)
  then have "calculateScore m cs \<le> sn_score best"
    using slice_sort.srt_first_max [OF assms(1), of _ "scoreNodes candidates cs" sn_score]
    by (fastforce simp: best_def)
  ultimately show "calculateScore m cs \<le> calculateScore (sn_node best) cs"
    by simp
qed

lemma filterNodes_sound:
  assumes "n \<in> set (filterNodes nodes constraints)"
  shows "n \<in> set nodes"
    and "constraints = Some c \<Longrightarrow>
      (if PreferredNode c \<noteq> '''' then ni_ID n = PreferredNode c else nodeMatchesConstraints n c)"
  using assms find_key_Some [of ni_ID]
  by (auto simp: filterNodes_def split: option.splits if_splits)

lemma Scheduler_Schedule_eq:
  "Scheduler_Schedule srt registry vmID constraints priority r =
     (case job_of r vmID of
        Some j \<Rightarrow> (Inl (Msg (''vm '' @ vmID @ '' already scheduled on node '' @ j_NodeID j)), r)
      | None \<Rightarrow> (case registry of
          None \<Rightarrow> (Inl (Msg ''node registry not configured''), r)
        | Some (Inl err) \<Rightarrow> (Inl (Wrap ''failed to query available nodes'' err), r)
        | Some (Inr nodes) \<Rightarrow>
            if filterNodes nodes constraints = [] then (Inl (Msg ''no nodes match the scheduling constraints''), r)
            else let nodeID = ni_ID (sn_node (srt sn_score (scoreNodes (filterNodes nodes constraints) constraints) ! 0))
                 in (Inr nodeID, r\<lparr>jobs := AList.update vmID
                      \<lparr>j_VMID = vmID, j_NodeID = nodeID, j_Priority = priority, j_Constraints = constraints\<rparr> (jobs r)\<rparr>)))"
  by (simp add: Scheduler_Schedule_def tryM_apply GetByVMID_eq op_apply SchedulerRepository_Schedule_def Let_def
      split: option.split sum.split)

subsection \<open>Properties\<close>


definition sample_node :: "string \<Rightarrow> int \<Rightarrow> NodeInfo" where
  "sample_node i cpus = \<lparr>ni_ID = i, ni_Labels = None, ni_AvailableCPUs = cpus, ni_AvailableMemory = 8589934592,
     ni_AvailableGPUs = 0, ni_RunningVMs = 3\<rparr>"


text \<open>
  Scores are exact for every node with at most \<open>2^16\<close> processors, GPUs and preferred labels,
  fewer than \<open>2^20\<close> running machines and less than \<open>2^52\<close> bytes of memory: no rounding of \<^verbatim>\<open>float64\<close>
  changes the order of two such nodes.
\<close>

theorem calculateScore_exact:
  assumes "ni_AvailableCPUs n \<le> 2 ^ 16" "ni_AvailableGPUs n \<le> 2 ^ 16" "ni_AvailableMemory n < 2 ^ 52"
    and "ni_RunningVMs n < 2 ^ 20"
    and "\<forall>c. constraints = Some c \<longrightarrow> length (PreferredLabels c) \<le> 2 ^ 16"
  shows "calculateScore n constraints = exact_score n constraints"
proof -
  let ?c = "max 0 (ni_AvailableCPUs n) * 10 * unit20"
  let ?m = "max 0 (ni_AvailableMemory n)"
  let ?r = "if ni_RunningVMs n \<ge> 0 then (100 - ni_RunningVMs n) * 5 * unit20 else 0"
  let ?g = "max 0 (ni_AvailableGPUs n) * 50 * unit20"
  have b: "0 \<le> ?c" "?c \<le> 2 ^ 40" "0 \<le> ?m" "?m < 2 ^ 52" "\<bar>?r\<bar> \<le> 2 ^ 43" "0 \<le> ?g" "?g \<le> 2 ^ 42"
    using assms(1-4) by (auto simp: unit20_def max_def)
  have r: "wrap32 (100 - ni_RunningVMs n) = 100 - ni_RunningVMs n" if "ni_RunningVMs n \<ge> 0"
    using that assms(4) by (intro wrap32_id) auto
  note e = sums_exact [OF b]
  have s1: "(if ni_AvailableCPUs n > 0 then rnd53 (0 + rnd53 (ni_AvailableCPUs n * 10 * unit20)) else 0) = ?c"
    using e(1) by (auto simp: max_def)
  have s2: "(if ni_AvailableMemory n > 0 then rnd53 (?c + rnd53 (ni_AvailableMemory n)) else ?c) = ?c + ?m"
    using e(2) by (cases "ni_AvailableMemory n > 0") (simp_all add: max_def [of 0 "ni_AvailableMemory n"])
  have s3: "(if ni_RunningVMs n \<ge> 0 then rnd53 (?c + ?m + rnd53 (wrap32 (100 - ni_RunningVMs n) * 5 * unit20)) else ?c + ?m)
      = ?c + ?m + ?r"
    using e(3) r by (cases "ni_RunningVMs n \<ge> 0") simp_all
  have s4: "(if ni_AvailableGPUs n > 0 then rnd53 (?c + ?m + ?r + rnd53 (ni_AvailableGPUs n * 50 * unit20)) else ?c + ?m + ?r)
      = ?c + ?m + ?r + ?g"
    using e(4) by (cases "ni_AvailableGPUs n > 0") (simp_all add: max_def [of 0 "ni_AvailableGPUs n"])
  have "foldl (\<lambda>s l. if label_hit n l then rnd53 (s + 25 * unit20) else s) (?c + ?m + ?r + ?g) (PreferredLabels c)
      = ?c + ?m + ?r + ?g + int (length (filter (label_hit n) (PreferredLabels c))) * 25 * unit20"
    if "constraints = Some c" for c
  proof (rule preferred_sum)
    have "int (length (PreferredLabels c)) \<le> 2 ^ 16"
      using assms(5) that by (metis of_nat_le_iff of_nat_numeral of_nat_power)
    then have l: "int (length (PreferredLabels c)) * 25 * unit20 \<le> 2 ^ 41"
      by (simp add: unit20_def)
    show "\<bar>?c + ?m + ?r + ?g\<bar> + int (length (PreferredLabels c)) * 25 * unit20 < 2 ^ 53"
      by (rule le_less_trans [OF add_mono [OF e(5) l]]) simp
  qed
  then show ?thesis
    unfolding calculateScore_def Let_def s1 s2 s3 s4 exact_score_def
    by (cases constraints) (simp_all only: option.case add_0_right)
qed

theorem calculateScore_exact_witness:
  "calculateScore (sample_node ''a'' 4) None = exact_score (sample_node ''a'' 4) None"
  by (rule calculateScore_exact) (simp_all add: sample_node_def)

text \<open>
  Listing: the jobs of a node (or all of them), each once, have one order by falling priority,
  and page \<open>p\<close> is the \<open>p\<close>-th run of \<open>perPage\<close> of them, for every page whose last index is
  a 64 bit integer; the total is their number.
\<close>

theorem List_pages:
  assumes "slice_sort srt"
  shows "\<exists>js. mset js = mset (filter (\<lambda>j. nodeID = '''' \<or> j_NodeID j = nodeID) (map snd (jobs r))) \<and>
    sorted_wrt (\<lambda>x y. j_Priority x \<ge> j_Priority y) js \<and>
    (\<forall>page perPage. 1 \<le> page \<and> 1 \<le> perPage \<and> page * perPage < 2 ^ 63 \<longrightarrow>
       SchedulerRepository_List srt nodeID page perPage r =
         Returns (take (nat perPage) (drop (nat ((page - 1) * perPage)) js), int (length js)))"
proof (intro exI conjI allI impI)
  let ?js = "srt j_Priority (filter (\<lambda>j. nodeID = '''' \<or> j_NodeID j = nodeID) (map snd (jobs r)))"
  show "mset ?js = mset (filter (\<lambda>j. nodeID = '''' \<or> j_NodeID j = nodeID) (map snd (jobs r)))"
    by (rule slice_sort.mset_srt [OF assms])
  show "sorted_wrt (\<lambda>x y. j_Priority x \<ge> j_Priority y) ?js"
    by (rule slice_sort.sorted_srt [OF assms])
  fix page perPage :: int
  assume p: "1 \<le> page \<and> 1 \<le> perPage \<and> page * perPage < 2 ^ 63"
  define start where "start = (page - 1) * perPage"
  have st: "0 \<le> start" "start + perPage = page * perPage"
    using p by (simp_all add: start_def algebra_simps)
  have le: "page \<le> page * perPage"
    using p by (simp add: mult_le_cancel_left1)
  have w: "wrap64 (wrap64 (page - 1) * perPage) = start" "wrap64 (start + perPage) = start + perPage"
  proof -
    have "start + perPage < 2 ^ 63" "page < 2 ^ 63"
      using p st le by linarith+
    then have "int64_range (page - 1)" "int64_range start" "int64_range (start + perPage)"
      using p st(1) by (simp_all add: int64_range_def)
    then show "wrap64 (wrap64 (page - 1) * perPage) = start" "wrap64 (start + perPage) = start + perPage"
      by (simp_all add: wrap64_id start_def [symmetric])
  qed
  show "SchedulerRepository_List srt nodeID page perPage r =
      Returns (take (nat perPage) (drop (nat ((page - 1) * perPage)) ?js), int (length ?js))"
    unfolding SchedulerRepository_List_def Let_def w start_def [symmetric]
    using st(1) p by (auto simp: slice_def take_all_iff)
qed

theorem List_pages_witness:
  "\<exists>js. SchedulerRepository_List insertionSort '''' 1 20 NewSchedulerRepository = Returns (js, 0)"
  using List_pages [OF go_sort.slice_sort_axioms, of "''''" NewSchedulerRepository]
  by (auto simp: NewSchedulerRepository_def)

text \<open>
  The same handler panics on a page number whose start index overflows: with any job stored,
  page 461168601842738792 at 20 jobs per page makes the start of the slice negative.
\<close>

theorem handleListJobs_overflow:
  assumes "slice_sort srt" "jobs r \<noteq> []"
  shows "handleListJobs srt '''' ''461168601842738792'' ''20'' r = Panics ''slice bounds out of range''"
proof -
  have a: "clamp_page (fst (Atoi ''461168601842738792'')) = 461168601842738792" "clamp_per_page (fst (Atoi ''20'')) = 20"
    by (simp_all add: Atoi_def ParseInt64_def dec_val_def digit_val_def code_def is_digit_def Let_def
        clamp_page_def clamp_per_page_def)
  have w: "wrap64 (wrap64 (461168601842738792 - 1) * 20) = - 9223372036854775796"
    by code_simp
  show ?thesis
    unfolding handleListJobs_def a Let_def ListScheduledJobs_def SchedulerRepository_List_def w
    using assms slice_sort.length_srt [OF assms(1), of j_Priority]
    by (auto simp: slice_def)
qed

theorem handleListJobs_overflow_witness:
  "handleListJobs insertionSort '''' ''461168601842738792'' ''20''
     \<lparr>jobs = [(''v'', \<lparr>j_VMID = ''v'', j_NodeID = ''n'', j_Priority = 0, j_Constraints = None\<rparr>)]\<rparr>
   = Panics ''slice bounds out of range''"
  by (rule handleListJobs_overflow [OF go_sort.slice_sort_axioms]) simp

end
