(* ===== verification/Streams.thy ===== *)
theory Streams
  imports Gateway HostInfo
begin

section \<open>WebSocket streams: \<^verbatim>\<open>internal/ws\<close> and the state streams\<close>

text \<open>
  The log and console streams of \<^verbatim>\<open>internal/ws/ws.go\<close> and the streams of a machine's state of the control plane and of the
  gateway (\<^verbatim>\<open>vm_state_ws.go\<close>). A message is the JSON object written, as its members in the order of the
  source, without time stamps. The state of a connection is the list of the messages written to it; \<open>W n\<close> is the
  outcome of the \<open>n\<close>-th write. What goes on outside during a stream is an argument: the data that is appended to a log file between two
  reads, the database at each tick, the answers of the control plane, the messages of the client. Whether the
  library accepts the upgrade is an argument, too. Pings are not modelled.

  The lemmas compare the key check with that of the middleware, say which files a log stream can read, when following a
  file loses data, and that the state stream reports every change of a machine's status that its ticks can see.
\<close>

subsection \<open>Messages and connections\<close>

datatype jval = JS string | JN int | JB bool | JNull

type_synonym wsmsg = "(string \<times> jval) list"
type_synonym 'a wsop = "(wsmsg list, 'a) op"

definition WriteJSON :: "(nat \<Rightarrow> error option) \<Rightarrow> wsmsg \<Rightarrow> unit wsop" where
  "WriteJSON W m = (\<lambda>c. (case W (length c) of Some e \<Rightarrow> Inl e | None \<Rightarrow> Inr (), c @ [m]))"

text \<open>A request for a stream is refused, fails to upgrade, or is answered with the protocol of the response header, if any, and messages.\<close>

datatype stream = Refused reply | NotUpgraded | Streamed "string option" "wsmsg list"

definition http_Error :: "nat \<Rightarrow> string \<Rightarrow> reply" where
  "http_Error st b = \<lparr>rp_Status = st, rp_Header = [''Content-Type'' \<mapsto> ''text/plain; charset=utf-8'', ''X-Content-Type-Options'' \<mapsto> ''nosniff''],
     rp_Body = b @ [chr 10]\<rparr>"

definition unauthorized :: reply where
  "unauthorized = http_Error 401 ''{\"error\":\"invalid or missing API key\"}''"

definition vm_id_required :: reply where
  "vm_id_required = http_Error 400 ''{\"error\":\"vm_id required\"}''"

subsection \<open>\<^verbatim>\<open>Auth\<close>\<close>

definition ws_provided :: "string \<Rightarrow> request \<Rightarrow> string" where
  "ws_provided validKey r =
     (if req_Header r ''X-API-Key'' \<noteq> '''' then req_Header r ''X-API-Key''
      else if req_Query r ''api_key'' \<noteq> '''' then req_Query r ''api_key''
      else if req_Query r ''token'' \<noteq> '''' then req_Query r ''token''
      else if req_Query r ''key'' \<noteq> '''' then req_Query r ''key''
      else if req_Header r ''Sec-WebSocket-Protocol'' \<noteq> '''' \<and>
          validKey \<in> set (map TrimSpace (Split (req_Header r ''Sec-WebSocket-Protocol'') (chr 44))) then validKey
      else '''')"

definition Auth :: "string \<Rightarrow> request \<Rightarrow> bool" where
  "Auth validKey r =
     (if validKey = '''' then False
      else if ws_provided validKey r = '''' then False
      else ConstantTimeCompare (ws_provided validKey r) validKey = 1)"

definition authResponseHeader :: "string \<Rightarrow> request \<Rightarrow> string option" where
  "authResponseHeader validKey r =
     (let protocol = req_Header r ''Sec-WebSocket-Protocol'' in
      if protocol = '''' then None
      else if validKey \<noteq> '''' \<and> Contains protocol validKey then Some validKey
      else None)"

subsection \<open>Log files\<close>

definition baseCandidates :: "string list" where
  "baseCandidates = [''/var/log/rymevisor'', ''./.dev-logs'', ''/tmp'', ''./'']"

definition serviceMap :: "(string \<times> string list) list" where
  "serviceMap =
     [(''control-plane'', [''control-plane.log'']),
      (''api-gateway'', [''api-gateway.log'']),
      (''scheduler'', [''scheduler.log'']),
      (''networking-engine'', [''networking-engine.log'', ''networking.log'']),
      (''networking'', [''networking-engine.log'']),
      (''storage-manager'', [''storage-manager.log'', ''storage.log'']),
      (''storage'', [''storage-manager.log'']),
      (''node-agent'', [''node-agent.log'']),
      (''all'', [''control-plane.log'', ''api-gateway.log'', ''scheduler.log'', ''networking-engine.log'', ''storage-manager.log'', ''node-agent.log''])]"

definition in_bases :: "(string \<Rightarrow> byte list option) \<Rightarrow> string \<Rightarrow> string option" where
  "in_bases fs name = find (\<lambda>p. fs p \<noteq> None) (map (\<lambda>base. filepath_Join [base, name]) baseCandidates)"

definition vm_log_paths :: "string \<Rightarrow> string list" where
  "vm_log_paths vmID =
     [filepath_Join [''/var/lib/rymevisor/vms'', vmID, ''qemu.log''],
      filepath_Join [''/var/lib/rymevisor/vms'', vmID, ''console.log''],
      filepath_Join [''./.dev-logs'', vmID @ ''.log'']]"

fun log_names :: "(string \<Rightarrow> byte list option) \<Rightarrow> string list \<Rightarrow> string list \<Rightarrow> string list" where
  "log_names fs [] acc = take 1 acc"
| "log_names fs (n # ns) acc =
     (case in_bases fs n of
        Some p \<Rightarrow> [p]
      | None \<Rightarrow> log_names fs ns (acc @ [filepath_Join [hd baseCandidates, n]]))"

definition LogPathsForService :: "(string \<Rightarrow> byte list option) \<Rightarrow> string \<Rightarrow> string list" where
  "LogPathsForService fs service =
     (if service = ''all'' then List.map_filter (in_bases fs) (the (map_of serviceMap ''all''))
      else if HasPrefix service ''vm-'' then
        (let vmPaths = vm_log_paths (TrimPrefix service ''vm-'') in
         case find (\<lambda>p. fs p \<noteq> None) vmPaths of Some p \<Rightarrow> [p] | None \<Rightarrow> [hd vmPaths])
      else log_names fs (case map_of serviceMap service of Some names \<Rightarrow> names | None \<Rightarrow> [service @ ''.log'']) [])"

text \<open>
  \<^verbatim>\<open>fmt.Sscanf(s, "%d", &v)\<close>: blanks (but no line end), a sign, digits up to the first other character; \<open>v\<close> keeps its value
  when there is no digit or the number does not fit.
\<close>

definition Sscanf_d :: "string \<Rightarrow> int \<Rightarrow> int" where
  "Sscanf_d s v =
     (let s1 = dropWhile (\<lambda>c. is_space c \<and> c \<noteq> chr 10) s;
          sign = (if s1 \<noteq> [] \<and> hd s1 \<in> {CHR ''-'', CHR ''+''} then [hd s1] else '''');
          ds = takeWhile is_digit (drop (length sign) s1)
      in case ParseInt64 (sign @ ds) of (n, ok) \<Rightarrow> if ok then n else v)"

text \<open>
  \<^verbatim>\<open>bufio.Scanner\<close> with a buffer of a mebibyte: the lines without their ends, up to a line that does not fit.
\<close>

definition drop_cr :: "string \<Rightarrow> string" where
  "drop_cr l = (if l \<noteq> [] \<and> last l = chr 13 then butlast l else l)"

definition scan_lines :: "string \<Rightarrow> string list" where
  "scan_lines s =
     (let ls = Split s (chr 10) in
      map drop_cr (takeWhile (\<lambda>l. length l < 1048576) (if last ls = '''' then butlast ls else ls)))"

definition log_message :: "string \<Rightarrow> string \<Rightarrow> wsmsg" where
  "log_message path line = [(''type'', JS ''log''), (''service'', JS (filepath_Base path)), (''line'', JS line)]"

definition line_count :: "string \<Rightarrow> int" where
  "line_count linesParam =
     (if linesParam \<noteq> '''' then
        (let n = Sscanf_d linesParam 100 in if n < 0 then 0 else if n > 1000 then 1000 else n)
      else 100)"

definition last_lines :: "int \<Rightarrow> 'a list \<Rightarrow> 'a list" where
  "last_lines n xs = (if int (length xs) > n then drop (nat (int (length xs) - n)) xs else xs)"

definition StreamFile :: "(nat \<Rightarrow> error option) \<Rightarrow> (string \<Rightarrow> byte list option) \<Rightarrow> string \<Rightarrow> string \<Rightarrow> unit wsop" where
  "StreamFile W fs path linesParam = (case fs path of
     None \<Rightarrow> ignoreE (WriteJSON W [(''type'', JS ''info''),
       (''message'', JS (''log file not found: '' @ path @ '' (service may not have started yet)''))]) (ret ())
   | Some bs \<Rightarrow>
       bindE (mapE (\<lambda>line. WriteJSON W (log_message path line)) (last_lines (line_count linesParam) (scan_lines (map char_of_byte bs))))
         (\<lambda>_. ret ()))"

text \<open>
  \<open>TailFollow\<close> reads from the end of the file. \<open>chunks\<close> is what is in the file at each poll beyond what has been read: the complete
  lines are sent, the rest is read and forgotten (\<^verbatim>\<open>ReadString\<close> returns it together with the error).
\<close>

definition complete_lines :: "string \<Rightarrow> string list" where
  "complete_lines chunk = map (\<lambda>l. TrimRight l [chr 13, chr 10]) (butlast (Split chunk (chr 10)))"

definition TailFollow :: "(nat \<Rightarrow> error option) \<Rightarrow> (string \<Rightarrow> byte list option) \<Rightarrow> string \<Rightarrow> string list \<Rightarrow> unit wsop" where
  "TailFollow W fs path chunks = (case fs path of
     None \<Rightarrow> ret ()
   | Some _ \<Rightarrow> ignoreE (mapE (\<lambda>line. WriteJSON W (log_message path line)) (concat (map complete_lines chunks))) (ret ()))"

subsection \<open>\<^verbatim>\<open>HandleLogs\<close> and \<^verbatim>\<open>HandleConsole\<close>\<close>

definition log_service :: "request \<Rightarrow> string \<Rightarrow> string" where
  "log_service r defaultService =
     (let s = req_Query r ''service''; v = req_Query r ''vm_id'' in
      if s \<noteq> '''' then s
      else if v \<noteq> '''' then ''vm-'' @ v
      else if defaultService \<noteq> '''' then defaultService
      else ''all'')"

definition stream_logged :: "(nat \<Rightarrow> error option) \<Rightarrow> (string \<Rightarrow> byte list option) \<Rightarrow> string \<Rightarrow> string \<Rightarrow> unit wsop" where
  "stream_logged W fs linesParam p = tryM (StreamFile W fs p linesParam) (\<lambda>res.
     case res of
       Inl e \<Rightarrow> ignoreE (WriteJSON W [(''type'', JS ''error''), (''message'', JS (Error e))]) (ret ())
     | Inr _ \<Rightarrow> ret ())"

definition HandleLogs ::
  "(nat \<Rightarrow> error option) \<Rightarrow> string \<Rightarrow> bool \<Rightarrow> (string \<Rightarrow> byte list option) \<Rightarrow> string list \<Rightarrow> request \<Rightarrow> string \<Rightarrow> stream" where
  "HandleLogs W validKey upgraded fs chunks r defaultService =
     (if \<not> Auth validKey r then Refused unauthorized
      else if \<not> upgraded then NotUpgraded
      else
        let service = log_service r defaultService; paths = LogPathsForService fs service in
        Streamed (authResponseHeader validKey r) (snd (
          ignoreE (WriteJSON W [(''type'', JS ''connected''), (''service'', JS service), (''message'', JS (''streaming logs for '' @ service))]) (
          bindE (mapE (stream_logged W fs (req_Query r ''lines'')) (if service = ''all'' then paths else take 1 paths)) (\<lambda>_.
          if req_Query r ''follow'' \<noteq> ''false'' \<and> paths \<noteq> [] then TailFollow W fs (hd paths) chunks else ret ())) [])))"

definition extractVMID :: "request \<Rightarrow> string \<Rightarrow> string" where
  "extractVMID r pathID =
     (if req_Query r ''vm_id'' \<noteq> '''' then req_Query r ''vm_id''
      else if req_Query r ''id'' \<noteq> '''' then req_Query r ''id''
      else pathID)"

text \<open>
  The console: its own goroutine follows the file while the handler echoes what the client sends; \<open>events\<close> is the order in which the two
  act. The follower stops when a write fails, the echo does not.
\<close>

datatype console_event = Appended string | Received string

fun console_events :: "(nat \<Rightarrow> error option) \<Rightarrow> string \<Rightarrow> bool \<Rightarrow> console_event list \<Rightarrow> unit wsop" where
  "console_events W path following [] = ret ()"
| "console_events W path following (Received msg # es) =
     ignoreE (WriteJSON W [(''type'', JS ''echo''), (''line'', JS msg)]) (console_events W path following es)"
| "console_events W path following (Appended chunk # es) =
     (if \<not> following then console_events W path following es
      else tryM (mapE (\<lambda>line. WriteJSON W (log_message path line)) (complete_lines chunk)) (\<lambda>res.
        console_events W path (case res of Inl _ \<Rightarrow> False | Inr _ \<Rightarrow> True) es))"

definition HandleConsole ::
  "(nat \<Rightarrow> error option) \<Rightarrow> string \<Rightarrow> bool \<Rightarrow> (string \<Rightarrow> byte list option) \<Rightarrow> console_event list \<Rightarrow> request \<Rightarrow> string \<Rightarrow> stream" where
  "HandleConsole W validKey upgraded fs events r pathID =
     (let vmID = extractVMID r pathID in
      if \<not> Auth validKey r then Refused unauthorized
      else if vmID = '''' then Refused vm_id_required
      else if \<not> upgraded then NotUpgraded
      else
        let paths = LogPathsForService fs (''vm-'' @ vmID) in
        Streamed (authResponseHeader validKey r) (snd (
          ignoreE (WriteJSON W [(''type'', JS ''connected''), (''vm_id'', JS vmID), (''message'', JS ''console connected (log streaming)'')]) (
          bindE (mapE (\<lambda>p. ignoreE (StreamFile W fs p ''50'') (ret ())) paths) (\<lambda>_.
          console_events W (hd paths) (paths \<noteq> [] \<and> fs (hd paths) \<noteq> None) events)) [])))"

text \<open>The handlers of the control plane and of the gateway.\<close>

definition cp_HandleWsLogs :: "(nat \<Rightarrow> error option) \<Rightarrow> string \<Rightarrow> bool \<Rightarrow> (string \<Rightarrow> byte list option) \<Rightarrow> string list \<Rightarrow> request \<Rightarrow> stream" where
  "cp_HandleWsLogs W validKey upgraded fs chunks r = HandleLogs W validKey upgraded fs chunks r ''control-plane''"

definition gateway_HandleLogs :: "(nat \<Rightarrow> error option) \<Rightarrow> string \<Rightarrow> bool \<Rightarrow> (string \<Rightarrow> byte list option) \<Rightarrow> string list \<Rightarrow> request \<Rightarrow> stream" where
  "gateway_HandleLogs W validKey upgraded fs chunks r = HandleLogs W validKey upgraded fs chunks r ''all''"

subsection \<open>The control plane's stream of a machine's state\<close>

fun ImageStatus_string :: "ImageStatus \<Rightarrow> string" where
  "ImageStatus_string ImageStatusReady = ''ready''"
| "ImageStatus_string ImageStatusDownloading = ''downloading''"
| "ImageStatus_string ImageStatusProcessing = ''processing''"
| "ImageStatus_string ImageStatusError = ''error''"

record stream_state =
  ss_lastStatus :: string
  ss_lastImageStatus :: string
  ss_lastLogOffset :: nat

definition initial_stream :: stream_state where
  "initial_stream = \<lparr>ss_lastStatus = '''', ss_lastImageStatus = '''', ss_lastLogOffset = 0\<rparr>"

definition state_message :: "string \<Rightarrow> string \<Rightarrow> string \<Rightarrow> jval \<Rightarrow> jval \<Rightarrow> wsmsg" where
  "state_message vmID stat prev vcpus memoryMB =
     (if stat \<noteq> prev then
        [(''type'', JS ''state''), (''vm_id'', JS vmID), (''status'', JS stat), (''prev'', JS prev), (''vcpus'', vcpus),
         (''memory_mb'', memoryMB), (''message'', JS (''VM '' @ prev @ '' -> '' @ stat))]
      else [(''type'', JS ''state''), (''vm_id'', JS vmID), (''status'', JS stat)])"

text \<open>The progress of a download: the size of the temporary file, or that of the image.\<close>

definition progress_messages :: "(string \<Rightarrow> byte list option) \<Rightarrow> string \<Rightarrow> string \<Rightarrow> wsmsg list" where
  "progress_messages fs vmID imageID =
     (let imagePath = filepath_Join [''/var/lib/rymevisor/images'', imageID @ ''.qcow2''];
          progress = (\<lambda>bs. [(''type'', JS ''image_progress''), (''vm_id'', JS vmID), (''image_id'', JS imageID),
            (''bytes_downloaded'', JN (int (length bs)))])
      in case fs (imagePath @ ''.tmp'') of
           Some bs \<Rightarrow> [progress bs]
         | None \<Rightarrow> (case fs imagePath of Some bs \<Rightarrow> [progress bs @ [(''complete'', JB True)]] | None \<Rightarrow> []))"

definition image_messages :: "env \<Rightarrow> string \<Rightarrow> Disk list \<Rightarrow> string \<Rightarrow> (wsmsg list \<times> string) act" where
  "image_messages E vmID disks lastImageStatus = (case find (\<lambda>d. d_ImageID d \<noteq> '''') disks of
     None \<Rightarrow> ret ([], lastImageStatus)
   | Some disk \<Rightarrow> tryM (GetImage E (d_ImageID disk)) (\<lambda>r.
       case r of
         Inr (Some img) \<Rightarrow>
           (let imgStatus = ImageStatus_string (img_Status img) in
            bindE (gets files) (\<lambda>fs. ret
              ((if imgStatus \<noteq> lastImageStatus then
                  [[(''type'', JS ''image''), (''vm_id'', JS vmID), (''image_id'', JS (d_ImageID disk)), (''image_name'', JS (img_Name img)),
                    (''status'', JS imgStatus), (''source_url'', JS (img_SourceURL img)), (''size_bytes'', JN (img_SizeBytes img)),
                    (''message'', JS (''Image '' @ img_Name img @ '': '' @ imgStatus))]] else []) @
               (if img_Status img = ImageStatusDownloading \<or> img_Status img = ImageStatusProcessing
                then progress_messages fs vmID (d_ImageID disk) else []), imgStatus)))
       | _ \<Rightarrow> ret ([], lastImageStatus)))"

definition state_log_paths :: "string \<Rightarrow> string list" where
  "state_log_paths vmID = vm_log_paths vmID @ [filepath_Join [''/var/log/rymevisor'', vmID @ ''.log'']]"

text \<open>The part of the first log file found that has not been sent; nothing when it is not longer than before.\<close>

definition new_log :: "(string \<Rightarrow> byte list option) \<Rightarrow> string \<Rightarrow> nat \<Rightarrow> (string \<times> string) option" where
  "new_log fs vmID offset = (case find (\<lambda>p. fs p \<noteq> None) (state_log_paths vmID) of
     None \<Rightarrow> None
   | Some lp \<Rightarrow>
       (let content = map char_of_byte (the (fs lp)) in
        if length content > offset then Some (lp, drop offset content) else None))"

definition log_chunk_messages :: "string \<Rightarrow> string \<times> string \<Rightarrow> wsmsg list" where
  "log_chunk_messages vmID p = (case p of (lp, chunk) \<Rightarrow>
     map (\<lambda>line. [(''type'', JS ''log''), (''vm_id'', JS vmID), (''source'', JS (filepath_Base lp)), (''line'', JS line)])
       (filter (\<lambda>l. l \<noteq> '''') (Split (TrimSpace chunk) (chr 10))))"

definition vm_state_tick :: "env \<Rightarrow> string \<Rightarrow> stream_state \<Rightarrow> (wsmsg list \<times> stream_state) act" where
  "vm_state_tick E vmID st = tryM (GetVM E vmID) (\<lambda>r.
     case r of
       Inl e \<Rightarrow> ret ([[(''type'', JS ''error''), (''message'', JS (''get vm failed: '' @ Error e))]], st)
     | Inr None \<Rightarrow> ret ([[(''type'', JS ''error''), (''message'', JS ''vm not found''), (''vm_id'', JS vmID)]], st)
     | Inr (Some vm) \<Rightarrow>
         (let stat = VMStatus_string (vm_Status vm) in
          bindE (image_messages E vmID (vm_Disks vm) (ss_lastImageStatus st)) (\<lambda>(imgs, imgStatus).
          bindE (gets files) (\<lambda>fs.
          let logs = new_log fs vmID (ss_lastLogOffset st) in
          ret ([state_message vmID stat (ss_lastStatus st) (JN (vm_VCpus vm)) (JN (vm_MemoryMB vm))] @ imgs @
                 (case logs of None \<Rightarrow> [] | Some p \<Rightarrow> log_chunk_messages vmID p) @
                 [[(''type'', JS ''heartbeat''), (''vm_id'', JS vmID), (''status'', JS stat)]],
               \<lparr>ss_lastStatus = stat, ss_lastImageStatus = imgStatus,
                ss_lastLogOffset = ss_lastLogOffset st + (case logs of None \<Rightarrow> 0 | Some (_, chunk) \<Rightarrow> length chunk)\<rparr>)))))"

text \<open>The database and the files at each tick; a failed write does not end the stream.\<close>

fun vm_state_ticks :: "env \<Rightarrow> string \<Rightarrow> stream_state \<Rightarrow> world list \<Rightarrow> wsmsg list" where
  "vm_state_ticks E vmID st [] = []"
| "vm_state_ticks E vmID st (w # ws) =
     (case fst (vm_state_tick E vmID st w) of
        Inr (msgs, st') \<Rightarrow> msgs @ vm_state_ticks E vmID st' ws
      | Inl _ \<Rightarrow> vm_state_ticks E vmID st ws)"

definition state_vm_id :: "request \<Rightarrow> string \<Rightarrow> string" where
  "state_vm_id r pathID =
     (if pathID \<noteq> '''' then pathID
      else if req_Query r ''vm_id'' \<noteq> '''' then req_Query r ''vm_id''
      else req_Query r ''id'')"

definition HandleVMStateWs :: "string \<Rightarrow> bool \<Rightarrow> env \<Rightarrow> world list \<Rightarrow> request \<Rightarrow> string \<Rightarrow> stream" where
  "HandleVMStateWs validKey upgraded E ws r pathID =
     (let vmID = state_vm_id r pathID in
      if \<not> Auth validKey r then Refused unauthorized
      else if vmID = '''' then Refused vm_id_required
      else if \<not> upgraded then NotUpgraded
      else Streamed (authResponseHeader validKey r) ([(''type'', JS ''connected''), (''vm_id'', JS vmID), (''message'', JS ''streaming VM state logs'')] #
        vm_state_ticks E vmID initial_stream ws))"

subsection \<open>The gateway's stream of a machine's state\<close>

text \<open>
  The answer of the control plane: an error, or a status and the body, whose members of interest are given as \<^verbatim>\<open>encoding/json\<close> decodes them (\<open>None\<close>: the
  body is not an object). The status is the empty string when it is missing or not a string; a disk is the image id, when it is a string.
\<close>

record vm_body =
  vb_status :: string
  vb_vcpus :: jval
  vb_memory_mb :: jval
  vb_disks :: "string option list option"

record image_body =
  ib_name :: jval
  ib_status :: string

record upstream_answers =
  ua_vm :: "error + nat \<times> vm_body option"
  ua_image :: "string \<Rightarrow> error + image_body option"

fun path_vm :: "string list \<Rightarrow> string" where
  "path_vm (p # q # ps) = (if p = ''vm'' then q else path_vm (q # ps))"
| "path_vm ps = ''''"

definition gateway_vm_id :: "request \<Rightarrow> string" where
  "gateway_vm_id r =
     (if req_Query r ''vm_id'' \<noteq> '''' then req_Query r ''vm_id''
      else if req_Query r ''id'' \<noteq> '''' then req_Query r ''id''
      else path_vm (Split (Trim (req_Path r) ''/'') (chr 47)))"

definition gateway_image_messages :: "string \<Rightarrow> upstream_answers \<Rightarrow> string option list option \<Rightarrow> wsmsg list" where
  "gateway_image_messages vmID a disks =
     (case find (\<lambda>d. case d of Some imageID \<Rightarrow> imageID \<noteq> '''' | None \<Rightarrow> False) (case disks of Some ds \<Rightarrow> ds | None \<Rightarrow> []) of
        Some (Some imageID) \<Rightarrow>
          (case ua_image a imageID of
             Inr (Some img) \<Rightarrow> [[(''type'', JS ''image''), (''vm_id'', JS vmID), (''image_id'', JS imageID), (''image_name'', ib_name img),
               (''status'', JS (ib_status img))]]
           | _ \<Rightarrow> [])
      | _ \<Rightarrow> [])"

definition gateway_state_tick :: "string \<Rightarrow> string \<Rightarrow> upstream_answers \<Rightarrow> wsmsg list \<times> string" where
  "gateway_state_tick vmID lastStatus a = (case ua_vm a of
     Inl e \<Rightarrow> ([[(''type'', JS ''error''), (''message'', JS (''fetch vm failed: '' @ Error e))]], lastStatus)
   | Inr (sc, decoded) \<Rightarrow>
       if sc = 404 then ([[(''type'', JS ''error''), (''message'', JS ''vm not found''), (''vm_id'', JS vmID)]], lastStatus)
       else if sc \<noteq> 200 then ([[(''type'', JS ''error''), (''message'', JS (''vm fetch status '' @ Itoa (int sc)))]], lastStatus)
       else (case decoded of
          None \<Rightarrow> ([], lastStatus)
        | Some vm \<Rightarrow>
            ([state_message vmID (vb_status vm) lastStatus (vb_vcpus vm) (vb_memory_mb vm)] @ gateway_image_messages vmID a (vb_disks vm) @
               [[(''type'', JS ''heartbeat''), (''vm_id'', JS vmID), (''status'', JS (vb_status vm))]],
             vb_status vm)))"

fun gateway_state_ticks :: "string \<Rightarrow> string \<Rightarrow> upstream_answers list \<Rightarrow> wsmsg list" where
  "gateway_state_ticks vmID lastStatus [] = []"
| "gateway_state_ticks vmID lastStatus (a # as) =
     (case gateway_state_tick vmID lastStatus a of (msgs, st) \<Rightarrow> msgs @ gateway_state_ticks vmID st as)"

definition HandleVMState :: "string \<Rightarrow> bool \<Rightarrow> upstream_answers list \<Rightarrow> request \<Rightarrow> stream" where
  "HandleVMState validKey upgraded answers r =
     (let vmID = gateway_vm_id r in
      if \<not> Auth validKey r then Refused unauthorized
      else if vmID = '''' then Refused vm_id_required
      else if \<not> upgraded then NotUpgraded
      else Streamed (authResponseHeader validKey r) ([(''type'', JS ''connected''), (''vm_id'', JS vmID), (''message'', JS ''streaming VM state (gateway, same API key)'')] #
        gateway_state_ticks vmID '''' answers))"

subsection \<open>The key check and that of the middleware\<close>

lemma protocol_prefix_length: "length ''Bearer '' = 7"
  by simp

lemma protocol_key_valid:
  assumes "validKey \<noteq> ''''"
  shows "protocol_key validKey ps = validKey \<longleftrightarrow> validKey \<in> set ps \<or> ''Bearer '' @ validKey \<in> set ps"
proof (induction ps)
  case (Cons p ps)
  have "length p > 7 \<and> take 7 p = ''Bearer '' \<and> drop 7 p = validKey \<longleftrightarrow> p = ''Bearer '' @ validKey"
    using assms append_take_drop_id [of 7 p] by (metis append_eq_conv_conj length_append length_greater_0_conv less_add_same_cancel1 protocol_prefix_length)
  then show ?case using Cons by auto
qed (use assms in auto)

lemma splitAndTrim_mem: "k \<noteq> '''' \<Longrightarrow> k \<in> set (splitAndTrim s sep) \<longleftrightarrow> k \<in> set (map TrimSpace (Split s sep))"
  by (auto simp: splitAndTrim_def)

lemma no_protocol: "k \<noteq> '''' \<Longrightarrow> k \<notin> set (map TrimSpace (Split '''' sep))"
  by (simp add: TrimSpace_def)

text \<open>
  C37. The key check of the streams is that of the middleware less one form: whatever \<^verbatim>\<open>ws.Auth\<close> accepts passes \<^verbatim>\<open>RequireAPIKey\<close>, and a request that
  passes \<^verbatim>\<open>RequireAPIKey\<close> is refused by \<^verbatim>\<open>ws.Auth\<close> exactly if it presents its key only as the WebSocket protocol \<^verbatim>\<open>Bearer\<close> with the key.
\<close>

theorem Auth_and_middleware:
  assumes "validKey \<noteq> ''''"
  shows "(Auth validKey r \<longrightarrow> provided_key validKey r = validKey) \<and>
    (provided_key validKey r = validKey \<and> \<not> Auth validKey r \<longleftrightarrow>
      ExtractAPIKey r = '''' \<and>
      (let ps = map TrimSpace (Split (req_Header r ''Sec-WebSocket-Protocol'') (chr 44)) in
       ''Bearer '' @ validKey \<in> set ps \<and> validKey \<notin> set ps))"
proof -
  define ps where "ps = map TrimSpace (Split (req_Header r ''Sec-WebSocket-Protocol'') (chr 44))"
  have empty: "req_Header r ''Sec-WebSocket-Protocol'' = '''' \<Longrightarrow> k \<noteq> '''' \<Longrightarrow> k \<notin> set ps" for k
    unfolding ps_def using no_protocol by metis
  show ?thesis
  proof (cases "ExtractAPIKey r = ''''")
    case True
    have "provided_key validKey r = validKey \<longleftrightarrow> validKey \<in> set ps \<or> ''Bearer '' @ validKey \<in> set ps"
      using True assms empty [of validKey] empty [of "''Bearer '' @ validKey"] protocol_key_valid [OF assms]
      by (auto simp: provided_key_def splitAndTrim_mem ps_def [symmetric])
    moreover have "Auth validKey r \<longleftrightarrow> validKey \<in> set ps"
      using True assms empty [of validKey]
      by (auto simp: Auth_def ws_provided_def ExtractAPIKey_def ConstantTimeCompare_def ps_def [symmetric] split: if_splits)
    ultimately show ?thesis
      using True by (auto simp: Let_def ps_def [symmetric])
  next
    case False
    then have "ws_provided validKey r = ExtractAPIKey r"
      by (auto simp: ws_provided_def ExtractAPIKey_def split: if_splits)
    then show ?thesis
      using False assms by (auto simp: Auth_def provided_key_def ConstantTimeCompare_def)
  qed
qed

definition bearer_request :: request where
  "bearer_request = \<lparr>req_Method = ''GET'', req_Path = ''/ws/logs'',
     req_Header = (\<lambda>k. if k = ''Sec-WebSocket-Protocol'' then ''Bearer k1'' else ''''), req_Query = (\<lambda>_. '''')\<rparr>"

theorem Auth_and_middleware_witness:
  "provided_key ''k1'' bearer_request = ''k1'' \<and> \<not> Auth ''k1'' bearer_request"
proof -
  have "map TrimSpace (Split (req_Header bearer_request ''Sec-WebSocket-Protocol'') (chr 44)) = [''Bearer k1'']"
    "ExtractAPIKey bearer_request = ''''"
    by (code_simp)+
  then show ?thesis
    using Auth_and_middleware [of "''k1''" bearer_request] by (simp add: Let_def)
qed

subsection \<open>Which files a log stream reads\<close>

definition log_file :: "string \<Rightarrow> bool" where
  "log_file p \<longleftrightarrow> (\<exists>q. p = q @ ''.log'')"

lemma Clean_file: "d \<noteq> '''' \<Longrightarrow> plain_name n \<Longrightarrow> filepath_Clean (d @ Separator # n) = dir_prefix d @ n"
  using filepath_Join_file [of n d] by (simp add: filepath_Join.simps)

lemma plain_log: "Separator \<notin> set e \<Longrightarrow> plain_name (e @ ''.log'')"
  by (auto simp: plain_name_def Separator_def append_eq_Cons_conv)

lemma Clean_log_file:
  assumes "d \<noteq> ''''"
  shows "log_file (filepath_Clean (d @ Separator # s @ ''.log''))"
proof (cases "Separator \<in> set s")
  case True
  then obtain t e where s: "s = t @ Separator # e" and e: "Separator \<notin> set e"
    using split_list_last by metis
  have "filepath_Clean (d @ Separator # s @ ''.log'') = dir_prefix (d @ Separator # t) @ e @ ''.log''"
    using Clean_file [of "d @ Separator # t" "e @ ''.log''"] plain_log [OF e] by (simp add: s)
  then show ?thesis unfolding log_file_def by (metis append.assoc)
next
  case False
  then show ?thesis
    using Clean_file [OF assms plain_log [OF False]] unfolding log_file_def by (metis append.assoc)
qed

lemma Join_log_file: "d \<noteq> '''' \<Longrightarrow> log_file (filepath_Join [d, s @ ''.log''])"
  using Clean_log_file [of d s] by (simp add: filepath_Join.simps)

lemma base_not_empty: "b \<in> set baseCandidates \<Longrightarrow> b \<noteq> ''''"
  by (auto simp: baseCandidates_def)

lemma in_bases_Some: "in_bases fs n = Some p \<Longrightarrow> fs p \<noteq> None \<and> (\<exists>b\<in>set baseCandidates. p = filepath_Join [b, n])"
  unfolding in_bases_def by (auto simp: find_Some_iff)

lemma log_names_in:
  assumes "p \<in> set (log_names fs ns acc)"
  shows "p \<in> set acc \<or> (\<exists>b\<in>set baseCandidates. \<exists>n\<in>set ns. p = filepath_Join [b, n])"
  using assms
proof (induction ns arbitrary: acc)
  case Nil
  then show ?case by (auto dest: in_set_takeD)
next
  case (Cons n ns)
  show ?case
  proof (cases "in_bases fs n")
    case None
    have "hd baseCandidates \<in> set baseCandidates" by (simp add: baseCandidates_def)
    then show ?thesis using Cons.IH [of "acc @ [filepath_Join [hd baseCandidates, n]]"] Cons.prems None by auto
  next
    case (Some q)
    then show ?thesis using Cons.prems in_bases_Some [of fs n q] by auto
  qed
qed

definition log_name :: "string \<Rightarrow> bool" where
  "log_name n \<longleftrightarrow> (\<exists>s. n = s @ ''.log'')"

lemma serviceMap_names:
  assumes "map_of serviceMap s = Some ns" "n \<in> set ns"
  shows "Separator \<notin> set n \<and> log_name n"
proof -
  have "\<forall>(s, ns)\<in>set serviceMap. \<forall>n\<in>set ns. Separator \<notin> set n \<and> n = take (length n - 4) n @ ''.log''"
    by (simp add: serviceMap_def Separator_def)
  then show ?thesis
    using map_of_SomeD [OF assms(1)] assms(2) unfolding log_name_def by fastforce
qed

lemma Join_log_name: "b \<in> set baseCandidates \<Longrightarrow> log_name n \<Longrightarrow> log_file (filepath_Join [b, n])"
  using Join_log_file base_not_empty by (auto simp: log_name_def)

lemma vm_log_paths_log: "p \<in> set (vm_log_paths vmID) \<Longrightarrow> log_file p"
proof -
  let ?d = "''/var/lib/rymevisor/vms'' @ Separator # vmID"
  have "filepath_Join [''/var/lib/rymevisor/vms'', vmID, n] = filepath_Clean (?d @ Separator # n)" for n
    by (simp add: filepath_Join.simps)
  moreover have "log_file (filepath_Clean (?d @ Separator # ''qemu'' @ ''.log''))" "log_file (filepath_Clean (?d @ Separator # ''console'' @ ''.log''))"
    "log_file (filepath_Join [''./.dev-logs'', vmID @ ''.log''])"
    by (rule Clean_log_file, simp)+ (rule Join_log_file, simp)
  ultimately show "p \<in> set (vm_log_paths vmID) \<Longrightarrow> log_file p"
    by (auto simp: vm_log_paths_def)
qed

text \<open>The names that a service other than a machine is looked up by.\<close>

definition service_names :: "string \<Rightarrow> string list" where
  "service_names service = (case map_of serviceMap service of Some names \<Rightarrow> names | None \<Rightarrow> [service @ ''.log''])"

lemma service_names_log: "n \<in> set (service_names s) \<Longrightarrow> log_name n"
  using serviceMap_names by (auto simp: service_names_def log_name_def split: option.splits)

lemma plain_log_name: "Separator \<notin> set n \<Longrightarrow> log_name n \<Longrightarrow> plain_name n"
  using plain_log by (auto simp: log_name_def)

lemma service_names_plain:
  assumes "Separator \<notin> set s" "n \<in> set (service_names s)"
  shows "plain_name n"
proof (cases "map_of serviceMap s")
  case None
  then show ?thesis using assms plain_log by (simp add: service_names_def)
next
  case (Some ns)
  then show ?thesis using assms(2) serviceMap_names [OF Some] plain_log_name by (simp add: service_names_def)
qed

lemma service_paths:
  assumes "p \<in> set (LogPathsForService fs s)" "\<not> HasPrefix s ''vm-''"
  shows "\<exists>b\<in>set baseCandidates. \<exists>n\<in>set (service_names s). p = filepath_Join [b, n]"
proof (cases "s = ''all''")
  case True
  then obtain n where "n \<in> set (the (map_of serviceMap ''all''))" "in_bases fs n = Some p"
    using assms(1) by (auto simp: LogPathsForService_def List.map_filter_def)
  moreover have "the (map_of serviceMap ''all'') = service_names s"
    by (simp add: True service_names_def serviceMap_def)
  ultimately show ?thesis using in_bases_Some by metis
next
  case False
  then show ?thesis
    using assms log_names_in [of p fs "service_names s" "[]"]
    by (simp add: LogPathsForService_def service_names_def)
qed


text \<open>A name with slashes leads out of the directories.\<close>

lemma log_path_traversal: "LogPathsForService (\<lambda>_. None) ''../../../home/u/app'' = [''/home/u/app.log'']"
  by code_simp


subsection \<open>Following a file\<close>

lemma Split_at_sep: "Split (s @ sep # t) sep = Split s sep @ Split t sep"
proof (induction s)
  case (Cons x s)
  then show ?case
    using Split_not_Nil [of s sep] by (cases "Split s sep") auto
qed simp

lemma complete_lines_append:
  assumes "c = '''' \<or> last c = chr 10"
  shows "complete_lines (c @ d) = complete_lines c @ complete_lines d"
proof (cases "c = ''''")
  case False
  then obtain s where "c = s @ [chr 10]" using assms by (metis append_butlast_last_id)
  then show ?thesis by (simp add: complete_lines_def Split_at_sep butlast_append)
qed (simp add: complete_lines_def)

lemma complete_lines_concat:
  "\<forall>c\<in>set chunks. c = '''' \<or> last c = chr 10 \<Longrightarrow> concat (map complete_lines chunks) = complete_lines (concat chunks)"
proof (induction chunks)
  case Nil
  show ?case by (simp add: complete_lines_def)
qed (simp add: complete_lines_append)

lemma mapE_WriteJSON: "\<forall>n. W n = None \<Longrightarrow> mapE (\<lambda>l. WriteJSON W (f l)) ls c = (Inr (map (\<lambda>_. ()) ls), c @ map f ls)"
  by (induction ls arbitrary: c) (simp_all add: WriteJSON_def bindE_apply ret_def)

lemma TailFollow_sends:
  assumes "fs path = Some bs" "\<forall>n. W n = None"
  shows "TailFollow W fs path chunks c = (Inr (), c @ map (log_message path) (concat (map complete_lines chunks)))"
  using assms by (simp add: TailFollow_def mapE_WriteJSON ignoreE_def tryM_apply ret_def)

text \<open>
  C39. Following a log file sends every line when each poll finds the file at the end of a line, wherever the polls fall; but of a line that is written
  in two pieces with a poll in between only the second piece is sent.
\<close>

theorem TailFollow_lines:
  assumes "fs path = Some bs" "\<forall>n. W n = None"
  shows "((\<forall>chunk\<in>set chunks. chunk = '''' \<or> last chunk = chr 10) \<longrightarrow>
      TailFollow W fs path chunks c = (Inr (), c @ map (log_message path) (complete_lines (concat chunks)))) \<and>
    (chr 10 \<notin> set a \<and> chr 10 \<notin> set b \<longrightarrow>
      TailFollow W fs path [a, b @ [chr 10]] c = (Inr (), c @ [log_message path (TrimRight b [chr 13, chr 10])]))"
proof -
  have "chr 10 \<notin> set a \<Longrightarrow> complete_lines a = []" "chr 10 \<notin> set b \<Longrightarrow> complete_lines (b @ [chr 10]) = [TrimRight b [chr 13, chr 10]]"
    by (simp_all add: complete_lines_def Split_single Split_append_sep)
  then show ?thesis
    using TailFollow_sends [of fs path bs W, OF assms] complete_lines_concat by auto
qed

theorem TailFollow_lines_witness:
  "TailFollow (\<lambda>_. None) [''x.log'' \<mapsto> []] ''x.log'' [''lost '', ''kept'' @ [chr 10]] [] = (Inr (), [log_message ''x.log'' ''kept''])"
proof -
  have "TrimRight ''kept'' [chr 13, chr 10] = ''kept''" "chr 10 \<notin> set ''lost ''" "chr 10 \<notin> set ''kept''"
    by code_simp+
  then show ?thesis
    using TailFollow_lines [of "[''x.log'' \<mapsto> []]" "''x.log''" "[]" "\<lambda>_. None" "[]" "[]" "''lost ''" "''kept''"] by simp
qed

subsection \<open>Changes of a status\<close>

text \<open>What a stream reports about changes: the messages that name a previous status.\<close>

definition change_of :: "wsmsg \<Rightarrow> (jval \<times> jval) option" where
  "change_of m = (case (map_of m ''prev'', map_of m ''status'') of (Some p, Some s) \<Rightarrow> Some (p, s) | _ \<Rightarrow> None)"

definition changes :: "wsmsg list \<Rightarrow> (jval \<times> jval) list" where
  "changes ms = List.map_filter change_of ms"

fun status_changes :: "string \<Rightarrow> string list \<Rightarrow> (jval \<times> jval) list" where
  "status_changes l [] = []"
| "status_changes l (s # ss) = (if s \<noteq> l then (JS l, JS s) # status_changes s ss else status_changes l ss)"

fun run_stream :: "('s \<Rightarrow> 'a \<Rightarrow> wsmsg list \<times> 's) \<Rightarrow> 's \<Rightarrow> 'a list \<Rightarrow> wsmsg list" where
  "run_stream tk st [] = []"
| "run_stream tk st (a # as) = (case tk st a of (ms, st') \<Rightarrow> ms @ run_stream tk st' as)"

text \<open>A stream of a status: a tick that sees a status reports it when it differs from the last one seen, a tick that sees none reports no change.\<close>

locale status_stream =
  fixes tk :: "'s \<Rightarrow> 'a \<Rightarrow> wsmsg list \<times> 's"
    and last_status :: "'s \<Rightarrow> string"
    and obs :: "'a \<Rightarrow> string option"
  assumes sees: "obs a = Some s \<Longrightarrow>
      changes (fst (tk st a)) = (if s \<noteq> last_status st then [(JS (last_status st), JS s)] else []) \<and> last_status (snd (tk st a)) = s"
    and silent: "obs a = None \<Longrightarrow> changes (fst (tk st a)) = [] \<and> last_status (snd (tk st a)) = last_status st"
begin

lemma reports_changes: "changes (run_stream tk st as) = status_changes (last_status st) (List.map_filter obs as)"
proof (induction as arbitrary: st)
  case Nil
  show ?case by (simp add: changes_def List.map_filter_def)
next
  case (Cons a as)
  have "changes (run_stream tk st (a # as)) = changes (fst (tk st a)) @ changes (run_stream tk (snd (tk st a)) as)"
    by (simp add: changes_def List.map_filter_def split: prod.split)
  then show ?case
    using Cons sees [of a _ st] silent [of a st] by (cases "obs a") (simp_all add: List.map_filter_def)
qed

end

lemma status_changes_remdups:
  "status_changes l ss = (let cs = tl (remdups_adj (l # ss)) in zip (map JS (l # cs)) (map JS cs))"
proof (induction ss arbitrary: l)
  case (Cons s ss)
  obtain rest where rest: "remdups_adj (s # ss) = s # rest"
    by (metis list.exhaust_sel remdups_adj_Cons' list.sel(1) remdups_adj_Nil_iff list.distinct(1) hd_remdups_adj)
  then show ?case
    using Cons [of s] Cons [of l] by (cases "s = l") (simp_all add: Let_def)
qed simp

lemma changes_simps [simp]: "changes [] = []" "changes (m # ms) = (case change_of m of None \<Rightarrow> changes ms | Some c \<Rightarrow> c # changes ms)"
  "changes (ms @ ns) = changes ms @ changes ns"
  by (simp_all add: changes_def List.map_filter_def split: option.split)

lemma change_of_none [simp]: "map_of m ''prev'' = None \<Longrightarrow> change_of m = None"
  by (simp add: change_of_def)

lemma change_of_state:
  "change_of (state_message vmID s prev c m) = (if s \<noteq> prev then Some (JS prev, JS s) else None)"
  by (simp add: change_of_def state_message_def)

lemma changes_silent: "(\<And>m. m \<in> set ms \<Longrightarrow> map_of m ''prev'' = None) \<Longrightarrow> changes ms = []"
  by (induction ms) (auto simp: change_of_def)

lemma changes_progress: "changes (progress_messages fs vmID i) = []"
  by (rule changes_silent) (auto simp: progress_messages_def Let_def split: option.splits)

lemma changes_log_chunk: "changes (log_chunk_messages vmID p) = []"
  by (rule changes_silent) (auto simp: log_chunk_messages_def split: prod.splits)

lemma image_messages_silent:
  "\<exists>ms s w'. image_messages E vmID disks l w = (Inr (ms, s), w') \<and> changes ms = []"
proof (cases "find (\<lambda>d. d_ImageID d \<noteq> '''') disks")
  case (Some disk)
  obtain r w1 where "GetImage E (d_ImageID disk) w = (r, w1)" by fastforce
  then show ?thesis
    using Some by (cases r) (auto simp: image_messages_def tryM_apply ret_def bindE_apply gets_def Let_def change_of_def changes_progress
        split: option.split)
qed (simp add: image_messages_def ret_def)

text \<open>The status that a tick sees, in the database and in the answer of the control plane.\<close>

definition observed :: "env \<Rightarrow> string \<Rightarrow> world \<Rightarrow> string option" where
  "observed E vmID w = (case fst (GetVM E vmID w) of Inr (Some vm) \<Rightarrow> Some (VMStatus_string (vm_Status vm)) | _ \<Rightarrow> None)"

definition answered :: "upstream_answers \<Rightarrow> string option" where
  "answered a = (case ua_vm a of Inr (sc, Some vm) \<Rightarrow> if sc = 200 then Some (vb_status vm) else None | _ \<Rightarrow> None)"

definition state_step :: "env \<Rightarrow> string \<Rightarrow> stream_state \<Rightarrow> world \<Rightarrow> wsmsg list \<times> stream_state" where
  "state_step E vmID st w = (case fst (vm_state_tick E vmID st w) of Inr p \<Rightarrow> p | Inl _ \<Rightarrow> ([], st))"

lemma state_step_sees:
  assumes "observed E vmID w = Some s"
  shows "changes (fst (state_step E vmID st w)) = (if s \<noteq> ss_lastStatus st then [(JS (ss_lastStatus st), JS s)] else []) \<and>
    ss_lastStatus (snd (state_step E vmID st w)) = s"
proof -
  obtain vm w1 where vm: "GetVM E vmID w = (Inr (Some vm), w1)" and s: "s = VMStatus_string (vm_Status vm)"
    using assms by (auto simp: observed_def split: sum.splits option.splits) (metis fst_conv surj_pair)
  obtain ms i w2 where im: "image_messages E vmID (vm_Disks vm) (ss_lastImageStatus st) w1 = (Inr (ms, i), w2)" "changes ms = []"
    using image_messages_silent by blast
  show ?thesis
    using vm im by (simp add: state_step_def vm_state_tick_def tryM_apply bindE_apply ret_def gets_def Let_def s change_of_state
        changes_log_chunk split: option.split)
qed

lemma state_step_silent:
  assumes "observed E vmID w = None"
  shows "changes (fst (state_step E vmID st w)) = [] \<and> ss_lastStatus (snd (state_step E vmID st w)) = ss_lastStatus st"
proof -
  obtain r w1 where "GetVM E vmID w = (r, w1)" by fastforce
  then show ?thesis
    using assms by (cases r) (auto simp: observed_def state_step_def vm_state_tick_def tryM_apply ret_def change_of_def split: option.splits)
qed

interpretation cp_stream: status_stream "state_step E vmID" ss_lastStatus "observed E vmID" for E vmID
  by unfold_locales (rule state_step_sees, assumption, rule state_step_silent)

lemma gateway_images_silent: "changes (gateway_image_messages vmID a ds) = []"
  by (rule changes_silent) (auto simp: gateway_image_messages_def split: option.splits sum.splits)

interpretation gw_stream: status_stream "gateway_state_tick vmID" "\<lambda>s. s" answered for vmID
  by unfold_locales (auto simp: answered_def gateway_state_tick_def change_of_state gateway_images_silent
      split: sum.splits option.splits if_splits)

lemma vm_state_ticks_run: "vm_state_ticks E vmID st ws = run_stream (state_step E vmID) st ws"
  by (induction ws arbitrary: st) (auto simp: state_step_def split: sum.split prod.split)

lemma gateway_state_ticks_run: "gateway_state_ticks vmID st as = run_stream (gateway_state_tick vmID) st as"
  by (induction as arbitrary: st) simp_all

definition reported :: "string list \<Rightarrow> (jval \<times> jval) list" where
  "reported ss = (let cs = tl (remdups_adj ('''' # ss)) in zip (map JS ('''' # cs)) (map JS cs))"

text \<open>
  C36. Both state streams report exactly the changes of the status that their ticks see: each new status with the one before it, in order,
  none left out and none repeated, whatever errors occur between the ticks.
\<close>

theorem state_streams_report_changes:
  assumes "HandleVMStateWs validKey True E ws r pathID = Streamed hdr ms"
    and "HandleVMState validKey' True answers r' = Streamed hdr' ms'"
  shows "changes ms = reported (List.map_filter (observed E (state_vm_id r pathID)) ws) \<and>
    changes ms' = reported (List.map_filter answered answers)"
proof -
  have "ms = tl [] @ hd ms # vm_state_ticks E (state_vm_id r pathID) initial_stream ws" "change_of (hd ms) = None"
    "ms' = tl [] @ hd ms' # gateway_state_ticks (gateway_vm_id r') '''' answers" "change_of (hd ms') = None"
    using assms by (auto simp: HandleVMStateWs_def HandleVMState_def Let_def change_of_def split: if_splits)
  then have "changes ms = changes (vm_state_ticks E (state_vm_id r pathID) initial_stream ws)"
    "changes ms' = changes (gateway_state_ticks (gateway_vm_id r') '''' answers)"
    by (metis changes_simps(2) option.case(1) append_Nil list.sel(2))+
  then show ?thesis
    by (simp add: vm_state_ticks_run gateway_state_ticks_run cp_stream.reports_changes gw_stream.reports_changes
        status_changes_remdups reported_def initial_stream_def)
qed

definition sample_answer :: "string \<Rightarrow> upstream_answers" where
  "sample_answer s = \<lparr>ua_vm = Inr (200, Some \<lparr>vb_status = s, vb_vcpus = JN 1, vb_memory_mb = JN 512, vb_disks = None\<rparr>), ua_image = (\<lambda>_. Inr None)\<rparr>"

definition keyed_request :: request where
  "keyed_request = \<lparr>req_Method = ''GET'', req_Path = ''/ws/vm/v/state'', req_Header = (\<lambda>_. ''k''), req_Query = (\<lambda>_. ''v'')\<rparr>"

theorem state_streams_report_changes_witness:
  "\<exists>hdr hdr' ms ms'. HandleVMStateWs ''k'' True sample_env [] keyed_request ''v'' = Streamed hdr ms \<and>
     HandleVMState ''k'' True [sample_answer ''running'', sample_answer ''running'', sample_answer ''stopped''] keyed_request = Streamed hdr' ms' \<and>
     changes ms' = [(JS '''', JS ''running''), (JS ''running'', JS ''stopped'')]"
proof -
  have "Auth ''k'' keyed_request"
    by (simp add: Auth_def ws_provided_def keyed_request_def ConstantTimeCompare_def)
  then obtain hdr hdr' ms ms' where ms: "HandleVMStateWs ''k'' True sample_env [] keyed_request ''v'' = Streamed hdr ms"
    and ms': "HandleVMState ''k'' True [sample_answer ''running'', sample_answer ''running'', sample_answer ''stopped''] keyed_request = Streamed hdr' ms'"
    by (simp add: HandleVMStateWs_def HandleVMState_def state_vm_id_def gateway_vm_id_def keyed_request_def Let_def)
  have "reported (List.map_filter answered [sample_answer ''running'', sample_answer ''running'', sample_answer ''stopped'']) =
      [(JS '''', JS ''running''), (JS ''running'', JS ''stopped'')]"
    by (simp add: List.map_filter_def answered_def sample_answer_def reported_def)
  then show ?thesis
    using state_streams_report_changes [OF ms ms'] ms ms' by auto
qed

end
