(* ===== verification/Metrics.thy ===== *)
theory Metrics
  imports Streams
begin

section \<open>Metrics: \<^verbatim>\<open>internal/metrics\<close> and the metrics stream\<close>

text \<open>
  The collector of \<^verbatim>\<open>internal/metrics/collector.go\<close> and the stream that sends its results (\<^verbatim>\<open>internal/ws/metrics.go\<close>). The files of
  \<^verbatim>\<open>/proc\<close> are files of the state; the clock (in nanoseconds) and \<^verbatim>\<open>statfs\<close> are arguments, the collector's memory is passed
  explicitly. The zero time of a sample that has not been taken is \<open>None\<close>. The code indexes the fields of \<^verbatim>\<open>/proc/uptime\<close> without a
  check: \<open>Panics\<close> is the index out of range.

  The lemmas bound the usage of the processors that is reported and say between which samples a rate is taken.
\<close>

subsection \<open>Data\<close>

record CPUMetrics =
  cm_UsagePercent :: rat
  cm_Cores :: int
  cm_LoadAvg :: "rat list"

record MemoryMetrics =
  mm_TotalMB :: int
  mm_UsedMB :: int
  mm_FreeMB :: int
  mm_AvailableMB :: int
  mm_UsagePercent :: rat
  mm_SwapTotalMB :: int
  mm_SwapUsedMB :: int

record DiskMetrics =
  dm_TotalGB :: int
  dm_UsedGB :: int
  dm_FreeGB :: int
  dm_UsagePercent :: rat
  dm_ReadBytes :: int
  dm_WriteBytes :: int
  dm_ReadIOPS :: int
  dm_WriteIOPS :: int

text \<open>An interface with its rates.\<close>

record NetInterfaceMetrics =
  nm_Interface :: NetInterface
  nm_RxMbps :: rat
  nm_TxMbps :: rat

record NetworkMetrics =
  nw_Interfaces :: "NetInterfaceMetrics list"
  nw_TotalRxBytes :: int
  nw_TotalTxBytes :: int
  nw_TotalRxPackets :: int
  nw_TotalTxPackets :: int
  nw_TotalRxMbps :: rat
  nw_TotalTxMbps :: rat

record LoadMetrics =
  lm_Avg1 :: rat
  lm_Avg5 :: rat
  lm_Avg15 :: rat
  lm_RunningProcesses :: int
  lm_TotalProcesses :: int

record SystemMetrics =
  sm_CPU :: CPUMetrics
  sm_Memory :: MemoryMetrics
  sm_Disk :: DiskMetrics
  sm_Network :: NetworkMetrics
  sm_Load :: LoadMetrics
  sm_Uptime :: int

record VMDiskMetrics =
  vd_SizeGB :: int
  vd_UsedGB :: int
  vd_ReadBytes :: int
  vd_WriteBytes :: int

record VMNetworkMetrics =
  vn_RxBytes :: int
  vn_TxBytes :: int
  vn_RxMbps :: rat
  vn_TxMbps :: rat

record VMMetrics =
  vmm_VMID :: string
  vmm_Name :: string
  vmm_Status :: string
  vmm_VCpus :: int
  vmm_MemoryMB :: int
  vmm_CPUUsagePercent :: rat
  vmm_MemoryUsageMB :: int
  vmm_MemoryUsagePercent :: rat
  vmm_Disk :: VMDiskMetrics
  vmm_Network :: VMNetworkMetrics
  vmm_UptimeSeconds :: int
  vmm_PID :: int

record NetSample =
  ns_RxBytes :: int
  ns_TxBytes :: int
  ns_RxPackets :: int
  ns_TxPackets :: int
  ns_Time :: int

record Collector =
  prevCPU_idle :: int
  prevCPU_total :: int
  prevCPU_time :: "int option"
  prevNet :: "string \<Rightarrow> NetSample option"
  prevDisk :: "DiskIOInfo \<times> int option"

definition no_io :: DiskIOInfo where
  "no_io = \<lparr>io_ReadBytes = 0, io_WriteBytes = 0, io_ReadIOPS = 0, io_WriteIOPS = 0\<rparr>"

definition NewCollector :: Collector where
  "NewCollector = \<lparr>prevCPU_idle = 0, prevCPU_total = 0, prevCPU_time = None, prevNet = (\<lambda>_. None), prevDisk = (no_io, None)\<rparr>"

subsection \<open>Processors and network\<close>

text \<open>\<^verbatim>\<open>Duration.Seconds\<close>: whole seconds and the rest, each a \<^verbatim>\<open>float64\<close>.\<close>

definition Seconds :: "int \<Rightarrow> rat" where
  "Seconds d = f64 (of_int (quot d 1000000000) + f64 (of_int (d - 1000000000 * quot d 1000000000) / 1000000000))"

definition cpu_usage :: "int \<Rightarrow> int \<Rightarrow> rat" where
  "cpu_usage idleDiff totalDiff =
     (let usage = f64 (100 * f64 (1 - f64 (f64 (of_int idleDiff) / f64 (of_int totalDiff)))) in
      let usage1 = (if usage < 0 then 0 else usage) in
      if usage1 > 100 then 100 else usage1)"

definition readCPUUsage :: "int \<Rightarrow> Collector \<Rightarrow> (rat \<times> Collector) act" where
  "readCPUUsage now c = bindE ReadCPUStat (\<lambda>(idle, whole).
     let c' = c\<lparr>prevCPU_idle := idle, prevCPU_total := whole, prevCPU_time := Some now\<rparr> in
     case prevCPU_time c of
       None \<Rightarrow> ret (0, c')
     | Some t \<Rightarrow>
         if Seconds (now - t) < f64 (1 / 10) then ret (0, c)
         else
           (let idleDiff = wrap64 (idle - prevCPU_idle c); totalDiff = wrap64 (whole - prevCPU_total c) in
            if totalDiff = 0 then ret (0, c') else ret (cpu_usage idleDiff totalDiff, c')))"

definition Mbps :: "int \<Rightarrow> int \<Rightarrow> rat \<Rightarrow> rat" where
  "Mbps bytes_now bytes_before elapsed =
     f64 (f64 (f64 (f64 (of_int (wrap64 (bytes_now - bytes_before))) * 8) / elapsed) / 1000000)"

definition rates :: "int \<Rightarrow> NetSample option \<Rightarrow> int \<Rightarrow> int \<Rightarrow> rat \<times> rat" where
  "rates now prev rx tx = (case prev of
     None \<Rightarrow> (0, 0)
   | Some p \<Rightarrow>
       (let elapsed = Seconds (now - ns_Time p) in
        if elapsed > 0 then (Mbps rx (ns_RxBytes p) elapsed, Mbps tx (ns_TxBytes p) elapsed) else (0, 0)))"

definition net_step :: "int \<Rightarrow> NetworkMetrics \<times> (string \<Rightarrow> NetSample option) \<Rightarrow> NetInterface \<Rightarrow> NetworkMetrics \<times> (string \<Rightarrow> NetSample option)" where
  "net_step now acc i = (case acc of (m, samples) \<Rightarrow>
     (case rates now (samples (if_Name i)) (if_RxBytes i) (if_TxBytes i) of (rx, tx) \<Rightarrow>
      (m\<lparr>nw_Interfaces := nw_Interfaces m @ [\<lparr>nm_Interface = i, nm_RxMbps = rx, nm_TxMbps = tx\<rparr>],
         nw_TotalRxBytes := wrap64 (nw_TotalRxBytes m + if_RxBytes i), nw_TotalTxBytes := wrap64 (nw_TotalTxBytes m + if_TxBytes i),
         nw_TotalRxPackets := wrap64 (nw_TotalRxPackets m + if_RxPackets i),
         nw_TotalTxPackets := wrap64 (nw_TotalTxPackets m + if_TxPackets i)\<rparr>,
       samples(if_Name i \<mapsto> \<lparr>ns_RxBytes = if_RxBytes i, ns_TxBytes = if_TxBytes i, ns_RxPackets = if_RxPackets i,
         ns_TxPackets = if_TxPackets i, ns_Time = now\<rparr>))))"

definition no_network :: NetworkMetrics where
  "no_network = \<lparr>nw_Interfaces = [], nw_TotalRxBytes = 0, nw_TotalTxBytes = 0, nw_TotalRxPackets = 0, nw_TotalTxPackets = 0,
     nw_TotalRxMbps = 0, nw_TotalTxMbps = 0\<rparr>"

definition collector_readNetwork :: "int \<Rightarrow> Collector \<Rightarrow> (NetworkMetrics \<times> Collector) act" where
  "collector_readNetwork now c = bindE ReadNetwork (\<lambda>ifaces.
     case foldl (net_step now) (no_network, prevNet c) ifaces of (m, samples) \<Rightarrow>
       (case rates now (samples ''__total__'') (nw_TotalRxBytes m) (nw_TotalTxBytes m) of (rx, tx) \<Rightarrow>
        ret (m\<lparr>nw_TotalRxMbps := rx, nw_TotalTxMbps := tx\<rparr>,
             c\<lparr>prevNet := samples(''__total__'' \<mapsto> \<lparr>ns_RxBytes = nw_TotalRxBytes m, ns_TxBytes = nw_TotalTxBytes m, ns_RxPackets = 0,
               ns_TxPackets = 0, ns_Time = now\<rparr>)\<rparr>)))"

subsection \<open>The system\<close>

definition readMemory :: "MemoryMetrics act" where
  "readMemory = bindE ReadMemoryInfo (\<lambda>mi. ret \<lparr>mm_TotalMB = mi_TotalMB mi, mm_UsedMB = mi_UsedMB mi, mm_FreeMB = mi_FreeMB mi,
     mm_AvailableMB = mi_AvailableMB mi, mm_UsagePercent = mi_UsagePercent mi, mm_SwapTotalMB = mi_SwapTotalMB mi,
     mm_SwapUsedMB = mi_SwapUsedMB mi\<rparr>)"

definition readDisk :: "error + int \<times> int \<times> int \<Rightarrow> error + DiskMetrics" where
  "readDisk st = (case ReadDisk st of
     Inl e \<Rightarrow> Inl e
   | Inr di \<Rightarrow> Inr \<lparr>dm_TotalGB = di_TotalGB di, dm_UsedGB = di_UsedGB di, dm_FreeGB = di_FreeGB di, dm_UsagePercent = di_UsagePercent di,
       dm_ReadBytes = 0, dm_WriteBytes = 0, dm_ReadIOPS = 0, dm_WriteIOPS = 0\<rparr>)"

definition no_memory :: MemoryMetrics where
  "no_memory = \<lparr>mm_TotalMB = 0, mm_UsedMB = 0, mm_FreeMB = 0, mm_AvailableMB = 0, mm_UsagePercent = 0, mm_SwapTotalMB = 0, mm_SwapUsedMB = 0\<rparr>"

definition no_disk :: DiskMetrics where
  "no_disk = \<lparr>dm_TotalGB = 0, dm_UsedGB = 0, dm_FreeGB = 0, dm_UsagePercent = 0, dm_ReadBytes = 0, dm_WriteBytes = 0, dm_ReadIOPS = 0,
     dm_WriteIOPS = 0\<rparr>"

text \<open>The disk: its counters are remembered, though nothing is computed from the earlier ones.\<close>

definition collect_disk :: "int \<Rightarrow> error + int \<times> int \<times> int \<Rightarrow> Collector \<Rightarrow> (DiskMetrics \<times> Collector) act" where
  "collect_disk now statfs c = (case readDisk statfs of
     Inl _ \<Rightarrow> ret (no_disk, c)
   | Inr disk \<Rightarrow> tryM ReadDiskStats (\<lambda>r.
       case r of
         Inl _ \<Rightarrow> ret (disk, c)
       | Inr io \<Rightarrow> ret (disk\<lparr>dm_ReadBytes := io_ReadBytes io, dm_WriteBytes := io_WriteBytes io, dm_ReadIOPS := io_ReadIOPS io,
           dm_WriteIOPS := io_WriteIOPS io\<rparr>, c\<lparr>prevDisk := (io, Some now)\<rparr>)))"

definition or_else :: "'a \<Rightarrow> error + 'a \<Rightarrow> 'a" where
  "or_else d r = (case r of Inl _ \<Rightarrow> d | Inr x \<Rightarrow> x)"

text \<open>The three readings of the clock.\<close>

record clock =
  ck_now :: int
  ck_cpu :: int
  ck_net :: int

definition CollectSystem :: "clock \<Rightarrow> error + int \<times> int \<times> int \<Rightarrow> Collector \<Rightarrow> (SystemMetrics \<times> Collector) act" where
  "CollectSystem t statfs c =
     tryM ReadCPUCores (\<lambda>cores.
     tryM (readCPUUsage (ck_cpu t) c) (\<lambda>usage.
     let c1 = (case usage of Inr (_, c') \<Rightarrow> c' | Inl _ \<Rightarrow> c) in
     tryM ReadLoadAvg (\<lambda>avg.
     tryM ReadLoadProcs (\<lambda>procs.
     tryM readMemory (\<lambda>mem.
     bindE (collect_disk (ck_now t) statfs c1) (\<lambda>(disk, c2).
     tryM (collector_readNetwork (ck_net t) c2) (\<lambda>net.
     tryM ReadUptime (\<lambda>up.
     ret (\<lparr>sm_CPU = \<lparr>cm_UsagePercent = (case usage of Inr (u, _) \<Rightarrow> u | Inl _ \<Rightarrow> 0), cm_Cores = or_else 0 cores, cm_LoadAvg = or_else [] avg\<rparr>,
           sm_Memory = or_else no_memory mem,
           sm_Disk = disk,
           sm_Network = (case net of Inr (m, _) \<Rightarrow> m | Inl _ \<Rightarrow> no_network),
           sm_Load = \<lparr>lm_Avg1 = (case avg of Inr xs \<Rightarrow> xs ! 0 | Inl _ \<Rightarrow> 0), lm_Avg5 = (case avg of Inr xs \<Rightarrow> xs ! 1 | Inl _ \<Rightarrow> 0),
             lm_Avg15 = (case avg of Inr xs \<Rightarrow> xs ! 2 | Inl _ \<Rightarrow> 0), lm_RunningProcesses = fst (or_else (0, 0) procs),
             lm_TotalProcesses = snd (or_else (0, 0) procs)\<rparr>,
           sm_Uptime = or_else 0 up\<rparr>,
          (case net of Inr (_, c3) \<Rightarrow> c3 | Inl _ \<Rightarrow> c2))))))))))"

subsection \<open>A machine\<close>

definition readVMPid :: "string \<Rightarrow> int act" where
  "readVMPid vmID =
     tryM (ReadFile (''/var/lib/rymevisor/vms/'' @ vmID @ ''/qemu.pid'')) (\<lambda>r.
     bindE (case r of Inr d \<Rightarrow> ret d | Inl _ \<Rightarrow> ReadFile (''.dev-logs/'' @ vmID @ ''.pid'')) (\<lambda>d.
     ret (fst (Atoi (TrimSpace d)))))"

text \<open>The fields of \<^verbatim>\<open>/proc/<pid>/stat\<close>, and the uptime of the host, whose absence makes the index fail.\<close>

definition stat_fields :: "int \<Rightarrow> string list act" where
  "stat_fields pid = bindE (ReadFile (''/proc/'' @ Itoa pid @ ''/stat'')) (\<lambda>d.
     if length (Fields d) < 22 then throw (Msg ''invalid stat'') else ret (Fields d))"

definition host_uptime :: "rat outcome act" where
  "host_uptime = tryM (ReadFile ''/proc/uptime'') (\<lambda>r.
     case Fields (or_else '''' r) of
       [] \<Rightarrow> ret (Panics ''index out of range'')
     | f # _ \<Rightarrow> ret (Returns (ParseFloat f)))"

definition process_elapsed :: "rat \<Rightarrow> string list \<Rightarrow> rat" where
  "process_elapsed uptime fs = f64 (uptime - f64 (f64 (of_int (int_field (fs ! 21))) / 100))"

definition process_cpu :: "rat \<Rightarrow> string list \<Rightarrow> rat" where
  "process_cpu uptime fs =
     (let cpuTime = f64 (f64 (of_int (wrap64 (int_field (fs ! 13) + int_field (fs ! 14)))) / 100);
          elapsed = process_elapsed uptime fs in
      if elapsed \<le> 0 then 0
      else let usage = f64 (f64 (100 * cpuTime) / elapsed) in if usage > 100 then 100 else usage)"

definition map_outcome :: "('a \<Rightarrow> 'b) \<Rightarrow> 'a outcome \<Rightarrow> 'b outcome" where
  "map_outcome f r = (case r of Returns x \<Rightarrow> Returns (f x) | Panics msg \<Rightarrow> Panics msg)"

definition readProcessCPU :: "int \<Rightarrow> rat outcome act" where
  "readProcessCPU pid = bindE (stat_fields pid) (\<lambda>fs. bindE host_uptime (\<lambda>up. ret (map_outcome (\<lambda>u. process_cpu u fs) up)))"

definition readProcessUptime :: "int \<Rightarrow> int outcome act" where
  "readProcessUptime pid = bindE (stat_fields pid) (\<lambda>fs. bindE host_uptime (\<lambda>up. ret (map_outcome (\<lambda>u. trunc (process_elapsed u fs)) up)))"

definition readProcessMemory :: "int \<Rightarrow> int act" where
  "readProcessMemory pid = bindE (ReadFile (''/proc/'' @ Itoa pid @ ''/status'')) (\<lambda>d.
     case find (\<lambda>fs. 2 \<le> length fs) (map Fields (filter (\<lambda>l. HasPrefix l ''VmRSS:'') (lines_of d))) of
       None \<Rightarrow> throw (Msg ''VmRSS not found'')
     | Some fs \<Rightarrow> ret (quot (int_field (fs ! 1)) 1024))"

definition vmDiskPath :: "string \<Rightarrow> string act" where
  "vmDiskPath vmID = bindE (gets files) (\<lambda>fs.
     ret (case find (\<lambda>p. fs p \<noteq> None) [''/var/lib/rymevisor/vms/'' @ vmID @ ''/root.qcow2'', ''.dev-logs/'' @ vmID @ ''.qcow2''] of
       Some p \<Rightarrow> p | None \<Rightarrow> ''''))"

definition readVMDiskUsage :: "string \<Rightarrow> (int \<times> int) act" where
  "readVMDiskUsage path = bindE (gets (\<lambda>w. files w path)) (\<lambda>c.
     case c of
       None \<Rightarrow> throw (Msg (''stat '' @ path @ '': no such file or directory''))
     | Some bs \<Rightarrow> ret (int (length bs), int (length bs)))"

definition vm_net_line :: "string \<Rightarrow> (int \<times> int) option" where
  "vm_net_line raw = (let line = TrimSpace raw in
     if HasPrefix line ''tap'' \<or> HasPrefix line ''vnet'' \<or> HasPrefix line ''br-'' then
       (case SplitN2 line (chr 58) of
          [_, right] \<Rightarrow>
            (let fs = Fields (TrimSpace right) in
             if length fs < 10 then None else Some (int_field (fs ! 0), int_field (fs ! 8)))
        | _ \<Rightarrow> None)
     else None)"

definition readVMNetwork :: "string \<Rightarrow> VMNetworkMetrics act" where
  "readVMNetwork vmID = bindE (ReadFile ''/proc/net/dev'') (\<lambda>d.
     case foldl (\<lambda>(rx, tx) (r, t). (wrap64 (rx + r), wrap64 (tx + t))) (0, 0) (List.map_filter vm_net_line (lines_of d)) of
       (rx, tx) \<Rightarrow> ret \<lparr>vn_RxBytes = rx, vn_TxBytes = tx, vn_RxMbps = 0, vn_TxMbps = 0\<rparr>)"

definition blank_metrics :: "string \<Rightarrow> string \<Rightarrow> string \<Rightarrow> int \<Rightarrow> int \<Rightarrow> VMMetrics" where
  "blank_metrics vmID name stat vcpus memoryMB =
     \<lparr>vmm_VMID = vmID, vmm_Name = name, vmm_Status = stat, vmm_VCpus = vcpus, vmm_MemoryMB = memoryMB, vmm_CPUUsagePercent = 0,
      vmm_MemoryUsageMB = 0, vmm_MemoryUsagePercent = 0, vmm_Disk = \<lparr>vd_SizeGB = 0, vd_UsedGB = 0, vd_ReadBytes = 0, vd_WriteBytes = 0\<rparr>,
      vmm_Network = \<lparr>vn_RxBytes = 0, vn_TxBytes = 0, vn_RxMbps = 0, vn_TxMbps = 0\<rparr>, vmm_UptimeSeconds = 0, vmm_PID = 0\<rparr>"

text \<open>What the process of a machine uses; a panic in one of the readers ends everything.\<close>

definition with_outcome :: "'a outcome \<Rightarrow> ('a \<Rightarrow> 'b outcome act) \<Rightarrow> 'b outcome act" where
  "with_outcome r k = (case r of Returns x \<Rightarrow> k x | Panics msg \<Rightarrow> ret (Panics msg))"

definition process_metrics :: "int \<Rightarrow> VMMetrics \<Rightarrow> VMMetrics outcome act" where
  "process_metrics pid m0 =
     tryM (readProcessCPU pid) (\<lambda>cpu.
     with_outcome (or_else (Returns 0) cpu) (\<lambda>u.
     tryM (readProcessMemory pid) (\<lambda>mem.
     tryM (readProcessUptime pid) (\<lambda>up.
     with_outcome (or_else (Returns 0) up) (\<lambda>secs.
     ret (Returns (m0\<lparr>vmm_PID := pid, vmm_CPUUsagePercent := u, vmm_MemoryUsageMB := or_else 0 mem,
       vmm_MemoryUsagePercent := (case mem of
           Inr kb \<Rightarrow> if vmm_MemoryMB m0 > 0 then f64 (f64 (f64 (of_int kb) / f64 (of_int (vmm_MemoryMB m0))) * 100) else 0
         | Inl _ \<Rightarrow> 0),
       vmm_UptimeSeconds := secs\<rparr>)))))))"

definition CollectVM :: "string \<Rightarrow> string \<Rightarrow> string \<Rightarrow> int \<Rightarrow> int \<Rightarrow> VMMetrics outcome act" where
  "CollectVM vmID name stat vcpus memoryMB =
     (let m0 = blank_metrics vmID name stat vcpus memoryMB in
      tryM (readVMPid vmID) (\<lambda>pid.
      bindE (case pid of Inr p \<Rightarrow> if p > 0 then process_metrics p m0 else ret (Returns m0) | Inl _ \<Rightarrow> ret (Returns m0)) (\<lambda>res.
      with_outcome res (\<lambda>m1.
      bindE (vmDiskPath vmID) (\<lambda>diskPath.
      tryM (if diskPath \<noteq> '''' then readVMDiskUsage diskPath else throw (Msg '''')) (\<lambda>usage.
      tryM (readVMNetwork vmID) (\<lambda>net.
      ret (Returns (m1\<lparr>
        vmm_Disk := (case usage of
            Inr (sizeBytes, used) \<Rightarrow> (vmm_Disk m1)\<lparr>vd_SizeGB := quot sizeBytes 1073741824, vd_UsedGB := quot used 1073741824\<rparr>
          | Inl _ \<Rightarrow> vmm_Disk m1),
        vmm_Network := or_else (vmm_Network m1) net\<rparr>)))))))))"

subsection \<open>The stream\<close>

definition ExtractMetricsVMID :: "request \<Rightarrow> string \<Rightarrow> string" where
  "ExtractMetricsVMID r pathID =
     (if req_Query r ''vm_id'' \<noteq> '''' then req_Query r ''vm_id''
      else if req_Query r ''id'' \<noteq> '''' then req_Query r ''id''
      else pathID)"

definition ParseMetricsInterval :: "request \<Rightarrow> int" where
  "ParseMetricsInterval r =
     (let s = req_Query r ''interval'' in
      if s \<noteq> '''' then
        (case ParseDuration s of
           Some d \<Rightarrow> if d \<ge> 500000000 \<and> d \<le> 10000000000 then d else 1000000000
         | None \<Rightarrow> 1000000000)
      else 1000000000)"

datatype metrics_message = SystemMessage SystemMetrics | VMMessage VMMetrics | ErrorMessage string

text \<open>The resolver's answer, corrected; the control plane asks its database, the gateway answers without looking.\<close>

definition resolved :: "string \<Rightarrow> string \<times> string \<times> int \<times> int \<Rightarrow> string \<times> string \<times> int \<times> int" where
  "resolved vmID a = (case a of (name, stat, vcpus, mem) \<Rightarrow>
     (if name = '''' then vmID else name, if stat = '''' then ''unknown'' else stat, vcpus, mem))"

definition cp_resolver :: "env \<Rightarrow> string \<Rightarrow> (string \<times> string \<times> int \<times> int) act" where
  "cp_resolver E vmID = tryM (GetVM E vmID) (\<lambda>r. ret (case r of
     Inr (Some vm) \<Rightarrow> (vm_Name vm, VMStatus_string (vm_Status vm), vm_VCpus vm, vm_MemoryMB vm)
   | _ \<Rightarrow> (vmID, ''unknown'', 0, 0)))"

definition gateway_resolver :: "string \<Rightarrow> (string \<times> string \<times> int \<times> int) act" where
  "gateway_resolver vmID = ret (vmID, ''running'', 0, 0)"

definition metrics_tick ::
  "(string \<Rightarrow> (string \<times> string \<times> int \<times> int) act) \<Rightarrow> string \<Rightarrow> clock \<Rightarrow> error + int \<times> int \<times> int \<Rightarrow> Collector \<Rightarrow> (metrics_message outcome \<times> Collector) act" where
  "metrics_tick resolver vmID t statfs c =
     (if vmID \<noteq> '''' then
        bindE (resolver vmID) (\<lambda>a.
        case resolved vmID a of (name, stat, vcpus, mem) \<Rightarrow>
          bindE (CollectVM vmID name stat vcpus mem) (\<lambda>m. ret (map_outcome VMMessage m, c)))
      else bindE (CollectSystem t statfs c) (\<lambda>(m, c'). ret (Returns (SystemMessage m), c')))"

text \<open>The ticks of a stream, each with what it finds; the stream ends with a failed write or a panic.\<close>

record tick_input =
  ti_world :: world
  ti_clock :: clock
  ti_statfs :: "error + int \<times> int \<times> int"
  ti_write :: "error option"

fun metrics_ticks ::
  "(string \<Rightarrow> (string \<times> string \<times> int \<times> int) act) \<Rightarrow> string \<Rightarrow> Collector \<Rightarrow> tick_input list \<Rightarrow> metrics_message list" where
  "metrics_ticks resolver vmID c [] = []"
| "metrics_ticks resolver vmID c (i # is) =
     (case fst (metrics_tick resolver vmID (ti_clock i) (ti_statfs i) c (ti_world i)) of
        Inr (Returns m, c') \<Rightarrow> m # (if ti_write i = None then metrics_ticks resolver vmID c' is else [])
      | Inr (Panics _, _) \<Rightarrow> []
      | Inl e \<Rightarrow> ErrorMessage (Error e) # metrics_ticks resolver vmID c is)"

datatype metrics_stream = MetricsRefused reply | MetricsNotUpgraded | MetricsStreamed "string option" int "metrics_message list"

definition UpgradeMetrics :: "string \<Rightarrow> bool \<Rightarrow> request \<Rightarrow> (string option \<Rightarrow> metrics_stream) \<Rightarrow> metrics_stream" where
  "UpgradeMetrics validKey upgraded r k =
     (if \<not> Auth validKey r then MetricsRefused unauthorized
      else if \<not> upgraded then MetricsNotUpgraded
      else k (authResponseHeader validKey r))"

definition HandleMetrics ::
  "string \<Rightarrow> bool \<Rightarrow> (string \<Rightarrow> (string \<times> string \<times> int \<times> int) act) \<Rightarrow> tick_input list \<Rightarrow> request \<Rightarrow> string \<Rightarrow> metrics_stream" where
  "HandleMetrics validKey upgraded resolver is r pathID =
     UpgradeMetrics validKey upgraded r (\<lambda>hdr.
       MetricsStreamed hdr (ParseMetricsInterval r) (metrics_ticks resolver (ExtractMetricsVMID r pathID) NewCollector is))"

subsection \<open>Bounds\<close>

lemma cpu_usage_bounds: "0 \<le> cpu_usage i t \<and> cpu_usage i t \<le> 100"
  by (simp add: cpu_usage_def Let_def)

lemma process_cpu_le: "process_cpu u fs \<le> 100"
  by (simp add: process_cpu_def Let_def)

text \<open>What an operation returns when it returns: one rule per way of composing operations.\<close>

definition gives :: "('a \<Rightarrow> bool) \<Rightarrow> ('s, 'a) op \<Rightarrow> bool" where
  "gives P m \<longleftrightarrow> (\<forall>s a s'. m s = (Inr a, s') \<longrightarrow> P a)"

lemma gives_ret: "P a \<Longrightarrow> gives P (ret a)"
  by (simp add: gives_def ret_def)

lemma gives_throw: "gives P (throw e)"
  by (simp add: gives_def throw_def)

lemma gives_bindE: "gives Q m \<Longrightarrow> (\<And>x. Q x \<Longrightarrow> gives P (f x)) \<Longrightarrow> gives P (bindE m f)"
  unfolding gives_def by (simp add: op_Inr_iff) metis

lemma gives_tryM: "gives Q m \<Longrightarrow> (\<And>x. Q x \<Longrightarrow> gives P (f (Inr x))) \<Longrightarrow> (\<And>e. gives P (f (Inl e))) \<Longrightarrow> gives P (tryM m f)"
  unfolding gives_def by (auto simp: tryM_iff) (metis sum.exhaust_sel)

lemma gives_any: "gives (\<lambda>_. True) m"
  by (simp add: gives_def)

lemmas gives_bindE_any = gives_bindE [OF gives_any]
lemmas gives_tryM_any = gives_tryM [OF gives_any]

lemma gives_tryM_all: "(\<And>r. gives P (f r)) \<Longrightarrow> gives P (tryM m f)"
  by (rule gives_tryM_any)

lemma readCPUUsage_bounds: "gives (\<lambda>r. fst r \<in> {0..100}) (readCPUUsage now c)"
  unfolding readCPUUsage_def Let_def
  by (intro gives_bindE_any) (auto intro!: gives_ret simp: cpu_usage_bounds split: option.split)

lemma CollectSystem_bounds: "gives (\<lambda>r. cm_UsagePercent (sm_CPU (fst r)) \<in> {0..100}) (CollectSystem t statfs c)"
proof -
  have rest: "gives (\<lambda>r. cm_UsagePercent (sm_CPU (fst r)) \<in> {0..100})
     (tryM ReadLoadAvg (\<lambda>avg. tryM ReadLoadProcs (\<lambda>procs. tryM readMemory (\<lambda>mem. bindE (collect_disk (ck_now t) statfs c1) (\<lambda>(disk, c2).
      tryM (collector_readNetwork (ck_net t) c2) (\<lambda>net. tryM ReadUptime (\<lambda>up. ret (f avg procs mem disk c2 net up))))))))"
    if f: "\<And>avg procs mem disk c2 net up. cm_UsagePercent (sm_CPU (fst (f avg procs mem disk c2 net up))) \<in> {0..100}" for c1 f
  proof -
    have last: "gives (\<lambda>r. cm_UsagePercent (sm_CPU (fst r)) \<in> {0..100})
      (tryM (collector_readNetwork (ck_net t) c2) (\<lambda>net. tryM ReadUptime (\<lambda>up. ret (f avg procs mem disk c2 net up))))"
      for avg procs mem disk c2
      by (intro gives_tryM_all gives_ret f)
    show ?thesis
      by (intro gives_tryM_all gives_bindE_any) (simp add: last case_prod_beta del: atLeastAtMost_iff)
  qed
  show ?thesis
    unfolding CollectSystem_def Let_def
    by (rule gives_tryM_all, rule gives_tryM [OF readCPUUsage_bounds]; rule rest) (auto split: prod.splits)
qed

definition usage_ok :: "metrics_message \<Rightarrow> bool" where
  "usage_ok m = (case m of
     SystemMessage s \<Rightarrow> 0 \<le> cm_UsagePercent (sm_CPU s) \<and> cm_UsagePercent (sm_CPU s) \<le> 100
   | VMMessage v \<Rightarrow> vmm_CPUUsagePercent v \<le> 100
   | ErrorMessage _ \<Rightarrow> True)"

definition returned :: "('a \<Rightarrow> bool) \<Rightarrow> 'a outcome \<Rightarrow> bool" where
  "returned P r = (case r of Returns x \<Rightarrow> P x | Panics _ \<Rightarrow> True)"

lemma returned_simps [simp]: "returned P (Returns x) = P x" "returned P (Panics msg)"
  by (simp_all add: returned_def)

lemma gives_with_outcome: "returned Q r \<Longrightarrow> (\<And>x. Q x \<Longrightarrow> gives (returned P) (k x)) \<Longrightarrow> gives (returned P) (with_outcome r k)"
  by (cases r) (simp_all add: with_outcome_def gives_ret)

lemma readProcessCPU_le: "gives (returned (\<lambda>u. u \<le> 100)) (readProcessCPU pid)"
  unfolding readProcessCPU_def
  by (intro gives_bindE_any gives_ret) (simp add: map_outcome_def process_cpu_le split: outcome.split)

lemma returned_any: "returned (\<lambda>_. True) r"
  by (simp add: returned_def split: outcome.split)

lemma process_metrics_le: "gives (returned (\<lambda>m. vmm_CPUUsagePercent m \<le> 100)) (process_metrics pid m0)"
proof -
  have rest: "gives (returned (\<lambda>m. vmm_CPUUsagePercent m \<le> 100)) (tryM (readProcessMemory pid) (\<lambda>mem. tryM (readProcessUptime pid) (\<lambda>up.
      with_outcome (or_else (Returns 0) up) (\<lambda>secs. ret (Returns (f mem secs))))))"
    if "\<And>mem secs. vmm_CPUUsagePercent (f mem secs) \<le> 100" for f
    using that by (intro gives_tryM_all gives_with_outcome [OF returned_any] gives_ret) simp
  show ?thesis
    unfolding process_metrics_def
    by (rule gives_tryM [OF readProcessCPU_le]; rule gives_with_outcome [where Q = "\<lambda>u. u \<le> 100"];
        (rule rest)?) (simp_all add: or_else_def)
qed

lemma CollectVM_le: "gives (returned (\<lambda>m. vmm_CPUUsagePercent m \<le> 100)) (CollectVM vmID name s n mb)"
proof -
  let ?m0 = "blank_metrics vmID name s n mb"
  have m0: "gives (returned (\<lambda>m. vmm_CPUUsagePercent m \<le> 100)) (ret (Returns ?m0))"
    by (rule gives_ret) (simp add: blank_metrics_def)
  have first: "gives (returned (\<lambda>m. vmm_CPUUsagePercent m \<le> 100))
      (case pid of Inr p \<Rightarrow> if p > 0 then process_metrics p ?m0 else ret (Returns ?m0) | Inl _ \<Rightarrow> ret (Returns ?m0))" for pid
    using m0 process_metrics_le by (auto split: sum.split)
  show ?thesis
    unfolding CollectVM_def Let_def
    by (rule gives_tryM_all, rule gives_bindE [OF first], rule gives_with_outcome, assumption;
        intro gives_bindE_any gives_tryM_all gives_ret) simp_all
qed

lemma metrics_tick_ok: "gives (\<lambda>(r, _). returned usage_ok r) (metrics_tick resolver vmID t statfs c)"
proof -
  have "gives (\<lambda>(r, _). returned usage_ok r) (bindE (CollectVM vmID name s n mb) (\<lambda>m. ret (map_outcome VMMessage m, c)))" for name s n mb
    by (rule gives_bindE [OF CollectVM_le], rule gives_ret) (auto simp: map_outcome_def usage_ok_def split: outcome.splits)
  moreover have "gives (\<lambda>(r, _). returned usage_ok r) (bindE (CollectSystem t statfs c) (\<lambda>(m, c'). ret (Returns (SystemMessage m), c')))"
    by (rule gives_bindE [OF CollectSystem_bounds]) (auto intro!: gives_ret simp: usage_ok_def)
  ultimately show ?thesis
    unfolding metrics_tick_def by (auto intro!: gives_bindE_any split: prod.split)
qed

lemma metrics_ticks_ok: "m \<in> set (metrics_ticks resolver vmID c is) \<Longrightarrow> usage_ok m"
proof (induction "is" arbitrary: c)
  case (Cons i "is")
  obtain r w' where "metrics_tick resolver vmID (ti_clock i) (ti_statfs i) c (ti_world i) = (r, w')" by fastforce
  moreover have ok: "metrics_tick resolver vmID (ti_clock i) (ti_statfs i) c (ti_world i) = (Inr (Returns m', c'), w') \<Longrightarrow> usage_ok m'" for m' c'
    using metrics_tick_ok [of resolver vmID "ti_clock i" "ti_statfs i" c] by (fastforce simp: gives_def)
  ultimately show ?case
    using Cons ok by (auto simp: usage_ok_def split: sum.splits outcome.splits if_splits)
qed simp

lemma interval_bounds: "500000000 \<le> ParseMetricsInterval r \<and> ParseMetricsInterval r \<le> 10000000000"
  by (auto simp: ParseMetricsInterval_def Let_def split: option.split)

text \<open>
  Whatever the host reports and however its clock runs, a metrics stream ticks every half to ten seconds, and every usage of the processors it
  sends is between 0 and 100 percent (for a machine, at most 100).
\<close>

theorem metrics_stream_bounds:
  assumes "HandleMetrics validKey upgraded resolver is r pathID = MetricsStreamed hdr d ms"
  shows "500000000 \<le> d \<and> d \<le> 10000000000 \<and> list_all usage_ok ms"
  using assms interval_bounds metrics_ticks_ok by (auto simp: HandleMetrics_def UpgradeMetrics_def list_all_iff split: if_splits)

definition sample_tick :: tick_input where
  "sample_tick = \<lparr>ti_world = empty_world, ti_clock = \<lparr>ck_now = 0, ck_cpu = 0, ck_net = 0\<rparr>, ti_statfs = Inl (Msg ''''), ti_write = None\<rparr>"

lemma no_files: "ReadFile p empty_world = (Inl (open_error p), empty_world)"
  by (simp add: ReadFile_def bindE_apply gets_def throw_def empty_world_def)

lemma sample_tick_sends:
  "metrics_ticks gateway_resolver ''v'' NewCollector [sample_tick] = [VMMessage (blank_metrics ''v'' ''v'' ''running'' 0 0)]"
proof -
  have "CollectVM ''v'' ''v'' ''running'' 0 0 empty_world = (Inr (Returns (blank_metrics ''v'' ''v'' ''running'' 0 0)), empty_world)"
    by (simp add: CollectVM_def readVMPid_def vmDiskPath_def readVMNetwork_def no_files tryM_apply bindE_apply with_outcome_def ret_def
        throw_def gets_def Let_def or_else_def blank_metrics_def) (simp add: empty_world_def)
  then show ?thesis
    by (simp add: metrics_tick_def gateway_resolver_def resolved_def sample_tick_def bindE_apply ret_def map_outcome_def)
qed

theorem metrics_stream_bounds_witness:
  "HandleMetrics ''k'' True gateway_resolver [sample_tick] keyed_request '''' =
     MetricsStreamed (Some ''k'') 1000000000 [VMMessage (blank_metrics ''v'' ''v'' ''running'' 0 0)] \<and>
   usage_ok (VMMessage (blank_metrics ''v'' ''v'' ''running'' 0 0))"
proof -
  have d: "ParseMetricsInterval keyed_request = 1000000000"
    by code_simp
  have hdr: "authResponseHeader ''k'' keyed_request = Some ''k''"
    by (simp add: authResponseHeader_def keyed_request_def)
  have v: "ExtractMetricsVMID keyed_request '''' = ''v''"
    by (simp add: ExtractMetricsVMID_def keyed_request_def)
  have "Auth ''k'' keyed_request"
    by (simp add: Auth_def ws_provided_def keyed_request_def ConstantTimeCompare_def)
  then have run: "HandleMetrics ''k'' True gateway_resolver [sample_tick] keyed_request '''' =
      MetricsStreamed (Some ''k'') 1000000000 [VMMessage (blank_metrics ''v'' ''v'' ''running'' 0 0)]"
    using d v sample_tick_sends by (simp add: HandleMetrics_def UpgradeMetrics_def hdr del: metrics_ticks.simps)
  then show ?thesis using metrics_stream_bounds [OF run] by simp
qed

subsection \<open>Rates\<close>

definition sample_of :: "int \<Rightarrow> NetInterface \<Rightarrow> NetSample" where
  "sample_of now i = \<lparr>ns_RxBytes = if_RxBytes i, ns_TxBytes = if_TxBytes i, ns_RxPackets = if_RxPackets i, ns_TxPackets = if_TxPackets i,
     ns_Time = now\<rparr>"

definition rated :: "int \<Rightarrow> (string \<Rightarrow> NetSample option) \<Rightarrow> NetInterface \<Rightarrow> NetInterfaceMetrics" where
  "rated now samples i = (case rates now (samples (if_Name i)) (if_RxBytes i) (if_TxBytes i) of
     (rx, tx) \<Rightarrow> \<lparr>nm_Interface = i, nm_RxMbps = rx, nm_TxMbps = tx\<rparr>)"

lemma net_steps:
  assumes "distinct (map if_Name ifs)" "foldl (net_step now) (m, samples) ifs = (m', samples')"
  shows "nw_Interfaces m' = nw_Interfaces m @ map (rated now samples) ifs \<and>
    (\<forall>i\<in>set ifs. samples' (if_Name i) = Some (sample_of now i)) \<and> (\<forall>n. n \<notin> if_Name ` set ifs \<longrightarrow> samples' n = samples n)"
  using assms
proof (induction ifs arbitrary: m samples)
  case (Cons i ifs)
  obtain m1 where step: "net_step now (m, samples) i = (m1, samples(if_Name i \<mapsto> sample_of now i))"
    and m1: "nw_Interfaces m1 = nw_Interfaces m @ [rated now samples i]"
    by (cases "rates now (samples (if_Name i)) (if_RxBytes i) (if_TxBytes i)") (simp add: net_step_def sample_of_def rated_def)
  have "nw_Interfaces m' = nw_Interfaces m1 @ map (rated now (samples(if_Name i \<mapsto> sample_of now i))) ifs \<and>
    (\<forall>j\<in>set ifs. samples' (if_Name j) = Some (sample_of now j)) \<and>
    (\<forall>n. n \<notin> if_Name ` set ifs \<longrightarrow> samples' n = (samples(if_Name i \<mapsto> sample_of now i)) n)"
  proof (rule Cons.IH)
    show "distinct (map if_Name ifs)" using Cons.prems(1) by simp
    show "foldl (net_step now) (m1, samples(if_Name i \<mapsto> sample_of now i)) ifs = (m', samples')"
      using Cons.prems(2) unfolding foldl_Cons step .
  qed
  moreover have "map (rated now (samples(if_Name i \<mapsto> sample_of now i))) ifs = map (rated now samples) ifs"
  proof (rule map_cong)
    fix j assume "j \<in> set ifs"
    then have "if_Name j \<noteq> if_Name i" using Cons.prems(1) by (metis distinct.simps(2) image_eqI list.set_map list.simps(9))
    then show "rated now (samples(if_Name i \<mapsto> sample_of now i)) j = rated now samples j" by (simp add: rated_def)
  qed simp
  ultimately show ?case
    using Cons.prems(1) m1 by auto
qed simp

text \<open>
  C40. The rate of an interface in a second reading of the network is the difference of its counters since the reading before, over the time between
  the two readings, as long as the host lists every interface once and calls none of them \<^verbatim>\<open>__total__\<close>.
\<close>

theorem network_rates:
  assumes "ReadNetwork w1 = (Inr ifs1, w1)" "ReadNetwork w2 = (Inr ifs2, w2)"
    and "distinct (map if_Name ifs1)" "distinct (map if_Name ifs2)"
    and "i \<in> set ifs1" "j \<in> set ifs2" "if_Name i = if_Name j" "if_Name i \<noteq> ''__total__''" "Seconds (t2 - t1) > 0"
  shows "\<exists>m1 c1 m2 c2. collector_readNetwork t1 c w1 = (Inr (m1, c1), w1) \<and> collector_readNetwork t2 c1 w2 = (Inr (m2, c2), w2) \<and>
     \<lparr>nm_Interface = j, nm_RxMbps = Mbps (if_RxBytes j) (if_RxBytes i) (Seconds (t2 - t1)),
      nm_TxMbps = Mbps (if_TxBytes j) (if_TxBytes i) (Seconds (t2 - t1))\<rparr> \<in> set (nw_Interfaces m2)"
proof -
  have run: "\<exists>m' c'. collector_readNetwork t cc w = (Inr (m', c'), w) \<and> nw_Interfaces m' = map (rated t (prevNet cc)) ifs \<and>
      (\<forall>k\<in>set ifs. if_Name k \<noteq> ''__total__'' \<longrightarrow> prevNet c' (if_Name k) = Some (sample_of t k))"
    if read: "ReadNetwork w = (Inr ifs, w)" and names: "distinct (map if_Name ifs)" for t cc w ifs
  proof -
    obtain m' samples' where fold: "foldl (net_step t) (no_network, prevNet cc) ifs = (m', samples')" by fastforce
    show ?thesis
      using net_steps [OF names fold] read fold
      by (auto simp: collector_readNetwork_def bindE_apply ret_def no_network_def split: prod.split)
  qed
  obtain m1 c1 where 1: "collector_readNetwork t1 c w1 = (Inr (m1, c1), w1)" "prevNet c1 (if_Name i) = Some (sample_of t1 i)"
    using run [OF assms(1,3), of t1 c] assms(5,8) by blast
  obtain m2 c2 where 2: "collector_readNetwork t2 c1 w2 = (Inr (m2, c2), w2)" "nw_Interfaces m2 = map (rated t2 (prevNet c1)) ifs2"
    using run [OF assms(2,4), of t2 c1] by blast
  have "rated t2 (prevNet c1) j = \<lparr>nm_Interface = j, nm_RxMbps = Mbps (if_RxBytes j) (if_RxBytes i) (Seconds (t2 - t1)),
      nm_TxMbps = Mbps (if_TxBytes j) (if_TxBytes i) (Seconds (t2 - t1))\<rparr>"
    using 1(2) assms(7,9) by (simp add: rated_def rates_def sample_of_def Let_def)
  then show ?thesis
    using 1(1) 2 assms(6) by (metis image_eqI list.set_map)
qed

definition net_world :: "string \<Rightarrow> world" where
  "net_world s = empty_world\<lparr>files := [''/proc/net/dev'' \<mapsto> bytes s]\<rparr>"

definition eth :: "int \<Rightarrow> int \<Rightarrow> NetInterface" where
  "eth rx tx = \<lparr>if_Name = ''eth0'', if_RxBytes = rx, if_TxBytes = tx, if_RxPackets = 1, if_TxPackets = 1, if_RxErrors = 0, if_TxErrors = 0\<rparr>"

lemma eth_read:
  "ReadNetwork (net_world ''eth0: 0 1 0 0 0 0 0 0 0 1 0 0 0 0 0 0'') = (Inr [eth 0 0], net_world ''eth0: 0 1 0 0 0 0 0 0 0 1 0 0 0 0 0 0'')"
  "ReadNetwork (net_world ''eth0: 250 1 0 0 0 0 0 0 0 1 0 0 0 0 0 0'') =
     (Inr [eth 250 0], net_world ''eth0: 250 1 0 0 0 0 0 0 0 1 0 0 0 0 0 0'')"
proof -
  have decoded: "map char_of_byte (bytes s) = s" for s
    by (induction s) (simp_all add: bytes_def char_of_byte_def byte_of_char_def unat_of_nat code_less chr_def code_def)
  have read: "ReadNetwork (net_world s) = (Inr (List.map_filter net_line (lines_of s)), net_world s)" for s
    by (simp add: ReadNetwork_def ReadFile_def bindE_apply gets_def ret_def net_world_def decoded)
  have "List.map_filter net_line (lines_of ''eth0: 0 1 0 0 0 0 0 0 0 1 0 0 0 0 0 0'') = [eth 0 0]"
    "List.map_filter net_line (lines_of ''eth0: 250 1 0 0 0 0 0 0 0 1 0 0 0 0 0 0'') = [eth 250 0]"
    by code_simp+
  then show "ReadNetwork (net_world ''eth0: 0 1 0 0 0 0 0 0 0 1 0 0 0 0 0 0'') = (Inr [eth 0 0], net_world ''eth0: 0 1 0 0 0 0 0 0 0 1 0 0 0 0 0 0'')"
    "ReadNetwork (net_world ''eth0: 250 1 0 0 0 0 0 0 0 1 0 0 0 0 0 0'') =
       (Inr [eth 250 0], net_world ''eth0: 250 1 0 0 0 0 0 0 0 1 0 0 0 0 0 0'')"
    by (simp_all only: read)
qed

theorem network_rates_witness:
  "\<exists>m1 c1 m2 c2. collector_readNetwork 0 NewCollector (net_world ''eth0: 0 1 0 0 0 0 0 0 0 1 0 0 0 0 0 0'') =
       (Inr (m1, c1), net_world ''eth0: 0 1 0 0 0 0 0 0 0 1 0 0 0 0 0 0'') \<and>
     collector_readNetwork 1000000 c1 (net_world ''eth0: 250 1 0 0 0 0 0 0 0 1 0 0 0 0 0 0'') =
       (Inr (m2, c2), net_world ''eth0: 250 1 0 0 0 0 0 0 0 1 0 0 0 0 0 0'') \<and>
     \<lparr>nm_Interface = eth 250 0, nm_RxMbps = 2, nm_TxMbps = 0\<rparr> \<in> set (nw_Interfaces m2)"
proof -
  have rates: "Seconds 1000000 > 0" "Mbps 250 0 (Seconds 1000000) = 2" "Mbps 0 0 (Seconds 1000000) = 0"
    by code_simp+
  show ?thesis
    using network_rates [OF eth_read, of "eth 0 0" "eth 250 0" 1000000 0 NewCollector] by (simp add: eth_def rates)
qed

end
