(* ===== verification/ImageWait.thy ===== *)
theory ImageWait
  imports ImagePuller
begin

section \<open>Waiting for an image\<close>

text \<open>
  \<^verbatim>\<open>Puller.WaitReady\<close>: a loop that polls the image until a deadline. The loop is a \<open>partial_function\<close>, so that not returning is the value \<open>None\<close>; that it returns, and after how many
  rounds, is proved.
\<close>

text \<open>
  Times in nanoseconds. \<open>wt_now\<close>: the readings of the clock, the first for the deadline, the next ones at the beginning of the rounds. \<open>wt_wait\<close>: what ends the wait of a round, an error of
  the context or two seconds in which others change the state.
\<close>

definition poll_interval :: int where
  "poll_interval = 2000000000"

record waiting =
  wt_now :: "nat \<Rightarrow> int"
  wt_wait :: "nat \<Rightarrow> error + (world \<Rightarrow> world)"

text \<open>The body of the loop: a result, or \<open>None\<close> to go on.\<close>

definition wait_round :: "env \<Rightarrow> waiting \<Rightarrow> string \<Rightarrow> string \<Rightarrow> int \<Rightarrow> nat \<Rightarrow> world \<Rightarrow> (error + unit) option \<times> world" where
  "wait_round E W imagesDir imageID deadline k w =
     (if wt_now W (Suc k) < deadline then
        (case ImageRepository_GetByID E imageID w of
           (Inl e, w1) \<Rightarrow> (Some (Inl e), w1)
         | (Inr img, w1) \<Rightarrow>
             if (case img of Some i \<Rightarrow> img_Status i = ImageStatusReady \<and> IsReady imagesDir imageID w1 | None \<Rightarrow> False) then (Some (Inr ()), w1)
             else if (case img of Some i \<Rightarrow> img_Status i = ImageStatusError | None \<Rightarrow> False) then
               (Some (Inl (Msg (''image '' @ imageID @ '' failed to download''))), w1)
             else (case wt_wait W k of Inl e \<Rightarrow> (Some (Inl e), w1) | Inr others \<Rightarrow> (None, others w1)))
      else (Some (Inl (Msg (''timeout waiting for image '' @ imageID @ '' to be ready''))), w))"

partial_function (option) wait_loop :: "env \<Rightarrow> waiting \<Rightarrow> string \<Rightarrow> string \<Rightarrow> int \<Rightarrow> nat \<Rightarrow> world \<Rightarrow> ((error + unit) \<times> world) option" where
  [code]: "wait_loop E W imagesDir imageID deadline k w =
     (case wait_round E W imagesDir imageID deadline k w of
        (Some r, w1) \<Rightarrow> Some (r, w1)
      | (None, w1) \<Rightarrow> wait_loop E W imagesDir imageID deadline (Suc k) w1)"

definition WaitReady :: "env \<Rightarrow> waiting \<Rightarrow> string \<Rightarrow> string \<Rightarrow> int \<Rightarrow> world \<Rightarrow> ((error + unit) \<times> world) option" where
  "WaitReady E W imagesDir imageID timeout w = wait_loop E W imagesDir imageID (wt_now W 0 + timeout) 0 w"

subsection \<open>The rounds of a wait\<close>

text \<open>The state at the beginning of a round, when none of the rounds before it has ended the loop.\<close>

fun round_state :: "env \<Rightarrow> waiting \<Rightarrow> string \<Rightarrow> string \<Rightarrow> int \<Rightarrow> nat \<Rightarrow> world \<Rightarrow> world" where
  "round_state E W d i deadline 0 w = w"
| "round_state E W d i deadline (Suc k) w = snd (wait_round E W d i deadline k (round_state E W d i deadline k w))"

definition round_result :: "env \<Rightarrow> waiting \<Rightarrow> string \<Rightarrow> string \<Rightarrow> int \<Rightarrow> world \<Rightarrow> nat \<Rightarrow> (error + unit) option" where
  "round_result E W d i deadline w k = fst (wait_round E W d i deadline k (round_state E W d i deadline k w))"

lemma wait_loop_state:
  "\<forall>j<k. round_result E W d i deadline w j = None \<Longrightarrow>
   wait_loop E W d i deadline 0 w = wait_loop E W d i deadline k (round_state E W d i deadline k w)"
proof (induction k)
  case (Suc k)
  then have "wait_loop E W d i deadline 0 w = wait_loop E W d i deadline k (round_state E W d i deadline k w)"
    by simp
  also have "\<dots> = wait_loop E W d i deadline (Suc k) (round_state E W d i deadline (Suc k) w)"
    using Suc.prems by (subst wait_loop.simps) (auto simp: round_result_def split: prod.split)
  finally show ?case .
qed simp

text \<open>A round that goes on began before the deadline.\<close>

lemma round_goes_on: "round_result E W d i deadline w k = None \<Longrightarrow> wt_now W (Suc k) < deadline"
  by (auto simp: round_result_def wait_round_def split: if_splits)

lemma clock_advances:
  assumes "\<And>k. wt_now W (Suc k) + poll_interval \<le> wt_now W (Suc (Suc k))"
  shows "wt_now W 1 + int k * poll_interval \<le> wt_now W (Suc k)"
proof (induction k)
  case (Suc k)
  have "int (Suc k) * poll_interval = int k * poll_interval + poll_interval" by (simp add: algebra_simps)
  then show ?case using Suc assms [of k] by linarith
qed simp

text \<open>A success is that of a round that has read the image as ready and found its file.\<close>

lemma round_success:
  assumes "wait_round E W d i deadline k v = (Some r, v')"
  shows "r = Inr () \<longleftrightarrow> wt_now W (Suc k) < deadline \<and>
    (\<exists>m. ImageRepository_GetByID E i v = (Inr (Some m), v') \<and> img_Status m = ImageStatusReady \<and> IsReady d i v')"
  using assms by (auto simp: wait_round_def split: if_splits prod.splits sum.splits option.splits)

text \<open>Not all rounds go on.\<close>

lemma some_round_ends:
  assumes "\<And>k. wt_now W (Suc k) + poll_interval \<le> wt_now W (Suc (Suc k))"
  shows "\<exists>k r. round_result E W d i deadline w k = Some r \<and> (\<forall>j<k. round_result E W d i deadline w j = None)"
proof -
  let ?k = "nat (deadline - wt_now W 1)"
  have "int ?k \<le> int ?k * poll_interval" by (simp add: poll_interval_def)
  then have "\<not> wt_now W (Suc ?k) < deadline"
    using clock_advances [OF assms, of ?k] by linarith
  then have "round_result E W d i deadline w ?k \<noteq> None"
    using round_goes_on by blast
  then have "\<exists>k. round_result E W d i deadline w k \<noteq> None \<and> (\<forall>j<k. \<not> round_result E W d i deadline w j \<noteq> None)"
    by (rule exists_least_iff [THEN iffD1, OF exI])
  then show ?thesis by auto
qed

text \<open>
  C30. When two seconds pass in every wait, \<^verbatim>\<open>WaitReady\<close> returns, with the result of the first round that has one, which is one of the first
  \<open>timeout / 2s + 2\<close> rounds; it is a success exactly if this round reads the image as ready and finds its file.
\<close>

theorem WaitReady_terminates:
  assumes "wt_now W 0 \<le> wt_now W 1" "\<And>k. wt_now W (Suc k) + poll_interval \<le> wt_now W (Suc (Suc k))"
    and "deadline = wt_now W 0 + timeout"
  shows "\<exists>k r w'. WaitReady E W imagesDir imageID timeout w = Some (r, w') \<and>
    round_result E W imagesDir imageID deadline w k = Some r \<and> (\<forall>j<k. round_result E W imagesDir imageID deadline w j = None) \<and>
    (k = 0 \<or> (int k - 1) * poll_interval < timeout) \<and>
    (r = Inr () \<longleftrightarrow> wt_now W (Suc k) < deadline \<and>
       (\<exists>m. ImageRepository_GetByID E imageID (round_state E W imagesDir imageID deadline k w) = (Inr (Some m), w') \<and>
         img_Status m = ImageStatusReady \<and> IsReady imagesDir imageID w'))"
proof -
  let ?result = "round_result E W imagesDir imageID deadline w"
  obtain k r where k: "?result k = Some r" "\<forall>j<k. ?result j = None"
    using some_round_ends [OF assms(2), of E imagesDir imageID deadline w] by blast
  obtain w' where w': "wait_round E W imagesDir imageID deadline k (round_state E W imagesDir imageID deadline k w) = (Some r, w')"
    using k(1) by (metis round_result_def prod.collapse)
  have "WaitReady E W imagesDir imageID timeout w = Some (r, w')"
    unfolding WaitReady_def assms(3) [symmetric] wait_loop_state [OF k(2)] by (subst wait_loop.simps) (simp add: w')
  moreover have "k = 0 \<or> (int k - 1) * poll_interval < timeout"
  proof (cases k)
    case (Suc j)
    then have "wt_now W (Suc j) < deadline"
      using k(2) round_goes_on by blast
    then show ?thesis
      using clock_advances [OF assms(2), of j] assms(1,3) Suc by simp
  qed simp
  ultimately show ?thesis
    using k round_success [OF w'] by blast
qed

text \<open>An image that becomes ready during the second wait.\<close>

definition ready_world :: world where
  "ready_world = empty_world\<lparr>images := [sample_image\<lparr>img_Status := ImageStatusReady\<rparr>], files := [ImagePath ''/img'' ''i'' \<mapsto> [0x51]]\<rparr>"

definition sample_waiting :: waiting where
  "sample_waiting = \<lparr>wt_now = (\<lambda>k. int k * poll_interval), wt_wait = (\<lambda>k. Inr (\<lambda>w. if k = 1 then ready_world else w))\<rparr>"

lemma sample_rounds:
  "round_result sample_env sample_waiting ''/img'' ''i'' 60000000000 half_downloaded 0 = None"
  "round_result sample_env sample_waiting ''/img'' ''i'' 60000000000 half_downloaded 1 = None"
  "round_result sample_env sample_waiting ''/img'' ''i'' 60000000000 half_downloaded 2 = Some (Inr ())"
  by (simp_all add: round_result_def numeral_2_eq_2 wait_round_def sample_waiting_def poll_interval_def ImageRepository_GetByID_def get_opt_def
      tryM_apply sql_def uuid_arg_def sample_env_def select_one_def half_downloaded_def ready_world_def sample_image_def IsReady_def ret_def
      empty_world_def Let_def)

theorem WaitReady_terminates_witness:
  "\<exists>w'. WaitReady sample_env sample_waiting ''/img'' ''i'' 60000000000 half_downloaded = Some (Inr (), w') \<and> IsReady ''/img'' ''i'' w'"
proof -
  have "wt_now sample_waiting 0 \<le> wt_now sample_waiting 1" "60000000000 = wt_now sample_waiting 0 + 60000000000"
    "\<And>k. wt_now sample_waiting (Suc k) + poll_interval \<le> wt_now sample_waiting (Suc (Suc k))"
    by (simp_all add: sample_waiting_def poll_interval_def)
  from WaitReady_terminates [OF this(1) this(3) this(2), of sample_env "''/img''" "''i''" half_downloaded]
  obtain k r w' where k: "round_result sample_env sample_waiting ''/img'' ''i'' 60000000000 half_downloaded k = Some r"
    "\<forall>j<k. round_result sample_env sample_waiting ''/img'' ''i'' 60000000000 half_downloaded j = None"
    and run: "WaitReady sample_env sample_waiting ''/img'' ''i'' 60000000000 half_downloaded = Some (r, w')"
    and good: "r = Inr () \<Longrightarrow> IsReady ''/img'' ''i'' w'"
    by blast
  have "\<not> 2 < k" using k(2) sample_rounds(3) by fastforce
  moreover have "k \<noteq> 0" "k \<noteq> 1" using k(1) sample_rounds(1,2) by (metis option.distinct(1))+
  ultimately have "k = 2" by linarith
  then have "r = Inr ()" using k(1) sample_rounds(3) by simp
  then show ?thesis using run good by blast
qed

end
