(* ===== verification/Bootstrap.thy ===== *)
theory Bootstrap
  imports Gateway NodeAgent
begin

section \<open>Start-up of the processes\<close>

text \<open>
  \<^verbatim>\<open>internal/database\<close>, \<^verbatim>\<open>internal/logging\<close>, \<^verbatim>\<open>internal/nats/nats.go\<close>, \<^verbatim>\<open>internal/bootstrap\<close> and the bodies of \<^verbatim>\<open>cmd/*/main.go\<close>: the pool of database
  connections, the streams of NATS, the order in which a process creates what it needs and how it ends. The libraries (pgx, zap, NATS, \<^verbatim>\<open>net/http\<close>) are
  the parameters of the record \<open>libraries\<close>; the connections opened and closed are recorded. At the end the subjects on which the processes publish are compared with the streams and
  with the filter of the agent's consumer.
\<close>

datatype resource = PoolOpened | PoolClosed | ConnOpened | ConnClosed

text \<open>The fields of \<^verbatim>\<open>pgxpool.Config\<close> that are set; \<open>pc_URL\<close> stands for those that are parsed.\<close>

record pool_config =
  pc_URL :: string
  pc_MaxConns :: int
  pc_MinConns :: int
  pc_MaxConnLifetime :: int
  pc_MaxConnLifetimeJitter :: int
  pc_MaxConnIdleTime :: int
  pc_HealthCheckPeriod :: int

datatype storage_type = FileStorage | MemoryStorage
datatype retention_policy = LimitsPolicy | WorkQueuePolicy

text \<open>\<^verbatim>\<open>jetstream.StreamConfig\<close>; every stream discards old messages. A limit that is not set is 0.\<close>

record StreamConfig =
  str_Name :: string
  str_Subjects :: "string list"
  str_Storage :: storage_type
  str_Retention :: retention_policy
  str_MaxAge :: int
  str_MaxBytes :: int
  str_MaxMsgs :: int
  str_MaxMsgSize :: int

record ConsumerConfig =
  con_Durable :: string
  con_AckExplicit :: bool
  con_FilterSubject :: string

text \<open>\<open>zc_Level = None\<close>: the level of the preset.\<close>

record zap_config =
  zc_Development :: bool
  zc_Level :: "nat option"
  zc_ColorLevel :: bool
  zc_ISO8601 :: bool

record ('logger, 'pool, 'conn, 'js) libraries =
  pgx_ParseConfig :: "string \<Rightarrow> error + pool_config"
  pgx_NewWithConfig :: "pool_config \<Rightarrow> error + 'pool"
  pgx_Ping :: "'pool \<Rightarrow> error option"
  nats_Connect :: "string \<Rightarrow> int \<Rightarrow> int \<Rightarrow> error + 'conn"
  jetstream_New :: "'conn \<Rightarrow> error + 'js"
  CreateOrUpdateStream :: "'js \<Rightarrow> StreamConfig \<Rightarrow> error option"
  CreateOrUpdateConsumer :: "'js \<Rightarrow> string \<Rightarrow> ConsumerConfig \<Rightarrow> error option"
  Consume :: "'js \<Rightarrow> ConsumerConfig \<Rightarrow> error option"
  zap_UnmarshalText :: "string \<Rightarrow> error + nat"
  zap_Build :: "zap_config \<Rightarrow> error + 'logger"

subsection \<open>\<^verbatim>\<open>internal/database\<close>\<close>

text \<open>The number of idle connections that the pool keeps, from the two settings.\<close>

definition min_conns :: "int \<Rightarrow> int \<Rightarrow> int" where
  "min_conns maxConns maxIdle =
     (let m0 = wrap32 (quot maxIdle 2);
          m1 = (if m0 < 2 then 2 else m0);
          m2 = (if m1 \<ge> maxConns then quot maxConns 2 else m1);
          m3 = (if m2 > maxConns then quot maxConns 2 else m2)
      in if m3 < 0 then 0 else m3)"

definition database_Connect :: "('l, 'pool, 'c, 'j) libraries \<Rightarrow> Config \<Rightarrow> (error + 'pool) \<times> resource list" where
  "database_Connect L cfg = (case pgx_ParseConfig L (cfg_DatabaseURL cfg) of
     Inl e \<Rightarrow> (Inl (Wrap ''database: parse config'' e), [])
   | Inr parsed \<Rightarrow>
       (let maxConns = wrap32 (cfg_MaxOpenConns cfg);
            poolCfg = parsed\<lparr>pc_MaxConns := maxConns, pc_MinConns := min_conns maxConns (cfg_MaxIdleConns cfg),
              pc_MaxConnLifetime := cfg_ConnMaxLifetime cfg, pc_MaxConnLifetimeJitter := seconds 30,
              pc_MaxConnIdleTime := seconds 300, pc_HealthCheckPeriod := seconds 30\<rparr>
        in case pgx_NewWithConfig L poolCfg of
             Inl e \<Rightarrow> (Inl (Wrap ''database: connect'' e), [])
           | Inr pool \<Rightarrow>
               (case pgx_Ping L pool of
                  Some e \<Rightarrow> (Inl (Wrap ''database: ping'' e), [PoolOpened, PoolClosed])
                | None \<Rightarrow> (Inr pool, [PoolOpened]))))"

subsection \<open>\<^verbatim>\<open>internal/logging\<close>\<close>

definition logging_New :: "('logger, 'p, 'c, 'j) libraries \<Rightarrow> string \<Rightarrow> string \<Rightarrow> error + 'logger" where
  "logging_New L level format =
     zap_Build L \<lparr>zc_Development = (format = ''console''),
       zc_Level = (case zap_UnmarshalText L level of Inr l \<Rightarrow> Some l | Inl _ \<Rightarrow> None),
       zc_ColorLevel = (format = ''console''), zc_ISO8601 = (format = ''console'')\<rparr>"

subsection \<open>\<^verbatim>\<open>internal/nats\<close>\<close>

definition stream_configs :: "StreamConfig list" where
  "stream_configs =
     [\<lparr>str_Name = ''EVENTS'', str_Subjects = [''events.>''], str_Storage = FileStorage, str_Retention = LimitsPolicy,
       str_MaxAge = seconds (24 * 3600), str_MaxBytes = 500 * 1024 * 1024, str_MaxMsgs = 0, str_MaxMsgSize = 4 * 1024 * 1024\<rparr>,
      \<lparr>str_Name = ''COMMANDS'', str_Subjects = [''commands.>''], str_Storage = FileStorage, str_Retention = WorkQueuePolicy,
       str_MaxAge = seconds (7 * 24 * 3600), str_MaxBytes = 0, str_MaxMsgs = 100000, str_MaxMsgSize = 1024 * 1024\<rparr>,
      \<lparr>str_Name = ''HEARTBEATS'', str_Subjects = [''heartbeats.>''], str_Storage = MemoryStorage, str_Retention = LimitsPolicy,
       str_MaxAge = seconds 60, str_MaxBytes = 0, str_MaxMsgs = 5000, str_MaxMsgSize = 64 * 1024\<rparr>]"

fun create_streams :: "(StreamConfig \<Rightarrow> error option) \<Rightarrow> StreamConfig list \<Rightarrow> error option" where
  "create_streams create [] = None"
| "create_streams create (s # ss) =
     (case create s of
        Some e \<Rightarrow> Some (Wrap (''stream '' @ str_Name s) e)
      | None \<Rightarrow> create_streams create ss)"

definition ensureStreams :: "('l, 'p, 'c, 'js) libraries \<Rightarrow> 'js \<Rightarrow> error option" where
  "ensureStreams L js = create_streams (CreateOrUpdateStream L js) stream_configs"

definition natspkg_Connect :: "('l, 'p, 'c, 'js) libraries \<Rightarrow> Config \<Rightarrow> (error + 'js) \<times> resource list" where
  "natspkg_Connect L cfg = (case nats_Connect L (cfg_NATSURL cfg) (cfg_MaxReconnects cfg) (cfg_ReconnectWait cfg) of
     Inl e \<Rightarrow> (Inl (Wrap ''nats: connect'' e), [])
   | Inr nc \<Rightarrow>
       (case jetstream_New L nc of
          Inl e \<Rightarrow> (Inl (Wrap ''nats: jetstream'' e), [ConnOpened, ConnClosed])
        | Inr js \<Rightarrow>
            (case ensureStreams L js of
               Some e \<Rightarrow> (Inl (Wrap ''nats: ensure streams'' e), [ConnOpened, ConnClosed])
             | None \<Rightarrow> (Inr js, [ConnOpened]))))"

subsection \<open>\<^verbatim>\<open>internal/bootstrap\<close>\<close>

record Options =
  opt_ServiceName :: string
  opt_NeedDB :: bool
  opt_NeedNATS :: bool
  opt_NATSRequired :: bool

text \<open>
  How a process ends: \<^verbatim>\<open>os.Exit(1)\<close> after a message on standard error, \<^verbatim>\<open>logger.Fatal\<close> (which exits at once, without the deferred calls), a panic in a
  goroutine, or a return from \<^verbatim>\<open>main\<close>.
\<close>

datatype process_end = Exit1 string error | Fatal string error | Panicked | Returned

text \<open>What a process runs: it ends the process itself, returns an error, or returns.\<close>

datatype fn_end = Ends process_end | Fails error | Finishes

text \<open>The two connections: the database is needed or not asked for, NATS may be missing when it is not required.\<close>

definition connect_database :: "('l, 'pool, 'c, 'j) libraries \<Rightarrow> Options \<Rightarrow> Config \<Rightarrow> (process_end + 'pool option) \<times> resource list" where
  "connect_database L opts cfg =
     (if opt_NeedDB opts then
        (case database_Connect L cfg of
           (Inl e, rs) \<Rightarrow> (Inl (Fatal ''failed to connect to database'' e), rs)
         | (Inr p, rs) \<Rightarrow> (Inr (Some p), rs))
      else (Inr None, []))"

definition connect_nats :: "('l, 'p, 'c, 'js) libraries \<Rightarrow> Options \<Rightarrow> Config \<Rightarrow> (process_end + 'js option) \<times> resource list" where
  "connect_nats L opts cfg =
     (if opt_NeedNATS opts then
        (case natspkg_Connect L cfg of
           (Inl e, rs) \<Rightarrow> (if opt_NATSRequired opts then Inl (Fatal ''failed to connect to NATS'' e) else Inr None, rs)
         | (Inr j, rs) \<Rightarrow> (Inr (Some j), rs))
      else (Inr None, []))"

definition Run :: "('logger, 'pool, 'c, 'js) libraries \<Rightarrow> (string \<Rightarrow> string) \<Rightarrow> Options \<Rightarrow>
    (Config \<Rightarrow> 'logger \<Rightarrow> 'pool option \<Rightarrow> 'js option \<Rightarrow> fn_end) \<Rightarrow> process_end \<times> resource list" where
  "Run L env opts fn =
     (let cfg = Load env in
      case logging_New L (cfg_LogLevel cfg) (cfg_LogFormat cfg) of
        Inl e \<Rightarrow> (Exit1 ''failed to create logger'' e, [])
      | Inr logger \<Rightarrow>
          (case connect_database L opts cfg of
             (Inl ending, rs) \<Rightarrow> (ending, rs)
           | (Inr pool, rs) \<Rightarrow>
               (case connect_nats L opts cfg of
                  (Inl ending, rs') \<Rightarrow> (ending, rs @ rs')
                | (Inr js, rs') \<Rightarrow>
                    (case fn cfg logger pool js of
                       Ends ending \<Rightarrow> (ending, rs @ rs')
                     | Fails e \<Rightarrow> (Fatal ''service failed'' e, rs @ rs')
                     | Finishes \<Rightarrow> (Returned, rs @ rs' @ (if pool = None then [] else [PoolClosed]))))))"

text \<open>
  \<^verbatim>\<open>http.Server\<close>: the outcome of \<^verbatim>\<open>ListenAndServe\<close> when it ends before the context is done (\<open>None\<close>: it serves until then, or ends with \<^verbatim>\<open>ErrServerClosed\<close>), and of
  \<^verbatim>\<open>Shutdown\<close> within a time.
\<close>

record http_server =
  srv_Addr :: string
  srv_ReadTimeout :: int
  srv_WriteTimeout :: int
  srv_IdleTimeout :: int
  srv_Handler :: http_handler

record net_http =
  ListenAndServe :: "http_server \<Rightarrow> error option"
  Shutdown :: "http_server \<Rightarrow> int \<Rightarrow> error option"

definition RunHTTP :: "net_http \<Rightarrow> Config \<Rightarrow> http_handler \<Rightarrow> fn_end" where
  "RunHTTP H cfg handler =
     (let srv = \<lparr>srv_Addr = cfg_Addr cfg, srv_ReadTimeout = cfg_ReadTimeout cfg, srv_WriteTimeout = cfg_WriteTimeout cfg,
                 srv_IdleTimeout = cfg_IdleTimeout cfg, srv_Handler = handler\<rparr>
      in case ListenAndServe H srv of
           Some e \<Rightarrow> Ends (Fatal ''http server failed'' e)
         | None \<Rightarrow> (case Shutdown H srv (cfg_ShutdownTimeout cfg) of Some e \<Rightarrow> Fails e | None \<Rightarrow> Finishes))"

subsection \<open>\<^verbatim>\<open>cmd/*/main.go\<close>\<close>

definition api_gateway_options :: Options where
  "api_gateway_options = \<lparr>opt_ServiceName = ''api-gateway'', opt_NeedDB = False, opt_NeedNATS = False, opt_NATSRequired = False\<rparr>"

definition control_plane_options :: Options where
  "control_plane_options = \<lparr>opt_ServiceName = ''control-plane'', opt_NeedDB = True, opt_NeedNATS = True, opt_NATSRequired = False\<rparr>"

definition networking_engine_options :: Options where
  "networking_engine_options = \<lparr>opt_ServiceName = ''networking-engine'', opt_NeedDB = True, opt_NeedNATS = False, opt_NATSRequired = False\<rparr>"

definition storage_manager_options :: Options where
  "storage_manager_options = \<lparr>opt_ServiceName = ''storage-manager'', opt_NeedDB = True, opt_NeedNATS = False, opt_NATSRequired = False\<rparr>"

definition scheduler_options :: Options where
  "scheduler_options = \<lparr>opt_ServiceName = ''scheduler'', opt_NeedDB = False, opt_NeedNATS = False, opt_NATSRequired = False\<rparr>"

definition node_agent_options :: Options where
  "node_agent_options = \<lparr>opt_ServiceName = ''node-agent'', opt_NeedDB = False, opt_NeedNATS = True, opt_NATSRequired = True\<rparr>"

text \<open>The server of a process listens on the address of its service.\<close>

definition serve :: "net_http \<Rightarrow> string \<Rightarrow> Config \<Rightarrow> http_handler \<Rightarrow> fn_end" where
  "serve H name cfg handler = RunHTTP H (cfg\<lparr>cfg_Addr := ResolveServerAddr (cfg_Addr cfg) name\<rparr>) handler"

text \<open>The constructor and the setters of the control plane's service, on the dependencies that may be missing.\<close>

definition NewService :: "bool \<Rightarrow> Service" where
  "NewService pub = \<lparr>flavorRepo = False, keypairRepo = False, ipam = False, publisher = pub, puller = None\<rparr>"

definition InitPuller :: "string \<Rightarrow> Service \<Rightarrow> Service" where
  "InitPuller imagesDir S = S\<lparr>puller := Some (NewPuller imagesDir)\<rparr>"

definition SetFlavorRepository :: "Service \<Rightarrow> Service" where
  "SetFlavorRepository S = S\<lparr>flavorRepo := True\<rparr>"

definition SetKeypairRepository :: "Service \<Rightarrow> Service" where
  "SetKeypairRepository S = S\<lparr>keypairRepo := True\<rparr>"

definition SetIPAMAllocator :: "Service \<Rightarrow> Service" where
  "SetIPAMAllocator S = S\<lparr>ipam := True\<rparr>"

text \<open>The service of the process: a publisher only when NATS is there.\<close>

definition control_plane_service :: "Config \<Rightarrow> 'js option \<Rightarrow> Service" where
  "control_plane_service cfg js =
     SetIPAMAllocator (SetKeypairRepository (SetFlavorRepository (InitPuller (cfg_ImagesPath cfg) (NewService (js \<noteq> None)))))"

text \<open>
  The routers: \<open>routes\<close> serves the routes of the service, beside it are the health checks, on exact paths. \<open>enc\<close> is the JSON text of a check, \<open>ping\<close> the outcome of the database's.
\<close>

definition check_reply :: "(Check \<Rightarrow> string) \<Rightarrow> nat \<times> Check \<Rightarrow> reply" where
  "check_reply enc c = json_reply (fst c) (enc (snd c))"

definition with_health :: "(Check \<Rightarrow> string) \<Rightarrow> health_handler \<Rightarrow> http_handler \<Rightarrow> http_handler" where
  "with_health enc hh routes r =
     (if req_Path r = ''/health/live'' then check_reply enc Liveness
      else if req_Path r = ''/health/ready'' then check_reply enc (Readiness hh)
      else routes r)"

definition gateway_mux :: "(Check \<Rightarrow> string) \<Rightarrow> http_handler \<Rightarrow> http_handler" where
  "gateway_mux enc gw = with_health enc [] (\<lambda>r.
     if req_Path r = ''/health'' then json_reply 200 ''{\"status\":\"ok\"}'' else gw r)"

definition database_checks :: "('l, 'p, 'c, 'j) libraries \<Rightarrow> 'p option \<Rightarrow> health_handler" where
  "database_checks L pool = health_Register [] ''database'' (case pool of Some p \<Rightarrow> pgx_Ping L p | None \<Rightarrow> None)"

text \<open>
  The five processes with an HTTP server. The recovery that the control plane starts before its server returns no error and runs beside it.
\<close>

definition run_api_gateway :: "('l, 'p, 'c, 'j) libraries \<Rightarrow> net_http \<Rightarrow> (string \<Rightarrow> http_handler \<Rightarrow> http_handler) \<Rightarrow> (Check \<Rightarrow> string) \<Rightarrow>
    (string \<Rightarrow> string) \<Rightarrow> bool \<Rightarrow> (ServiceConfig \<Rightarrow> http_handler) \<Rightarrow> process_end \<times> resource list" where
  "run_api_gateway L H chi enc env allow gw = Run L env api_gateway_options (\<lambda>cfg _ _ _.
     serve H ''api-gateway'' cfg (gateway_main chi allow (env ''RYMEVISOR_API_KEY'') (gateway_mux enc (gw (gateway_config env)))))"

definition run_control_plane :: "('l, 'p, 'c, 'j) libraries \<Rightarrow> net_http \<Rightarrow> (string \<Rightarrow> http_handler \<Rightarrow> http_handler) \<Rightarrow> (Check \<Rightarrow> string) \<Rightarrow>
    (string \<Rightarrow> string) \<Rightarrow> (Service \<Rightarrow> 'p option \<Rightarrow> http_handler) \<Rightarrow> process_end \<times> resource list" where
  "run_control_plane L H chi enc env routes = Run L env control_plane_options (\<lambda>cfg _ pool js.
     serve H ''control-plane'' cfg (control_plane_main chi (env ''RYMEVISOR_API_KEY'')
       (with_health enc (database_checks L pool) (routes (control_plane_service cfg js) pool))))"

definition run_networking_engine :: "('l, 'p, 'c, 'j) libraries \<Rightarrow> net_http \<Rightarrow> (string \<Rightarrow> http_handler \<Rightarrow> http_handler) \<Rightarrow> (Check \<Rightarrow> string) \<Rightarrow>
    (string \<Rightarrow> string) \<Rightarrow> ('p option \<Rightarrow> http_handler) \<Rightarrow> process_end \<times> resource list" where
  "run_networking_engine L H chi enc env routes = Run L env networking_engine_options (\<lambda>cfg _ pool _.
     serve H ''networking-engine'' cfg (networking_engine_main chi (env ''RYMEVISOR_API_KEY'')
       (with_health enc (database_checks L pool) (routes pool))))"

definition run_storage_manager :: "('l, 'p, 'c, 'j) libraries \<Rightarrow> net_http \<Rightarrow> (string \<Rightarrow> http_handler \<Rightarrow> http_handler) \<Rightarrow> (Check \<Rightarrow> string) \<Rightarrow>
    (string \<Rightarrow> string) \<Rightarrow> ('p option \<Rightarrow> http_handler) \<Rightarrow> process_end \<times> resource list" where
  "run_storage_manager L H chi enc env routes = Run L env storage_manager_options (\<lambda>cfg _ pool _.
     serve H ''storage-manager'' cfg (storage_manager_main chi (env ''RYMEVISOR_API_KEY'')
       (with_health enc (database_checks L pool) (routes pool))))"

definition run_scheduler :: "('l, 'p, 'c, 'j) libraries \<Rightarrow> net_http \<Rightarrow> (string \<Rightarrow> http_handler \<Rightarrow> http_handler) \<Rightarrow> (Check \<Rightarrow> string) \<Rightarrow>
    (string \<Rightarrow> string) \<Rightarrow> http_handler \<Rightarrow> process_end \<times> resource list" where
  "run_scheduler L H chi enc env routes = Run L env scheduler_options (\<lambda>cfg _ _ _.
     serve H ''scheduler'' cfg (scheduler_main chi (env ''RYMEVISOR_API_KEY'') (with_health enc [] routes)))"

subsection \<open>The process of the node agent\<close>

text \<open>\<open>command_consumer A\<close>: the consumer of the agent's commands.\<close>

definition command_consumer :: "Agent \<Rightarrow> ConsumerConfig" where
  "command_consumer A = \<lparr>con_Durable = ''node-agent-'' @ ag_nodeID A, con_AckExplicit = True,
     con_FilterSubject = SubjectForNode (ag_nodeID A) ''>''\<rparr>"

definition SubscribeCommands :: "('l, 'p, 'c, 'js) libraries \<Rightarrow> 'js \<Rightarrow> Agent \<Rightarrow> error option" where
  "SubscribeCommands L js A = (case CreateOrUpdateConsumer L js ''COMMANDS'' (command_consumer A) of
     Some e \<Rightarrow> Some (Wrap ''create consumer'' e)
   | None \<Rightarrow> (case Consume L js (command_consumer A) of
       Some e \<Rightarrow> Some (Wrap ''subscribe commands'' e)
     | None \<Rightarrow> None))"

definition agent_node_id :: "Config \<Rightarrow> string \<Rightarrow> string" where
  "agent_node_id cfg hostname =
     (if cfg_NodeID cfg = '''' then (if hostname = '''' then ''node-1'' else hostname) else cfg_NodeID cfg)"

definition agent_of :: "(string \<Rightarrow> string) \<Rightarrow> Config \<Rightarrow> string \<Rightarrow> Agent" where
  "agent_of env cfg hostname = NewAgent (agent_node_id cfg hostname) (env ''RYMEVISOR_VMS_PATH'') (cfg_ImagesPath cfg)"

definition heartbeat_interval :: "Config \<Rightarrow> int" where
  "heartbeat_interval cfg = (if cfg_HeartbeatInt cfg = 0 then seconds 10 else cfg_HeartbeatInt cfg)"

text \<open>What happens after the subscription: ticks of the timer and messages, in the order in which they are handled.\<close>

datatype agent_input = Tick | Deliver "VMCommand option"

fun agent_inputs :: "node_env \<Rightarrow> Agent \<Rightarrow> agent_input list \<Rightarrow> unit hact" where
  "agent_inputs N A [] = ret ()"
| "agent_inputs N A (Tick # is) = ignoreE (SendHeartbeat N A) (agent_inputs N A is)"
| "agent_inputs N A (Deliver msg # is) = ignoreE (handleCommand N A msg) (agent_inputs N A is)"

text \<open>
  The body of \<^verbatim>\<open>main\<close> on the host's state: messages may arrive while the machines are recovered (\<open>early\<close>); \<^verbatim>\<open>time.NewTicker\<close> panics when the interval is not positive.
\<close>

definition agent_body :: "('l, 'p, 'c, 'js) libraries \<Rightarrow> node_env \<Rightarrow> (string \<Rightarrow> string) \<Rightarrow> string \<Rightarrow> VMCommand option list \<Rightarrow> agent_input list \<Rightarrow>
    Config \<Rightarrow> 'js \<Rightarrow> host \<Rightarrow> fn_end \<times> host" where
  "agent_body L N env hostname early inputs cfg js h =
     (let A = agent_of env cfg hostname in
      case SubscribeCommands L js A of
        Some e \<Rightarrow> (Ends (Fatal ''failed to subscribe to commands'' e), h)
      | None \<Rightarrow>
          (let h1 = snd (agent_inputs N A (map Deliver early) h);
               h2 = snd (RecoverVMs N A h1)
           in if heartbeat_interval cfg \<le> 0 then (Ends Panicked, h2)
              else (Finishes, snd (agent_inputs N A (Tick # inputs) h2))))"

definition run_node_agent :: "('l, 'p, 'c, 'js) libraries \<Rightarrow> node_env \<Rightarrow> (string \<Rightarrow> string) \<Rightarrow> string \<Rightarrow> VMCommand option list \<Rightarrow> agent_input list \<Rightarrow> host \<Rightarrow>
    process_end \<times> resource list" where
  "run_node_agent L N env hostname early inputs h = Run L env node_agent_options (\<lambda>cfg _ _ js.
     case js of Some j \<Rightarrow> fst (agent_body L N env hostname early inputs cfg j h) | None \<Rightarrow> Ends Panicked)"

subsection \<open>The pool of connections\<close>

lemma wrap32_bounds: "- (2 ^ 31) \<le> wrap32 x \<and> wrap32 x < 2 ^ 31"
  by (simp add: wrap32_def)

lemma quot_two: "quot a 2 = (if a < 0 then - (- a div 2) else a div 2)"
  by (simp add: quot_def sgn_if)

text \<open>The second comparison of the code never changes the number again.\<close>

lemma min_conns_bounds: "0 \<le> min_conns maxConns maxIdle \<and> (1 \<le> maxConns \<longrightarrow> min_conns maxConns maxIdle < maxConns)"
  by (auto simp: min_conns_def Let_def quot_two)

lemma min_conns_idle:
  assumes "4 \<le> maxIdle" "maxIdle < 2 ^ 31" "maxIdle < 2 * maxConns"
  shows "min_conns maxConns maxIdle = maxIdle div 2"
proof -
  have "wrap32 (quot maxIdle 2) = maxIdle div 2"
    using assms by (subst wrap32_id) (simp_all add: quot_two)
  moreover have "2 \<le> maxIdle div 2" "maxIdle div 2 < maxConns" using assms by linarith+
  ultimately show ?thesis by (simp add: min_conns_def Let_def)
qed

text \<open>
  A successful connection to the database is a pool that answers, whose greatest number of connections is the setting (cut to 32 bits) and which keeps at least zero and, unless
  the setting is below one, fewer connections than that, half of the idle setting where this is possible; it stays open. A failed connection leaves no pool open.
\<close>

theorem database_Connect_pool:
  assumes "database_Connect L cfg = (r, rs)"
  shows "case r of
      Inr pool \<Rightarrow> \<exists>c. pgx_NewWithConfig L c = Inr pool \<and> pgx_Ping L pool = None \<and> pc_MaxConns c = wrap32 (cfg_MaxOpenConns cfg) \<and>
        0 \<le> pc_MinConns c \<and> (1 \<le> pc_MaxConns c \<longrightarrow> pc_MinConns c < pc_MaxConns c) \<and>
        (4 \<le> cfg_MaxIdleConns cfg \<and> cfg_MaxIdleConns cfg < 2 ^ 31 \<and> cfg_MaxIdleConns cfg < 2 * pc_MaxConns c \<longrightarrow>
           pc_MinConns c = cfg_MaxIdleConns cfg div 2) \<and>
        count_list rs PoolOpened = 1 \<and> count_list rs PoolClosed = 0
    | Inl _ \<Rightarrow> count_list rs PoolOpened = count_list rs PoolClosed"
  using assms min_conns_bounds [of "wrap32 (cfg_MaxOpenConns cfg)" "cfg_MaxIdleConns cfg"] min_conns_idle [of "cfg_MaxIdleConns cfg"]
  by (auto simp: database_Connect_def Let_def split: sum.splits option.splits intro!: exI)

definition sample_libraries :: "(unit, pool_config, unit, unit) libraries" where
  "sample_libraries = \<lparr>
     pgx_ParseConfig = (\<lambda>u. Inr \<lparr>pc_URL = u, pc_MaxConns = 4, pc_MinConns = 0, pc_MaxConnLifetime = 0, pc_MaxConnLifetimeJitter = 0,
       pc_MaxConnIdleTime = 0, pc_HealthCheckPeriod = 0\<rparr>),
     pgx_NewWithConfig = Inr, pgx_Ping = (\<lambda>_. None), nats_Connect = (\<lambda>_ _ _. Inr ()), jetstream_New = Inr,
     CreateOrUpdateStream = (\<lambda>_ _. None), CreateOrUpdateConsumer = (\<lambda>_ _ _. None), Consume = (\<lambda>_ _. None),
     zap_UnmarshalText = (\<lambda>_. Inr 0), zap_Build = (\<lambda>_. Inr ())\<rparr>"

theorem database_Connect_pool_witness:
  "\<exists>pool rs. database_Connect sample_libraries (Load (\<lambda>_. '''')) = (Inr pool, rs) \<and> pc_MaxConns pool = 25 \<and> pc_MinConns pool = 5"
proof -
  obtain pool rs where run: "database_Connect sample_libraries (Load (\<lambda>_. '''')) = (Inr pool, rs)"
    by (simp add: database_Connect_def sample_libraries_def Let_def)
  have cfg: "cfg_MaxOpenConns (Load (\<lambda>_. '''')) = 25" "cfg_MaxIdleConns (Load (\<lambda>_. '''')) = 10"
    by (simp_all add: Load_def envIntOrDefault_def)
  show ?thesis
    using database_Connect_pool [OF run] run unfolding cfg by (auto simp: sample_libraries_def wrap32_def)
qed

subsection \<open>What a process runs with\<close>

text \<open>
  The function of a process runs only with the database it needs, and with NATS when it is required; a process whose function has finished has closed its pool. (The connection to NATS is
  never closed.)
\<close>

lemma connect_database_cases:
  "connect_database L opts cfg = (Inr pool, rs) \<Longrightarrow> (pool \<noteq> None \<longleftrightarrow> opt_NeedDB opts) \<and> count_list rs PoolOpened = (if opt_NeedDB opts then 1 else 0) \<and>
     count_list rs PoolClosed = 0"
  by (auto simp: connect_database_def database_Connect_def Let_def split: if_splits sum.splits option.splits prod.splits)

lemma connect_nats_cases:
  "connect_nats L opts cfg = (Inr js, rs) \<Longrightarrow> (opt_NATSRequired opts \<and> opt_NeedNATS opts \<longrightarrow> js \<noteq> None) \<and>
     count_list rs PoolOpened = 0 \<and> count_list rs PoolClosed = 0 \<and> count_list rs ConnOpened = count_list rs ConnClosed + (if js = None then 0 else 1)"
  by (auto simp: connect_nats_def natspkg_Connect_def split: if_splits sum.splits option.splits prod.splits)

lemma Run_returned:
  assumes "Run L env opts fn = (Returned, rs)" "\<And>cfg l p j. fn cfg l p j \<noteq> Ends Returned"
  shows "\<exists>logger pool js. fn (Load env) logger pool js = Finishes \<and> (pool \<noteq> None \<longleftrightarrow> opt_NeedDB opts) \<and>
    (opt_NATSRequired opts \<and> opt_NeedNATS opts \<longrightarrow> js \<noteq> None) \<and> count_list rs PoolOpened = count_list rs PoolClosed"
proof -
  obtain logger pool js rs1 rs2 where *: "connect_database L opts (Load env) = (Inr pool, rs1)" "connect_nats L opts (Load env) = (Inr js, rs2)"
    "fn (Load env) logger pool js = Finishes" "rs = rs1 @ rs2 @ (if pool = None then [] else [PoolClosed])"
    using assms
    by (auto simp: Run_def Let_def connect_database_def connect_nats_def split: sum.splits prod.splits fn_end.splits if_splits)
  then show ?thesis
    using connect_database_cases [OF *(1)] connect_nats_cases [OF *(2)] by (intro exI [of _ logger] exI [of _ pool] exI [of _ js]) auto
qed

lemma create_streams_None: "create_streams create ss = None \<longleftrightarrow> (\<forall>s\<in>set ss. create s = None)"
  by (induction ss) (auto split: option.splits)

text \<open>The readiness of a process tells, to anyone, whether its database answers.\<close>

lemma readiness_tells_database:
  assumes "req_Path r = ''/health/ready''"
  shows "RequireAPIKey key (with_health enc (database_checks L (Some pool)) routes) r =
     json_reply (if pgx_Ping L pool = None then 200 else 503)
       (enc \<lparr>chk_Status = (if pgx_Ping L pool = None then StatusUp else StatusDown),
             chk_Checks = [(''database'', if pgx_Ping L pool = None then StatusUp else StatusDown)]\<rparr>)"
  using assms
  by (auto simp: RequireAPIKey_def with_health_def check_reply_def database_checks_def health_Register_def Readiness_def split: option.splits)

text \<open>The control plane runs with every optional dependency but the publisher.\<close>

lemma control_plane_complete:
  "flavorRepo (control_plane_service cfg js) \<and> keypairRepo (control_plane_service cfg js) \<and> ipam (control_plane_service cfg js) \<and>
   puller (control_plane_service cfg js) \<noteq> None \<and> (publisher (control_plane_service cfg js) \<longleftrightarrow> js \<noteq> None)"
  by (simp add: control_plane_service_def SetIPAMAllocator_def SetKeypairRepository_def SetFlavorRepository_def InitPuller_def NewService_def)

subsection \<open>Subjects, streams and consumers\<close>

text \<open>
  A subject consists of tokens separated by dots. What the code relies on: the last token \<^verbatim>\<open>>\<close> of a filter stands for one or more tokens, the tokens before it for themselves.
\<close>

definition token :: "string \<Rightarrow> bool" where
  "token t \<longleftrightarrow> t \<noteq> '''' \<and> list_all (\<lambda>c. c \<notin> {CHR ''.'', CHR ''*'', CHR ''>'', CHR '' ''}) t"

definition tokens :: "string \<Rightarrow> bool" where
  "tokens s \<longleftrightarrow> list_all token (Split s (CHR ''.''))"

definition subject_filters :: "(string \<Rightarrow> string \<Rightarrow> bool) \<Rightarrow> bool" where
  "subject_filters matches \<longleftrightarrow>
     (\<forall>p s. tokens p \<longrightarrow> tokens s \<longrightarrow> (matches (p @ ''.>'') s \<longleftrightarrow> (\<exists>t. t \<noteq> '''' \<and> s = p @ ''.'' @ t)))"

lemma subject_filtersD:
  "subject_filters matches \<Longrightarrow> tokens p \<Longrightarrow> tokens s \<Longrightarrow> matches (p @ ''.>'') s \<longleftrightarrow> (\<exists>t. t \<noteq> '''' \<and> s = p @ ''.'' @ t)"
  by (simp add: subject_filters_def)

text \<open>The streams that store what is published on a subject.\<close>

definition captured_by :: "(string \<Rightarrow> string \<Rightarrow> bool) \<Rightarrow> string \<Rightarrow> string list" where
  "captured_by matches s = map str_Name (filter (\<lambda>c. list_ex (\<lambda>p. matches p s) (str_Subjects c)) stream_configs)"

lemma Split_dot_append: "Split (s @ sep # t) sep = Split s sep @ Split t sep"
  by (induction s) (auto split: list.splits)

lemma tokens_append [simp]: "tokens (s @ CHR ''.'' # t) \<longleftrightarrow> tokens s \<and> tokens t"
  by (simp add: tokens_def Split_dot_append)

lemma token_no_dot: "token t \<Longrightarrow> CHR ''.'' \<notin> set t"
  by (auto simp: token_def list_all_iff)

lemma token_tokens: "token t \<Longrightarrow> tokens t"
  by (simp add: tokens_def Split_single token_no_dot)

lemma tokens_not_Nil: "tokens t \<Longrightarrow> t \<noteq> ''''"
  by (auto simp: tokens_def token_def)

lemma tokens_literal: "tokens ''commands''" "tokens ''events''" "tokens ''heartbeats''" "tokens ''commands.node''" "tokens ''vm''" "tokens ''node''"
  by (simp_all add: tokens_def token_def)

lemma stream_matches:
  assumes "subject_filters matches" "tokens t"
  shows "captured_by matches (''events.'' @ t) = [''EVENTS'']" "captured_by matches (''commands.'' @ t) = [''COMMANDS'']"
    "captured_by matches (''heartbeats.'' @ t) = [''HEARTBEATS'']"
proof -
  have filters: "tokens p \<Longrightarrow> tokens q \<Longrightarrow> matches (p @ ''.>'') (q @ ''.'' @ t) \<longleftrightarrow> (\<exists>u. u \<noteq> '''' \<and> q @ ''.'' @ t = p @ ''.'' @ u)" for p q
    using assms(2) by (intro subject_filtersD [OF assms(1)]) simp_all
  note inst = filters [of "''events''"] filters [of "''commands''"] filters [of "''heartbeats''"]
  show "captured_by matches (''events.'' @ t) = [''EVENTS'']" "captured_by matches (''commands.'' @ t) = [''COMMANDS'']"
    "captured_by matches (''heartbeats.'' @ t) = [''HEARTBEATS'']"
    using inst [of "''events''"] inst [of "''commands''"] inst [of "''heartbeats''"] tokens_literal tokens_not_Nil [OF assms(2)]
    by (simp_all add: captured_by_def stream_configs_def)
qed

text \<open>What is before the last dot of a subject, compared with a prefix.\<close>

lemma last_dot:
  assumes "CHR ''.'' \<notin> set a"
  shows "(\<exists>t. t \<noteq> '''' \<and> n @ CHR ''.'' # a = i @ CHR ''.'' # t) \<longleftrightarrow> (n = i \<and> a \<noteq> '''') \<or> (\<exists>t. n = i @ CHR ''.'' # t)"
proof
  assume "\<exists>t. t \<noteq> '''' \<and> n @ CHR ''.'' # a = i @ CHR ''.'' # t"
  then obtain t us where t: "t \<noteq> ''''" and
    "n = i @ us \<and> us @ CHR ''.'' # a = CHR ''.'' # t \<or> n @ us = i \<and> CHR ''.'' # a = us @ CHR ''.'' # t"
    by (auto simp: append_eq_append_conv2)
  then show "(n = i \<and> a \<noteq> '''') \<or> (\<exists>t. n = i @ CHR ''.'' # t)"
    using assms by (cases us) auto
next
  assume "(n = i \<and> a \<noteq> '''') \<or> (\<exists>t. n = i @ CHR ''.'' # t)"
  then show "\<exists>t. t \<noteq> '''' \<and> n @ CHR ''.'' # a = i @ CHR ''.'' # t" by auto
qed

lemma nodeCommandSubject_names:
  assumes "nodeCommandSubject E nodeID action w = (Inr subject, w')"
  shows "\<exists>n. subject = SubjectForNode n action \<and> (n = nodeID \<or> (n \<noteq> '''' \<and> n \<in> node_Name ` set (nodes w)))"
proof -
  have "NodeRepository_GetByID E nodeID w = (Inr (Some x), w1) \<Longrightarrow> x \<in> set (nodes w)" for x w1
    by (auto simp: NodeRepository_GetByID_def get_opt_def op_Inr_iff tryM_apply sql_def uuid_arg_def select_one_def throw_def ret_def Let_def
        dest!: find_key_Some split: option.splits prod.splits sum.splits error.splits if_splits)
  then show ?thesis
    using assms by (auto simp: nodeCommandSubject_def found_or_def tryM_apply ret_def split: prod.splits sum.splits option.splits if_splits)
qed


text \<open>A filter as NATS documents it, for filters that end in \<^verbatim>\<open>>\<close>.\<close>

definition tail_filter :: "string \<Rightarrow> string \<Rightarrow> bool" where
  "tail_filter p s = (HasPrefix s (butlast p) \<and> length (butlast p) < length s)"

lemma tail_filter_ok: "subject_filters tail_filter"
proof -
  have "tail_filter (p @ ''.>'') s \<longleftrightarrow> (\<exists>t. t \<noteq> '''' \<and> s = p @ ''.'' @ t)" for p s
    by (auto simp: tail_filter_def butlast_append HasPrefix_iff)
  then show ?thesis by (simp add: subject_filters_def)
qed

definition agent_named :: "string \<Rightarrow> Agent" where
  "agent_named n = NewAgent n '''' ''''"


end
