(* ===== verification/Spec2Isabelle.thy ===== *)
theory Spec2Isabelle
  imports VMSpec Recovery SameNetwork System StartFlow Metrics ImageWait Bootstrap
begin

text \<open>
  \<^bold>\<open>Rymevisor: a verification of the control plane, its services and the node agent\<close>

  Rymevisor manages virtual machines on a set of nodes. Clients talk HTTP to a gateway, which checks an API key and passes each request to
  one of four services: the control plane (machines, images, snapshots, backups, flavors, keypairs, nodes), the networking engine (networks,
  subnets, firewall rules, floating addresses), the storage manager (pools, volumes, volume snapshots) and the scheduler. The first three keep
  their state in one PostgreSQL database; the control plane publishes commands and events over NATS. On each node an agent receives the
  commands, prepares disk, network and cloud-init, runs QEMU and sends heartbeats. Logs, machine states and metrics are streamed over
  WebSockets. This development models these parts from their Go sources and proves the properties below.

  \<^bold>\<open>How the program is represented.\<close> A Go function that may fail is an operation \<open>('s, 'a) op\<close> on a state \<open>'s\<close>: it returns \<open>Inl\<close> an error or \<open>Inr\<close> a
  value, and the state afterwards, on errors, too (\<open>RV_Prelude\<close>). The state of the services is the record \<open>world\<close>: the tables of the
  database, the files, the messages published and counters; that of a node is the record \<open>host\<close>. Structures are records with the
  source's fields, enumerations are datatypes, \<^verbatim>\<open>int32\<close> and \<^verbatim>\<open>int64\<close> arithmetic wraps where it can overflow, a \<^verbatim>\<open>float64\<close> is rounded after every operation, addresses are
  32 bit words, panics are values of type \<open>outcome\<close>. Strings are byte strings. JSON texts are represented by the values they encode, time stamps are left
  out.

  \<^bold>\<open>What is outside the program\<close> is a parameter: \<open>env\<close> (\<open>E\<close>) for the database server's view of UUIDs and addresses, generated identifiers and any failure of a
  statement, a publication or a file operation; \<open>exec\<close> (\<open>X\<close>) for commands like \<^verbatim>\<open>qemu-img\<close>; \<open>fetch\<close> for downloads; \<open>node_env\<close> (\<open>N\<close>) for QEMU, its sockets, processes and the
  passing of time; the sorting routine, whose documented contract is the locale \<open>slice_sort\<close>; chi and the reverse proxy; the outcome of
  WebSocket writes. Theorems hold for all values of these parameters unless they state a hypothesis.

  \<^bold>\<open>Theories and sources.\<close>

  \<^item> \<open>RV_Prelude\<close>, \<open>GoStrings\<close>, \<open>GoPath\<close>, \<open>GoFloat\<close>, \<open>GoNet\<close>: errors, operations and their preservation rules, and what the code uses of
    Go's standard library. Round trips of printing and parsing numbers and addresses, path cleaning, bounds of rounding.
  \<^item> \<open>Ipam\<close> (\<^verbatim>\<open>internal/ipam\<close>, \<^verbatim>\<open>internal/mac\<close>, \<^verbatim>\<open>internal/nats/subjects.go\<close>, gateway computations): the allocators return the least free address, a series of
    allocations yields distinct addresses until the network is full (locale \<open>address_allocator\<close>), three gateway computations agree.
  \<^item> \<open>Catalog\<close> (\<^verbatim>\<open>services/controlplane/catalog\<close>), \<open>Scheduler\<close> (\<^verbatim>\<open>services/scheduler\<close>): lookups are sound and complete; scheduling picks a best node that satisfies the
    constraints.
  \<^item> \<open>Domain\<close>, \<open>World\<close> (\<^verbatim>\<open>services/*/domain\<close>, \<^verbatim>\<open>migrations\<close>): data, tables and constraints (\<open>db_ok\<close>).
  \<^item> \<open>CpRepos\<close> (\<^verbatim>\<open>services/controlplane/postgres\<close>): every repository method keeps \<open>db_ok\<close>; what is created reads back (locale \<open>id_repository\<close>).
  \<^item> \<open>ImagePuller\<close>, \<open>ImageWait\<close> (\<^verbatim>\<open>image_puller.go\<close>): a finished download leaves matching file, size and checksum; waiting for an image ends.
  \<^item> \<open>ControlPlane\<close>, \<open>VMLifecycle\<close>, \<open>VMSpec\<close>, \<open>Recovery\<close>, \<open>SameNetwork\<close> (\<^verbatim>\<open>service.go\<close>, \<^verbatim>\<open>recovery.go\<close>): creation is atomic and stores a well formed machine; the operations
    on machines refine a state machine; reconciliation settles every machine; a request with two interfaces on one network is always refused.
  \<^item> \<open>NetworkSvc\<close> (\<^verbatim>\<open>services/network\<close>): networks, subnets, rules and floating addresses.
  \<^item> \<open>Qcow2\<close> (\<^verbatim>\<open>internal/qcow2\<close>), \<open>StorageSvc\<close>, \<open>StorageInv\<close> (\<^verbatim>\<open>services/storage\<close>): volumes are created completely or not at all, no nil dereference, invariants of all
    reachable states (locale \<open>storage_invariant\<close>).
  \<^item> \<open>Handlers\<close>, \<open>System\<close> (\<^verbatim>\<open>services/*/handler/handler.go\<close>): all requests, and the transition system of requests, recoveries and downloads with its invariant.
  \<^item> \<open>Gateway\<close> (\<^verbatim>\<open>services/gateway\<close>, \<^verbatim>\<open>internal/middleware\<close>, \<^verbatim>\<open>internal/health\<close>, \<^verbatim>\<open>internal/config\<close>, \<^verbatim>\<open>cmd/*/main.go\<close>): who passes the API key check, how routes of gateway and
    services fit together.
  \<^item> \<open>HostInfo\<close> (\<^verbatim>\<open>internal/hostinfo\<close>), \<open>NodeAgent\<close> (\<^verbatim>\<open>services/nodeagent\<close>), \<open>NodeRecovery\<close>, \<open>StartFlow\<close>: the agent, its QEMU manager and cloud-init; when a stop succeeds, what a
    restart uses, and that a start command of the control plane has QEMU run the machine of the database.
  \<^item> \<open>Streams\<close>, \<open>Metrics\<close> (\<^verbatim>\<open>internal/ws\<close>, \<^verbatim>\<open>internal/metrics\<close>, \<^verbatim>\<open>vm_state_ws.go\<close>, \<^verbatim>\<open>metrics_ws.go\<close>): key check of the streams, files they read, changes they report (locale
    \<open>status_stream\<close>), rates and usages.
  \<^item> \<open>Bootstrap\<close> (\<^verbatim>\<open>internal/bootstrap\<close>, \<^verbatim>\<open>internal/database\<close>, \<^verbatim>\<open>internal/nats/nats.go\<close>, \<^verbatim>\<open>internal/logging\<close>, \<^verbatim>\<open>cmd/*/main.go\<close>): what each process connects to, serves and closes, the size of the
    connection pool, the streams of NATS, and which agent receives which command. The libraries are the record \<open>libraries\<close>; how NATS matches a subject with a filter is a parameter with its
    documented behaviour (\<open>subject_filters\<close>) as a hypothesis.

  \<^bold>\<open>Loops and bounds.\<close> Every definition is total except the wait for an image, a partial function whose return within a number of rounds is proved
  (\<open>WaitReady_terminates\<close>). The retry of \<^verbatim>\<open>CreateVM\<close> has the three attempts of the source; the polling loops of the QEMU manager make as many rounds as the
  parameter \<open>ne_rounds\<close> says, any number, and \<open>stop_completes\<close> says for which numbers they succeed; the loops of the streams run over the list of what
  their ticks find, of any length. The scan for a free address has the distance to the end of the network as its measure. No other fuel is used.

  \<^bold>\<open>Not modelled:\<close> log lines, pings of the WebSockets, the files under \<^verbatim>\<open>api/\<close>, from which no code is generated, Go interfaces and the constructors that
  only store their arguments, and directories as such (files are modelled, creating a directory can only fail). Goroutines of the services run as single steps, in any
  order; the agent handles messages and ticks in the order of an argument.
\<close>

end
